(* ===== verification/Prelude.thy ===== *)
theory Prelude
  imports Main "HOL-Library.Word" "HOL-Library.AList"
begin

text \<open>
  Shared ground of the development: the named collections of rewrite and introduction
  rules, the names of the model's basic types, and the operations of Rust's standard
  library on \<open>str\<close>, unsigned integers and paths that several components use.

  A Rust \<open>String\<close> or \<open>&str\<close> is a HOL \<open>string\<close> that holds its UTF-8 bytes, so
  \<open>length\<close> is \<open>str::len\<close>. \<open>utf8_valid\<close> says which byte strings are texts. An
  absent value is an \<open>option\<close>, a \<open>Result<T, E>\<close> is a sum \<open>E + T\<close> with \<open>Inl\<close> for
  \<open>Err\<close>.
\<close>

section \<open>Collections\<close>

named_theorems text_simps \<open>rewrite rules for the string operations\<close>
named_theorems frame_simps \<open>which fields an operation leaves alone\<close>
named_theorems keeps \<open>invariants kept by an operation\<close>

section \<open>Results\<close>

fun bind_result :: "'e + 'a \<Rightarrow> ('a \<Rightarrow> 'e + 'b) \<Rightarrow> 'e + 'b" where
  "bind_result (Inl e) f = Inl e"
| "bind_result (Inr x) f = f x"

fun map_err :: "('e \<Rightarrow> 'f) \<Rightarrow> 'e + 'a \<Rightarrow> 'f + 'a" where
  "map_err f (Inl e) = Inl (f e)"
| "map_err f (Inr x) = Inr x"

fun ok_or :: "'a option \<Rightarrow> 'e \<Rightarrow> 'e + 'a" where
  "ok_or None e = Inl e"
| "ok_or (Some x) e = Inr x"

text \<open>A loop whose body may return early with \<open>?\<close>.\<close>

fun map_result :: "('a \<Rightarrow> 'e + 'b) \<Rightarrow> 'a list \<Rightarrow> 'e + 'b list" where
  "map_result f [] = Inr []"
| "map_result f (x # xs) =
     (case f x of Inl e \<Rightarrow> Inl e
      | Inr y \<Rightarrow> (case map_result f xs of Inl e \<Rightarrow> Inl e | Inr ys \<Rightarrow> Inr (y # ys)))"

lemma map_result_length: "map_result f xs = Inr ys \<Longrightarrow> length ys = length xs"
  by (induction xs arbitrary: ys) (auto split: sum.splits)

lemma bind_result_Inr [simp]:
  "bind_result r f = Inr y \<longleftrightarrow> (\<exists>x. r = Inr x \<and> f x = Inr y)"
  by (cases r) auto

lemma bind_result_Inl:
  "bind_result r f = Inl e \<longleftrightarrow> r = Inl e \<or> (\<exists>x. r = Inr x \<and> f x = Inl e)"
  by (cases r) auto

lemma map_err_Inr [simp]: "map_err f r = Inr x \<longleftrightarrow> r = Inr x"
  by (cases r) auto

section \<open>Bytes and UTF-8\<close>

abbreviation byte :: "char \<Rightarrow> nat" where
  "byte c \<equiv> of_char c"

definition is_cont :: "char \<Rightarrow> bool" where
  "is_cont c \<longleftrightarrow> 128 \<le> byte c \<and> byte c < 192"

definition in_bytes :: "nat \<Rightarrow> nat \<Rightarrow> char \<Rightarrow> bool" where
  "in_bytes lo hi c \<longleftrightarrow> lo \<le> byte c \<and> byte c \<le> hi"

text \<open>\<open>str::from_utf8\<close>: the byte sequences of RFC 3629.\<close>

fun utf8_valid :: "string \<Rightarrow> bool" where
  "utf8_valid [] = True"
| "utf8_valid (a # s) =
     (if byte a < 128 then utf8_valid s
      else case s of [] \<Rightarrow> False | b # s1 \<Rightarrow>
        (if in_bytes 194 223 a then is_cont b \<and> utf8_valid s1
         else case s1 of [] \<Rightarrow> False | c # s2 \<Rightarrow>
           (if in_bytes 224 239 a then
              (if byte a = 224 then in_bytes 160 191 b
               else if byte a = 237 then in_bytes 128 159 b else is_cont b)
              \<and> is_cont c \<and> utf8_valid s2
            else case s2 of [] \<Rightarrow> False | d # s3 \<Rightarrow>
              in_bytes 240 244 a
              \<and> (if byte a = 240 then in_bytes 144 191 b
                 else if byte a = 244 then in_bytes 128 143 b else is_cont b)
              \<and> is_cont c \<and> is_cont d \<and> utf8_valid s3)))"

definition ascii :: "string \<Rightarrow> bool" where
  "ascii s \<longleftrightarrow> list_all (\<lambda>c. byte c < 128) s"

lemma ascii_utf8_valid [simp]: "ascii s \<Longrightarrow> utf8_valid s"
  by (induction s) (auto simp: ascii_def)

lemma ascii_append [simp]: "ascii (s @ t) \<longleftrightarrow> ascii s \<and> ascii t"
  by (simp add: ascii_def)

section \<open>Text operations\<close>

fun strip_prefix :: "string \<Rightarrow> string \<Rightarrow> string option" where
  "strip_prefix [] s = Some s"
| "strip_prefix (p # ps) [] = None"
| "strip_prefix (p # ps) (c # cs) = (if p = c then strip_prefix ps cs else None)"

lemma strip_prefix_Some: "strip_prefix p s = Some t \<longleftrightarrow> s = p @ t"
  by (induction p s rule: strip_prefix.induct) auto

lemma strip_prefix_append [simp]: "strip_prefix p (p @ t) = Some t"
  by (simp add: strip_prefix_Some)

text \<open>\<open>strip_any\<close> takes off the first of the given units the text starts with.\<close>

fun strip_any :: "string list \<Rightarrow> string \<Rightarrow> string option" where
  "strip_any [] s = None"
| "strip_any (u # us) s =
     (case strip_prefix u s of Some t \<Rightarrow> Some t | None \<Rightarrow> strip_any us s)"

function strip_units :: "string list \<Rightarrow> string \<Rightarrow> string" where
  "strip_units us s =
     (case strip_any us s of
        None \<Rightarrow> s
      | Some t \<Rightarrow> if length t < length s then strip_units us t else s)"
  by pat_completeness auto
termination
  by (relation "measure (\<lambda>(us, s). length s)") auto

declare strip_units.simps [simp del]

text \<open>The code points with the Unicode property \<open>White_Space\<close>, in UTF-8.\<close>

definition white_space :: "string list" where
  "white_space =
     [[CHR 0x09], [CHR 0x0A], [CHR 0x0B], [CHR 0x0C], [CHR 0x0D], [CHR 0x20],
      [CHR 0xC2, CHR 0x85], [CHR 0xC2, CHR 0xA0], [CHR 0xE1, CHR 0x9A, CHR 0x80]]
     @ map (\<lambda>b. [CHR 0xE2, CHR 0x80, char_of b]) [128..<139]
     @ [[CHR 0xE2, CHR 0x80, CHR 0xA8], [CHR 0xE2, CHR 0x80, CHR 0xA9],
        [CHR 0xE2, CHR 0x80, CHR 0xAF], [CHR 0xE2, CHR 0x81, CHR 0x9F],
        [CHR 0xE3, CHR 0x80, CHR 0x80]]"

lemma strip_any_first:
  "list_all (\<lambda>u. u \<noteq> [] \<and> hd u \<noteq> c) us \<Longrightarrow> strip_any us (c # s) = None"
proof (induction us)
  case (Cons u us)
  then show ?case by (cases u) auto
qed simp

lemma strip_units_stop: "strip_any us s = None \<Longrightarrow> strip_units us s = s"
  by (subst strip_units.simps) simp

lemma strip_units_step:
  "strip_any us s = Some t \<Longrightarrow> length t < length s \<Longrightarrow> strip_units us s = strip_units us t"
  by (subst strip_units.simps) simp

lemma strip_space: "strip_any white_space (CHR '' '' # s) = Some s"
  by (simp add: white_space_def)

definition trim :: "string \<Rightarrow> string" where
  "trim s = rev (strip_units (map rev white_space) (rev (strip_units white_space s)))"

lemma strip_units_Nil [simp]: "strip_units us [] = []"
  by (subst strip_units.simps) (simp split: option.split)

lemma trim_Nil [simp]: "trim [] = []"
  by (simp add: trim_def)

text \<open>\<open>trim_end_matches\<close> with a set of ASCII characters.\<close>

definition trim_end_matches :: "char list \<Rightarrow> string \<Rightarrow> string" where
  "trim_end_matches cs s = rev (dropWhile (\<lambda>c. c \<in> set cs) (rev s))"

text \<open>\<open>find\<close> with an ASCII character: the byte offset of its first occurrence.\<close>

fun find_char :: "char \<Rightarrow> string \<Rightarrow> nat option" where
  "find_char x [] = None"
| "find_char x (c # cs) = (if c = x then Some 0 else map_option Suc (find_char x cs))"

lemma find_char_None: "find_char x s = None \<longleftrightarrow> x \<notin> set s"
  by (induction s) auto

lemma find_char_Some:
  "find_char x s = Some i \<longleftrightarrow> i < length s \<and> s ! i = x \<and> x \<notin> set (take i s)"
  by (induction s arbitrary: i) (auto simp: less_Suc_eq_0_disj nth_Cons split: nat.splits)

lemma find_char_append: "x \<notin> set s \<Longrightarrow> find_char x (s @ x # t) = Some (length s)"
  by (induction s) auto

lemma find_char_take: "find_char x s = Some i \<Longrightarrow> s = take i s @ x # drop (Suc i) s"
  using id_take_nth_drop [of i s] by (auto simp: find_char_Some)

fun join_with :: "string \<Rightarrow> string list \<Rightarrow> string" where
  "join_with sep [] = []"
| "join_with sep [x] = x"
| "join_with sep (x # y # ys) = x @ sep @ join_with sep (y # ys)"

section \<open>Lines\<close>

text \<open>
  A line up to its newline, and what follows if there was one; a carriage return before the
  newline goes with it. This is how \<open>str::lines\<close> and \<open>BufRead::lines\<close> cut.
\<close>

fun cut_line :: "string \<Rightarrow> string \<times> string option" where
  "cut_line [] = ([], None)"
| "cut_line (c # s) =
     (if c = CHR 0x0A then ([], Some s)
      else case cut_line s of (line, rest) \<Rightarrow> (c # line, rest))"

definition chomp :: "string \<Rightarrow> string" where
  "chomp line = (if line \<noteq> [] \<and> last line = CHR 0x0D then butlast line else line)"

lemma cut_line_shorter: "cut_line s = (l, Some r) \<Longrightarrow> length r < length s"
  by (induction s arbitrary: l r) (auto split: if_splits prod.splits)

lemma cut_line_append: "CHR 0x0A \<notin> set s \<Longrightarrow> cut_line (s @ CHR 0x0A # rest) = (s, Some rest)"
  by (induction s) auto

function input_lines :: "string \<Rightarrow> string list" where
  "input_lines s =
     (case cut_line s of
        (line, None) \<Rightarrow> if line = [] then [] else [line]
      | (line, Some rest) \<Rightarrow> chomp line # input_lines rest)"
  by pat_completeness auto
termination
  by (relation "measure length") (auto intro: cut_line_shorter [OF sym])

declare input_lines.simps [simp del]

lemma input_lines_Nil [simp]: "input_lines [] = []"
  by (subst input_lines.simps) simp

lemma input_lines_Cons:
  "CHR 0x0A \<notin> set s \<Longrightarrow> input_lines (s @ CHR 0x0A # rest) = chomp s # input_lines rest"
  by (subst input_lines.simps) (simp add: cut_line_append)

section \<open>Unsigned integers\<close>

definition u32_max :: nat where
  "u32_max = 2 ^ 32 - 1"

definition u64_max :: nat where
  "u64_max = 2 ^ 64 - 1"

text \<open>\<open>usize\<close> is 64 bits wide on every platform the release builds for.\<close>

definition sat_add :: "nat \<Rightarrow> nat \<Rightarrow> nat" where
  "sat_add a b = min u64_max (a + b)"

lemma sat_add_le [simp]: "sat_add a b \<le> u64_max"
  by (simp add: sat_add_def)

lemma sat_add_exact: "a + b \<le> u64_max \<Longrightarrow> sat_add a b = a + b"
  by (simp add: sat_add_def)

definition is_digit :: "char \<Rightarrow> bool" where
  "is_digit c \<longleftrightarrow> 48 \<le> byte c \<and> byte c \<le> 57"

definition digit_value :: "char \<Rightarrow> nat" where
  "digit_value c = byte c - 48"

definition digits_value :: "string \<Rightarrow> nat" where
  "digits_value s = foldl (\<lambda>n c. 10 * n + digit_value c) 0 s"

text \<open>
  \<open>str::parse\<close> at an unsigned type: an optional plus sign, at least one decimal digit,
  nothing else, and a value that fits.
\<close>

definition parse_unsigned :: "nat \<Rightarrow> string \<Rightarrow> nat option" where
  "parse_unsigned mx s =
     (let ds = (case strip_prefix ''+'' s of Some t \<Rightarrow> t | None \<Rightarrow> s)
      in if ds \<noteq> [] \<and> list_all is_digit ds \<and> digits_value ds \<le> mx
         then Some (digits_value ds) else None)"

text \<open>\<open>Display\<close> of an unsigned integer.\<close>

fun show_nat :: "nat \<Rightarrow> string" where
  "show_nat n =
     (if n < 10 then [char_of (48 + n)]
      else show_nat (n div 10) @ [char_of (48 + n mod 10)])"

declare show_nat.simps [simp del]

lemma digit_char [simp]:
  assumes "n < 10"
  shows "is_digit (char_of (48 + n))" "digit_value (char_of (48 + n)) = n"
    "byte (char_of (48 + n)) < 128"
  using assms by (auto simp: is_digit_def digit_value_def)

lemma show_nat_digits: "list_all is_digit (show_nat n)"
proof (induction n rule: show_nat.induct)
  case (1 n)
  then show ?case by (subst show_nat.simps) auto
qed

lemma show_nat_nonempty [simp]: "show_nat n \<noteq> []"
  by (subst show_nat.simps) simp

lemma digits_value_snoc: "digits_value (s @ [c]) = 10 * digits_value s + digit_value c"
  by (simp add: digits_value_def)

lemma digits_value_show [simp]: "digits_value (show_nat n) = n"
proof (induction n rule: show_nat.induct)
  case (1 n)
  show ?case
  proof (cases "n < 10")
    case True
    then show ?thesis
      by (subst show_nat.simps) (simp add: digits_value_def)
  next
    case False
    with 1 show ?thesis
      by (subst show_nat.simps) (simp add: digits_value_snoc)
  qed
qed

lemma is_digit_ascii: "is_digit c \<Longrightarrow> byte c < 128"
  by (simp add: is_digit_def)

lemma show_nat_ascii [simp]: "ascii (show_nat n)"
  using show_nat_digits [of n] by (auto simp: ascii_def list_all_iff is_digit_ascii)

lemma plus_not_digit [simp]: "\<not> is_digit CHR ''+''"
  by (simp add: is_digit_def)

lemma digits_no_plus: "list_all is_digit ds \<Longrightarrow> strip_prefix ''+'' ds = None"
  by (cases ds) auto

lemma parse_show [simp]: "n \<le> mx \<Longrightarrow> parse_unsigned mx (show_nat n) = Some n"
  using show_nat_digits [of n] digits_no_plus [of "show_nat n"]
  by (simp add: parse_unsigned_def)

lemma parse_unsigned_bound: "parse_unsigned mx s = Some n \<Longrightarrow> n \<le> mx"
  by (auto simp: parse_unsigned_def Let_def split: if_splits)

lemma white_space_no_digit:
  "list_all (\<lambda>u. u \<noteq> [] \<and> \<not> is_digit (hd u) \<and> \<not> is_digit (last u)) white_space"
  by (simp add: white_space_def is_digit_def upt_conv_Cons)

lemma strip_any_digit:
  assumes "is_digit c"
  shows "strip_any white_space (c # s) = None" "strip_any (map rev white_space) (c # s) = None"
proof -
  have "list_all (\<lambda>u. u \<noteq> [] \<and> hd u \<noteq> c) white_space"
    using white_space_no_digit assms by (auto simp: list_all_iff)
  then show "strip_any white_space (c # s) = None" by (rule strip_any_first)
  have "list_all (\<lambda>u. u \<noteq> [] \<and> hd u \<noteq> c) (map rev white_space)"
    using white_space_no_digit assms by (auto simp: list_all_iff hd_rev)
  then show "strip_any (map rev white_space) (c # s) = None" by (rule strip_any_first)
qed

lemma trim_digits:
  assumes "list_all is_digit ds" "ds \<noteq> []"
  shows "trim (CHR '' '' # ds) = ds"
proof -
  obtain c s where ds: "ds = c # s" using assms(2) by (cases ds) auto
  with assms have "strip_units white_space ds = ds"
    by (simp add: strip_units_stop strip_any_digit)
  then have front: "strip_units white_space (CHR '' '' # ds) = ds"
    by (simp add: strip_units_step [OF strip_space])
  obtain d t where rd: "rev ds = d # t" using assms(2) by (cases "rev ds") auto
  then have "d \<in> set ds" by (metis list.set_intros(1) set_rev)
  then have "is_digit d" using assms(1) by (simp add: list_all_iff)
  then have "strip_units (map rev white_space) (rev ds) = rev ds"
    by (simp add: rd strip_units_stop strip_any_digit)
  with front show ?thesis by (simp add: trim_def)
qed

section \<open>Lists\<close>

lemma foldl_snoc [simp]: "foldl (\<lambda>acc x. acc @ [f x]) acc xs = acc @ map f xs"
  by (induction xs arbitrary: acc) auto

lemma take_drop_append_full:
  "length xs \<le> n \<Longrightarrow> drop n (xs @ ys) = drop (n - length xs) ys"
  by simp


text \<open>A stateful loop over a list that collects its results.\<close>

fun map_state :: "('a \<Rightarrow> 's \<Rightarrow> 'b \<times> 's) \<Rightarrow> 'a list \<Rightarrow> 's \<Rightarrow> 'b list \<times> 's" where
  "map_state f [] s = ([], s)"
| "map_state f (x # xs) s =
     (case f x s of (y, s1) \<Rightarrow> (case map_state f xs s1 of (ys, s2) \<Rightarrow> (y # ys, s2)))"

text \<open>\<open>Option::map(f).transpose()\<close>.\<close>

fun opt_result :: "('a \<Rightarrow> 'e + 'b) \<Rightarrow> 'a option \<Rightarrow> 'e + 'b option" where
  "opt_result f None = Inr None"
| "opt_result f (Some x) = (case f x of Inl e \<Rightarrow> Inl e | Inr y \<Rightarrow> Inr (Some y))"

lemma map_state_keeps:
  assumes "\<And>x s. x \<in> set xs \<Longrightarrow> P s \<Longrightarrow> P (snd (f x s))" "P s"
  shows "P (snd (map_state f xs s))"
  using assms by (induction xs arbitrary: s) (force split: prod.splits)+

section \<open>Paths\<close>

fun split_on :: "char \<Rightarrow> string \<Rightarrow> string list" where
  "split_on x [] = [[]]"
| "split_on x (c # cs) =
     (if c = x then [] # split_on x cs
      else case split_on x cs of [] \<Rightarrow> [[c]] | s # ss \<Rightarrow> (c # s) # ss)"

text \<open>\<open>Path::file_name\<close> on a Unix path.\<close>

definition file_name :: "string \<Rightarrow> string option" where
  "file_name path =
     (case rev (filter (\<lambda>c. c \<noteq> [] \<and> c \<noteq> ''.'') (split_on CHR ''/'' path)) of
        [] \<Rightarrow> None
      | c # cs \<Rightarrow> if c = ''..'' then None else Some c)"

end
