(* ===== verification/Json.thy ===== *)
theory Json
  imports Prelude
begin

text \<open>
  JSON values as the adapters see them: \<open>serde_json::Value\<close>, the public enum the
  source matches on (\<open>Null\<close>, \<open>Bool\<close>, \<open>Number\<close>, \<open>String\<close>, \<open>Array\<close>,
  \<open>Object\<close>), with the accessors it calls (\<open>get\<close>, \<open>as_str\<close>, \<open>as_bool\<close>,
  \<open>as_u64\<close>, \<open>as_i64\<close>, \<open>as_array\<close>, \<open>as_object\<close>). An object is an association
  list without repeated keys; a number is an unsigned or a negative 64-bit integer or a
  float, of which the code only needs that it is neither. Text to value and back
  (\<open>serde_json::from_slice\<close>, \<open>to_vec\<close>) is the library's and stays a parameter of
  the definitions that use it.
\<close>

datatype jnum = PosInt "64 word" | NegInt "64 word" | FloatNum string

datatype json =
    JNull
  | JBool bool
  | JNum jnum
  | JStr string
  | JArr "json list"
  | JObj "(string \<times> json) list"

type_synonym jobj = "(string \<times> json) list"

section \<open>Accessors\<close>

fun jget :: "json \<Rightarrow> string \<Rightarrow> json option" where
  "jget (JObj kvs) k = map_of kvs k"
| "jget _ k = None"

fun as_str :: "json \<Rightarrow> string option" where
  "as_str (JStr s) = Some s"
| "as_str _ = None"

fun as_bool :: "json \<Rightarrow> bool option" where
  "as_bool (JBool b) = Some b"
| "as_bool _ = None"

fun as_array :: "json \<Rightarrow> json list option" where
  "as_array (JArr xs) = Some xs"
| "as_array _ = None"

fun as_object :: "json \<Rightarrow> jobj option" where
  "as_object (JObj kvs) = Some kvs"
| "as_object _ = None"

fun num_as_u64 :: "jnum \<Rightarrow> nat option" where
  "num_as_u64 (PosInt w) = Some (unat w)"
| "num_as_u64 _ = None"

fun num_as_i64 :: "jnum \<Rightarrow> int option" where
  "num_as_i64 (PosInt w) = (if uint w < 2 ^ 63 then Some (uint w) else None)"
| "num_as_i64 (NegInt w) = Some (sint w)"
| "num_as_i64 (FloatNum s) = None"

fun as_u64 :: "json \<Rightarrow> nat option" where
  "as_u64 (JNum n) = num_as_u64 n"
| "as_u64 _ = None"

fun as_i64 :: "json \<Rightarrow> int option" where
  "as_i64 (JNum n) = num_as_i64 n"
| "as_i64 _ = None"

section \<open>Construction\<close>

text \<open>\<open>json!\<close> of an unsigned and of a signed integer.\<close>

definition jnat :: "nat \<Rightarrow> json" where
  "jnat n = JNum (PosInt (word_of_nat n))"

definition jint :: "int \<Rightarrow> json" where
  "jint i = JNum (if 0 \<le> i then PosInt (word_of_int i) else NegInt (word_of_int i))"

text \<open>\<open>value["k"] = v\<close> on an object: replace the entry or add it.\<close>

definition jset :: "jobj \<Rightarrow> string \<Rightarrow> json \<Rightarrow> jobj" where
  "jset kvs k v = AList.update k v kvs"

definition opt_field :: "string \<Rightarrow> ('a \<Rightarrow> json) \<Rightarrow> 'a option \<Rightarrow> jobj" where
  "opt_field k f x = (case x of None \<Rightarrow> [] | Some y \<Rightarrow> [(k, f y)])"

section \<open>Facts\<close>

lemma jget_jset [simp]: "jget (JObj (jset kvs k v)) k' = (if k' = k then Some v else jget (JObj kvs) k')"
  by (simp add: jset_def update_conv')

lemma as_u64_jnat [simp]: "n < 2 ^ 64 \<Longrightarrow> as_u64 (jnat n) = Some n"
  by (simp add: jnat_def unat_of_nat)

lemma as_i64_jint:
  assumes "0 \<le> i" "i < 2 ^ 63"
  shows "as_i64 (jint i) = Some i"
proof -
  have "uint (word_of_int i :: 64 word) = i"
    using assms by (simp add: uint_word_of_int)
  with assms show ?thesis by (simp add: jint_def)
qed

lemma as_u64_bound: "as_u64 j = Some n \<Longrightarrow> n < 2 ^ 64"
proof (induction j rule: as_u64.induct)
  case (1 n')
  then show ?case
    using unsigned_less [where 'b = 64 and 'a = nat] by (cases n') auto
qed auto

lemma as_i64_bound: "as_i64 j = Some i \<Longrightarrow> i < 2 ^ 63"
proof (induction j rule: as_i64.induct)
  case (1 n)
  then show ?case
  proof (cases n)
    case (PosInt w)
    with 1 show ?thesis by (simp split: if_splits)
  next
    case (NegInt w)
    with 1 show ?thesis using sint_lt [of w] by simp
  qed auto
qed auto

end
