(* ===== verification/Dap_Protocol.thy ===== *)
theory Dap_Protocol
  imports Json
begin

text \<open>
  \<open>crates/marrow-dap/src/protocol.rs\<close>: the \<open>Content-Length\<close> framing of the debug
  adapter's stdin and stdout, and the reader thread of \<open>main.rs\<close> that runs it. A byte
  stream is a \<open>string\<close>; a read returns the value with the bytes not yet read.
\<close>

section \<open>Reading lines\<close>

text \<open>The bytes up to and including the first newline, and the rest of the stream.\<close>

fun split_line :: "string \<Rightarrow> string \<times> string" where
  "split_line [] = ([], [])"
| "split_line (c # cs) =
     (if c = CHR 0x0A then ([c], cs)
      else (case split_line cs of (l, r) \<Rightarrow> (c # l, r)))"

text \<open>
  \<open>BufRead::read_line\<close>: an error, here \<open>None\<close>, when the line is not UTF-8; an empty
  line at the end of the stream.
\<close>

definition read_line :: "string \<Rightarrow> (string \<times> string) option" where
  "read_line input =
     (case split_line input of (l, r) \<Rightarrow> if utf8_valid l then Some (l, r) else None)"

lemma split_line_append: "split_line s = (l, r) \<Longrightarrow> l @ r = s"
  by (induction s arbitrary: l r) (auto split: if_splits prod.splits)

lemma split_line_Nil: "split_line s = ([], r) \<Longrightarrow> s = [] \<and> r = []"
  by (cases s) (auto split: if_splits prod.splits)

lemma split_line_newline:
  "CHR 0x0A \<notin> set l \<Longrightarrow> split_line (l @ CHR 0x0A # r) = (l @ [CHR 0x0A], r)"
  by (induction l) auto

lemma read_line_shorter:
  "read_line s = Some (l, r) \<Longrightarrow> l \<noteq> [] \<Longrightarrow> length r < length s"
  by (auto simp: read_line_def split: prod.splits if_splits dest!: split_line_append)

section \<open>Messages\<close>

definition header_key :: string where
  "header_key = ''Content-Length:''"

text \<open>
  The header loop: \<open>None\<close> for a read error or the end of the stream, else the length
  the last \<open>Content-Length\<close> header gave (\<open>None\<close> when it gave no number) and the
  stream after the blank line.
\<close>

function read_headers :: "string \<Rightarrow> nat option \<Rightarrow> (nat option \<times> string) option" where
  "read_headers input content_length =
     (case read_line input of
        None \<Rightarrow> None
      | Some (line, rest) \<Rightarrow>
          if line = [] then None
          else let trimmed = trim_end_matches [CHR 0x0D, CHR 0x0A] line in
            if trimmed = [] then Some (content_length, rest)
            else read_headers rest
              (case strip_prefix header_key trimmed of
                 Some v \<Rightarrow> parse_unsigned u64_max (trim v)
               | None \<Rightarrow> content_length))"
  by pat_completeness auto
termination
  by (relation "measure (\<lambda>(input, l). length input)") (auto dest: read_line_shorter)

declare read_headers.simps [simp del]

definition read_message :: "(string \<Rightarrow> json option) \<Rightarrow> string \<Rightarrow> (json \<times> string) option" where
  "read_message from_slice input =
     (case read_headers input None of
        Some (Some len, rest) \<Rightarrow>
          if len \<le> length rest
          then map_option (\<lambda>v. (v, drop len rest)) (from_slice (take len rest))
          else None
      | _ \<Rightarrow> None)"

definition write_message :: "(json \<Rightarrow> string) \<Rightarrow> json \<Rightarrow> string" where
  "write_message to_vec message =
     (let body = to_vec message
      in ''Content-Length: '' @ show_nat (length body)
         @ [CHR 0x0D, CHR 0x0A, CHR 0x0D, CHR 0x0A] @ body)"

text \<open>
  The reader thread of \<open>serve\<close>: messages are read until a read fails, and the requests
  among them are queued for the protocol loop.
\<close>

definition is_request :: "json \<Rightarrow> bool" where
  "is_request message \<longleftrightarrow> Option.bind (jget message ''type'') as_str = Some ''request''"

lemma read_headers_shorter:
  "read_headers s l = Some (n, r) \<Longrightarrow> length r < length s"
proof (induction s l rule: read_headers.induct)
  case (1 s l)
  from "1.prems" obtain line rest where rl: "read_line s = Some (line, rest)" and ne: "line \<noteq> []"
    by (subst (asm) read_headers.simps) (auto split: option.splits if_splits)
  have less: "length rest < length s" using read_line_shorter [OF rl ne] .
  show ?case
  proof (cases "trim_end_matches [CHR 0x0D, CHR 0x0A] line = []")
    case True
    with "1.prems" rl ne less show ?thesis by (subst (asm) read_headers.simps) simp
  next
    case False
    with "1.prems" rl ne
    have "read_headers rest
        (case strip_prefix header_key (trim_end_matches [CHR 0x0D, CHR 0x0A] line) of
           Some v \<Rightarrow> parse_unsigned u64_max (trim v) | None \<Rightarrow> l) = Some (n, r)"
      by (subst (asm) read_headers.simps) simp
    from "1.IH" [OF rl refl ne refl False this] less show ?thesis by simp
  qed
qed

lemma read_message_shorter:
  "read_message fs s = Some (v, r) \<Longrightarrow> length r < length s"
  by (auto simp: read_message_def split: option.splits if_splits dest!: read_headers_shorter)

function reader_thread :: "(string \<Rightarrow> json option) \<Rightarrow> string \<Rightarrow> json list" where
  "reader_thread from_slice input =
     (case read_message from_slice input of
        None \<Rightarrow> []
      | Some (message, rest) \<Rightarrow>
          (if is_request message then [message] else []) @ reader_thread from_slice rest)"
  by pat_completeness auto
termination
  by (relation "measure (\<lambda>(fs, input). length input)") (auto dest: read_message_shorter)

declare reader_thread.simps [simp del]

section \<open>The header this adapter writes\<close>

lemma trim_end_crlf:
  assumes "l \<noteq> []" "last l \<noteq> CHR 0x0D" "last l \<noteq> CHR 0x0A"
  shows "trim_end_matches [CHR 0x0D, CHR 0x0A] (l @ [CHR 0x0D, CHR 0x0A]) = l"
proof -
  from assms(1) obtain xs x where l: "l = xs @ [x]" by (cases l rule: rev_cases) auto
  with assms show ?thesis by (simp add: trim_end_matches_def)
qed

lemma digits_no_newline: "list_all is_digit ds \<Longrightarrow> CHR 0x0A \<notin> set ds"
  by (auto simp: list_all_iff is_digit_def)


lemma read_headers_ours:
  assumes n: "n \<le> u64_max"
  shows "read_headers (''Content-Length: '' @ show_nat n
           @ [CHR 0x0D, CHR 0x0A, CHR 0x0D, CHR 0x0A] @ rest) l = Some (Some n, rest)"
proof -
  let ?h = "header_key @ CHR '' '' # show_nat n"
  let ?tail = "[CHR 0x0D, CHR 0x0A] @ rest"
  have h: "''Content-Length: '' @ t = header_key @ CHR '' '' # t" for t
    by (simp add: header_key_def)
  have no_newline: "CHR 0x0A \<notin> set ((header_key @ CHR '' '' # show_nat n) @ [CHR 0x0D])"
    using digits_no_newline [OF show_nat_digits, of n] by (simp add: header_key_def)
  have "ascii ((?h @ [CHR 0x0D]) @ [CHR 0x0A])"
    using show_nat_ascii [of n] by (simp add: header_key_def ascii_def)
  with split_line_newline [OF no_newline, of ?tail]
  have line: "read_line ((?h @ [CHR 0x0D]) @ CHR 0x0A # ?tail)
      = Some ((?h @ [CHR 0x0D]) @ [CHR 0x0A], ?tail)"
    by (simp add: read_line_def)
  obtain ds d where sn: "show_nat n = ds @ [d]"
    by (cases "show_nat n" rule: rev_cases) auto
  with show_nat_digits [of n] have "is_digit d" by simp
  then have "last ?h \<noteq> CHR 0x0D" "last ?h \<noteq> CHR 0x0A"
    using sn by (auto simp: is_digit_def)
  then have trimmed: "trim_end_matches [CHR 0x0D, CHR 0x0A] (?h @ [CHR 0x0D, CHR 0x0A]) = ?h"
    by (intro trim_end_crlf) auto
  have val: "parse_unsigned u64_max (trim (CHR '' '' # show_nat n)) = Some n"
    using n by (simp add: trim_digits show_nat_digits)
  have blank: "read_headers ?tail l' = Some (l', rest)" for l'
    by (subst read_headers.simps) (simp add: read_line_def trim_end_matches_def)
  have "read_headers ((?h @ [CHR 0x0D]) @ CHR 0x0A # ?tail) l = read_headers ?tail (Some n)"
    by (subst read_headers.simps)
      (use line trimmed val in \<open>simp add: header_key_def\<close>)
  then have "read_headers (header_key @ CHR '' '' # show_nat n
      @ [CHR 0x0D, CHR 0x0A, CHR 0x0D, CHR 0x0A] @ rest) l = Some (Some n, rest)"
    using blank [of "Some n"] by (simp only: append_assoc append_Cons append_Nil)
  then show ?thesis by (simp only: h)
qed

lemma read_written:
  assumes "from_slice (to_vec m) = Some m" "length (to_vec m) \<le> u64_max"
  shows "read_message from_slice (write_message to_vec m @ rest) = Some (m, rest)"
  using assms read_headers_ours [of "length (to_vec m)" "to_vec m @ rest" None]
  by (simp add: read_message_def write_message_def Let_def)

section \<open>Properties\<close>

text \<open>
  A message framed by \<open>write_message\<close> is read back whole by \<open>read_message\<close>, and
  the bytes after it stay in the stream. The only demands are on the JSON library (its
  parser reads what its printer wrote) and that the body's length fits \<open>usize\<close>.\<close>

theorem frame_roundtrip:
  assumes "from_slice (to_vec m) = Some m" "length (to_vec m) \<le> u64_max"
  shows "read_message from_slice (write_message to_vec m @ rest) = Some (m, rest)"
  using assms by (rule read_written)

definition demo_codec :: "json \<Rightarrow> string" where
  "demo_codec m = (case jget m ''seq'' of Some (JStr s) \<Rightarrow> s | _ \<Rightarrow> [])"

definition demo_message :: "string \<Rightarrow> string \<Rightarrow> json" where
  "demo_message kind s = JObj [(''type'', JStr kind), (''seq'', JStr s)]"

theorem frame_roundtrip_witness:
  "read_message (\<lambda>s. Some (demo_message ''request'' s))
     (write_message demo_codec (demo_message ''request'' ''abcdefghijkl'') @ ''tail'')
   = Some (demo_message ''request'' ''abcdefghijkl'', ''tail'')"
  by (rule frame_roundtrip) (simp_all add: demo_codec_def demo_message_def u64_max_def)

text \<open>
  C33. The reader thread hands the protocol loop every request of a stream of framed
  messages, in order, each once, and nothing else (responses and events a client sends
  are dropped), and then ends: it terminates on every finite stream.\<close>

theorem reader_delivers_requests:
  assumes "\<forall>m\<in>set ms. from_slice (to_vec m) = Some m \<and> length (to_vec m) \<le> u64_max"
  shows "reader_thread from_slice (concat (map (write_message to_vec) ms))
       = filter is_request ms"
  using assms
proof (induction ms)
  case Nil
  have "read_message from_slice [] = None"
    by (simp add: read_message_def read_headers.simps read_line_def)
  then show ?case by (subst reader_thread.simps) simp
next
  case (Cons m ms)
  then show ?case
    by (subst reader_thread.simps) (simp add: read_written)
qed

theorem reader_delivers_requests_witness:
  "reader_thread (\<lambda>s. Some (demo_message (if s = ''r'' then ''request'' else ''event'') s))
     (concat (map (write_message demo_codec)
        [demo_message ''request'' ''r'', demo_message ''event'' ''e'',
         demo_message ''request'' ''r'']))
   = [demo_message ''request'' ''r'', demo_message ''request'' ''r'']"
  by (subst reader_delivers_requests)
    (simp_all add: demo_codec_def demo_message_def u64_max_def is_request_def)

text \<open>
  A request whose framing is broken ends the session: with no \<open>Content-Length\<close>
  header before the blank line, or with one that is not a number, nothing after it is
  ever handed to the protocol loop.\<close>

theorem bad_header_ends_reading:
  assumes "read_headers input None = Some (None, rest)"
  shows "reader_thread from_slice input = []"
  using assms by (subst reader_thread.simps) (simp add: read_message_def)

theorem bad_header_ends_reading_witness:
  "reader_thread (\<lambda>s. Some JNull) (''X: 1'' @ [CHR 0x0A, CHR 0x0A] @ ''abc'') = []"
proof (rule bad_header_ends_reading)
  show "read_headers (''X: 1'' @ [CHR 0x0A, CHR 0x0A] @ ''abc'') None = Some (None, ''abc'')"
    by (subst read_headers.simps, simp add: read_line_def trim_end_matches_def header_key_def
        is_cont_def in_bytes_def)
      (subst read_headers.simps, simp add: read_line_def trim_end_matches_def)
qed

end
