(* ===== verification/Dap_Step.thy ===== *)
theory Dap_Step
  imports Prelude
begin

text \<open>
  \<open>crates/marrow-dap/src/step.rs\<close>: the stop decision. \<open>decide\<close> says, from the resume
  mode the client last chose and the activation depth of the statement about to run,
  whether the run stops here and with which reason.
\<close>

datatype resume =
    Continue
  | Over (from_depth: nat)
  | Into
  | Out (from_depth: nat)
  | Pause

datatype stop_reason = StepReason | PauseReason | EntryReason | BreakpointReason

fun reason_str :: "stop_reason \<Rightarrow> string" where
  "reason_str StepReason = ''step''"
| "reason_str PauseReason = ''pause''"
| "reason_str EntryReason = ''entry''"
| "reason_str BreakpointReason = ''breakpoint''"

fun decide :: "resume \<Rightarrow> nat \<Rightarrow> stop_reason option" where
  "decide Continue depth = None"
| "decide (Over d) depth = (if depth \<le> d then Some StepReason else None)"
| "decide Into depth = Some StepReason"
| "decide (Out d) depth = (if depth < d then Some StepReason else None)"
| "decide Pause depth = Some PauseReason"

lemma reason_str_inj: "reason_str a = reason_str b \<longleftrightarrow> a = b"
  by (cases a; cases b) simp_all

lemma decide_reason:
  "decide m d = Some r \<Longrightarrow> r = (if m = Pause then PauseReason else StepReason)"
  by (cases m) (auto split: if_splits)

text \<open>The number of statements a mode runs past before it stops, on a run's depths.\<close>

fun stop_index :: "resume \<Rightarrow> nat list \<Rightarrow> nat option" where
  "stop_index m [] = None"
| "stop_index m (d # ds) =
     (if decide m d = None then map_option Suc (stop_index m ds) else Some 0)"

lemma stop_index_Some:
  "stop_index m ds = Some i \<longleftrightarrow>
     i < length ds \<and> decide m (ds ! i) \<noteq> None \<and> (\<forall>j<i. decide m (ds ! j) = None)"
  by (induction ds arbitrary: i) (auto simp: less_Suc_eq_0_disj nth_Cons split: nat.splits)

end
