(* ===== verification/Dap_Variables.thy ===== *)
theory Dap_Variables
  imports Prelude
begin

text \<open>
  \<open>crates/marrow-dap/src/variables.rs\<close>: pages, filters and children of debug values.

  A \<open>DebugValue\<close> belongs to the Marrow runtime, which is not in this repository. It is
  the type variable \<open>'v\<close>; what the adapter asks of it, of a checked debug expression
  \<open>'e\<close> and of a saved-data path payload \<open>'x\<close> are the fields of the record \<open>marrow\<close>, an
  argument of every definition that uses them.
\<close>

datatype child_page = AllFrom (page_start: nat) | PageRange (page_start: nat) (page_count: nat)

definition requested_page :: "nat \<Rightarrow> nat option \<Rightarrow> child_page" where
  "requested_page start count =
     (case count of
        None \<Rightarrow> AllFrom start
      | Some c \<Rightarrow> if c = 0 then AllFrom start else PageRange start c)"

definition default_page :: child_page where
  "default_page = AllFrom 0"

datatype variables_filter = AllVariables | NamedVariables | IndexedVariables

datatype debug_value_filter = DebugAll | DebugNamed | DebugIndexed

fun to_debug_value_filter :: "variables_filter \<Rightarrow> debug_value_filter" where
  "to_debug_value_filter AllVariables = DebugAll"
| "to_debug_value_filter NamedVariables = DebugNamed"
| "to_debug_value_filter IndexedVariables = DebugIndexed"

text \<open>One segment of a saved-data path; its payload is Marrow's.\<close>

datatype 'x path_segment = RootSegment 'x | KeySegment 'x | FieldSegment 'x | LayerSegment 'x

text \<open>A \<open>DebugValuePage\<close> is its start and its limit.\<close>

record ('e, 'v, 'x) marrow =
  debug_value_max_page_limit :: nat
  max_preview_items :: nat
  default_value_preview_limit :: nat
  value_true :: 'v
  value_child_counts :: "'v \<Rightarrow> (nat option \<times> nat option) option"
  value_children_truncated :: "'v \<Rightarrow> bool"
  value_children :: "'v \<Rightarrow> nat \<times> nat \<Rightarrow> debug_value_filter \<Rightarrow> (string \<times> 'v) list"
  value_preview :: "'v \<Rightarrow> string"
  requires_durable_data :: "'e \<Rightarrow> bool"
  render_path :: "'x path_segment list \<Rightarrow> string"

fun to_debug_value_page :: "('e, 'v, 'x) marrow \<Rightarrow> child_page \<Rightarrow> nat \<times> nat" where
  "to_debug_value_page M (AllFrom start) = (start, debug_value_max_page_limit M)"
| "to_debug_value_page M (PageRange start count) = (start, count)"

record child_counts =
  named_count :: "nat option"
  indexed_count :: "nat option"

record 'v child =
  child_name :: string
  child_value :: string
  child_truncated :: "bool option"
  child_expand :: "'v option"

definition is_expandable :: "('e, 'v, 'x) marrow \<Rightarrow> 'v \<Rightarrow> bool" where
  "is_expandable M v \<longleftrightarrow> value_child_counts M v \<noteq> None"

definition child_counts_of :: "('e, 'v, 'x) marrow \<Rightarrow> 'v \<Rightarrow> child_counts option" where
  "child_counts_of M v =
     map_option (\<lambda>(n, i). \<lparr>named_count = n, indexed_count = i\<rparr>) (value_child_counts M v)"

definition child_from_debug :: "('e, 'v, 'x) marrow \<Rightarrow> string \<Rightarrow> 'v \<Rightarrow> 'v child" where
  "child_from_debug M name v =
     (let expandable = is_expandable M v in
      \<lparr>child_name = name,
       child_value = value_preview M v,
       child_truncated = (if expandable then Some (value_children_truncated M v) else None),
       child_expand = (if expandable then Some v else None)\<rparr>)"

definition children_of ::
  "('e, 'v, 'x) marrow \<Rightarrow> 'v \<Rightarrow> child_page \<Rightarrow> variables_filter \<Rightarrow> 'v child list" where
  "children_of M v page filt =
     map (\<lambda>(name, w). child_from_debug M name w)
       (value_children M v (to_debug_value_page M page) (to_debug_value_filter filt))"

definition local_children :: "('e, 'v, 'x) marrow \<Rightarrow> (string \<times> 'v) list \<Rightarrow> 'v child list" where
  "local_children M locals = map (\<lambda>(name, w). child_from_debug M name w) locals"

lemma child_expand_iff [simp]:
  "child_expand (child_from_debug M n v) = (if is_expandable M v then Some v else None)"
  "child_truncated (child_from_debug M n v) =
     (if is_expandable M v then Some (value_children_truncated M v) else None)"
  "child_name (child_from_debug M n v) = n"
  "child_value (child_from_debug M n v) = value_preview M v"
  by (simp_all add: child_from_debug_def Let_def)

lemma requested_page_start [simp]: "page_start (requested_page s c) = s"
  by (auto simp: requested_page_def split: option.splits)

end
