(* ===== verification/Dap_Debugger.thy ===== *)
theory Dap_Debugger
  imports Dap_Step Dap_Variables
begin

text \<open>
  \<open>crates/marrow-dap/src/debugger.rs\<close>: the run thread's side of the debugger. The hook
  runs before every statement: it takes new breakpoint sets, evaluates breakpoints,
  decides whether to stop, and at a stop parks in a loop that answers the protocol
  thread's queries until it is told to resume or to unwind.

  The channels between the two threads and the two atomic flags are the record
  \<open>link\<close>: one queue per channel, oldest message first, and whether its other end still
  exists. A live \<open>Frame\<close> belongs to the Marrow runtime: it is the record \<open>frame\<close> of
  what the hook asks of it.
\<close>

section \<open>What the runtime offers at a statement\<close>

record rt_error =
  err_code :: string
  err_message :: string

record span =
  span_start :: nat
  span_end :: nat
  span_line :: nat
  span_column :: nat

datatype 'x data_child = RootChild 'x | KeyChild 'x | FieldChild 'x | LayerChild 'x

record 'x data_page =
  page_children :: "'x data_child list"
  page_truncated :: bool
  page_cursor :: "'x option"

text \<open>
  A data preview is whether its presence is \<open>ChildrenOnly\<close>, and its text.
\<close>

record ('e, 'v, 'x, 's) frame =
  frame_file :: "string option"
  frame_depth :: nat
  frame_evaluate :: "'e \<Rightarrow> rt_error + 'v"
  frame_snapshot :: "nat \<times> nat \<Rightarrow> debug_value_filter \<Rightarrow> nat \<times> bool \<times> (string \<times> 'v) list"
  frame_data_children ::
    "'x path_segment list \<Rightarrow> nat \<Rightarrow> 'x option \<Rightarrow> rt_error + ('x data_page \<times> 's)"
  frame_data_preview ::
    "'x path_segment list \<Rightarrow> nat \<Rightarrow> rt_error + (bool \<times> string option) option"
  frame_data_snapshot :: "rt_error + 's"

definition run_terminated :: string where
  "run_terminated = ''run.terminated''"

definition terminated :: rt_error where
  "terminated = \<lparr>err_code = run_terminated, err_message = ''run terminated by the debugger''\<rparr>"

section \<open>Breakpoints and log messages\<close>

datatype 'e log_part = Literal string | Expression 'e

type_synonym 'e log_message = "'e log_part list"

record 'e armed_breakpoint =
  ab_line :: nat
  ab_condition :: "'e option"
  ab_hit_target :: "nat option"
  ab_log_message :: "'e log_message option"
  ab_hits :: nat

type_synonym 'e armed_breakpoints = "string \<Rightarrow> 'e armed_breakpoint list option"

record breakpoint_action =
  act_outputs :: "string list"
  act_stop :: bool

definition no_action :: breakpoint_action where
  "no_action = \<lparr>act_outputs = [], act_stop = False\<rparr>"

definition merge_action :: "breakpoint_action \<Rightarrow> breakpoint_action \<Rightarrow> breakpoint_action" where
  "merge_action a b =
     \<lparr>act_outputs = act_outputs a @ act_outputs b, act_stop = act_stop a \<or> act_stop b\<rparr>"

definition new_armed ::
  "nat \<Rightarrow> 'e option \<Rightarrow> nat option \<Rightarrow> 'e log_message option \<Rightarrow> 'e armed_breakpoint" where
  "new_armed line condition hit_target message =
     \<lparr>ab_line = line, ab_condition = condition, ab_hit_target = hit_target,
      ab_log_message = message, ab_hits = 0\<rparr>"

definition insert_armed ::
  "string \<Rightarrow> 'e armed_breakpoint \<Rightarrow> 'e armed_breakpoints \<Rightarrow> 'e armed_breakpoints" where
  "insert_armed file bp armed =
     (let bps = (case armed file of None \<Rightarrow> [] | Some l \<Rightarrow> l)
      in armed(file \<mapsto> (if bp \<in> set bps then bps else bps @ [bp])))"

fun render_part :: "('e, 'v, 'x) marrow \<Rightarrow> ('e, 'v, 'x, 's) frame \<Rightarrow> 'e log_part \<Rightarrow> string" where
  "render_part M f (Literal t) = t"
| "render_part M f (Expression e) =
     (case frame_evaluate f e of
        Inr v \<Rightarrow> value_preview M v
      | Inl err \<Rightarrow> ''<'' @ err_code err @ '': '' @ err_message err @ ''>'')"

definition render_message ::
  "('e, 'v, 'x) marrow \<Rightarrow> ('e, 'v, 'x, 's) frame \<Rightarrow> 'e log_message \<Rightarrow> string" where
  "render_message M f parts = concat (map (render_part M f) parts)"

definition condition_holds ::
  "('e, 'v, 'x) marrow \<Rightarrow> ('e, 'v, 'x, 's) frame \<Rightarrow> 'e armed_breakpoint \<Rightarrow> bool" where
  "condition_holds M f bp \<longleftrightarrow>
     (case ab_condition bp of None \<Rightarrow> True | Some e \<Rightarrow> frame_evaluate f e = Inr (value_true M))"

definition evaluate_armed ::
  "('e, 'v, 'x) marrow \<Rightarrow> ('e, 'v, 'x, 's) frame \<Rightarrow> nat \<Rightarrow> 'e armed_breakpoint
   \<Rightarrow> 'e armed_breakpoint \<times> breakpoint_action option" where
  "evaluate_armed M f line bp =
     (if ab_line bp \<noteq> line then (bp, None)
      else if \<not> condition_holds M f bp then (bp, None)
      else let hits = sat_add (ab_hits bp) 1; bp' = bp\<lparr>ab_hits := hits\<rparr> in
        if (case ab_hit_target bp of None \<Rightarrow> False | Some t \<Rightarrow> hits \<noteq> t) then (bp', None)
        else (bp', Some (case ab_log_message bp of
            Some m \<Rightarrow> \<lparr>act_outputs = [render_message M f m], act_stop = False\<rparr>
          | None \<Rightarrow> \<lparr>act_outputs = [], act_stop = True\<rparr>)))"

definition evaluate_breakpoints ::
  "('e, 'v, 'x) marrow \<Rightarrow> ('e, 'v, 'x, 's) frame \<Rightarrow> nat \<Rightarrow> 'e armed_breakpoints
   \<Rightarrow> 'e armed_breakpoints \<times> breakpoint_action" where
  "evaluate_breakpoints M f line armed =
     (case frame_file f of
        None \<Rightarrow> (armed, no_action)
      | Some file \<Rightarrow> (case armed file of
          None \<Rightarrow> (armed, no_action)
        | Some bps \<Rightarrow>
            let results = map (evaluate_armed M f line) bps
            in (armed(file \<mapsto> map fst results),
                foldl merge_action no_action (List.map_filter snd results))))"

section \<open>Queries and answers\<close>

record 'v local_var =
  local_name :: string
  local_value :: string
  local_truncated :: "bool option"
  local_expand :: "'v option"

record 'v locals_snapshot =
  visible_local_count :: nat
  locals_truncated :: bool
  local_entries :: "'v local_var list"

record 'x data_var =
  data_name :: string
  data_value :: string
  data_truncated :: "bool option"
  data_path :: "'x path_segment list"
  data_expandable :: bool

record ('x, 's) data_snapshot =
  data_entries :: "'x data_var list"
  data_children_truncated :: bool
  data_stamp :: 's

record ('v, 's) evaluation =
  eval_value :: 'v
  eval_stamp :: "'s option"

record stop_info =
  stop_reason :: stop_reason
  stop_span :: span
  stop_file :: "string option"
  stop_line :: nat
  stop_column :: nat
  stop_depth :: nat

datatype ('e, 'x) query =
    LocalsQuery child_page variables_filter
  | EvaluateQuery 'e
  | DataChildrenQuery "'x path_segment list" child_page

datatype ('v, 'x, 's) query_result =
    LocalsAnswer "'v locals_snapshot"
  | EvaluateAnswer "rt_error + ('v, 's) evaluation"
  | DataChildrenAnswer "rt_error + ('x, 's) data_snapshot"

datatype ('e, 'x) control = Query "('e, 'x) query" | Resume resume | Terminate

datatype ('v, 'x, 's) run_event =
    Stopped stop_info
  | Output string
  | Answer "('v, 'x, 's) query_result"

section \<open>Paging through saved data\<close>

definition data_page_bounds :: "('e, 'v, 'x) marrow \<Rightarrow> child_page \<Rightarrow> nat \<times> nat" where
  "data_page_bounds M page =
     (case page of
        AllFrom start \<Rightarrow> (start, max_preview_items M)
      | PageRange start count \<Rightarrow> (start, min (max_preview_items M) (max 1 count)))"

fun data_child_segment :: "'x data_child \<Rightarrow> 'x path_segment" where
  "data_child_segment (RootChild r) = RootSegment r"
| "data_child_segment (KeyChild k) = KeySegment k"
| "data_child_segment (FieldChild n) = FieldSegment n"
| "data_child_segment (LayerChild l) = LayerSegment l"

definition data_children_page :: "'s \<Rightarrow> 'x data_child list \<Rightarrow> bool \<Rightarrow> 'x data_page \<times> 's" where
  "data_children_page stamp children truncated =
     (\<lparr>page_children = children, page_truncated = truncated, page_cursor = None\<rparr>, stamp)"

text \<open>
  The inner loop over one page: children before \<open>start\<close> are skipped, and the loop breaks
  at the first child past a full result.
\<close>

fun take_page ::
  "nat \<Rightarrow> nat \<Rightarrow> nat \<Rightarrow> nat \<Rightarrow> 'a list \<Rightarrow> 'a list \<Rightarrow> 'a list \<times> bool" where
  "take_page start limit skipped index [] acc = (acc, False)"
| "take_page start limit skipped index (c # cs) acc =
     (if sat_add skipped index < start then take_page start limit skipped (Suc index) cs acc
      else if length acc = limit then (acc, True)
      else take_page start limit skipped (Suc index) cs (acc @ [c]))"

lemma take_page_grows:
  "length acc \<le> length (fst (take_page start limit skipped i cs acc))"
  by (induction start limit skipped i cs acc rule: take_page.induct) auto

lemma take_page_le:
  "length acc \<le> limit \<Longrightarrow> length (fst (take_page start limit skipped i cs acc)) \<le> limit"
  by (induction start limit skipped i cs acc rule: take_page.induct) auto

lemma take_page_progress:
  assumes "cs \<noteq> []" "start \<le> skipped" "skipped \<le> u64_max" "length acc < limit"
  shows "length acc < length (fst (take_page start limit skipped i cs acc))"
proof (cases cs)
  case (Cons c cs')
  have "\<not> sat_add skipped i < start" using assms by (auto simp: sat_add_def)
  with assms show ?thesis
    using take_page_grows [of "acc @ [c]" start limit skipped "Suc i" cs'] by (simp add: Cons)
qed (use assms in simp)

text \<open>
  One turn of the loop: an answer, or the state of the next turn. The loop itself has no
  evident reason to end, because \<open>fetch\<close> chooses the pages; not returning is \<open>None\<close>.
\<close>

datatype ('x, 's) page_turn =
    PageDone "rt_error + ('x data_page \<times> 's)"
  | PageMore nat "'x option" "'x data_child list"

definition page_turn ::
  "('x option \<Rightarrow> nat \<Rightarrow> rt_error + ('x data_page \<times> 's)) \<Rightarrow> nat \<Rightarrow> nat \<Rightarrow> nat \<Rightarrow> nat
   \<Rightarrow> 'x option \<Rightarrow> 'x data_child list \<Rightarrow> ('x, 's) page_turn" where
  "page_turn fetch start limit page_limit skipped cursor children =
     (case fetch cursor page_limit of
        Inl e \<Rightarrow> PageDone (Inl e)
      | Inr (data, stamp) \<Rightarrow>
          let page_len = length (page_children data);
              (children', more_in_page) =
                take_page start limit skipped 0 (page_children data) children;
              skipped' = sat_add skipped page_len
          in if length children' = limit
             then PageDone (Inr (data_children_page stamp children'
                    (more_in_page \<or> page_truncated data)))
             else if \<not> page_truncated data \<or> page_len = 0
             then PageDone (Inr (data_children_page stamp children' False))
             else (case page_cursor data of
                 None \<Rightarrow> PageDone (Inr (data_children_page stamp children' False))
               | Some next_cursor \<Rightarrow> PageMore skipped' (Some next_cursor) children'))"

partial_function (option) page_loop ::
  "('x option \<Rightarrow> nat \<Rightarrow> rt_error + ('x data_page \<times> 's)) \<Rightarrow> nat \<Rightarrow> nat \<Rightarrow> nat \<Rightarrow> nat
   \<Rightarrow> 'x option \<Rightarrow> 'x data_child list \<Rightarrow> (rt_error + ('x data_page \<times> 's)) option" where
  "page_loop fetch start limit page_limit skipped cursor children =
     (case page_turn fetch start limit page_limit skipped cursor children of
        PageDone r \<Rightarrow> Some r
      | PageMore skipped' cursor' children' \<Rightarrow>
          page_loop fetch start limit page_limit skipped' cursor' children')"

definition data_children_at_offset_with_limit ::
  "nat \<Rightarrow> nat \<Rightarrow> nat \<Rightarrow> ('x option \<Rightarrow> nat \<Rightarrow> rt_error + ('x data_page \<times> 's))
   \<Rightarrow> (rt_error + ('x data_page \<times> 's)) option" where
  "data_children_at_offset_with_limit start limit page_limit fetch =
     page_loop fetch start limit (max 1 page_limit) 0 None []"

definition data_children_at_offset ::
  "('e, 'v, 'x) marrow \<Rightarrow> ('e, 'v, 'x, 's) frame \<Rightarrow> 'x path_segment list \<Rightarrow> nat \<Rightarrow> nat
   \<Rightarrow> (rt_error + ('x data_page \<times> 's)) option" where
  "data_children_at_offset M f segments start limit =
     data_children_at_offset_with_limit start limit (max_preview_items M)
       (\<lambda>cursor page_limit. frame_data_children f segments page_limit cursor)"

text \<open>
  Every turn that goes on has read a child, so it moves \<open>skipped\<close> towards the largest
  \<open>usize\<close> or, once \<open>start\<close> children are behind it, adds to the result: the loop
  returns whatever pages \<open>fetch\<close> answers.
\<close>

lemma page_turn_more:
  assumes turn: "page_turn fetch start limit pl skipped cursor children = PageMore sk' cur' ch'"
    and b: "start \<le> u64_max" "skipped \<le> u64_max" "length children \<le> limit"
  shows "sk' \<le> u64_max" "length ch' < limit"
    and "(u64_max - sk') + (limit - length ch') < (u64_max - skipped) + (limit - length children)"
proof -
  from turn obtain data :: "'a data_page" and more where
    tp: "take_page start limit skipped 0 (page_children data) children = (ch', more)"
    and sk: "sk' = sat_add skipped (length (page_children data))"
    and ne: "length ch' \<noteq> limit" "page_children data \<noteq> []"
    by (auto simp: page_turn_def Let_def
        split: sum.splits prod.splits if_splits option.splits)
  show "sk' \<le> u64_max" using sk by simp
  have grow: "length children \<le> length ch'"
    using take_page_grows [of children start limit skipped 0 "page_children data"] tp by simp
  show lt: "length ch' < limit"
    using take_page_le [OF b(3), of start skipped 0 "page_children data"] tp ne(1) by simp
  show "(u64_max - sk') + (limit - length ch') < (u64_max - skipped) + (limit - length children)"
  proof (cases "skipped = u64_max")
    case True
    then have "length children < length ch'"
      using take_page_progress [OF ne(2), of start skipped children limit 0] tp b grow lt by simp
    moreover have "sk' = u64_max" using True sk by (simp add: sat_add_def)
    ultimately show ?thesis using True lt by simp
  next
    case False
    then have "skipped < sk'" using sk b ne(2) by (cases "page_children data") (auto simp: sat_add_def)
    with \<open>sk' \<le> u64_max\<close> grow lt show ?thesis by simp
  qed
qed

lemma page_loop_returns:
  assumes "start \<le> u64_max" "skipped \<le> u64_max" "length children \<le> limit"
  shows "\<exists>r. page_loop fetch start limit pl skipped cursor children = Some r"
  using assms(2,3)
proof (induction "(u64_max - skipped) + (limit - length children)"
    arbitrary: skipped cursor children rule: less_induct)
  case less
  show ?case
  proof (cases "page_turn fetch start limit pl skipped cursor children")
    case (PageDone r)
    then show ?thesis by (simp add: page_loop.simps)
  next
    case (PageMore sk' cur' ch')
    note step = page_turn_more [OF PageMore assms(1) less.prems]
    have "\<exists>r. page_loop fetch start limit pl sk' cur' ch' = Some r"
      using less.hyps [OF step(3) step(1)] step(2) by simp
    with PageMore show ?thesis by (simp add: page_loop.simps [of _ _ _ _ skipped])
  qed
qed

text \<open>
  What the loop is for. A \<open>fetch\<close> pages faithfully through a list when a cursor stands
  for a position in it and a page holds the next children, says whether any are left, and
  then names the position after it.
\<close>

definition pages_through ::
  "'x data_child list \<Rightarrow> ('x option \<Rightarrow> nat)
   \<Rightarrow> ('x option \<Rightarrow> nat \<Rightarrow> rt_error + ('x data_page \<times> 's)) \<Rightarrow> bool" where
  "pages_through L pos fetch \<longleftrightarrow>
     pos None = 0 \<and>
     (\<forall>c n. 0 < n \<longrightarrow> (\<exists>stamp k.
        fetch c n = Inr (\<lparr>page_children = take n (drop (pos c) L),
                          page_truncated = (pos c + n < length L), page_cursor = k\<rparr>, stamp)
        \<and> (pos c + n < length L \<longrightarrow> k \<noteq> None \<and> pos k = pos c + n)))"

lemma take_page_spec:
  assumes "skipped + i + length cs \<le> u64_max" "length acc \<le> limit"
  shows "take_page start limit skipped i cs acc =
    (acc @ take (limit - length acc) (drop (start - (skipped + i)) cs),
     limit - length acc < length (drop (start - (skipped + i)) cs))"
  using assms
proof (induction cs arbitrary: i acc)
  case (Cons c cs)
  have sat: "sat_add skipped i = skipped + i"
    using Cons.prems by (intro sat_add_exact) simp
  consider (skip) "skipped + i < start" | (full) "start \<le> skipped + i" "length acc = limit"
    | (push) "start \<le> skipped + i" "length acc < limit"
    using Cons.prems by linarith
  then show ?case
  proof cases
    case skip
    then have "start - (skipped + i) = Suc (start - (skipped + Suc i))" by simp
    with skip sat Cons show ?thesis by simp
  next
    case full
    with sat show ?thesis by simp
  next
    case push
    then have "limit - length acc = Suc (limit - Suc (length acc))" by simp
    with push sat Cons show ?thesis by simp
  qed
qed simp

lemma page_turn_faithful:
  assumes pages: "pages_through L pos fetch" and n: "0 < pl"
    and b: "length L \<le> u64_max" "pos cursor \<le> length L"
    and acc: "children = take limit (drop start (take (pos cursor) L))" "length children < limit"
  defines "p \<equiv> pos cursor" and "res \<equiv> take limit (drop start (take (pos cursor + pl) L))"
  shows "(\<exists>stamp. page_turn fetch start limit pl p cursor children =
            PageDone (Inr (data_children_page stamp (take limit (drop start L))
              (start + limit < length L))))
       \<or> (\<exists>k. p + pl < length L \<and> pos k = p + pl \<and> length res < limit
            \<and> page_turn fetch start limit pl p cursor children = PageMore (p + pl) k res)"
proof -
  obtain stamp k where fetch: "fetch cursor pl = Inr (\<lparr>page_children = take pl (drop p L),
      page_truncated = (p + pl < length L), page_cursor = k\<rparr>, stamp)"
    and k: "p + pl < length L \<Longrightarrow> k \<noteq> None \<and> pos k = p + pl"
    using pages n unfolding pages_through_def p_def by blast
  let ?page = "take pl (drop p L)" and ?head = "drop start (take p L)"
  have split: "drop start (take (p + pl) L) = ?head @ drop (start - p) ?page"
    using b by (simp add: take_add p_def)
  have short: "length ?head < limit" and ch: "children = ?head"
    using acc by (auto simp: p_def)
  have fits: "p + 0 + length ?page \<le> u64_max" using b by (simp add: p_def)
  have fill: "\<And>H T :: 'a data_child list. length H < limit \<Longrightarrow>
      (H @ take (limit - length H) T, limit - length H < length T)
      = (take limit (H @ T), limit < length (H @ T))"
    by auto
  have "take_page start limit p 0 ?page children
      = (take limit (?head @ drop (start - p) ?page), limit < length (?head @ drop (start - p) ?page))"
    using take_page_spec [OF fits less_imp_le [OF short], of start]
      fill [OF short, of "drop (start - p) ?page"]
    unfolding ch by (simp only: add_0_right)
  then have turn: "take_page start limit p 0 ?page children
      = (res, limit < length (drop start (take (p + pl) L)))"
    unfolding split [symmetric] by (simp add: res_def p_def)
  have skip: "p + pl < length L \<Longrightarrow> sat_add p (length ?page) = p + pl"
    using b by (simp add: sat_add_exact)
  show ?thesis
  proof (cases "length res = limit")
    case True
    then have "res = take limit (drop start L)" and
      "(limit < length (drop start (take (p + pl) L)) \<or> p + pl < length L)
         = (start + limit < length L)"
      using acc(2) by (auto simp: res_def p_def take_drop min_def split: if_splits)
    with True fetch turn show ?thesis by (auto simp: page_turn_def)
  next
    case False
    then have lt: "length res < limit" by (simp add: res_def)
    show ?thesis
    proof (cases "p + pl < length L")
      case True
      with n have ne: "length ?page \<noteq> 0" by simp
      from k [OF True] obtain kk where "k = Some kk" by auto
      with True False fetch turn skip [OF True] ne k lt show ?thesis
        by (auto simp: page_turn_def)
    next
      case stop: False
      then have "res = take limit (drop start L)" by (simp add: res_def p_def)
      moreover from this lt have "\<not> start + limit < length L" by auto
      ultimately show ?thesis using False stop fetch turn by (auto simp: page_turn_def)
    qed
  qed
qed

lemma page_loop_faithful:
  assumes pages: "pages_through L pos fetch" and n: "0 < pl" and b: "length L \<le> u64_max"
    and "pos cursor \<le> length L" "length (take limit (drop start (take (pos cursor) L))) < limit"
  shows "\<exists>stamp. page_loop fetch start limit pl (pos cursor) cursor
      (take limit (drop start (take (pos cursor) L)))
    = Some (Inr (data_children_page stamp (take limit (drop start L)) (start + limit < length L)))"
  using assms(4,5)
proof (induction "length L - pos cursor" arbitrary: cursor rule: less_induct)
  case less
  from page_turn_faithful [OF pages n b less.prems(1) refl less.prems(2)]
  show ?case
  proof (elim disjE exE conjE)
    fix stamp
    assume "page_turn fetch start limit pl (pos cursor) cursor
        (take limit (drop start (take (pos cursor) L))) =
      PageDone (Inr (data_children_page stamp (take limit (drop start L)) (start + limit < length L)))"
    then show ?thesis by (subst page_loop.simps) auto
  next
    fix k
    assume k: "pos cursor + pl < length L" "pos k = pos cursor + pl"
      "length (take limit (drop start (take (pos cursor + pl) L))) < limit"
      and turn: "page_turn fetch start limit pl (pos cursor) cursor
        (take limit (drop start (take (pos cursor) L))) =
      PageMore (pos cursor + pl) k (take limit (drop start (take (pos cursor + pl) L)))"
    have "page_loop fetch start limit pl (pos cursor) cursor
        (take limit (drop start (take (pos cursor) L)))
      = page_loop fetch start limit pl (pos k) k (take limit (drop start (take (pos k) L)))"
      by (subst page_loop.simps) (simp only: turn page_turn.case k(2))
    moreover have "length L - pos k < length L - pos cursor" using k n by simp
    moreover have "pos k \<le> length L" using k by simp
    ultimately show ?thesis using less.hyps [of k] k(3) unfolding k(2) by metis
  qed
qed

text \<open>
  C28. The children window: for a faithful pager the loop returns, and what it returns is
  exactly the requested window of the whole child list, with the truncation flag set when
  children are left after it.
\<close>

theorem data_children_window:
  assumes "pages_through L pos fetch" "length L \<le> u64_max" "0 < limit"
  shows "\<exists>stamp. data_children_at_offset_with_limit start limit page_limit fetch =
    Some (Inr (data_children_page stamp (take limit (drop start L)) (start + limit < length L)))"
  using page_loop_faithful [OF assms(1) _ assms(2), of "max 1 page_limit" None limit start] assms
  by (simp add: data_children_at_offset_with_limit_def pages_through_def)

definition pager :: "nat data_child list \<Rightarrow> nat option \<Rightarrow> nat \<Rightarrow> rt_error + (nat data_page \<times> unit)" where
  "pager L c n = (let p = (case c of None \<Rightarrow> 0 | Some k \<Rightarrow> k) in
     Inr (\<lparr>page_children = take n (drop p L), page_truncated = (p + n < length L),
           page_cursor = Some (p + n)\<rparr>, ()))"

theorem data_children_window_witness:
  "\<exists>stamp. data_children_at_offset_with_limit 1 2 2 (pager (map KeyChild [0..<5])) =
    Some (Inr (data_children_page stamp [KeyChild 1, KeyChild 2] True))"
proof -
  have "pages_through (map KeyChild [0..<5]) (\<lambda>c. case c of None \<Rightarrow> 0 | Some k \<Rightarrow> k)
      (pager (map KeyChild [0..<5]))"
    by (simp add: pages_through_def pager_def Let_def)
  moreover have "take 2 (drop 1 (map KeyChild [0..<5])) = [KeyChild 1, KeyChild (2 :: nat)]"
    by code_simp
  ultimately show ?thesis
    using data_children_window [of "map KeyChild [0..<5]" _ "pager (map KeyChild [0..<5])" 2 1 2]
    by (auto simp: u64_max_def)
qed

text \<open>
  The paging loop returns on every input: whatever pages Marrow answers, even pages
  that repeat or cursors that go nowhere, the request ends with a page or with Marrow's error.
\<close>

theorem data_children_returns:
  assumes "start \<le> u64_max"
  shows "\<exists>r. data_children_at_offset M f segments start limit = Some r"
  using page_loop_returns [OF assms, of 0 "[]" limit]
  by (simp add: data_children_at_offset_def data_children_at_offset_with_limit_def)

theorem data_children_returns_witness:
  "\<exists>r. data_children_at_offset (undefined :: (unit, unit, unit) marrow)
     (undefined :: (unit, unit, unit, unit) frame) [] 3 1 = Some r"
  by (rule data_children_returns) (simp add: u64_max_def)

end
