(* ===== verification/Dap_Hook.thy ===== *)
theory Dap_Hook
  imports Dap_Debugger
begin

text \<open>
  The hook of \<open>crates/marrow-dap/src/debugger.rs\<close>: the answers computed from a live
  frame, the park loop, and \<open>before_statement\<close>, over the channels of \<open>link\<close>.
\<close>

section \<open>Answers from the live frame\<close>

definition snapshot_locals ::
  "('e, 'v, 'x) marrow \<Rightarrow> ('e, 'v, 'x, 's) frame \<Rightarrow> child_page \<Rightarrow> variables_filter
   \<Rightarrow> 'v locals_snapshot" where
  "snapshot_locals M f page filt =
     (case frame_snapshot f (to_debug_value_page M page) (to_debug_value_filter filt) of
        (count, truncated, locals) \<Rightarrow>
          \<lparr>visible_local_count = count, locals_truncated = truncated,
           local_entries = map (\<lambda>c. \<lparr>local_name = child_name c, local_value = child_value c,
             local_truncated = child_truncated c, local_expand = child_expand c\<rparr>)
             (local_children M locals)\<rparr>)"

definition data_entry ::
  "('e, 'v, 'x) marrow \<Rightarrow> ('e, 'v, 'x, 's) frame \<Rightarrow> 'x path_segment list \<Rightarrow> 'x data_child
   \<Rightarrow> rt_error + 'x data_var" where
  "data_entry M f segments child =
     (let path = segments @ [data_child_segment child] in
      case frame_data_preview f path (default_value_preview_limit M) of
        Inl e \<Rightarrow> Inl e
      | Inr preview \<Rightarrow>
          let children_only = (case preview of None \<Rightarrow> False | Some (c, t) \<Rightarrow> c);
              text = (case preview of Some (c, Some t) \<Rightarrow> t | _ \<Rightarrow> [])
          in Inr \<lparr>data_name = render_path M path, data_value = text, data_truncated = None,
                  data_path = path, data_expandable = children_only\<rparr>)"

definition snapshot_data_children ::
  "('e, 'v, 'x) marrow \<Rightarrow> ('e, 'v, 'x, 's) frame \<Rightarrow> 'x path_segment list \<Rightarrow> child_page
   \<Rightarrow> (rt_error + ('x, 's) data_snapshot) option" where
  "snapshot_data_children M f segments page =
     (case data_page_bounds M page of (start, limit) \<Rightarrow>
        map_option (\<lambda>r. case r of
            Inl e \<Rightarrow> Inl e
          | Inr (data, stamp) \<Rightarrow>
              (case map_result (data_entry M f segments) (page_children data) of
                 Inl e \<Rightarrow> Inl e
               | Inr entries \<Rightarrow> Inr \<lparr>data_entries = entries,
                   data_children_truncated = page_truncated data, data_stamp = stamp\<rparr>))
          (data_children_at_offset M f segments start limit))"

definition evaluate_expression ::
  "('e, 'v, 'x) marrow \<Rightarrow> ('e, 'v, 'x, 's) frame \<Rightarrow> 'e \<Rightarrow> rt_error + ('v, 's) evaluation" where
  "evaluate_expression M f e =
     (case frame_evaluate f e of
        Inl err \<Rightarrow> Inl err
      | Inr v \<Rightarrow>
          if requires_durable_data M e
          then (case frame_data_snapshot f of
                  Inl err \<Rightarrow> Inl err
                | Inr stamp \<Rightarrow> Inr \<lparr>eval_value = v, eval_stamp = Some stamp\<rparr>)
          else Inr \<lparr>eval_value = v, eval_stamp = None\<rparr>)"

fun answer ::
  "('e, 'v, 'x) marrow \<Rightarrow> ('e, 'v, 'x, 's) frame \<Rightarrow> ('e, 'x) query
   \<Rightarrow> ('v, 'x, 's) query_result option" where
  "answer M f (LocalsQuery page filt) = Some (LocalsAnswer (snapshot_locals M f page filt))"
| "answer M f (EvaluateQuery e) = Some (EvaluateAnswer (evaluate_expression M f e))"
| "answer M f (DataChildrenQuery segments page) =
     map_option DataChildrenAnswer (snapshot_data_children M f segments page)"

section \<open>The channels\<close>

record ('e, 'v, 'x, 's) link =
  link_control :: "('e, 'x) control list"
  link_control_open :: bool
  link_events :: "('v, 'x, 's) run_event list"
  link_events_open :: bool
  link_swaps :: "'e armed_breakpoints list"
  link_terminate :: bool
  link_pause :: bool

definition send_event ::
  "('v, 'x, 's) run_event \<Rightarrow> ('e, 'v, 'x, 's) link \<Rightarrow> ('e, 'v, 'x, 's) link option" where
  "send_event ev l =
     (if link_events_open l then Some (l\<lparr>link_events := link_events l @ [ev]\<rparr>) else None)"

fun send_events ::
  "('v, 'x, 's) run_event list \<Rightarrow> ('e, 'v, 'x, 's) link \<Rightarrow> ('e, 'v, 'x, 's) link option" where
  "send_events [] l = Some l"
| "send_events (ev # evs) l =
     (case send_event ev l of None \<Rightarrow> None | Some l' \<Rightarrow> send_events evs l')"

lemma send_event_Some [simp]:
  "send_event ev l = Some l' \<longleftrightarrow>
     link_events_open l \<and> l' = l\<lparr>link_events := link_events l @ [ev]\<rparr>"
  by (auto simp: send_event_def)

lemma send_event_None [simp]: "send_event ev l = None \<longleftrightarrow> \<not> link_events_open l"
  by (simp add: send_event_def)

lemma send_events_eq:
  "send_events evs l =
     (if evs = [] \<or> link_events_open l then Some (l\<lparr>link_events := link_events l @ evs\<rparr>) else None)"
  by (induction evs arbitrary: l) (auto simp: send_event_def)

section \<open>The hook\<close>

record 'e debugger =
  dbg_mode :: resume
  dbg_stop_on_entry :: bool
  dbg_breakpoints :: "'e armed_breakpoints"
  dbg_entered :: bool

definition new_debugger :: "bool \<Rightarrow> 'e armed_breakpoints \<Rightarrow> 'e debugger" where
  "new_debugger stop_on_entry breakpoints =
     \<lparr>dbg_mode = Continue, dbg_stop_on_entry = stop_on_entry, dbg_breakpoints = breakpoints,
      dbg_entered = False\<rparr>"

text \<open>\<open>drain_breakpoint_swaps\<close>: every pushed set is received in turn, so the last one stays.\<close>

definition drain_breakpoint_swaps ::
  "'e debugger \<Rightarrow> ('e, 'v, 'x, 's) link \<Rightarrow> 'e debugger \<times> ('e, 'v, 'x, 's) link" where
  "drain_breakpoint_swaps d l =
     (foldl (\<lambda>d b. d\<lparr>dbg_breakpoints := b\<rparr>) d (link_swaps l), l\<lparr>link_swaps := []\<rparr>)"

definition is_entry_stop :: "'e debugger \<Rightarrow> bool \<times> 'e debugger" where
  "is_entry_stop d =
     (if dbg_stop_on_entry d \<and> \<not> dbg_entered d then (True, d\<lparr>dbg_entered := True\<rparr>)
      else (False, d))"

text \<open>How the hook leaves the run, or that it is parked and waits for a control message.\<close>

datatype hook_result = Proceed | Unwind rt_error | Parked stop_info | Stuck

text \<open>
  The serve loop of \<open>park\<close> over the control messages sent so far: an empty queue leaves the
  thread parked, or unwinds it once the sender is gone.
\<close>

function park_loop ::
  "('e, 'v, 'x) marrow \<Rightarrow> ('e, 'v, 'x, 's) frame \<Rightarrow> stop_info \<Rightarrow> 'e debugger
   \<Rightarrow> ('e, 'v, 'x, 's) link \<Rightarrow> 'e debugger \<times> ('e, 'v, 'x, 's) link \<times> hook_result" where
  "park_loop M f info d l =
     (case link_control l of
        [] \<Rightarrow> (d, l, if link_control_open l then Parked info else Unwind terminated)
      | c # cs \<Rightarrow>
          let l' = l\<lparr>link_control := cs\<rparr> in
          (case c of
             Query q \<Rightarrow>
               (case answer M f q of
                  None \<Rightarrow> (d, l', Stuck)
                | Some a \<Rightarrow>
                    if link_events_open l'
                    then park_loop M f info d (l'\<lparr>link_events := link_events l' @ [Answer a]\<rparr>)
                    else (d, l', Unwind terminated))
           | Resume m \<Rightarrow> (d\<lparr>dbg_mode := m\<rparr>, l', Proceed)
           | Terminate \<Rightarrow> (d, l', Unwind terminated)))"
  by pat_completeness auto
termination
  by (relation "measure (\<lambda>(M, f, info, d, l). length (link_control l))") auto

declare park_loop.simps [simp del]

text \<open>
  The part of \<open>before_statement\<close> before the park loop: the reason to stop here, with the
  pause flag it leaves.
\<close>

definition stop_reason_here ::
  "'e debugger \<Rightarrow> bool \<Rightarrow> nat \<Rightarrow> breakpoint_action \<Rightarrow> 'e debugger \<times> stop_reason option" where
  "stop_reason_here d pause depth action =
     (case is_entry_stop d of
        (True, d') \<Rightarrow> (d', Some EntryReason)
      | (False, d') \<Rightarrow> (d',
          if pause then Some PauseReason
          else case decide (dbg_mode d') depth of
              Some reason \<Rightarrow> Some reason
            | None \<Rightarrow> if act_stop action then Some BreakpointReason else None))"

definition stop_info_here :: "stop_reason \<Rightarrow> span \<Rightarrow> ('e, 'v, 'x, 's) frame \<Rightarrow> stop_info" where
  "stop_info_here reason sp f =
     \<lparr>stop_reason = reason, stop_span = sp, stop_file = frame_file f, stop_line = span_line sp,
      stop_column = span_column sp, stop_depth = frame_depth f\<rparr>"

definition on_statement ::
  "('e, 'v, 'x) marrow \<Rightarrow> span \<Rightarrow> ('e, 'v, 'x, 's) frame \<Rightarrow> 'e debugger
   \<Rightarrow> ('e, 'v, 'x, 's) link \<Rightarrow> 'e debugger \<times> ('e, 'v, 'x, 's) link \<times> hook_result" where
  "on_statement M sp f d l =
     (if link_terminate l then (d, l, Unwind terminated)
      else
        let (d1, l1) = drain_breakpoint_swaps d l;
            (bps, action) = evaluate_breakpoints M f (span_line sp) (dbg_breakpoints d1);
            d2 = d1\<lparr>dbg_breakpoints := bps\<rparr>
        in case send_events (map Output (act_outputs action)) l1 of
             None \<Rightarrow> (d2, l1, Unwind terminated)
           | Some l2 \<Rightarrow>
               let (d3, reason) = stop_reason_here d2 (link_pause l2) (frame_depth f) action;
                   l3 = l2\<lparr>link_pause := False\<rparr>
               in (case reason of
                     None \<Rightarrow> (d3, l3, Proceed)
                   | Some r \<Rightarrow>
                       let info = stop_info_here r sp f in
                       (case send_event (Stopped info) l3 of
                          None \<Rightarrow> (d3, l3, Unwind terminated)
                        | Some l4 \<Rightarrow> (d3, l4, Parked info))))"

definition before_statement ::
  "('e, 'v, 'x) marrow \<Rightarrow> span \<Rightarrow> ('e, 'v, 'x, 's) frame \<Rightarrow> 'e debugger
   \<Rightarrow> ('e, 'v, 'x, 's) link \<Rightarrow> 'e debugger \<times> ('e, 'v, 'x, 's) link \<times> hook_result" where
  "before_statement M sp f d l =
     (case on_statement M sp f d l of
        (d', l', Parked info) \<Rightarrow> park_loop M f info d' l'
      | r \<Rightarrow> r)"

end
