(* ===== verification/Dap_Hook_Laws.thy ===== *)
theory Dap_Hook_Laws
  imports Dap_Hook
begin

text \<open>
  What the debugger hook promises: which statement stops a run and for which reason, how
  breakpoints count their hits, what a pause, a terminate and a parked conversation do.
\<close>

section \<open>Breakpoints\<close>

definition hits_here ::
  "('e, 'v, 'x) marrow \<Rightarrow> 'e armed_breakpoint \<Rightarrow> nat \<times> ('e, 'v, 'x, 's) frame \<Rightarrow> bool" where
  "hits_here M bp x \<longleftrightarrow> ab_line bp = fst x \<and> condition_holds M (snd x) bp"

text \<open>One breakpoint evaluated at the statements of a run, one after the other.\<close>

fun breakpoint_run ::
  "('e, 'v, 'x) marrow \<Rightarrow> (nat \<times> ('e, 'v, 'x, 's) frame) list \<Rightarrow> 'e armed_breakpoint
   \<Rightarrow> breakpoint_action option list" where
  "breakpoint_run M [] bp = []"
| "breakpoint_run M ((line, f) # xs) bp =
     (case evaluate_armed M f line bp of (bp', action) \<Rightarrow> action # breakpoint_run M xs bp')"

lemma evaluate_armed_miss:
  "\<not> hits_here M bp (line, f) \<Longrightarrow> evaluate_armed M f line bp = (bp, None)"
  by (auto simp: evaluate_armed_def hits_here_def)

lemma evaluate_armed_hit:
  "hits_here M bp (line, f) \<Longrightarrow> ab_hits bp < u64_max
   \<Longrightarrow> fst (evaluate_armed M f line bp) = bp\<lparr>ab_hits := Suc (ab_hits bp)\<rparr>
     \<and> (snd (evaluate_armed M f line bp) \<noteq> None \<longleftrightarrow>
          (case ab_hit_target bp of None \<Rightarrow> True | Some t \<Rightarrow> Suc (ab_hits bp) = t))"
  by (auto simp: evaluate_armed_def hits_here_def sat_add_def Let_def split: option.splits)

lemma hits_here_count [simp]: "hits_here M (bp\<lparr>ab_hits := n\<rparr>) = hits_here M bp"
  by (rule ext) (simp add: hits_here_def condition_holds_def)

lemma breakpoint_run_length [simp]: "length (breakpoint_run M xs bp) = length xs"
  by (induction xs arbitrary: bp) (auto split: prod.splits)

text \<open>
  A breakpoint acts at a statement exactly when the statement is on its line, its
  condition evaluates to true there, and it has no hit target or this is the visit its hit
  target names, counting only visits where the line and the condition matched.
\<close>

theorem breakpoint_hit_counting:
  assumes "i < length xs" "ab_hits bp + length xs \<le> u64_max"
  shows "breakpoint_run M xs bp ! i \<noteq> None \<longleftrightarrow>
    hits_here M bp (xs ! i)
    \<and> (case ab_hit_target bp of None \<Rightarrow> True
       | Some t \<Rightarrow> ab_hits bp + length (filter (hits_here M bp) (take (Suc i) xs)) = t)"
  using assms
proof (induction xs arbitrary: bp i)
  case (Cons x xs)
  obtain line f where x: "x = (line, f)" by (cases x)
  show ?case
  proof (cases "hits_here M bp x")
    case True
    have room: "ab_hits bp < u64_max" using Cons.prems by simp
    obtain a where ev: "evaluate_armed M f line bp = (bp\<lparr>ab_hits := Suc (ab_hits bp)\<rparr>, a)"
      and a: "a \<noteq> None \<longleftrightarrow> (case ab_hit_target bp of None \<Rightarrow> True | Some t \<Rightarrow> Suc (ab_hits bp) = t)"
      using evaluate_armed_hit [of M bp line f] True room x
      by (cases "evaluate_armed M f line bp") auto
    show ?thesis
    proof (cases i)
      case 0
      with ev a x True show ?thesis by (auto split: option.splits)
    next
      case (Suc j)
      with Cons.IH [of j "bp\<lparr>ab_hits := Suc (ab_hits bp)\<rparr>"] Cons.prems ev x True
      show ?thesis by (simp split: option.splits)
    qed
  next
    case False
    with x have ev: "evaluate_armed M f line bp = (bp, None)" by (simp add: evaluate_armed_miss)
    show ?thesis
    proof (cases i)
      case 0
      with ev x False show ?thesis by simp
    next
      case (Suc j)
      with Cons.IH [of j bp] Cons.prems ev x False show ?thesis by (simp split: option.splits)
    qed
  qed
qed simp

definition plain_frame :: "nat \<Rightarrow> (unit, nat, unit, unit) frame" where
  "plain_frame depth =
     \<lparr>frame_file = Some ''a.mw'', frame_depth = depth, frame_evaluate = (\<lambda>e. Inr 1),
      frame_snapshot = (\<lambda>p filt. (0, False, [])), frame_data_children = (\<lambda>s n c. Inl terminated),
      frame_data_preview = (\<lambda>s n. Inr None), frame_data_snapshot = Inr ()\<rparr>"

definition plain_marrow :: "(unit, nat, unit) marrow" where
  "plain_marrow =
     \<lparr>debug_value_max_page_limit = 100, max_preview_items = 20, default_value_preview_limit = 80,
      value_true = 1, value_child_counts = (\<lambda>v. None), value_children_truncated = (\<lambda>v. False),
      value_children = (\<lambda>v p filt. []), value_preview = show_nat,
      requires_durable_data = (\<lambda>e. False), render_path = (\<lambda>p. ''path'')\<rparr>"

theorem breakpoint_hit_counting_witness:
  "breakpoint_run plain_marrow [(3, plain_frame 1), (4, plain_frame 1), (3, plain_frame 1)]
     (new_armed 3 (Some ()) (Some 2) None) ! 2 \<noteq> None"
  using breakpoint_hit_counting [of 2 "[(3, plain_frame 1), (4, plain_frame 1), (3, plain_frame 1)]"
      "new_armed 3 (Some ()) (Some 2) None" plain_marrow]
  by (simp add: new_armed_def u64_max_def hits_here_def condition_holds_def plain_frame_def
      plain_marrow_def)

section \<open>The stop decision\<close>

lemma drain_eq:
  "drain_breakpoint_swaps d l =
     ((if link_swaps l = [] then d else d\<lparr>dbg_breakpoints := last (link_swaps l)\<rparr>),
      l\<lparr>link_swaps := []\<rparr>)"
proof -
  have "foldl (\<lambda>d b. d\<lparr>dbg_breakpoints := b\<rparr>) d bs =
      (if bs = [] then d else d\<lparr>dbg_breakpoints := last bs\<rparr>)" for bs and d :: "'a debugger"
    by (induction bs arbitrary: d) auto
  then show ?thesis by (simp add: drain_breakpoint_swaps_def)
qed

definition newest_breakpoints :: "'e debugger \<Rightarrow> ('e, 'v, 'x, 's) link \<Rightarrow> 'e armed_breakpoints" where
  "newest_breakpoints d l =
     (if link_swaps l = [] then dbg_breakpoints d else last (link_swaps l))"

definition breakpoint_here ::
  "('e, 'v, 'x) marrow \<Rightarrow> span \<Rightarrow> ('e, 'v, 'x, 's) frame \<Rightarrow> 'e debugger \<Rightarrow> ('e, 'v, 'x, 's) link
   \<Rightarrow> breakpoint_action" where
  "breakpoint_here M sp f d l =
     snd (evaluate_breakpoints M f (span_line sp) (newest_breakpoints d l))"

text \<open>The reason to stop before a statement, in the order the hook asks.\<close>

definition reason_to_stop ::
  "('e, 'v, 'x) marrow \<Rightarrow> span \<Rightarrow> ('e, 'v, 'x, 's) frame \<Rightarrow> 'e debugger \<Rightarrow> ('e, 'v, 'x, 's) link
   \<Rightarrow> stop_reason option" where
  "reason_to_stop M sp f d l =
     (if dbg_stop_on_entry d \<and> \<not> dbg_entered d then Some EntryReason
      else if link_pause l then Some PauseReason
      else if decide (dbg_mode d) (frame_depth f) \<noteq> None then decide (dbg_mode d) (frame_depth f)
      else if act_stop (breakpoint_here M sp f d l) then Some BreakpointReason else None)"

lemma on_statement_eq:
  assumes "\<not> link_terminate l" "link_events_open l"
  shows "on_statement M sp f d l =
    (d\<lparr>dbg_breakpoints := fst (evaluate_breakpoints M f (span_line sp) (newest_breakpoints d l)),
       dbg_entered := dbg_entered d \<or> dbg_stop_on_entry d\<rparr>,
     l\<lparr>link_swaps := [], link_pause := False,
       link_events := link_events l @ map Output (act_outputs (breakpoint_here M sp f d l))
         @ (case reason_to_stop M sp f d l of None \<Rightarrow> []
            | Some r \<Rightarrow> [Stopped (stop_info_here r sp f)])\<rparr>,
     case reason_to_stop M sp f d l of None \<Rightarrow> Proceed
     | Some r \<Rightarrow> Parked (stop_info_here r sp f))"
  using assms
  by (cases "evaluate_breakpoints M f (span_line sp) (newest_breakpoints d l)")
    (auto simp: on_statement_def drain_eq newest_breakpoints_def breakpoint_here_def
      reason_to_stop_def stop_reason_here_def is_entry_stop_def send_events_eq send_event_def
      Let_def split: option.splits prod.splits)

text \<open>
  C27. Before every statement of a live run the hook stops for the first of these reasons
  that applies: the entry stop not yet taken, a requested pause, the step target of the last
  resume, a stopping breakpoint of the newest set. Logpoint output comes before the stop
  event, and the pause flag and the pushed breakpoint sets are used up either way.
\<close>

theorem statement_stop_decision:
  assumes "\<not> link_terminate l" "link_events_open l"
  shows "case on_statement M sp f d l of (d', l', result) \<Rightarrow>
    result = (case reason_to_stop M sp f d l of None \<Rightarrow> Proceed
              | Some r \<Rightarrow> Parked (stop_info_here r sp f))
    \<and> link_events l' = link_events l @ map Output (act_outputs (breakpoint_here M sp f d l))
       @ (case reason_to_stop M sp f d l of None \<Rightarrow> []
          | Some r \<Rightarrow> [Stopped (stop_info_here r sp f)])
    \<and> \<not> link_pause l' \<and> link_swaps l' = [] \<and> link_control l' = link_control l
    \<and> dbg_mode d' = dbg_mode d \<and> dbg_entered d' = (dbg_entered d \<or> dbg_stop_on_entry d)"
  by (simp add: on_statement_eq [OF assms])

definition open_link :: "('e, 'v, 'x, 's) link" where
  "open_link = \<lparr>link_control = [], link_control_open = True, link_events = [],
     link_events_open = True, link_swaps = [], link_terminate = False, link_pause = False\<rparr>"

definition span_at :: "nat \<Rightarrow> span" where
  "span_at line = \<lparr>span_start = 0, span_end = 1, span_line = line, span_column = 1\<rparr>"

theorem statement_stop_decision_witness:
  "\<not> link_terminate (open_link :: (unit, nat, unit, unit) link) \<and>
   (case on_statement plain_marrow (span_at 3) (plain_frame 1) (new_debugger True Map.empty)
      (open_link\<lparr>link_pause := True\<rparr>) of (d', l', result) \<Rightarrow>
    result = Parked (stop_info_here EntryReason (span_at 3) (plain_frame 1)) \<and> \<not> link_pause l')"
  using statement_stop_decision [where l = "open_link\<lparr>link_pause := True\<rparr>" and M = plain_marrow
      and sp = "span_at 3" and f = "plain_frame 1" and d = "new_debugger True Map.empty"]
  by (auto simp: open_link_def reason_to_stop_def new_debugger_def)

text \<open>
  A raised terminate flag unwinds the run before the next statement with the
  \<open>run.terminated\<close> fault and touches nothing else: no breakpoint counts a hit, no event is
  sent, no message or breakpoint set is consumed.
\<close>

theorem terminate_flag_unwinds:
  assumes "link_terminate l"
  shows "before_statement M sp f d l = (d, l, Unwind terminated)"
  using assms by (simp add: before_statement_def on_statement_def)

theorem terminate_flag_unwinds_witness:
  "before_statement plain_marrow (span_at 3) (plain_frame 1) (new_debugger True Map.empty)
     (open_link\<lparr>link_terminate := True\<rparr>)
   = (new_debugger True Map.empty, open_link\<lparr>link_terminate := True\<rparr>, Unwind terminated)"
  by (rule terminate_flag_unwinds) simp

section \<open>The parked conversation\<close>

text \<open>
  While parked, the thread answers queries in the order they were sent and then obeys the
  first other message. \<open>answers\<close> is \<open>None\<close> when some answer never comes.
\<close>

fun answers ::
  "('e, 'v, 'x) marrow \<Rightarrow> ('e, 'v, 'x, 's) frame \<Rightarrow> ('e, 'x) query list
   \<Rightarrow> ('v, 'x, 's) run_event list option" where
  "answers M f [] = Some []"
| "answers M f (q # qs) =
     (case answer M f q of None \<Rightarrow> None
      | Some a \<Rightarrow> map_option ((#) (Answer a)) (answers M f qs))"

lemma park_loop_queries:
  assumes "answers M f qs = Some as" "link_control l = map Query qs @ rest" "link_events_open l"
  shows "park_loop M f info d l =
    park_loop M f info d (l\<lparr>link_control := rest, link_events := link_events l @ as\<rparr>)"
  using assms
proof (induction qs arbitrary: l as)
  case (Cons q qs)
  then obtain a as' where a: "answer M f q = Some a" "answers M f qs = Some as'" "as = Answer a # as'"
    by (auto split: option.splits)
  let ?l = "l\<lparr>link_control := map Query qs @ rest, link_events := link_events l @ [Answer a]\<rparr>"
  have "park_loop M f info d l = park_loop M f info d ?l"
    using Cons.prems a by (subst park_loop.simps) simp
  also have "\<dots> = park_loop M f info d
      (?l\<lparr>link_control := rest, link_events := link_events ?l @ as'\<rparr>)"
    using Cons.IH [of as' ?l] Cons.prems a by simp
  finally show ?case using a by simp
next
  case Nil
  then have "l\<lparr>link_control := rest, link_events := link_events l @ as\<rparr> = l"
    by (cases l) auto
  then show ?case by simp
qed

text \<open>
  A parked run answers every query in order, one answer each, and leaves its debugger
  state alone until the resume, whose mode then governs the next stop; the statement goes on.
\<close>

theorem parked_queries_then_resume:
  assumes "answers M f qs = Some as" "link_control l = map Query qs @ Resume m # rest"
    "link_events_open l"
  shows "park_loop M f info d l =
    (d\<lparr>dbg_mode := m\<rparr>, l\<lparr>link_control := rest, link_events := link_events l @ as\<rparr>, Proceed)"
  using park_loop_queries [OF assms(1,2,3)] by (simp add: park_loop.simps)

theorem parked_queries_then_resume_witness:
  "\<exists>as. length as = 2 \<and>
     park_loop plain_marrow (plain_frame 1) (stop_info_here EntryReason (span_at 3) (plain_frame 1))
       (new_debugger False Map.empty)
       (open_link\<lparr>link_control := [Query (LocalsQuery default_page AllVariables),
          Query (EvaluateQuery ()), Resume Into]\<rparr>)
     = ((new_debugger False Map.empty)\<lparr>dbg_mode := Into\<rparr>, open_link\<lparr>link_events := as\<rparr>, Proceed)"
proof -
  let ?qs = "[LocalsQuery default_page AllVariables, EvaluateQuery ()]"
  obtain as where as: "answers plain_marrow (plain_frame 1) ?qs = Some as" by simp
  then have "length as = 2" by auto
  with parked_queries_then_resume [OF as, of
      "open_link\<lparr>link_control := map Query ?qs @ [Resume Into]\<rparr>" Into "[]"]
  show ?thesis by (auto simp: open_link_def)
qed

section \<open>Whole runs\<close>

text \<open>The statements of a run up to the first one the hook does not let pass.\<close>

fun run_statements ::
  "('e, 'v, 'x) marrow \<Rightarrow> (span \<times> ('e, 'v, 'x, 's) frame) list \<Rightarrow> 'e debugger
   \<Rightarrow> ('e, 'v, 'x, 's) link \<Rightarrow> hook_result" where
  "run_statements M [] d l = Proceed"
| "run_statements M ((sp, f) # rest) d l =
     (case before_statement M sp f d l of
        (d', l', Proceed) \<Rightarrow> run_statements M rest d' l'
      | (d', l', r) \<Rightarrow> r)"

definition quiet :: "'e debugger \<Rightarrow> ('e, 'v, 'x, 's) link \<Rightarrow> bool" where
  "quiet d l \<longleftrightarrow> \<not> link_terminate l \<and> link_events_open l \<and> link_swaps l = [] \<and> \<not> link_pause l
     \<and> link_control l = [] \<and> link_control_open l
     \<and> (dbg_stop_on_entry d \<longrightarrow> dbg_entered d) \<and> dbg_breakpoints d = Map.empty"

lemma quiet_statement:
  assumes "quiet d l"
  shows "before_statement M sp f d l =
    (case decide (dbg_mode d) (frame_depth f) of
       None \<Rightarrow> (d, l, Proceed)
     | Some r \<Rightarrow> (d, l\<lparr>link_events := link_events l @ [Stopped (stop_info_here r sp f)]\<rparr>,
                  Parked (stop_info_here r sp f)))"
proof -
  have none: "evaluate_breakpoints M f (span_line sp) Map.empty = (Map.empty, no_action)"
    by (simp add: evaluate_breakpoints_def split: option.splits)
  have d: "d\<lparr>dbg_breakpoints := Map.empty, dbg_entered := dbg_entered d \<or> dbg_stop_on_entry d\<rparr> = d"
    using assms by (cases d) (auto simp: quiet_def)
  have l: "l\<lparr>link_swaps := [], link_pause := False, link_events := link_events l\<rparr> = l"
    using assms by (cases l) (auto simp: quiet_def)
  have l': "l\<lparr>link_swaps := [], link_pause := False, link_events := es\<rparr> = l\<lparr>link_events := es\<rparr>" for es
    using assms by (cases l) (auto simp: quiet_def)
  have "on_statement M sp f d l =
    (case decide (dbg_mode d) (frame_depth f) of
       None \<Rightarrow> (d, l, Proceed)
     | Some r \<Rightarrow> (d, l\<lparr>link_events := link_events l @ [Stopped (stop_info_here r sp f)]\<rparr>,
                  Parked (stop_info_here r sp f)))"
    using assms none d l l'
    by (auto simp: on_statement_eq quiet_def newest_breakpoints_def breakpoint_here_def
        reason_to_stop_def no_action_def split: option.splits)
  with assms show ?thesis
    by (auto simp: before_statement_def park_loop.simps quiet_def split: option.splits)
qed

text \<open>
  Stepping: with no breakpoint, pause or terminate in the way, a run resumed with a step
  mode parks at the first statement, in run order, whose depth meets the mode's target (for
  step-over: the same or a shallower depth; step-out: strictly shallower; step-in: any), and
  a plain continue runs to the end.
\<close>

theorem step_stops_at_first_target:
  assumes "quiet d l"
  shows "run_statements M run d l =
    (case stop_index (dbg_mode d) (map (frame_depth \<circ> snd) run) of
       None \<Rightarrow> Proceed
     | Some i \<Rightarrow> Parked (stop_info_here
         (if dbg_mode d = Pause then PauseReason else StepReason) (fst (run ! i)) (snd (run ! i))))"
proof (induction run)
  case (Cons x run)
  obtain sp f where x: "x = (sp, f)" by (cases x)
  show ?case
  proof (cases "decide (dbg_mode d) (frame_depth f)")
    case None
    with Cons x quiet_statement [OF assms, of M sp f] show ?thesis
      by (auto split: option.splits)
  next
    case (Some r)
    with x quiet_statement [OF assms, of M sp f] decide_reason [OF Some] show ?thesis by simp
  qed
qed simp

theorem step_stops_at_first_target_witness:
  "run_statements plain_marrow
     [(span_at 3, plain_frame 3), (span_at 9, plain_frame 4), (span_at 5, plain_frame 2)]
     ((new_debugger False Map.empty)\<lparr>dbg_mode := Over 2\<rparr>) open_link
   = Parked (stop_info_here StepReason (span_at 5) (plain_frame 2))"
  using step_stops_at_first_target [of "(new_debugger False Map.empty)\<lparr>dbg_mode := Over 2\<rparr>"
      open_link plain_marrow
      "[(span_at 3, plain_frame 3), (span_at 9, plain_frame 4), (span_at 5, plain_frame 2)]"]
  by (simp add: quiet_def new_debugger_def open_link_def plain_frame_def)

lemma park_loop_entered:
  "dbg_entered (fst (park_loop M f info d l)) = dbg_entered d"
proof (induction M f info d l rule: park_loop.induct)
  case (1 M f info d l)
  show ?case
  proof (cases "link_control l")
    case Nil
    then show ?thesis by (simp add: park_loop.simps)
  next
    case (Cons c cs)
    with 1 show ?thesis
      by (subst park_loop.simps) (auto simp: Let_def split: control.splits option.splits)
  qed
qed

lemma on_statement_entered:
  "dbg_entered d \<Longrightarrow> dbg_entered (fst (on_statement M sp f d l))"
  by (auto simp: on_statement_def drain_eq stop_reason_here_def is_entry_stop_def Let_def
      split: prod.splits option.splits)

lemma before_statement_entered:
  assumes "dbg_entered d"
  shows "dbg_entered (fst (before_statement M sp f d l))"
  using on_statement_entered [OF assms, of M sp f l]
  by (auto simp: before_statement_def park_loop_entered split: prod.splits hook_result.splits)

definition entry_stop_at :: "hook_result \<Rightarrow> bool" where
  "entry_stop_at r \<longleftrightarrow> (\<exists>info. r = Parked info \<and> stop_reason info = EntryReason)"

text \<open>
  The stop decisions of a run whose channels change freely between statements: the state of
  the link at each statement is part of the input.
\<close>

fun run_decisions ::
  "('e, 'v, 'x) marrow \<Rightarrow> (span \<times> ('e, 'v, 'x, 's) frame \<times> ('e, 'v, 'x, 's) link) list
   \<Rightarrow> 'e debugger \<Rightarrow> hook_result list" where
  "run_decisions M [] d = []"
| "run_decisions M ((sp, f, l) # rest) d =
     snd (snd (on_statement M sp f d l)) # run_decisions M rest (fst (before_statement M sp f d l))"

lemma entry_needs_unentered:
  "entry_stop_at (snd (snd (on_statement M sp f d l))) \<Longrightarrow>
     \<not> dbg_entered d \<and> dbg_entered (fst (on_statement M sp f d l))"
proof -
  assume e: "entry_stop_at (snd (snd (on_statement M sp f d l)))"
  then have live: "\<not> link_terminate l" "link_events_open l"
    by (auto simp: on_statement_def entry_stop_at_def drain_eq send_events_eq Let_def
        split: prod.splits option.splits if_splits)
  have "reason_to_stop M sp f d l = Some EntryReason"
    using e by (auto simp: on_statement_eq [OF live] entry_stop_at_def stop_info_here_def
        split: option.splits)
  then have "dbg_stop_on_entry d \<and> \<not> dbg_entered d"
    using decide_reason [of "dbg_mode d" "frame_depth f" EntryReason]
    by (auto simp: reason_to_stop_def split: if_splits)
  then show ?thesis by (simp add: on_statement_eq [OF live])
qed

lemma no_entry_after: "dbg_entered d \<Longrightarrow> \<forall>r \<in> set (run_decisions M run d). \<not> entry_stop_at r"
proof (induction run arbitrary: d)
  case (Cons x run)
  obtain sp f l where x: "x = (sp, f, l)" by (cases x)
  have "\<not> entry_stop_at (snd (snd (on_statement M sp f d l)))"
    using entry_needs_unentered Cons.prems by blast
  moreover have "dbg_entered (fst (before_statement M sp f d l))"
    by (rule before_statement_entered [OF Cons.prems])
  ultimately show ?case using Cons.IH x by auto
qed simp

text \<open>
  The entry stop is taken at most once in a run, whatever the client does between
  statements: at most one statement of a run stops with the reason \<open>entry\<close>.
\<close>

theorem entry_stop_at_most_once:
  "length (filter entry_stop_at (run_decisions M run d)) \<le> 1"
proof (induction run arbitrary: d)
  case (Cons x run)
  obtain sp f l where x: "x = (sp, f, l)" by (cases x)
  show ?case
  proof (cases "entry_stop_at (snd (snd (on_statement M sp f d l)))")
    case True
    then have "dbg_entered (fst (on_statement M sp f d l))" using entry_needs_unentered by blast
    then have "dbg_entered (fst (before_statement M sp f d l))"
      by (auto simp: before_statement_def park_loop_entered split: prod.splits hook_result.splits)
    then have "filter entry_stop_at (run_decisions M run (fst (before_statement M sp f d l))) = []"
      using no_entry_after by (auto simp: filter_empty_conv)
    with True x show ?thesis by simp
  next
    case False
    with Cons x show ?thesis by simp
  qed
qed simp

end
