(* ===== verification/Dap_Project.thy ===== *)
theory Dap_Project
  imports Dap_Debugger
begin

text \<open>
  \<open>crates/marrow-dap/src/project.rs\<close>: loading a project for a debug launch, and the
  errors a launch can end in.

  Projects, sessions, analysis snapshots, entry identities and arguments belong to the Marrow
  crates: they are values of the type variable \<open>'m\<close>, and what Marrow and the file system
  answer about them is the record \<open>project_api\<close>, an argument of the definitions.
\<close>

section \<open>Errors\<close>

record report_line =
  report_is_error :: bool
  report_message :: string

datatype project_io_error =
    IoFailed (io_path: string) string
  | DataDirCreate string
  | ConfigMissing string
  | NotAProject string
  | IoConfig string
  | IoCatalog string
  | IoCheck "report_line list"
  | IoCheckLoad string string
  | IoStore string

text \<open>
  The variants of \<open>ProjectSessionError\<close> the launch distinguishes; those it only prints
  carry their message.
\<close>

datatype project_session_error =
    SessConfig string
  | SessCatalog string
  | SessCheck "report_line list"
  | SessNoEntry
  | SessIo string string bool  \<comment> \<open>path, error, whether its kind is \<open>InvalidData\<close>\<close>
  | SessCheckLoad string string
  | SessSchemaDrift string
  | SessDurableStoreRequired string
  | SessUnstampedStore string
  | SessStore string
  | SessOther string

datatype entry_descriptor_error = Ambiguous | Private | Missing

datatype launch_error =
    NoProject string
  | Config string
  | Session string
  | Entry string
  | EntryArgs string
  | EntryChanged
  | AnalysisChanged string
  | NoEntry
  | ReadAdmissionInvalid
  | CheckErrors "string list"

definition config_file :: string where
  "config_file = ''marrow.json''"

definition launch_error_text :: "launch_error \<Rightarrow> string" where
  "launch_error_text e = (case e of
     NoProject dir \<Rightarrow> ''no '' @ config_file @ '' found at '' @ dir
   | Config message \<Rightarrow> ''invalid '' @ config_file @ '': '' @ message
   | Session message \<Rightarrow> ''could not open the debug session: '' @ message
   | Entry message \<Rightarrow> ''invalid launch entry: '' @ message
   | EntryArgs message \<Rightarrow> ''invalid launch args: '' @ message
   | EntryChanged \<Rightarrow>
       ''launch target changed between launch and configurationDone; launch again''
   | AnalysisChanged message \<Rightarrow> message @ ''; launch again''
   | NoEntry \<Rightarrow> ''no entry to run: pass `entry` or configure `defaultEntry` in '' @ config_file
   | ReadAdmissionInvalid \<Rightarrow>
       ''DAP launch cannot admit the committed store for read-only debug; use Marrow's production data flow before launching''
   | CheckErrors errors \<Rightarrow> ''the project has errors: '' @ join_with ''; '' errors)"

fun launch_error_code :: "launch_error \<Rightarrow> string" where
  "launch_error_code (NoProject d) = ''dap.launchProject.invalid''"
| "launch_error_code (Config m) = ''dap.launchProject.invalid''"
| "launch_error_code (Session m) = ''dap.launchProject.invalid''"
| "launch_error_code (CheckErrors es) = ''dap.launchProject.invalid''"
| "launch_error_code (Entry m) = ''dap.launchEntry.invalid''"
| "launch_error_code NoEntry = ''dap.launchEntry.invalid''"
| "launch_error_code (EntryArgs m) = ''dap.launchArgs.invalid''"
| "launch_error_code EntryChanged = ''dap.launch.changed''"
| "launch_error_code (AnalysisChanged m) = ''dap.launchAnalysis.changed''"
| "launch_error_code ReadAdmissionInvalid = ''dap.launchReadAdmission.invalid''"

definition status_invalid_params :: string where
  "status_invalid_params = ''invalid-params''"

definition status_invalid_state :: string where
  "status_invalid_state = ''invalid-state''"

definition status_invalid_project :: string where
  "status_invalid_project = ''invalid-project''"

fun launch_error_status :: "launch_error \<Rightarrow> string" where
  "launch_error_status (Entry m) = status_invalid_params"
| "launch_error_status (EntryArgs m) = status_invalid_params"
| "launch_error_status EntryChanged = status_invalid_state"
| "launch_error_status (AnalysisChanged m) = status_invalid_state"
| "launch_error_status _ = status_invalid_project"

definition launch_error_blocked_on :: "launch_error \<Rightarrow> string option" where
  "launch_error_blocked_on e = None"

definition check_errors :: "report_line list \<Rightarrow> string list" where
  "check_errors report = map report_message (filter report_is_error report)"

fun from_project_io_error :: "project_io_error \<Rightarrow> launch_error" where
  "from_project_io_error (IoFailed path error) = Session (path @ '': '' @ error)"
| "from_project_io_error (DataDirCreate message) = Config message"
| "from_project_io_error (ConfigMissing dir) =
     Config (''no '' @ config_file @ '' in '' @ dir @ ''; run `marrow init '' @ dir
       @ ''` or open a directory containing '' @ config_file)"
| "from_project_io_error (NotAProject message) = Config message"
| "from_project_io_error (IoConfig message) = Config message"
| "from_project_io_error (IoCatalog message) = Session message"
| "from_project_io_error (IoCheck report) = CheckErrors (check_errors report)"
| "from_project_io_error (IoCheckLoad path message) = Session (path @ '': '' @ message)"
| "from_project_io_error (IoStore error) = Session error"

fun from_session_error :: "project_session_error \<Rightarrow> launch_error" where
  "from_session_error (SessConfig message) = Config message"
| "from_session_error (SessCatalog m) = ReadAdmissionInvalid"
| "from_session_error (SessCheck report) = CheckErrors (check_errors report)"
| "from_session_error SessNoEntry = NoEntry"
| "from_session_error (SessIo path error k) = Session (path @ '': '' @ error)"
| "from_session_error (SessCheckLoad path message) = Session (path @ '': '' @ message)"
| "from_session_error (SessSchemaDrift message) = AnalysisChanged message"
| "from_session_error (SessDurableStoreRequired message) = Session message"
| "from_session_error (SessUnstampedStore message) = Session message"
| "from_session_error (SessStore message) = Session message"
| "from_session_error (SessOther message) = Session message"

fun from_read_only_session_error :: "project_session_error \<Rightarrow> launch_error" where
  "from_read_only_session_error (SessCatalog m) = ReadAdmissionInvalid"
| "from_read_only_session_error (SessCheckLoad p m) = ReadAdmissionInvalid"
| "from_read_only_session_error (SessDurableStoreRequired m) = ReadAdmissionInvalid"
| "from_read_only_session_error (SessUnstampedStore m) = ReadAdmissionInvalid"
| "from_read_only_session_error (SessStore m) = ReadAdmissionInvalid"
| "from_read_only_session_error (SessSchemaDrift m) = ReadAdmissionInvalid"
| "from_read_only_session_error (SessIo path error True) = ReadAdmissionInvalid"
| "from_read_only_session_error e = from_session_error e"

fun entry_descriptor_error_message :: "entry_descriptor_error \<Rightarrow> string" where
  "entry_descriptor_error_message Ambiguous = ''entry selector is ambiguous''"
| "entry_descriptor_error_message Private = ''entry selector resolves to a private function''"
| "entry_descriptor_error_message Missing =
     ''entry selector does not resolve to a public function''"

definition runtime_error_message :: "rt_error \<Rightarrow> string" where
  "runtime_error_message e = err_code e @ '': '' @ err_message e"

section \<open>Launches\<close>

record 'm invocation =
  inv_identity :: 'm
  inv_arguments :: "'m list"

record 'm project_api =
  api_is_file :: "string \<Rightarrow> bool"
  api_exists :: "string \<Rightarrow> bool"
  api_load_config :: "string \<Rightarrow> project_io_error + 'm"
  api_native_store_path :: "string \<Rightarrow> 'm \<Rightarrow> project_io_error + string option"
  api_surface_read_open :: "string \<Rightarrow> project_session_error + 'm"
  api_session_open :: "string \<Rightarrow> string option \<Rightarrow> 'm option \<Rightarrow> project_session_error + 'm"
  api_run_entry :: "'m \<Rightarrow> string option"
  api_resolve_entry :: "'m \<Rightarrow> string \<Rightarrow> entry_descriptor_error + 'm"
  api_analysis_snapshot :: "'m \<Rightarrow> 'm"
  api_generation :: "'m \<Rightarrow> 'm"
  api_source_admission :: "'m \<Rightarrow> project_session_error + 'm option"
  api_check_call :: "'m \<Rightarrow> 'm invocation \<Rightarrow> rt_error + unit"
  api_canonical_name :: "'m \<Rightarrow> string"
  api_surface_boundary :: "'m \<Rightarrow> project_session_error + 'm"

record 'm launch =
  launch_session :: 'm
  launch_generation :: 'm
  launch_snapshot :: 'm
  launch_admission :: "'m option"
  launch_invocation :: "'m invocation"

text \<open>\<open>Path::join\<close> with a relative file name.\<close>

definition path_join :: "string \<Rightarrow> string \<Rightarrow> string" where
  "path_join dir name =
     (if dir = [] then name else if last dir = CHR ''/'' then dir @ name
      else dir @ ''/'' @ name)"

definition surface_serve_boundary :: "'m project_api \<Rightarrow> 'm launch \<Rightarrow> launch_error + 'm" where
  "surface_serve_boundary api launch =
     map_err from_session_error (api_surface_boundary api (launch_session launch))"

definition guard_session_open_is_read_only :: "'m project_api \<Rightarrow> string \<Rightarrow> launch_error + unit" where
  "guard_session_open_is_read_only api project_dir =
     bind_result (map_err from_project_io_error (api_load_config api project_dir)) (\<lambda>config.
     bind_result (map_err from_project_io_error (api_native_store_path api project_dir config))
       (\<lambda>store_path. case store_path of
          None \<Rightarrow> Inr ()
        | Some path \<Rightarrow>
            if \<not> api_exists api path then Inr ()
            else map_err from_read_only_session_error
              (bind_result (api_surface_read_open api project_dir) (\<lambda>_. Inr ()))))"

definition prepare_descriptor ::
  "'m project_api \<Rightarrow> string \<Rightarrow> string option \<Rightarrow> 'm option \<Rightarrow> launch_error + ('m \<times> 'm)" where
  "prepare_descriptor api project_dir entry admission =
     bind_result
       (if api_is_file api (path_join project_dir config_file) then Inr ()
        else case api_load_config api project_dir of
            Inl (ConfigMissing d) \<Rightarrow> Inl (NoProject project_dir)
          | Inl e \<Rightarrow> Inl (from_project_io_error e)
          | Inr c \<Rightarrow> Inr ())
       (\<lambda>_. bind_result (guard_session_open_is_read_only api project_dir) (\<lambda>_.
        bind_result (map_err from_session_error
            (api_session_open api project_dir entry admission)) (\<lambda>session.
        bind_result (ok_or (api_run_entry api session) NoEntry) (\<lambda>name.
        bind_result (map_err (\<lambda>e. Entry (entry_descriptor_error_message e))
            (api_resolve_entry api session name)) (\<lambda>identity. Inr (session, identity))))))"

definition check_invocation :: "'m project_api \<Rightarrow> 'm \<Rightarrow> 'm invocation \<Rightarrow> launch_error + unit" where
  "check_invocation api session invocation =
     map_err (\<lambda>e. EntryArgs (runtime_error_message e)) (api_check_call api session invocation)"

definition prepare ::
  "'m project_api \<Rightarrow> string \<Rightarrow> string option \<Rightarrow> 'm list \<Rightarrow> launch_error + 'm launch" where
  "prepare api project_dir entry args =
     bind_result (prepare_descriptor api project_dir entry None) (\<lambda>(session, identity).
       let snapshot = api_analysis_snapshot api session; generation = api_generation api snapshot
       in bind_result (map_err from_session_error (api_source_admission api session)) (\<lambda>admission.
          let invocation = \<lparr>inv_identity = identity, inv_arguments = args\<rparr>
          in bind_result (check_invocation api session invocation) (\<lambda>_.
             Inr \<lparr>launch_session = session, launch_generation = generation,
                  launch_snapshot = snapshot, launch_admission = admission,
                  launch_invocation = invocation\<rparr>)))"

definition prepare_admitted ::
  "'m project_api \<Rightarrow> string \<Rightarrow> string option \<Rightarrow> 'm \<Rightarrow> 'm option \<Rightarrow> 'm invocation
   \<Rightarrow> launch_error + 'm launch" where
  "prepare_admitted api project_dir entry generation admission invocation =
     bind_result (prepare_descriptor api project_dir entry admission) (\<lambda>(session, identity).
       if api_generation api (api_analysis_snapshot api session) \<noteq> generation
       then Inl (AnalysisChanged
         ''source analysis changed between launch and configurationDone'')
       else let snapshot = api_analysis_snapshot api session in
         bind_result (map_err from_session_error (api_source_admission api session)) (\<lambda>current.
           if api_canonical_name api identity
              \<noteq> api_canonical_name api (inv_identity invocation)
           then Inl EntryChanged
           else bind_result (check_invocation api session invocation) (\<lambda>_.
             Inr \<lparr>launch_session = session, launch_generation = api_generation api snapshot,
                  launch_snapshot = snapshot, launch_admission = current,
                  launch_invocation = invocation\<rparr>)))"

section \<open>Laws\<close>

text \<open>What the guard has found when it lets a launch pass.\<close>

lemma guard_passed:
  assumes "guard_session_open_is_read_only api dir = Inr ()"
  shows "\<exists>config. api_load_config api dir = Inr config
    \<and> (api_native_store_path api dir config = Inr None
       \<or> (\<exists>p. api_native_store_path api dir config = Inr (Some p) \<and> \<not> api_exists api p)
       \<or> (\<exists>p reader. api_native_store_path api dir config = Inr (Some p) \<and> api_exists api p
            \<and> api_surface_read_open api dir = Inr reader))"
  using assms
  by (auto simp: guard_session_open_is_read_only_def split: option.splits if_splits)

text \<open>
  C34. Admission: a run is admitted only over the analysis generation the launch recorded,
  for an entry with the canonical name it recorded, with arguments the reopened program
  accepts; and only if the project's configuration names no native store, or the store is not
  there yet, or it is there and opened read-only. The invocation is the launch's own.
\<close>

theorem admitted_run_is_the_launched_one:
  assumes "prepare_admitted api dir entry generation admission invocation = Inr launch"
  shows "launch_generation launch = generation \<and> launch_invocation launch = invocation
    \<and> launch_snapshot launch = api_analysis_snapshot api (launch_session launch)
    \<and> api_generation api (launch_snapshot launch) = generation
    \<and> (\<exists>config. api_load_config api dir = Inr config
         \<and> (api_native_store_path api dir config = Inr None
            \<or> (\<exists>p. api_native_store_path api dir config = Inr (Some p) \<and> \<not> api_exists api p)
            \<or> (\<exists>p reader. api_native_store_path api dir config = Inr (Some p) \<and> api_exists api p
                 \<and> api_surface_read_open api dir = Inr reader)))
    \<and> api_session_open api dir entry admission = Inr (launch_session launch)
    \<and> api_check_call api (launch_session launch) invocation = Inr ()
    \<and> (\<exists>name identity. api_run_entry api (launch_session launch) = Some name
         \<and> api_resolve_entry api (launch_session launch) name = Inr identity
         \<and> api_canonical_name api identity
             = api_canonical_name api (inv_identity invocation))"
proof -
  have "guard_session_open_is_read_only api dir = Inr ()"
    using assms by (auto simp: prepare_admitted_def prepare_descriptor_def split: if_splits)
  from guard_passed [OF this] assms show ?thesis
    by (auto simp: prepare_admitted_def prepare_descriptor_def check_invocation_def Let_def
        split: if_splits option.splits elim!: ok_or.elims)
qed

text \<open>A project with a store that is there and can be read.\<close>

definition one_project :: "string project_api" where
  "one_project =
     \<lparr>api_is_file = (\<lambda>p. p = ''shelf/marrow.json''), api_exists = (\<lambda>p. p = ''shelf/data/marrow.redb''),
      api_load_config = (\<lambda>d. Inr ''config''),
      api_native_store_path = (\<lambda>d c. Inr (Some ''shelf/data/marrow.redb'')),
      api_surface_read_open = (\<lambda>d. Inr ''store''), api_session_open = (\<lambda>d e a. Inr ''session''),
      api_run_entry = (\<lambda>s. Some ''main''), api_resolve_entry = (\<lambda>s n. Inr n),
      api_analysis_snapshot = (\<lambda>s. ''analysis''), api_generation = (\<lambda>a. ''gen1''),
      api_source_admission = (\<lambda>s. Inr None), api_check_call = (\<lambda>s i. Inr ()),
      api_canonical_name = (\<lambda>i. i), api_surface_boundary = (\<lambda>s. Inr ''boundary'')\<rparr>"

theorem admitted_run_is_the_launched_one_witness:
  "\<exists>launch reader. prepare_admitted one_project ''shelf'' None ''gen1'' None
      \<lparr>inv_identity = ''main'', inv_arguments = []\<rparr> = Inr launch
    \<and> launch_generation launch = ''gen1'' \<and> api_exists one_project ''shelf/data/marrow.redb''
    \<and> api_surface_read_open one_project ''shelf'' = Inr reader"
proof -
  obtain launch where l: "prepare_admitted one_project ''shelf'' None ''gen1'' None
      \<lparr>inv_identity = ''main'', inv_arguments = []\<rparr> = Inr launch"
    by (simp add: prepare_admitted_def prepare_descriptor_def one_project_def path_join_def
        config_file_def guard_session_open_is_read_only_def check_invocation_def)
  have "api_native_store_path one_project d c = Inr (Some ''shelf/data/marrow.redb'')"
    "api_exists one_project ''shelf/data/marrow.redb''" for d c
    by (simp_all add: one_project_def)
  with admitted_run_is_the_launched_one [OF l] l show ?thesis by auto
qed

end
