(* ===== verification/Dap_Run.thy ===== *)
theory Dap_Run
  imports Dap_Hook Dap_Project Json
begin

text \<open>
  \<open>crates/marrow-dap/src/run.rs\<close>: the thread a run lives on. \<open>spawn\<close> makes the
  channels and flags of the run, starts the thread and waits for its admission;
  \<open>run_on_thread\<close> reopens and admits the project there and installs the debugger;
  \<open>outcome\<close> says what a finished run reports.

  Whether the operating system starts the thread, and whether the thread lives to report,
  is the argument \<open>thread_start\<close>. What the interpreter does between two statements is
  Marrow's: it calls the hook of \<open>Dap_Hook\<close> at each statement and ends in a \<open>Result\<close>.
\<close>

record outcome =
  out_output :: string
  out_result :: "string + string"

text \<open>What \<open>ProjectSession::invoke\<close> returns: the returned value or an error.\<close>

datatype invoke_error = RuntimeFault rt_error | InvokeError string string

fun invoke_error_code :: "invoke_error \<Rightarrow> string" where
  "invoke_error_code (RuntimeFault e) = err_code e"
| "invoke_error_code (InvokeError c m) = c"

fun invoke_error_message :: "invoke_error \<Rightarrow> string" where
  "invoke_error_message (RuntimeFault e) = err_message e"
| "invoke_error_message (InvokeError c m) = m"

definition run_outcome ::
  "('e, 'v, 'x) marrow \<Rightarrow> invoke_error + 'v option \<Rightarrow> string \<Rightarrow> string \<Rightarrow> outcome" where
  "run_outcome M result output log =
     (let output' = (if log \<noteq> [] then output @ log else output) in
      case result of
        Inr v \<Rightarrow> \<lparr>out_output = output',
                   out_result = Inr (case v of None \<Rightarrow> [] | Some w \<Rightarrow> value_preview M w)\<rparr>
      | Inl e \<Rightarrow>
          if (case e of RuntimeFault err \<Rightarrow> err_code err = run_terminated | _ \<Rightarrow> False)
          then \<lparr>out_output = output', out_result = Inr []\<rparr>
          else \<lparr>out_output = output',
                out_result = Inl (invoke_error_code e @ '': '' @ invoke_error_message e)\<rparr>)"

section \<open>Admission on the thread\<close>

record ('e, 'm) run_request =
  req_project_dir :: string
  req_entry :: "string option"
  req_generation :: 'm
  req_admission :: "'m option"
  req_invocation :: "'m invocation"
  req_stop_on_entry :: bool
  req_breakpoints :: "'e armed_breakpoints"

record run_start =
  start_execution_boundary :: json
  start_surface_serve_boundary :: json

text \<open>
  \<open>run_on_thread\<close> up to the interpreter: a refusal, which is sent to the protocol
  thread and is also the thread's outcome, or the boundaries sent on the start channel
  and the debugger installed in the run. The protocol thread waits in \<open>spawn\<close>, so the
  start channel is open.
\<close>

datatype ('e, 'm) thread_admission =
    Refused launch_error outcome
  | Admitted run_start 'm "'m invocation" "'e debugger"

definition run_on_thread ::
  "'m project_api \<Rightarrow> ('m \<Rightarrow> json) \<Rightarrow> ('m \<Rightarrow> json) \<Rightarrow> ('e, 'm) run_request
   \<Rightarrow> ('e, 'm) thread_admission" where
  "run_on_thread api execution_json surface_json req =
     (case prepare_admitted api (req_project_dir req) (req_entry req) (req_generation req)
             (req_admission req) (req_invocation req) of
        Inl e \<Rightarrow> Refused e \<lparr>out_output = [], out_result = Inl (launch_error_text e)\<rparr>
      | Inr launch \<Rightarrow>
          (case surface_serve_boundary api launch of
             Inl e \<Rightarrow> Refused e \<lparr>out_output = [], out_result = Inl (launch_error_text e)\<rparr>
           | Inr boundary \<Rightarrow>
               Admitted
                 \<lparr>start_execution_boundary = execution_json (launch_session launch),
                  start_surface_serve_boundary = surface_json boundary\<rparr>
                 (launch_session launch) (launch_invocation launch)
                 (new_debugger (req_stop_on_entry req) (req_breakpoints req))))"

section \<open>Spawning\<close>

datatype thread_start = StartFails string | DiesEarly | Starts

datatype spawn_error = SpawnLaunch launch_error | SpawnThread string

record ('e, 'v, 'm) run_handle =
  handle_link :: "('e, 'v, 'm, 'm) link"
  handle_debugger :: "'e debugger"
  handle_execution_boundary :: json
  handle_surface_serve_boundary :: json

definition new_link :: "('e, 'v, 'x, 's) link" where
  "new_link =
     \<lparr>link_control = [], link_control_open = True, link_events = [], link_events_open = True,
      link_swaps = [], link_terminate = False, link_pause = False\<rparr>"

definition spawn ::
  "'m project_api \<Rightarrow> ('m \<Rightarrow> json) \<Rightarrow> ('m \<Rightarrow> json) \<Rightarrow> thread_start \<Rightarrow> ('e, 'm) run_request
   \<Rightarrow> spawn_error + ('e, 'v, 'm) run_handle" where
  "spawn api execution_json surface_json thread req =
     (case thread of
        StartFails e \<Rightarrow> Inl (SpawnThread (''could not start the run thread: '' @ e))
      | DiesEarly \<Rightarrow> Inl (SpawnThread ''run thread stopped before launch admission'')
      | Starts \<Rightarrow>
          (case run_on_thread api execution_json surface_json req of
             Refused e out \<Rightarrow> Inl (SpawnLaunch e)
           | Admitted start session invocation d \<Rightarrow>
               Inr \<lparr>handle_link = new_link, handle_debugger = d,
                    handle_execution_boundary = start_execution_boundary start,
                    handle_surface_serve_boundary = start_surface_serve_boundary start\<rparr>))"

lemma spawn_Inr:
  assumes "spawn api ej sj thread req = Inr h"
  shows "handle_link h = new_link"
    "handle_debugger h = new_debugger (req_stop_on_entry req) (req_breakpoints req)"
    "thread = Starts"
  using assms
  by (auto simp: spawn_def run_on_thread_def split: thread_start.splits sum.splits)

text \<open>
  A run that ends reports everything it printed, then its log, on every path; it
  reports failure exactly for an error that is not the debugger's own terminate fault, with
  the error's code and message.
\<close>

theorem outcome_reports_the_run:
  "out_output (run_outcome M result output log) = output @ log
   \<and> (out_result (run_outcome M result output log) = Inl msg
      \<longleftrightarrow> (\<exists>e. result = Inl e
            \<and> (\<forall>err. e \<noteq> RuntimeFault (err\<lparr>err_code := run_terminated\<rparr>))
            \<and> msg = invoke_error_code e @ '': '' @ invoke_error_message e))"
proof -
  have "e = RuntimeFault (err\<lparr>err_code := run_terminated\<rparr>) \<Longrightarrow> e' = e \<Longrightarrow>
      (case e' of RuntimeFault err \<Rightarrow> err_code err = run_terminated | _ \<Rightarrow> False)" for e e' err
    by simp
  moreover have "err_code err = run_terminated \<Longrightarrow>
      \<exists>err'. RuntimeFault err = RuntimeFault (err'\<lparr>err_code := run_terminated\<rparr>)" for err
    by (intro exI [of _ err]) simp
  ultimately show ?thesis
    by (cases result) (auto simp: run_outcome_def Let_def split: invoke_error.splits)
qed

end
