(* ===== verification/Dap_Parse.thy ===== *)
theory Dap_Parse
  imports Dap_Run
begin

text \<open>
  The request parsing of \<open>crates/marrow-dap/src/session.rs\<close>: its constants and error
  contracts, the functions that read a request's arguments, and the small JSON builders
  of its responses. An argument object is a \<open>json\<close>; what the file system says of a
  path (\<open>Path::canonicalize\<close>) and how Marrow reads entry arguments are arguments.
\<close>

section \<open>Constants\<close>

definition locals_ref :: int where "locals_ref = 1"

definition durable_ref :: int where "durable_ref = 2"

definition first_dynamic_ref :: int where "first_dynamic_ref = 1000"

definition thread_id :: int where "thread_id = 1"

definition run_panic_exit_code :: int where "run_panic_exit_code = 101"

definition frame_id :: int where "frame_id = 1"

definition status_runtime_error :: string where
  "status_runtime_error = ''runtime-error''"

definition status_unsupported_request :: string where
  "status_unsupported_request = ''unsupported-request''"

definition breakpoint_configuration_not_ready :: string where
  "breakpoint_configuration_not_ready = ''breakpoint verification requires launch configuration''"

definition breakpoint_condition_invalid :: string where
  "breakpoint_condition_invalid = ''invalid conditional breakpoint expression''"

definition breakpoint_hit_condition_invalid :: string where
  "breakpoint_hit_condition_invalid = ''hitCondition must be a positive integer string''"

definition breakpoint_log_message_invalid :: string where
  "breakpoint_log_message_invalid = ''invalid logMessage expression''"

definition breakpoint_source_invalid :: string where
  "breakpoint_source_invalid = ''missing or invalid breakpoint source''"

definition breakpoint_source_reference_invalid :: string where
  "breakpoint_source_reference_invalid = ''unknown DAP sourceReference''"

definition breakpoints_invalid :: string where
  "breakpoints_invalid = ''`breakpoints` must be an array''"

definition breakpoint_invalid_line :: string where
  "breakpoint_invalid_line = ''missing or invalid breakpoint line''"

definition breakpoint_no_stop_point :: string where
  "breakpoint_no_stop_point = ''no executable Marrow stop point at this source line''"

definition evaluate_expression_invalid :: string where
  "evaluate_expression_invalid = ''missing or invalid evaluate expression''"

definition evaluate_context_invalid :: string where
  "evaluate_context_invalid = ''invalid evaluate context''"

definition source_reference_invalid :: string where
  "source_reference_invalid = ''missing or unknown DAP sourceReference''"

definition variables_reference_invalid :: string where
  "variables_reference_invalid = ''missing or invalid variablesReference''"

definition variables_page_invalid :: string where
  "variables_page_invalid = ''invalid variables paging arguments''"

definition variables_filter_invalid :: string where
  "variables_filter_invalid = ''invalid variables filter''"

definition arguments_invalid :: string where
  "arguments_invalid = ''request arguments must be an object''"

definition thread_id_invalid :: string where
  "thread_id_invalid = ''missing or invalid threadId''"

definition frame_id_invalid :: string where
  "frame_id_invalid = ''missing or invalid frameId''"

section \<open>Error contracts\<close>

record dap_error =
  de_code :: string
  de_status :: string
  de_blocked_on :: "string option"

definition new_dap_error :: "string \<Rightarrow> string \<Rightarrow> dap_error" where
  "new_dap_error code status = \<lparr>de_code = code, de_status = status, de_blocked_on = None\<rparr>"

definition from_launch_error :: "launch_error \<Rightarrow> dap_error" where
  "from_launch_error e =
     \<lparr>de_code = launch_error_code e, de_status = launch_error_status e,
      de_blocked_on = launch_error_blocked_on e\<rparr>"

definition error_metadata :: "dap_error \<Rightarrow> json" where
  "error_metadata e =
     JObj ([(''code'', JStr (de_code e)), (''status'', JStr (de_status e))]
           @ opt_field ''blockedOn'' JStr (de_blocked_on e))"

definition error_unsupported_request :: dap_error where
  "error_unsupported_request = new_dap_error ''dap.unsupportedRequest'' status_unsupported_request"

definition error_arguments_invalid :: dap_error where
  "error_arguments_invalid = new_dap_error ''dap.arguments.invalid'' status_invalid_params"

definition error_launch_project_invalid_params :: dap_error where
  "error_launch_project_invalid_params = new_dap_error ''dap.launchProject.invalid'' status_invalid_params"

definition error_launch_args_invalid_type :: dap_error where
  "error_launch_args_invalid_type = new_dap_error ''dap.launchArgs.invalidType'' status_invalid_params"

definition error_launch_entry_invalid_type :: dap_error where
  "error_launch_entry_invalid_type = new_dap_error ''dap.launchEntry.invalidType'' status_invalid_params"

definition error_launch_stop_on_entry_invalid_type :: dap_error where
  "error_launch_stop_on_entry_invalid_type = new_dap_error ''dap.launchStopOnEntry.invalidType'' status_invalid_params"

definition error_launch_already_configured :: dap_error where
  "error_launch_already_configured = new_dap_error ''dap.launch.alreadyConfigured'' status_invalid_state"

definition error_breakpoint_unverified :: dap_error where
  "error_breakpoint_unverified = new_dap_error ''dap.breakpoint.unverified'' status_invalid_state"

definition error_breakpoint_condition_invalid :: dap_error where
  "error_breakpoint_condition_invalid = new_dap_error ''dap.breakpoint.conditionInvalid'' status_invalid_params"

definition error_breakpoint_hit_condition_invalid :: dap_error where
  "error_breakpoint_hit_condition_invalid = new_dap_error ''dap.breakpoint.hitConditionInvalid'' status_invalid_params"

definition error_breakpoint_log_message_invalid :: dap_error where
  "error_breakpoint_log_message_invalid = new_dap_error ''dap.breakpoint.logMessageInvalid'' status_invalid_params"

definition error_breakpoint_source_invalid :: dap_error where
  "error_breakpoint_source_invalid = new_dap_error ''dap.breakpoint.sourceInvalid'' status_invalid_params"

definition error_breakpoint_source_reference_invalid :: dap_error where
  "error_breakpoint_source_reference_invalid = new_dap_error ''dap.breakpoint.sourceReferenceInvalid'' status_invalid_params"

definition error_breakpoints_invalid :: dap_error where
  "error_breakpoints_invalid = new_dap_error ''dap.breakpoint.breakpointsInvalid'' status_invalid_params"

definition error_breakpoint_invalid_line :: dap_error where
  "error_breakpoint_invalid_line = new_dap_error ''dap.breakpoint.invalidLine'' status_invalid_params"

definition error_breakpoint_no_stop_point :: dap_error where
  "error_breakpoint_no_stop_point = new_dap_error ''dap.breakpoint.noStopPoint'' status_invalid_params"

definition error_configuration_not_ready :: dap_error where
  "error_configuration_not_ready = new_dap_error ''dap.launch.notConfigured'' status_invalid_state"

definition error_run_invalid :: dap_error where
  "error_run_invalid = new_dap_error ''dap.run.invalid'' status_runtime_error"

definition error_not_running :: dap_error where
  "error_not_running = new_dap_error ''dap.notRunning'' status_invalid_state"

definition error_not_stopped :: dap_error where
  "error_not_stopped = new_dap_error ''dap.notStopped'' status_invalid_state"

definition error_evaluate_expression_invalid :: dap_error where
  "error_evaluate_expression_invalid = new_dap_error ''dap.evaluate.expressionInvalid'' status_invalid_params"

definition error_evaluate_context_invalid :: dap_error where
  "error_evaluate_context_invalid = new_dap_error ''dap.evaluate.contextInvalid'' status_invalid_params"

definition error_evaluate_runtime :: dap_error where
  "error_evaluate_runtime = new_dap_error ''dap.evaluate.runtimeError'' status_runtime_error"

definition error_source_reference_invalid :: dap_error where
  "error_source_reference_invalid = new_dap_error ''dap.source.sourceReferenceInvalid'' status_invalid_params"

definition error_variables_reference_invalid :: dap_error where
  "error_variables_reference_invalid = new_dap_error ''dap.variables.referenceInvalid'' status_invalid_params"

definition error_variables_page_invalid :: dap_error where
  "error_variables_page_invalid = new_dap_error ''dap.variables.pageInvalid'' status_invalid_params"

definition error_variables_filter_invalid :: dap_error where
  "error_variables_filter_invalid = new_dap_error ''dap.variables.filterInvalid'' status_invalid_params"

definition error_variables_runtime :: dap_error where
  "error_variables_runtime = new_dap_error ''dap.variables.runtimeError'' status_runtime_error"

definition error_thread_id_invalid :: dap_error where
  "error_thread_id_invalid = new_dap_error ''dap.threadId.invalid'' status_invalid_params"

definition error_frame_id_invalid :: dap_error where
  "error_frame_id_invalid = new_dap_error ''dap.frameId.invalid'' status_invalid_params"

section \<open>Parsed input\<close>

record breakpoint_spec =
  spec_condition :: "string option"
  spec_hit_target :: "nat option"
  spec_log_message :: "string log_message option"

datatype breakpoint_request =
    ValidRequest breakpoint_spec
  | InvalidCondition
  | InvalidHitCondition
  | InvalidLogMessage

datatype requested_breakpoint = ValidBreakpoint nat breakpoint_request | InvalidLine

datatype breakpoint_source = SourcePath string | SourceReference int

record dap_input_error =
  ie_message :: string
  ie_contract :: dap_error

definition input_error :: "string \<Rightarrow> dap_error \<Rightarrow> dap_input_error" where
  "input_error message contract = \<lparr>ie_message = message, ie_contract = contract\<rparr>"

record variables_input =
  vi_reference :: int
  vi_page :: child_page
  vi_filter :: variables_filter

definition request_arguments :: "json \<Rightarrow> dap_input_error + json" where
  "request_arguments request =
     (case jget request ''arguments'' of
        None \<Rightarrow> Inr (JObj [])
      | Some JNull \<Rightarrow> Inr (JObj [])
      | Some (JObj kvs) \<Rightarrow> Inr (JObj kvs)
      | Some _ \<Rightarrow> Inl (input_error arguments_invalid error_arguments_invalid))"

section \<open>Variables requests\<close>

definition variables_page_error :: dap_input_error where
  "variables_page_error = input_error variables_page_invalid error_variables_page_invalid"

definition variables_filter_error :: dap_input_error where
  "variables_filter_error = input_error variables_filter_invalid error_variables_filter_invalid"

definition optional_usize :: "json \<Rightarrow> string \<Rightarrow> dap_input_error + nat option" where
  "optional_usize arguments key =
     (case jget arguments key of
        None \<Rightarrow> Inr None
      | Some JNull \<Rightarrow> Inr None
      | Some (JNum n) \<Rightarrow>
          (case num_as_u64 n of
             None \<Rightarrow> Inl variables_page_error
           | Some v \<Rightarrow> if v \<le> u64_max then Inr (Some v) else Inl variables_page_error)
      | Some _ \<Rightarrow> Inl variables_page_error)"

definition parse_child_page :: "json \<Rightarrow> bool \<Rightarrow> dap_input_error + child_page" where
  "parse_child_page arguments supports_variable_paging =
     bind_result (optional_usize arguments ''start'') (\<lambda>start.
     bind_result (optional_usize arguments ''count'') (\<lambda>count.
       Inr (if \<not> supports_variable_paging then default_page
            else requested_page (case start of None \<Rightarrow> 0 | Some s \<Rightarrow> s) count)))"

definition parse_variables_filter :: "json \<Rightarrow> dap_input_error + variables_filter" where
  "parse_variables_filter arguments =
     (case jget arguments ''filter'' of
        None \<Rightarrow> Inr AllVariables
      | Some JNull \<Rightarrow> Inr AllVariables
      | Some (JStr v) \<Rightarrow>
          if v = ''named'' then Inr NamedVariables
          else if v = ''indexed'' then Inr IndexedVariables
          else Inl variables_filter_error
      | Some _ \<Rightarrow> Inl variables_filter_error)"

definition positive_i64 :: "json \<Rightarrow> string \<Rightarrow> int option" where
  "positive_i64 arguments key =
     (case Option.bind (jget arguments key) as_i64 of
        Some r \<Rightarrow> if 0 < r then Some r else None
      | None \<Rightarrow> None)"

definition parse_variables_reference :: "json \<Rightarrow> dap_input_error + int" where
  "parse_variables_reference arguments =
     ok_or (positive_i64 arguments ''variablesReference'')
       (input_error variables_reference_invalid error_variables_reference_invalid)"

definition parse_variables_input :: "json \<Rightarrow> bool \<Rightarrow> dap_input_error + variables_input" where
  "parse_variables_input arguments supports_variable_paging =
     bind_result (parse_variables_reference arguments) (\<lambda>reference.
     bind_result (parse_child_page arguments supports_variable_paging) (\<lambda>page.
     bind_result (parse_variables_filter arguments) (\<lambda>filt.
       Inr \<lparr>vi_reference = reference, vi_page = page, vi_filter = filt\<rparr>)))"

section \<open>Identities\<close>

definition parse_source_reference :: "json \<Rightarrow> dap_input_error + int" where
  "parse_source_reference arguments =
     ok_or (positive_i64 arguments ''sourceReference'')
       (input_error source_reference_invalid error_source_reference_invalid)"

definition parse_singleton_id ::
  "json \<Rightarrow> string \<Rightarrow> int \<Rightarrow> string \<Rightarrow> dap_error \<Rightarrow> dap_input_error + unit" where
  "parse_singleton_id arguments field expected message contract =
     (if Option.bind (jget arguments field) as_i64 = Some expected then Inr ()
      else Inl (input_error message contract))"

definition parse_thread_id :: "json \<Rightarrow> dap_input_error + unit" where
  "parse_thread_id arguments =
     parse_singleton_id arguments ''threadId'' thread_id thread_id_invalid
       error_thread_id_invalid"

definition parse_frame_id :: "json \<Rightarrow> dap_input_error + unit" where
  "parse_frame_id arguments =
     parse_singleton_id arguments ''frameId'' frame_id frame_id_invalid error_frame_id_invalid"


section \<open>Breakpoint requests\<close>

definition normalize_existing_path :: "(string \<Rightarrow> string option) \<Rightarrow> string \<Rightarrow> string" where
  "normalize_existing_path canonicalize path =
     (case canonicalize path of Some p \<Rightarrow> p | None \<Rightarrow> path)"

definition breakpoint_source ::
  "(string \<Rightarrow> string option) \<Rightarrow> json \<Rightarrow> dap_input_error + breakpoint_source" where
  "breakpoint_source canonicalize arguments =
     (case Option.bind (jget arguments ''source'') as_object of
        None \<Rightarrow> Inl (input_error breakpoint_source_invalid error_breakpoint_source_invalid)
      | Some source \<Rightarrow>
          (case positive_i64 (JObj source) ''sourceReference'' of
             Some reference \<Rightarrow> Inr (SourceReference reference)
           | None \<Rightarrow>
               (case map_of source ''path'' of
                  Some path \<Rightarrow>
                    ok_or (map_option (\<lambda>p. SourcePath (normalize_existing_path canonicalize p))
                             (as_str path))
                      (input_error breakpoint_source_invalid error_breakpoint_source_invalid)
                | None \<Rightarrow>
                    Inl (input_error breakpoint_source_invalid error_breakpoint_source_invalid))))"

definition parse_hit_condition :: "string \<Rightarrow> nat option" where
  "parse_hit_condition v =
     (if v = [] \<or> \<not> list_all is_digit v then None
      else case parse_unsigned u64_max v of
          None \<Rightarrow> None
        | Some target \<Rightarrow> if 0 < target then Some target else None)"

text \<open>The loop of \<open>parse_log_message\<close>, with the parts read so far.\<close>

function log_message_loop :: "string \<Rightarrow> string log_message \<Rightarrow> string log_message option" where
  "log_message_loop rest parts =
     (case find_char CHR ''{'' rest of
        None \<Rightarrow>
          if CHR ''}'' \<in> set rest then None
          else Some (if rest \<noteq> [] then parts @ [Literal rest] else parts)
      | Some open \<Rightarrow>
          if 0 < open \<and> CHR ''}'' \<in> set (take open rest) then None
          else
            let parts1 = (if 0 < open then parts @ [Literal (take open rest)] else parts);
                after_open = drop (open + 1) rest
            in (case find_char CHR ''}'' after_open of
                  None \<Rightarrow> None
                | Some close \<Rightarrow>
                    let expression = trim (take close after_open);
                        rest' = drop (close + 1) after_open
                    in if expression = [] then None
                       else if (case rest' of [] \<Rightarrow> False | c # cs \<Rightarrow> c = CHR ''}'') then None
                       else log_message_loop rest' (parts1 @ [Expression expression])))"
  by pat_completeness auto
termination
  by (relation "measure (\<lambda>(rest, parts). length rest)") (auto simp: find_char_Some)

declare log_message_loop.simps [simp del]

definition parse_log_message :: "string \<Rightarrow> string log_message option" where
  "parse_log_message v = (if v = [] then None else log_message_loop v [])"

definition breakpoint_request :: "json \<Rightarrow> breakpoint_request" where
  "breakpoint_request point =
     (let condition = (case jget point ''condition'' of
          Some (JStr c) \<Rightarrow> Inr (if trim c \<noteq> [] then Some c else None)
        | Some JNull \<Rightarrow> Inr None
        | None \<Rightarrow> Inr None
        | Some _ \<Rightarrow> Inl InvalidCondition);
          hit_target = (case jget point ''hitCondition'' of
          Some (JStr h) \<Rightarrow> (case parse_hit_condition h of
              Some t \<Rightarrow> Inr (Some t) | None \<Rightarrow> Inl InvalidHitCondition)
        | Some JNull \<Rightarrow> Inr None
        | None \<Rightarrow> Inr None
        | Some _ \<Rightarrow> Inl InvalidHitCondition);
          log_message = (case jget point ''logMessage'' of
          Some (JStr m) \<Rightarrow> (case parse_log_message m of
              Some t \<Rightarrow> Inr (Some t) | None \<Rightarrow> Inl InvalidLogMessage)
        | Some JNull \<Rightarrow> Inr None
        | None \<Rightarrow> Inr None
        | Some _ \<Rightarrow> Inl InvalidLogMessage)
      in case condition of
           Inl e \<Rightarrow> e
         | Inr c \<Rightarrow> (case hit_target of
             Inl e \<Rightarrow> e
           | Inr h \<Rightarrow> (case log_message of
               Inl e \<Rightarrow> e
             | Inr m \<Rightarrow> ValidRequest
                 \<lparr>spec_condition = c, spec_hit_target = h, spec_log_message = m\<rparr>)))"

definition requested_breakpoint :: "json \<Rightarrow> requested_breakpoint" where
  "requested_breakpoint point =
     (case Option.bind (jget point ''line'') as_u64 of
        None \<Rightarrow> InvalidLine
      | Some line \<Rightarrow>
          if line \<le> u32_max \<and> 0 < line then ValidBreakpoint line (breakpoint_request point)
          else InvalidLine)"

definition requested_breakpoints :: "json \<Rightarrow> dap_input_error + requested_breakpoint list" where
  "requested_breakpoints arguments =
     (case jget arguments ''breakpoints'' of
        None \<Rightarrow> Inr []
      | Some points \<Rightarrow>
          (case as_array points of
             None \<Rightarrow> Inl (input_error breakpoints_invalid error_breakpoints_invalid)
           | Some ps \<Rightarrow> Inr (map requested_breakpoint ps)))"

section \<open>Evaluate and launch requests\<close>

definition parse_evaluate_input :: "json \<Rightarrow> dap_input_error + string" where
  "parse_evaluate_input arguments =
     (case Option.bind (jget arguments ''expression'') as_str of
        None \<Rightarrow> Inl (input_error evaluate_expression_invalid error_evaluate_expression_invalid)
      | Some expression \<Rightarrow>
          if trim expression = []
          then Inl (input_error evaluate_expression_invalid error_evaluate_expression_invalid)
          else (case jget arguments ''context'' of
              None \<Rightarrow> Inr expression
            | Some c \<Rightarrow>
                (case as_str c of
                   None \<Rightarrow>
                     Inl (input_error evaluate_context_invalid error_evaluate_context_invalid)
                 | Some context \<Rightarrow>
                     if context = ''watch'' \<or> context = ''repl'' \<or> context = ''hover''
                     then Inr expression
                     else Inl (input_error evaluate_context_invalid
                       error_evaluate_context_invalid))))"

definition parse_project :: "json \<Rightarrow> dap_input_error + string" where
  "parse_project arguments =
     (case jget arguments ''project'' of
        Some (JStr project) \<Rightarrow>
          if trim project \<noteq> [] then Inr project
          else Inl (input_error ''launch needs a non-empty `project` directory''
                 error_launch_project_invalid_params)
      | _ \<Rightarrow> Inl (input_error ''launch needs a non-empty `project` directory''
               error_launch_project_invalid_params))"

definition parse_entry :: "json \<Rightarrow> dap_input_error + string option" where
  "parse_entry arguments =
     (case jget arguments ''entry'' of
        None \<Rightarrow> Inr None
      | Some JNull \<Rightarrow> Inr None
      | Some (JStr entry) \<Rightarrow> Inr (Some entry)
      | Some _ \<Rightarrow> Inl (input_error ''`entry` must be a string when present''
               error_launch_entry_invalid_type))"

definition parse_stop_on_entry :: "json \<Rightarrow> dap_input_error + bool" where
  "parse_stop_on_entry arguments =
     (case jget arguments ''stopOnEntry'' of
        None \<Rightarrow> Inr False
      | Some JNull \<Rightarrow> Inr False
      | Some (JBool b) \<Rightarrow> Inr b
      | Some _ \<Rightarrow> Inl (input_error ''`stopOnEntry` must be a boolean''
               error_launch_stop_on_entry_invalid_type))"

definition parse_launch_args ::
  "(json list \<Rightarrow> string + 'm list) \<Rightarrow> json option \<Rightarrow> dap_input_error + 'm list" where
  "parse_launch_args entry_arguments args =
     (case args of
        None \<Rightarrow> Inr []
      | Some array \<Rightarrow>
          (case as_array array of
             None \<Rightarrow> Inl (input_error ''`args` must be an array'' error_launch_args_invalid_type)
           | Some items \<Rightarrow>
               map_err (\<lambda>message. input_error message error_launch_args_invalid_type)
                 (entry_arguments items)))"

section \<open>Response builders\<close>

definition unverified_breakpoint :: "nat \<Rightarrow> string \<Rightarrow> dap_error \<Rightarrow> json" where
  "unverified_breakpoint line message contract =
     JObj [(''verified'', JBool False), (''line'', jnat line), (''message'', JStr message),
           (''marrowContract'', error_metadata contract)]"

definition debug_admin_presentation_hint :: json where
  "debug_admin_presentation_hint =
     JObj [(''kind'', JStr ''data''), (''attributes'', JArr [JStr ''readOnly''])]"

definition count_fields :: "child_counts option \<Rightarrow> jobj" where
  "count_fields counts =
     (case counts of None \<Rightarrow> []
      | Some c \<Rightarrow> opt_field ''namedVariables'' jnat (named_count c)
          @ opt_field ''indexedVariables'' jnat (indexed_count c))"

definition variable_json ::
  "string \<Rightarrow> string \<Rightarrow> int \<Rightarrow> child_counts option \<Rightarrow> bool option \<Rightarrow> json" where
  "variable_json name val reference counts children_truncated =
     JObj ([(''name'', JStr name), (''value'', JStr val),
            (''presentationHint'', debug_admin_presentation_hint),
            (''variablesReference'', jint reference)]
           @ count_fields counts
           @ opt_field ''marrowDebug'' (\<lambda>t. JObj [(''childrenTruncated'', JBool t)])
               children_truncated)"

definition variables_body :: "json list \<Rightarrow> jobj" where
  "variables_body variables = [(''variables'', JArr variables)]"

definition logpoint_output :: "string \<Rightarrow> string" where
  "logpoint_output output =
     (if output \<noteq> [] \<and> last output = CHR 0x0A then output else output @ [CHR 0x0A])"

definition diagnostic_message :: "string \<Rightarrow> string list \<Rightarrow> string" where
  "diagnostic_message base messages =
     (let details = join_with ''; '' messages in
      if details = [] then base else base @ '': '' @ details)"


section \<open>What the parsers accept\<close>

text \<open>
  The template language of log messages, stated without the parser: literal text free of
  braces, and expressions between braces that hold no closing brace and are not blank. Two
  literals never follow each other.
\<close>

fun template_ok :: "string log_message \<Rightarrow> bool" where
  "template_ok [] = True"
| "template_ok (Literal t # ps) =
     (t \<noteq> [] \<and> CHR ''{'' \<notin> set t \<and> CHR ''}'' \<notin> set t
      \<and> (case ps of Literal u # qs \<Rightarrow> False | _ \<Rightarrow> True) \<and> template_ok ps)"
| "template_ok (Expression e # ps) = (trim e \<noteq> [] \<and> CHR ''}'' \<notin> set e \<and> template_ok ps)"

fun part_source :: "string log_part \<Rightarrow> string" where
  "part_source (Literal t) = t"
| "part_source (Expression e) = CHR ''{'' # e @ [CHR ''}'']"

fun trim_part :: "string log_part \<Rightarrow> string log_part" where
  "trim_part (Literal t) = Literal t"
| "trim_part (Expression e) = Expression (trim e)"

abbreviation template_source :: "string log_message \<Rightarrow> string" where
  "template_source ps \<equiv> concat (map part_source ps)"

lemma template_head:
  "template_ok ps \<Longrightarrow> template_source ps = c # cs \<Longrightarrow> c \<noteq> CHR ''}''"
  by (induction ps rule: template_ok.induct) (auto simp: append_eq_Cons_conv)

lemma log_loop_literal:
  assumes "t \<noteq> []" "CHR ''{'' \<notin> set t" "CHR ''}'' \<notin> set t"
  shows "log_message_loop (t @ CHR ''{'' # r) acc
       = log_message_loop (CHR ''{'' # r) (acc @ [Literal t])"
  using assms
  by (subst (1 2) log_message_loop.simps) (simp add: find_char_append)

lemma log_loop_expression:
  assumes "CHR ''}'' \<notin> set e" "trim e \<noteq> []" "\<And>c cs. r = c # cs \<Longrightarrow> c \<noteq> CHR ''}''"
  shows "log_message_loop (CHR ''{'' # e @ CHR ''}'' # r) acc
       = log_message_loop r (acc @ [Expression (trim e)])"
proof -
  have "\<not> (case r of [] \<Rightarrow> False | c # cs \<Rightarrow> c = CHR ''}'')"
    using assms(3) by (auto split: list.splits)
  with assms(1,2) show ?thesis
    by (subst log_message_loop.simps) (simp add: find_char_append)
qed

lemma log_loop_complete:
  "template_ok ps \<Longrightarrow>
     log_message_loop (template_source ps) acc = Some (acc @ map trim_part ps)"
proof (induction ps arbitrary: acc rule: template_ok.induct)
  case 1
  show ?case by (subst log_message_loop.simps) simp
next
  case (2 t ps)
  then show ?case
  proof (cases ps)
    case Nil
    with 2 show ?thesis by (subst log_message_loop.simps) (auto simp: find_char_None [THEN iffD2])
  next
    case (Cons p qs)
    with 2 obtain e where "p = Expression e" by (cases p) auto
    with 2 Cons show ?thesis
      by (simp add: log_loop_literal [where r = "e @ CHR ''}'' # template_source qs"])
  qed
next
  case (3 e ps)
  then have "\<And>c cs. template_source ps = c # cs \<Longrightarrow> c \<noteq> CHR ''}''"
    by (intro template_head [of ps]) simp_all
  with 3 show ?case by (simp add: log_loop_expression)
qed

lemma log_loop_sound:
  "log_message_loop rest acc = Some ps \<Longrightarrow>
     \<exists>raw. template_ok raw \<and> rest = template_source raw \<and> ps = acc @ map trim_part raw"
proof (induction rest acc rule: log_message_loop.induct)
  case (1 rest acc)
  show ?case
  proof (cases "find_char CHR ''{'' rest")
    case None
    with "1.prems" have "CHR ''}'' \<notin> set rest" "ps = (if rest \<noteq> [] then acc @ [Literal rest] else acc)"
      by (subst (asm) log_message_loop.simps; simp split: if_splits)+
    with None show ?thesis
      by (intro exI [of _ "if rest = [] then [] else [Literal rest]"]) (auto simp: find_char_None)
  next
    case (Some k)
    define t where "t = take k rest"
    define after where "after = drop (k + 1) rest"
    have rest: "rest = t @ CHR ''{'' # after" "CHR ''{'' \<notin> set t" "t = [] \<longleftrightarrow> k = 0"
      using find_char_take [OF Some] Some by (auto simp: t_def after_def find_char_Some)
    from "1.prems" Some obtain j where j: "find_char CHR ''}'' after = Some j"
      and t: "0 < k \<Longrightarrow> CHR ''}'' \<notin> set t"
      and e: "trim (take j after) \<noteq> []"
      and c: "\<not> (case drop (j + 1) after of [] \<Rightarrow> False | c # cs \<Rightarrow> c = CHR ''}'')"
      and go: "log_message_loop (drop (j + 1) after)
          ((if 0 < k then acc @ [Literal t] else acc) @ [Expression (trim (take j after))]) = Some ps"
      by (subst (asm) log_message_loop.simps)
        (auto simp: t_def after_def Let_def split: if_splits option.splits)
    have guard: "\<not> (0 < k \<and> CHR ''}'' \<in> set (take k rest))"
      using t by (auto simp: t_def)
    obtain raw where raw: "template_ok raw" "drop (j + 1) after = template_source raw"
      "ps = ((if 0 < k then acc @ [Literal t] else acc) @ [Expression (trim (take j after))])
        @ map trim_part raw"
      using "1.IH" [OF Some guard refl after_def j refl refl e c] go
      unfolding t_def [symmetric] by blast
    have after: "after = take j after @ CHR ''}'' # template_source raw"
      and no: "CHR ''}'' \<notin> set (take j after)"
      using find_char_take [OF j] j raw(2) by (auto simp: find_char_Some)
    show ?thesis
      using raw e no t rest after
      by (intro exI [of _ "(if 0 < k then [Literal t] else []) @ Expression (take j after) # raw"])
        auto
  qed
qed

text \<open>
  Log messages: \<open>parse_log_message\<close> accepts exactly the non-empty sources of the
  template language, and gives the template's parts with each expression trimmed.
\<close>

theorem log_message_exact:
  "parse_log_message v = Some ps \<longleftrightarrow>
     v \<noteq> [] \<and> (\<exists>raw. template_ok raw \<and> v = template_source raw \<and> ps = map trim_part raw)"
  using log_loop_sound [of v "[]" ps] log_loop_complete [of _ "[]"]
  by (auto simp: parse_log_message_def)

text \<open>
  Hit conditions: \<open>parse_hit_condition\<close> accepts exactly the decimal numerals, with
  any leading zeros and without a sign, of the numbers from 1 to the largest \<open>u64\<close>, and
  gives that number.
\<close>

theorem hit_condition_exact:
  "parse_hit_condition v = Some n \<longleftrightarrow>
     v \<noteq> [] \<and> list_all is_digit v \<and> digits_value v = n \<and> 0 < n \<and> n \<le> u64_max"
  by (auto simp: parse_hit_condition_def parse_unsigned_def digits_no_plus Let_def)

lemma optional_usize_bound: "optional_usize arguments k = Inr (Some n) \<Longrightarrow> n \<le> u64_max"
  by (auto simp: optional_usize_def split: option.splits json.splits if_splits)

lemma parse_child_page_bound:
  "parse_child_page arguments paging = Inr page \<Longrightarrow> page_start page \<le> u64_max"
  by (auto simp: parse_child_page_def default_page_def u64_max_def split: option.splits
      dest!: optional_usize_bound)

end
