(* ===== verification/Dap_Session.thy ===== *)
theory Dap_Session
  imports Dap_Parse
begin

text \<open>
  \<open>crates/marrow-dap/src/session.rs\<close>: the state of the protocol thread and the
  operations under its request handlers: the stop-point index, messages to the client,
  variable references, the query rendezvous with the parked run thread, run events,
  resume and teardown. The handlers themselves are in \<open>Dap_Handlers\<close>.

  The run thread is part of a session's state while it runs: its channels, its debugger
  and its phase. Where the protocol thread waits for an answer of the parked thread, the
  thread's own park loop (\<open>Dap_Hook\<close>) produces it. What the adapter cannot decide (the
  file system, Marrow's answers, what a run does within the teardown budget) is the record
  \<open>world\<close>.
\<close>

section \<open>The stop-point index\<close>

record runtime_stop =
  rs_file :: string
  rs_span :: span

record dap_source_file =
  sf_canonical_path :: string
  sf_source :: string

record stop_point_index =
  stops_by_file :: "string \<Rightarrow> (nat \<Rightarrow> runtime_stop list option) option"
  sources_by_reference :: "(int \<times> dap_source_file) list"
  references_by_file :: "string \<Rightarrow> int option"

definition empty_index :: stop_point_index where
  "empty_index =
     \<lparr>stops_by_file = (\<lambda>f. None), sources_by_reference = [], references_by_file = (\<lambda>f. None)\<rparr>"

definition register_source :: "string \<Rightarrow> string \<Rightarrow> stop_point_index \<Rightarrow> stop_point_index" where
  "register_source path source idx =
     (if references_by_file idx path \<noteq> None then idx
      else let reference = int (length (sources_by_reference idx) + 1) in
        idx\<lparr>references_by_file := (references_by_file idx)(path \<mapsto> reference),
            sources_by_reference := AList.update reference
              \<lparr>sf_canonical_path = path, sf_source = source\<rparr> (sources_by_reference idx)\<rparr>)"

definition add_stop :: "string \<Rightarrow> runtime_stop \<Rightarrow> stop_point_index \<Rightarrow> stop_point_index" where
  "add_stop path stop idx =
     (let stops = (case stops_by_file idx path of None \<Rightarrow> (\<lambda>l. None) | Some m \<Rightarrow> m);
          line = span_line (rs_span stop);
          here = (case stops line of None \<Rightarrow> [] | Some l \<Rightarrow> l)
      in idx\<lparr>stops_by_file := (stops_by_file idx)(path \<mapsto> stops(line \<mapsto> here @ [stop]))\<rparr>)"

text \<open>
  \<open>from_runtime\<close> over a program's stop points (the path of each one's file, when the
  program has it, and its span) and an analysis' files with their sources.
\<close>

definition index_point ::
  "(string \<Rightarrow> string option) \<Rightarrow> (string \<Rightarrow> string option) \<Rightarrow> string option \<times> span
   \<Rightarrow> stop_point_index \<Rightarrow> stop_point_index" where
  "index_point canonicalize source_of point idx =
     (case fst point of
        None \<Rightarrow> idx
      | Some path \<Rightarrow>
          let canonical = normalize_existing_path canonicalize path;
              idx1 = (case source_of canonical of
                  None \<Rightarrow> idx | Some source \<Rightarrow> register_source canonical source idx)
          in add_stop canonical \<lparr>rs_file = path, rs_span = snd point\<rparr> idx1)"

definition index_from_runtime ::
  "(string \<Rightarrow> string option) \<Rightarrow> (string option \<times> span) list \<Rightarrow> (string \<times> string) list
   \<Rightarrow> stop_point_index" where
  "index_from_runtime canonicalize points files =
     (let source_of = map_of (rev (map (\<lambda>(path, source).
            (normalize_existing_path canonicalize path, source)) files))
      in fold (index_point canonicalize source_of) points empty_index)"

definition index_stops :: "stop_point_index \<Rightarrow> string \<Rightarrow> nat \<Rightarrow> runtime_stop list option" where
  "index_stops idx source line = Option.bind (stops_by_file idx source) (\<lambda>lines. lines line)"

definition source_reference :: "stop_point_index \<Rightarrow> string \<Rightarrow> int option" where
  "source_reference idx source = references_by_file idx source"

definition source_file :: "stop_point_index \<Rightarrow> int \<Rightarrow> dap_source_file option" where
  "source_file idx reference = map_of (sources_by_reference idx) reference"

section \<open>The run thread and the session\<close>

datatype join_result = Joined "outcome option" | ThreadPanicked

text \<open>
  What the run thread is doing: running statements, parked in the hook at a frame,
  unwinding after the hook refused to go on, computing for ever inside an answer, or ended.
\<close>

datatype ('e, 'v, 'm) phase =
    Executing
  | ParkedAt "('e, 'v, 'm, 'm) frame" stop_info
  | Unwinding rt_error
  | Hung
  | Ended join_result

record ('e, 'v, 'm) running =
  r_link :: "('e, 'v, 'm, 'm) link"
  r_debugger :: "'e debugger"
  r_phase :: "('e, 'v, 'm) phase"
  r_execution_boundary :: json
  r_stopped_at :: "stop_info option"
  r_pending_resume :: "resume option"
  r_terminating :: bool

record 'm pending_launch =
  pl_project_dir :: string
  pl_entry :: "string option"
  pl_generation :: 'm
  pl_admission :: "'m option"
  pl_invocation :: "'m invocation"
  pl_stop_on_entry :: bool

datatype ('v, 'm) expandable = ValueRef 'v "'m option" | DataPathRef "'m path_segment list"

text \<open>
  The protocol thread can fail in two ways: an \<open>expect\<close> that panics, and a wait for a
  thread that will not answer. \<open>s_fault\<close> records the first one; nothing is written after it.
\<close>

datatype fault = Panicked | Blocked

record ('e, 'v, 'm) session =
  s_out :: "json list"
  s_seq :: int
  s_running :: "('e, 'v, 'm) running option"
  s_pending :: "'m pending_launch option"
  s_analysis :: "'m option"
  s_stop_points :: "stop_point_index option"
  s_breakpoints :: "(string \<times> requested_breakpoint list) list"
  s_paging :: bool
  s_expandables :: "int \<Rightarrow> ('v, 'm) expandable option"
  s_next_ref :: int
  s_done :: bool
  s_fault :: "fault option"

text \<open>
  \<open>w_teardown\<close>: the events that arrive from the run thread within the teardown budget,
  after those already queued, and how the thread ended, or \<open>None\<close> at the deadline.
\<close>

record ('e, 'v, 'm) world =
  w_marrow :: "('e, 'v, 'm) marrow"
  w_project :: "'m project_api"
  w_canonicalize :: "string \<Rightarrow> string option"
  w_program_stops :: "'m \<Rightarrow> (string option \<times> span) list"
  w_analysis_files :: "'m \<Rightarrow> (string \<times> string) list"
  w_checked_expression :: "'m \<Rightarrow> string \<Rightarrow> span \<Rightarrow> string \<Rightarrow> string list + 'e"
  w_expression_is_bool :: "'e \<Rightarrow> bool"
  w_entry_arguments :: "json list \<Rightarrow> string + 'm list"
  w_execution_json :: "'m \<Rightarrow> json"
  w_surface_json :: "'m \<Rightarrow> json"
  w_stamp_json :: "'m \<Rightarrow> json"
  w_thread_start :: thread_start
  w_teardown :: "('e, 'v, 'm) running \<Rightarrow> ('v, 'm, 'm) run_event list \<times> join_result option"

definition new_session :: "('e, 'v, 'm) session" where
  "new_session =
     \<lparr>s_out = [], s_seq = 0, s_running = None, s_pending = None, s_analysis = None,
      s_stop_points = None, s_breakpoints = [], s_paging = False, s_expandables = (\<lambda>r. None),
      s_next_ref = first_dynamic_ref, s_done = False, s_fault = None\<rparr>"

section \<open>Messages\<close>

text \<open>\<open>s_out\<close> holds the messages handed to \<open>write_message\<close>, in order.\<close>

definition emit :: "(int \<Rightarrow> json) \<Rightarrow> ('e, 'v, 'm) session \<Rightarrow> ('e, 'v, 'm) session" where
  "emit message s =
     (if s_fault s = None
      then s\<lparr>s_seq := s_seq s + 1, s_out := s_out s @ [message (s_seq s + 1)]\<rparr>
      else s)"

definition request_field :: "json \<Rightarrow> string \<Rightarrow> json" where
  "request_field request key = (case jget request key of Some v \<Rightarrow> v | None \<Rightarrow> JNull)"

definition response_json :: "json \<Rightarrow> bool \<Rightarrow> json \<Rightarrow> int \<Rightarrow> json" where
  "response_json request success body seq =
     JObj ([(''seq'', jint seq), (''type'', JStr ''response''),
            (''request_seq'', request_field request ''seq''), (''success'', JBool success),
            (''command'', request_field request ''command'')]
           @ (if success then [(''body'', body)]
              else opt_field ''message'' JStr (as_str body)))"

definition error_response_json :: "json \<Rightarrow> string \<Rightarrow> dap_error \<Rightarrow> int \<Rightarrow> json" where
  "error_response_json request message contract seq =
     JObj [(''seq'', jint seq), (''type'', JStr ''response''),
           (''request_seq'', request_field request ''seq''), (''success'', JBool False),
           (''command'', request_field request ''command''), (''message'', JStr message),
           (''body'', JObj [(''marrowError'', error_metadata contract)])]"

definition event_json :: "string \<Rightarrow> json \<Rightarrow> int \<Rightarrow> json" where
  "event_json name body seq =
     JObj [(''seq'', jint seq), (''type'', JStr ''event''), (''event'', JStr name),
           (''body'', body)]"

definition respond ::
  "json \<Rightarrow> bool \<Rightarrow> json \<Rightarrow> ('e, 'v, 'm) session \<Rightarrow> ('e, 'v, 'm) session" where
  "respond request success body = emit (response_json request success body)"

definition respond_error ::
  "json \<Rightarrow> string \<Rightarrow> dap_error \<Rightarrow> ('e, 'v, 'm) session \<Rightarrow> ('e, 'v, 'm) session" where
  "respond_error request message contract = emit (error_response_json request message contract)"

definition event :: "string \<Rightarrow> json \<Rightarrow> ('e, 'v, 'm) session \<Rightarrow> ('e, 'v, 'm) session" where
  "event name body = emit (event_json name body)"

definition reject ::
  "json \<Rightarrow> dap_input_error \<Rightarrow> ('e, 'v, 'm) session \<Rightarrow> ('e, 'v, 'm) session" where
  "reject request error = respond_error request (ie_message error) (ie_contract error)"

section \<open>References and queries\<close>

definition alloc_ref ::
  "('v, 'm) expandable \<Rightarrow> ('e, 'v, 'm) session \<Rightarrow> int \<times> ('e, 'v, 'm) session" where
  "alloc_ref expandable s =
     (s_next_ref s,
      s\<lparr>s_next_ref := s_next_ref s + 1,
        s_expandables := (s_expandables s)(s_next_ref s \<mapsto> expandable)\<rparr>)"

definition set_fault :: "fault \<Rightarrow> ('e, 'v, 'm) session \<Rightarrow> ('e, 'v, 'm) session" where
  "set_fault f s = (if s_fault s = None then s\<lparr>s_fault := Some f\<rparr> else s)"

fun ended :: "('e, 'v, 'm) phase \<Rightarrow> bool" where
  "ended (Ended j) = True"
| "ended _ = False"

fun phase_after ::
  "('e, 'v, 'm, 'm) frame \<Rightarrow> hook_result \<Rightarrow> ('e, 'v, 'm) phase" where
  "phase_after f Proceed = Executing"
| "phase_after f (Unwind e) = Unwinding e"
| "phase_after f (Parked info) = ParkedAt f info"
| "phase_after f Stuck = Hung"

text \<open>The parked thread's turn: it serves the control messages that have been sent to it.\<close>

definition serve_parked ::
  "('e, 'v, 'm) marrow \<Rightarrow> ('e, 'v, 'm) running \<Rightarrow> ('e, 'v, 'm) running" where
  "serve_parked M r =
     (case r_phase r of
        ParkedAt f info \<Rightarrow>
          (case park_loop M f info (r_debugger r) (r_link r) of
             (d, l, res) \<Rightarrow> r\<lparr>r_debugger := d, r_link := l, r_phase := phase_after f res\<rparr>)
      | _ \<Rightarrow> r)"

text \<open>
  \<open>Sender::send\<close> on the control channel: it fails once the thread, which owns the
  receiver, has ended.
\<close>

definition send_control ::
  "('e, 'm) control \<Rightarrow> ('e, 'v, 'm) running \<Rightarrow> ('e, 'v, 'm) running option" where
  "send_control c r =
     (if ended (r_phase r) then None
      else Some (r\<lparr>r_link := (r_link r)\<lparr>link_control := link_control (r_link r) @ [c]\<rparr>\<rparr>))"

definition pop_event ::
  "('e, 'v, 'm) running \<Rightarrow> (('v, 'm, 'm) run_event \<times> ('e, 'v, 'm) running) option" where
  "pop_event r =
     (case link_events (r_link r) of
        [] \<Rightarrow> None
      | ev # evs \<Rightarrow> Some (ev, r\<lparr>r_link := (r_link r)\<lparr>link_events := evs\<rparr>\<rparr>))"

text \<open>
  \<open>query\<close>: send, then wait for the next event. With no event to come from a live thread
  the wait has no end.
\<close>

definition query ::
  "('e, 'v, 'm) world \<Rightarrow> ('e, 'm) query \<Rightarrow> ('e, 'v, 'm) session
   \<Rightarrow> ('v, 'm, 'm) query_result option \<times> ('e, 'v, 'm) session" where
  "query W q s =
     (case s_running s of
        None \<Rightarrow> (None, s)
      | Some r \<Rightarrow>
          if r_stopped_at r = None then (None, s)
          else (case send_control (Query q) r of
              None \<Rightarrow> (None, s)
            | Some r1 \<Rightarrow>
                let r2 = serve_parked (w_marrow W) r1 in
                (case pop_event r2 of
                   Some (ev, r3) \<Rightarrow>
                     (case ev of Answer a \<Rightarrow> Some a | _ \<Rightarrow> None, s\<lparr>s_running := Some r3\<rparr>)
                 | None \<Rightarrow>
                     (None, if ended (r_phase r2) then s\<lparr>s_running := Some r2\<rparr>
                            else set_fault Blocked (s\<lparr>s_running := Some r2\<rparr>)))))"

section \<open>Inspecting a stop\<close>

definition alloc_value ::
  "'m option \<Rightarrow> 'v option \<Rightarrow> ('e, 'v, 'm) session \<Rightarrow> int \<times> ('e, 'v, 'm) session" where
  "alloc_value stamp v s =
     (case v of None \<Rightarrow> (0, s) | Some v' \<Rightarrow> alloc_ref (ValueRef v' stamp) s)"

definition local_json ::
  "('e, 'v, 'm) marrow \<Rightarrow> 'v local_var \<Rightarrow> ('e, 'v, 'm) session \<Rightarrow> json \<times> ('e, 'v, 'm) session" where
  "local_json M local s =
     (let counts = Option.bind (local_expand local) (child_counts_of M) in
      case alloc_value None (local_expand local) s of
        (reference, s') \<Rightarrow>
          (variable_json (local_name local) (local_value local) reference counts
             (local_truncated local), s'))"

definition locals_variables ::
  "('e, 'v, 'm) world \<Rightarrow> child_page \<Rightarrow> variables_filter \<Rightarrow> ('e, 'v, 'm) session
   \<Rightarrow> jobj \<times> ('e, 'v, 'm) session" where
  "locals_variables W page filt s =
     (case query W (LocalsQuery page filt) s of
        (Some (LocalsAnswer snapshot), s1) \<Rightarrow>
          (case map_state (local_json (w_marrow W)) (local_entries snapshot) s1 of
             (variables, s2) \<Rightarrow>
               (jset (variables_body variables) ''marrowDebug''
                  (JObj [(''visibleLocalCount'', jnat (visible_local_count snapshot)),
                         (''localsTruncated'', JBool (locals_truncated snapshot))]), s2))
      | (_, s1) \<Rightarrow> (variables_body [], s1))"

definition debug_data_boundary_json :: "json \<Rightarrow> json \<Rightarrow> json" where
  "debug_data_boundary_json execution_boundary store_snapshot =
     JObj [(''sourceAnalysisGeneration'',
            request_field execution_boundary ''sourceAnalysisGeneration''),
           (''storeSnapshot'', store_snapshot)]"

text \<open>\<open>body["marrowDebug"][key] = value\<close>: the inner object is made when it is missing.\<close>

definition set_debug_field :: "string \<Rightarrow> json \<Rightarrow> jobj \<Rightarrow> jobj" where
  "set_debug_field key v body =
     jset body ''marrowDebug''
       (JObj (jset (case map_of body ''marrowDebug'' of Some (JObj kvs) \<Rightarrow> kvs | _ \<Rightarrow> []) key v))"

definition attach_debug_data_boundary ::
  "jobj \<Rightarrow> json \<Rightarrow> ('e, 'v, 'm) session \<Rightarrow> jobj \<times> ('e, 'v, 'm) session" where
  "attach_debug_data_boundary body store_snapshot s =
     (let body1 = set_debug_field ''storeSnapshot'' store_snapshot body in
      case s_running s of
        None \<Rightarrow> (body1, set_fault Panicked s)
      | Some r \<Rightarrow>
          (set_debug_field ''debugDataBoundary''
             (debug_data_boundary_json (r_execution_boundary r) store_snapshot) body1, s))"

definition data_json ::
  "'m data_var \<Rightarrow> ('e, 'v, 'm) session \<Rightarrow> json \<times> ('e, 'v, 'm) session" where
  "data_json entry s =
     (case (if data_expandable entry then alloc_ref (DataPathRef (data_path entry)) s
            else (0, s)) of
        (reference, s') \<Rightarrow>
          (variable_json (data_name entry) (data_value entry) reference None
             (data_truncated entry), s'))"

definition data_variables ::
  "('e, 'v, 'm) world \<Rightarrow> 'm path_segment list \<Rightarrow> child_page \<Rightarrow> ('e, 'v, 'm) session
   \<Rightarrow> (rt_error + jobj) \<times> ('e, 'v, 'm) session" where
  "data_variables W segments page s =
     (case query W (DataChildrenQuery segments page) s of
        (Some (DataChildrenAnswer (Inl e)), s1) \<Rightarrow> (Inl e, s1)
      | (Some (DataChildrenAnswer (Inr snapshot)), s1) \<Rightarrow>
          let store_snapshot = w_stamp_json W (data_stamp snapshot) in
          (case map_state data_json (data_entries snapshot) s1 of
             (variables, s2) \<Rightarrow>
               let body = jset (variables_body variables) ''marrowDebug''
                     (JObj [(''childrenTruncated'', JBool (data_children_truncated snapshot))])
               in (case attach_debug_data_boundary body store_snapshot s2 of
                     (body', s3) \<Rightarrow> (Inr body', s3)))
      | (_, s1) \<Rightarrow> (Inr (variables_body []), s1))"

definition child_json ::
  "('e, 'v, 'm) marrow \<Rightarrow> 'm option \<Rightarrow> 'v child \<Rightarrow> ('e, 'v, 'm) session
   \<Rightarrow> json \<times> ('e, 'v, 'm) session" where
  "child_json M store_snapshot ch s =
     (let counts = Option.bind (child_expand ch) (child_counts_of M) in
      case alloc_value store_snapshot (child_expand ch) s of
        (reference, s') \<Rightarrow>
          (variable_json (child_name ch) (child_value ch) reference counts
             (child_truncated ch), s'))"

definition child_variables ::
  "('e, 'v, 'm) marrow \<Rightarrow> 'v child list \<Rightarrow> 'm option \<Rightarrow> ('e, 'v, 'm) session
   \<Rightarrow> json list \<times> ('e, 'v, 'm) session" where
  "child_variables M children store_snapshot = map_state (child_json M store_snapshot) children"

definition expandable_variables ::
  "('e, 'v, 'm) world \<Rightarrow> int \<Rightarrow> child_page \<Rightarrow> variables_filter \<Rightarrow> ('e, 'v, 'm) session
   \<Rightarrow> (rt_error + jobj) \<times> ('e, 'v, 'm) session" where
  "expandable_variables W reference page filt s =
     (case s_expandables s reference of
        None \<Rightarrow> (Inr (variables_body []), s)
      | Some (DataPathRef path) \<Rightarrow> data_variables W path page s
      | Some (ValueRef v stamp) \<Rightarrow>
          (case child_variables (w_marrow W) (children_of (w_marrow W) v page filt) stamp s of
             (variables, s1) \<Rightarrow>
               let body = jset (variables_body variables) ''marrowDebug''
                     (JObj [(''childrenTruncated'', JBool (value_children_truncated (w_marrow W) v))])
               in (case stamp of
                     None \<Rightarrow> (Inr body, s1)
                   | Some st \<Rightarrow>
                       (case attach_debug_data_boundary body (w_stamp_json W st) s1 of
                          (body', s2) \<Rightarrow> (Inr body', s2)))))"

definition evaluate_body ::
  "('e, 'v, 'm) world \<Rightarrow> 'v \<Rightarrow> 'm option \<Rightarrow> ('e, 'v, 'm) session
   \<Rightarrow> jobj \<times> ('e, 'v, 'm) session" where
  "evaluate_body W v stamp s =
     (let M = w_marrow W;
          counts = child_counts_of M v;
          truncated = (if is_expandable M v then Some (value_children_truncated M v) else None)
      in case alloc_value stamp (if is_expandable M v then Some v else None) s of
           (reference, s1) \<Rightarrow>
             let body =
                   [(''result'', JStr (value_preview M v)),
                    (''variablesReference'', jint reference),
                    (''presentationHint'', debug_admin_presentation_hint)]
                   @ count_fields counts
                   @ opt_field ''marrowDebug'' (\<lambda>t. JObj [(''childrenTruncated'', JBool t)]) truncated
             in (case stamp of
                   None \<Rightarrow> (body, s1)
                 | Some st \<Rightarrow> attach_debug_data_boundary body (w_stamp_json W st) s1))"

section \<open>Run events, resume and teardown\<close>

definition update_run ::
  "(('e, 'v, 'm) running \<Rightarrow> ('e, 'v, 'm) running) \<Rightarrow> ('e, 'v, 'm) session
   \<Rightarrow> ('e, 'v, 'm) session" where
  "update_run f s = s\<lparr>s_running := map_option f (s_running s)\<rparr>"

definition handle_run_event ::
  "('v, 'm, 'm) run_event \<Rightarrow> ('e, 'v, 'm) session \<Rightarrow> ('e, 'v, 'm) session" where
  "handle_run_event ev s =
     (case ev of
        Stopped info \<Rightarrow>
          if (case s_running s of None \<Rightarrow> False | Some r \<Rightarrow> r_terminating r) then s
          else event ''stopped''
                 (JObj [(''reason'', JStr (reason_str (stop_reason info))),
                        (''threadId'', jint thread_id), (''allThreadsStopped'', JBool True)])
                 (update_run (\<lambda>r. r\<lparr>r_stopped_at := Some info\<rparr>) s)
      | Output output \<Rightarrow>
          event ''output''
            (JObj [(''category'', JStr ''console''), (''output'', JStr (logpoint_output output))]) s
      | Answer a \<Rightarrow> s)"

definition output_event :: "string \<Rightarrow> string \<Rightarrow> ('e, 'v, 'm) session \<Rightarrow> ('e, 'v, 'm) session" where
  "output_event category output =
     event ''output'' (JObj [(''category'', JStr category), (''output'', JStr output)])"

definition exited_event :: "int \<Rightarrow> ('e, 'v, 'm) session \<Rightarrow> ('e, 'v, 'm) session" where
  "exited_event code = event ''exited'' (JObj [(''exitCode'', jint code)])"

definition emit_run_outcome ::
  "outcome option \<Rightarrow> ('e, 'v, 'm) session \<Rightarrow> ('e, 'v, 'm) session" where
  "emit_run_outcome outcome s =
     (case outcome of
        None \<Rightarrow> s
      | Some out \<Rightarrow>
          let s1 = (if out_output out \<noteq> [] then output_event ''stdout'' (out_output out) s else s)
          in (case out_result out of
                Inr message \<Rightarrow>
                  exited_event 0
                    (if message \<noteq> [] then output_event ''stdout'' (message @ [CHR 0x0A]) s1 else s1)
              | Inl message \<Rightarrow>
                  exited_event 1 (output_event ''stderr'' (message @ [CHR 0x0A]) s1)))"

definition emit_run_panic :: "('e, 'v, 'm) session \<Rightarrow> ('e, 'v, 'm) session" where
  "emit_run_panic s =
     exited_event run_panic_exit_code
       (output_event ''stderr'' (''the debug run thread panicked'' @ [CHR 0x0A]) s)"

text \<open>\<open>finish_run\<close>: joining a thread that has not ended would wait for it.\<close>

definition finish_run :: "('e, 'v, 'm) session \<Rightarrow> ('e, 'v, 'm) session" where
  "finish_run s =
     (let s1 = (case s_running s of
          None \<Rightarrow> s
        | Some r \<Rightarrow>
            let s0 = s\<lparr>s_running := None\<rparr>
            in event ''terminated'' (JObj [])
                 (case r_phase r of
                    Ended (Joined out) \<Rightarrow> emit_run_outcome out s0
                  | Ended ThreadPanicked \<Rightarrow> emit_run_panic s0
                  | _ \<Rightarrow> set_fault Blocked s0))
      in s1\<lparr>s_done := True\<rparr>)"

definition detach_run :: "('e, 'v, 'm) session \<Rightarrow> ('e, 'v, 'm) session" where
  "detach_run s =
     (let s1 = (case s_running s of
          None \<Rightarrow> s | Some r \<Rightarrow> event ''terminated'' (JObj []) (s\<lparr>s_running := None\<rparr>))
      in s1\<lparr>s_done := True\<rparr>)"

definition finish_run_within ::
  "('e, 'v, 'm) world \<Rightarrow> ('e, 'v, 'm) session \<Rightarrow> ('e, 'v, 'm) session" where
  "finish_run_within W s =
     (case s_running s of
        None \<Rightarrow> s
      | Some r \<Rightarrow>
          (case w_teardown W r of
             (late, join) \<Rightarrow>
               let s1 = fold handle_run_event (link_events (r_link r) @ late) s in
               (case join of
                  Some j \<Rightarrow> finish_run (update_run (\<lambda>r. r\<lparr>r_phase := Ended j\<rparr>) s1)
                | None \<Rightarrow> detach_run s1)))"

definition request_teardown :: "('e, 'v, 'm) session \<Rightarrow> ('e, 'v, 'm) session" where
  "request_teardown =
     update_run (\<lambda>r.
       let r1 = r\<lparr>r_link := (r_link r)\<lparr>link_terminate := True\<rparr>, r_stopped_at := None,
                  r_pending_resume := None, r_terminating := True\<rparr>
       in (case send_control Terminate r1 of Some r2 \<Rightarrow> r2 | None \<Rightarrow> r1))"

definition terminate_session ::
  "('e, 'v, 'm) world \<Rightarrow> ('e, 'v, 'm) session \<Rightarrow> ('e, 'v, 'm) session" where
  "terminate_session W s = (finish_run_within W (request_teardown s))\<lparr>s_done := True\<rparr>"

definition resume_run :: "resume \<Rightarrow> ('e, 'v, 'm) session \<Rightarrow> ('e, 'v, 'm) session" where
  "resume_run mode s =
     update_run (\<lambda>r. r\<lparr>r_stopped_at := None, r_pending_resume := Some mode\<rparr>)
       (s\<lparr>s_expandables := (\<lambda>r. None)\<rparr>)"

definition flush_resume :: "('e, 'v, 'm) session \<Rightarrow> bool \<times> ('e, 'v, 'm) session" where
  "flush_resume s =
     (case s_running s of
        None \<Rightarrow> (False, s)
      | Some r \<Rightarrow>
          if r_terminating r
          then (False, s\<lparr>s_running := Some (r\<lparr>r_pending_resume := None\<rparr>)\<rparr>)
          else (case r_pending_resume r of
              None \<Rightarrow> (False, s)
            | Some mode \<Rightarrow>
                let r1 = r\<lparr>r_pending_resume := None\<rparr> in
                (case send_control (Resume mode) r1 of
                   Some r2 \<Rightarrow> (True, s\<lparr>s_running := Some r2\<rparr>)
                 | None \<Rightarrow> (True, finish_run (s\<lparr>s_running := Some r1\<rparr>)))))"

definition pump_run_event :: "('e, 'v, 'm) session \<Rightarrow> bool \<times> ('e, 'v, 'm) session" where
  "pump_run_event s =
     (case s_running s of
        None \<Rightarrow> (False, s)
      | Some r \<Rightarrow>
          (case pop_event r of
             Some (ev, r') \<Rightarrow> (True, handle_run_event ev (s\<lparr>s_running := Some r'\<rparr>))
           | None \<Rightarrow> if ended (r_phase r) then (True, finish_run s) else (False, s)))"

end
