(* ===== verification/Dap_Handlers.thy ===== *)
theory Dap_Handlers
  imports Dap_Session
begin

text \<open>
  The request handlers of \<open>crates/marrow-dap/src/session.rs\<close> and their dispatch,
  \<open>handle\<close>: one definition per handler, with its early returns in the code's order.
\<close>

section \<open>Breakpoints\<close>

definition checked_condition ::
  "('e, 'v, 'm) world \<Rightarrow> ('e, 'v, 'm) session \<Rightarrow> runtime_stop \<Rightarrow> string
   \<Rightarrow> dap_input_error + 'e" where
  "checked_condition W s stop source =
     (case s_analysis s of
        None \<Rightarrow> Inl (input_error breakpoint_configuration_not_ready error_breakpoint_unverified)
      | Some analysis \<Rightarrow>
          (case w_checked_expression W analysis (rs_file stop) (rs_span stop) source of
             Inl messages \<Rightarrow> Inl (input_error
               (diagnostic_message breakpoint_condition_invalid messages)
               error_breakpoint_condition_invalid)
           | Inr e \<Rightarrow>
               if w_expression_is_bool W e then Inr e
               else Inl (input_error breakpoint_condition_invalid
                 error_breakpoint_condition_invalid)))"

definition checked_log_part ::
  "('e, 'v, 'm) world \<Rightarrow> ('e, 'v, 'm) session \<Rightarrow> runtime_stop \<Rightarrow> string log_part
   \<Rightarrow> dap_input_error + 'e log_part" where
  "checked_log_part W s stop part =
     (case part of
        Literal t \<Rightarrow> Inr (Literal t)
      | Expression source \<Rightarrow>
          (case s_analysis s of
             None \<Rightarrow>
               Inl (input_error breakpoint_configuration_not_ready error_breakpoint_unverified)
           | Some analysis \<Rightarrow>
               (case w_checked_expression W analysis (rs_file stop) (rs_span stop) source of
                  Inl messages \<Rightarrow> Inl (input_error
                    (diagnostic_message breakpoint_log_message_invalid messages)
                    error_breakpoint_log_message_invalid)
                | Inr e \<Rightarrow> Inr (Expression e))))"

definition checked_log_message ::
  "('e, 'v, 'm) world \<Rightarrow> ('e, 'v, 'm) session \<Rightarrow> runtime_stop \<Rightarrow> string log_message
   \<Rightarrow> dap_input_error + 'e log_message" where
  "checked_log_message W s stop = map_result (checked_log_part W s stop)"

definition checked_breakpoint_spec ::
  "('e, 'v, 'm) world \<Rightarrow> ('e, 'v, 'm) session \<Rightarrow> runtime_stop \<Rightarrow> breakpoint_spec
   \<Rightarrow> dap_input_error + ('e option \<times> 'e log_message option)" where
  "checked_breakpoint_spec W s stop spec =
     bind_result (opt_result (checked_condition W s stop) (spec_condition spec)) (\<lambda>condition.
     bind_result (opt_result (checked_log_message W s stop) (spec_log_message spec)) (\<lambda>message.
       Inr (condition, message)))"

fun invalid_request_json :: "nat \<Rightarrow> breakpoint_request \<Rightarrow> json option" where
  "invalid_request_json line (ValidRequest spec) = None"
| "invalid_request_json line InvalidCondition =
     Some (unverified_breakpoint line breakpoint_condition_invalid
       error_breakpoint_condition_invalid)"
| "invalid_request_json line InvalidHitCondition =
     Some (unverified_breakpoint line breakpoint_hit_condition_invalid
       error_breakpoint_hit_condition_invalid)"
| "invalid_request_json line InvalidLogMessage =
     Some (unverified_breakpoint line breakpoint_log_message_invalid
       error_breakpoint_log_message_invalid)"

definition resolved_launched_breakpoint ::
  "('e, 'v, 'm) world \<Rightarrow> ('e, 'v, 'm) session \<Rightarrow> string \<Rightarrow> nat \<Rightarrow> breakpoint_request
   \<Rightarrow> stop_point_index \<Rightarrow> json" where
  "resolved_launched_breakpoint W s source line request stop_points =
     (case index_stops stop_points source line of
        None \<Rightarrow> unverified_breakpoint line breakpoint_no_stop_point error_breakpoint_no_stop_point
      | Some stops \<Rightarrow>
          (case request of
             ValidRequest spec \<Rightarrow>
               (case checked_breakpoint_spec W s (stops ! 0) spec of
                  Inr c \<Rightarrow> JObj [(''verified'', JBool True), (''line'', jnat line)]
                | Inl e \<Rightarrow> unverified_breakpoint line (ie_message e) (ie_contract e))
           | bad \<Rightarrow> the (invalid_request_json line bad)))"

definition resolved_breakpoint ::
  "('e, 'v, 'm) world \<Rightarrow> ('e, 'v, 'm) session \<Rightarrow> string \<Rightarrow> nat \<Rightarrow> breakpoint_request \<Rightarrow> json" where
  "resolved_breakpoint W s source line request =
     (case s_stop_points s of
        Some stop_points \<Rightarrow> resolved_launched_breakpoint W s source line request stop_points
      | None \<Rightarrow>
          (case request of
             ValidRequest spec \<Rightarrow>
               unverified_breakpoint line breakpoint_configuration_not_ready
                 error_breakpoint_unverified
           | bad \<Rightarrow> the (invalid_request_json line bad)))"

definition resolve_breakpoints ::
  "('e, 'v, 'm) world \<Rightarrow> ('e, 'v, 'm) session \<Rightarrow> string \<Rightarrow> requested_breakpoint list
   \<Rightarrow> json list" where
  "resolve_breakpoints W s source requested =
     map (\<lambda>b. case b of
            ValidBreakpoint line request \<Rightarrow> resolved_breakpoint W s source line request
          | InvalidLine \<Rightarrow>
              JObj [(''verified'', JBool False), (''message'', JStr breakpoint_invalid_line),
                    (''marrowContract'', error_metadata error_breakpoint_invalid_line)])
       requested"

text \<open>
  \<open>armed_breakpoints\<close>: every valid request at every runtime stop of its line whose
  condition and message check there.
\<close>

definition arm_stop ::
  "('e, 'v, 'm) world \<Rightarrow> ('e, 'v, 'm) session \<Rightarrow> nat \<Rightarrow> breakpoint_spec \<Rightarrow> runtime_stop
   \<Rightarrow> 'e armed_breakpoints \<Rightarrow> 'e armed_breakpoints" where
  "arm_stop W s line spec stop armed =
     (case checked_breakpoint_spec W s stop spec of
        Inl e \<Rightarrow> armed
      | Inr (condition, message) \<Rightarrow>
          insert_armed (rs_file stop)
            (new_armed line condition (spec_hit_target spec) message) armed)"

definition arm_request ::
  "('e, 'v, 'm) world \<Rightarrow> ('e, 'v, 'm) session \<Rightarrow> stop_point_index \<Rightarrow> string
   \<Rightarrow> requested_breakpoint \<Rightarrow> 'e armed_breakpoints \<Rightarrow> 'e armed_breakpoints" where
  "arm_request W s stop_points source breakpoint armed =
     (case breakpoint of
        InvalidLine \<Rightarrow> armed
      | ValidBreakpoint line request \<Rightarrow>
          (case index_stops stop_points source line of
             None \<Rightarrow> armed
           | Some stops \<Rightarrow>
               (case request of
                  ValidRequest spec \<Rightarrow> fold (arm_stop W s line spec) stops armed
                | _ \<Rightarrow> armed)))"

definition armed_breakpoints ::
  "('e, 'v, 'm) world \<Rightarrow> ('e, 'v, 'm) session \<Rightarrow> 'e armed_breakpoints" where
  "armed_breakpoints W s =
     (case s_stop_points s of
        None \<Rightarrow> (\<lambda>f. None)
      | Some stop_points \<Rightarrow>
          fold (\<lambda>(source, requested). fold (arm_request W s stop_points source) requested)
            (s_breakpoints s) (\<lambda>f. None))"

text \<open>A swap sent to a thread that has ended is dropped.\<close>

definition update_running_breakpoints ::
  "('e, 'v, 'm) world \<Rightarrow> ('e, 'v, 'm) session \<Rightarrow> ('e, 'v, 'm) session" where
  "update_running_breakpoints W s =
     (let armed = armed_breakpoints W s in
      update_run (\<lambda>r. if ended (r_phase r) then r
        else r\<lparr>r_link := (r_link r)\<lparr>link_swaps := link_swaps (r_link r) @ [armed]\<rparr>\<rparr>) s)"

definition clear_launch_configuration :: "('e, 'v, 'm) session \<Rightarrow> ('e, 'v, 'm) session" where
  "clear_launch_configuration s =
     s\<lparr>s_pending := None, s_analysis := None, s_stop_points := None, s_breakpoints := []\<rparr>"

definition on_set_breakpoints ::
  "('e, 'v, 'm) world \<Rightarrow> json \<Rightarrow> json \<Rightarrow> ('e, 'v, 'm) session \<Rightarrow> ('e, 'v, 'm) session" where
  "on_set_breakpoints W request arguments s =
     (case breakpoint_source (w_canonicalize W) arguments of
        Inl e \<Rightarrow> reject request e s
      | Inr src \<Rightarrow>
          let source = (case src of
              SourcePath p \<Rightarrow> Some p
            | SourceReference reference \<Rightarrow>
                map_option sf_canonical_path
                  (Option.bind (s_stop_points s) (\<lambda>stops. source_file stops reference)))
          in (case source of
                None \<Rightarrow> respond_error request breakpoint_source_reference_invalid
                          error_breakpoint_source_reference_invalid s
              | Some path \<Rightarrow>
                  (case requested_breakpoints arguments of
                     Inl e \<Rightarrow> reject request e s
                   | Inr requested \<Rightarrow>
                       let s1 = (if s_stop_points s \<noteq> None
                           then update_running_breakpoints W
                             (s\<lparr>s_breakpoints :=
                                  if requested = [] then AList.delete path (s_breakpoints s)
                                  else AList.update path requested (s_breakpoints s)\<rparr>)
                           else s)
                       in respond request True
                            (JObj [(''breakpoints'',
                                    JArr (resolve_breakpoints W s1 path requested))]) s1)))"

section \<open>Launching\<close>

definition on_initialize ::
  "json \<Rightarrow> json \<Rightarrow> ('e, 'v, 'm) session \<Rightarrow> ('e, 'v, 'm) session" where
  "on_initialize request arguments s =
     respond request True
       (JObj (map (\<lambda>k. (k, JBool True))
          [''supportsConfigurationDoneRequest'', ''supportsTerminateRequest'',
           ''supportsConditionalBreakpoints'', ''supportsHitConditionalBreakpoints'',
           ''supportsLogPoints'', ''supportsEvaluateForHovers'']))
       (s\<lparr>s_paging := Option.bind (jget arguments ''supportsVariablePaging'') as_bool = Some True\<rparr>)"

definition launch_failed ::
  "json \<Rightarrow> launch_error \<Rightarrow> ('e, 'v, 'm) session \<Rightarrow> ('e, 'v, 'm) session" where
  "launch_failed request e = respond_error request (launch_error_text e) (from_launch_error e)"

definition on_launch ::
  "('e, 'v, 'm) world \<Rightarrow> json \<Rightarrow> json \<Rightarrow> ('e, 'v, 'm) session \<Rightarrow> ('e, 'v, 'm) session" where
  "on_launch W request arguments s =
     (if s_pending s \<noteq> None \<or> s_running s \<noteq> None
      then respond_error request ''launch is already configured or running''
             error_launch_already_configured s
      else let s0 = clear_launch_configuration s in
        case parse_project arguments of
          Inl e \<Rightarrow> reject request e s0
        | Inr project \<Rightarrow>
            let project_dir = normalize_existing_path (w_canonicalize W) project in
            (case parse_entry arguments of
               Inl e \<Rightarrow> reject request e s0
             | Inr entry \<Rightarrow>
                 (case parse_launch_args (w_entry_arguments W) (jget arguments ''args'') of
                    Inl e \<Rightarrow> reject request e s0
                  | Inr args \<Rightarrow>
                      (case parse_stop_on_entry arguments of
                         Inl e \<Rightarrow> reject request e s0
                       | Inr stop_on_entry \<Rightarrow>
                           (case prepare (w_project W) project_dir entry args of
                              Inl e \<Rightarrow> launch_failed request e s0
                            | Inr launch \<Rightarrow>
                                (case surface_serve_boundary (w_project W) launch of
                                   Inl e \<Rightarrow> launch_failed request e s0
                                 | Inr boundary \<Rightarrow>
                                     let s1 = s0\<lparr>
                                       s_stop_points := Some (index_from_runtime (w_canonicalize W)
                                         (w_program_stops W (launch_session launch))
                                         (w_analysis_files W (launch_snapshot launch))),
                                       s_analysis := Some (launch_snapshot launch),
                                       s_pending := Some \<lparr>pl_project_dir = project_dir,
                                         pl_entry = entry,
                                         pl_generation = launch_generation launch,
                                         pl_admission = launch_admission launch,
                                         pl_invocation = launch_invocation launch,
                                         pl_stop_on_entry = stop_on_entry\<rparr>\<rparr>
                                     in event ''initialized'' (JObj [])
                                          (respond request True
                                            (JObj [(''marrowDebug'', JObj
                                              [(''previewExecutionBoundary'',
                                                w_execution_json W (launch_session launch)),
                                               (''previewSurfaceServeBoundary'',
                                                w_surface_json W boundary)])]) s1)))))))"

definition on_configuration_done ::
  "('e, 'v, 'm) world \<Rightarrow> json \<Rightarrow> ('e, 'v, 'm) session \<Rightarrow> ('e, 'v, 'm) session" where
  "on_configuration_done W request s =
     (case s_pending s of
        None \<Rightarrow> respond_error request ''configurationDone before a launch''
                  error_configuration_not_ready s
      | Some pending \<Rightarrow>
          let s0 = s\<lparr>s_pending := None\<rparr>;
              req = \<lparr>req_project_dir = pl_project_dir pending, req_entry = pl_entry pending,
                     req_generation = pl_generation pending,
                     req_admission = pl_admission pending,
                     req_invocation = pl_invocation pending,
                     req_stop_on_entry = pl_stop_on_entry pending,
                     req_breakpoints = armed_breakpoints W s0\<rparr>
          in (case spawn (w_project W) (w_execution_json W) (w_surface_json W)
                     (w_thread_start W) req of
                Inr h \<Rightarrow>
                  respond request True
                    (JObj [(''marrowDebug'', JObj
                       [(''executionBoundary'', handle_execution_boundary h),
                        (''surfaceServeBoundary'', handle_surface_serve_boundary h)])])
                    (s0\<lparr>s_running := Some
                       \<lparr>r_link = handle_link h, r_debugger = handle_debugger h,
                        r_phase = Executing,
                        r_execution_boundary = handle_execution_boundary h,
                        r_stopped_at = None, r_pending_resume = None,
                        r_terminating = False\<rparr>\<rparr>)
              | Inl (SpawnLaunch e) \<Rightarrow>
                  launch_failed request e (clear_launch_configuration s0)
              | Inl (SpawnThread e) \<Rightarrow>
                  terminate_session W (respond_error request e error_run_invalid s0)))"

section \<open>Inspection\<close>

definition stopped_info :: "('e, 'v, 'm) session \<Rightarrow> stop_info option" where
  "stopped_info s = Option.bind (s_running s) r_stopped_at"

definition on_threads :: "json \<Rightarrow> ('e, 'v, 'm) session \<Rightarrow> ('e, 'v, 'm) session" where
  "on_threads request =
     respond request True
       (JObj [(''threads'', JArr [JObj [(''id'', jint thread_id), (''name'', JStr ''marrow'')]])])"

definition frame_source_json ::
  "('e, 'v, 'm) world \<Rightarrow> stop_point_index option \<Rightarrow> string \<Rightarrow> json" where
  "frame_source_json W stop_points path =
     JObj ((''path'', JStr path)
       # (case Option.bind stop_points (\<lambda>stops.
              source_reference stops (normalize_existing_path (w_canonicalize W) path)) of
            None \<Rightarrow> []
          | Some reference \<Rightarrow>
              (''sourceReference'', jint reference) # opt_field ''name'' JStr (file_name path)))"

definition on_stack_trace ::
  "('e, 'v, 'm) world \<Rightarrow> json \<Rightarrow> json \<Rightarrow> ('e, 'v, 'm) session \<Rightarrow> ('e, 'v, 'm) session" where
  "on_stack_trace W request arguments s =
     (case parse_thread_id arguments of
        Inl e \<Rightarrow> reject request e s
      | Inr u \<Rightarrow>
          (case stopped_info s of
             None \<Rightarrow> respond request True
               (JObj [(''stackFrames'', JArr []), (''totalFrames'', jnat 0)]) s
           | Some stop \<Rightarrow>
               let frame = JObj ([(''id'', jint frame_id),
                     (''name'', JStr (''depth '' @ show_nat (stop_depth stop))),
                     (''line'', jnat (stop_line stop)),
                     (''column'', jnat (max 1 (stop_column stop)))]
                     @ opt_field ''source'' (frame_source_json W (s_stop_points s))
                         (stop_file stop))
               in respond request True
                    (JObj [(''stackFrames'', JArr [frame]), (''totalFrames'', jnat 1)]) s))"

definition on_source ::
  "json \<Rightarrow> json \<Rightarrow> ('e, 'v, 'm) session \<Rightarrow> ('e, 'v, 'm) session" where
  "on_source request arguments s =
     (case parse_source_reference arguments of
        Inl e \<Rightarrow> reject request e s
      | Inr reference \<Rightarrow>
          (case Option.bind (s_stop_points s) (\<lambda>stops. source_file stops reference) of
             None \<Rightarrow> respond_error request source_reference_invalid
                       error_source_reference_invalid s
           | Some source \<Rightarrow> respond request True
               (JObj [(''content'', JStr (sf_source source)),
                      (''mimeType'', JStr ''text/x-marrow'')]) s))"

definition scope_json :: "string \<Rightarrow> int \<Rightarrow> json" where
  "scope_json name reference =
     JObj [(''name'', JStr name), (''variablesReference'', jint reference),
           (''expensive'', JBool False)]"

definition on_scopes ::
  "json \<Rightarrow> json \<Rightarrow> ('e, 'v, 'm) session \<Rightarrow> ('e, 'v, 'm) session" where
  "on_scopes request arguments s =
     (case parse_frame_id arguments of
        Inl e \<Rightarrow> reject request e s
      | Inr u \<Rightarrow>
          if stopped_info s = None then respond_error request ''not stopped'' error_not_stopped s
          else respond request True
            (JObj [(''scopes'', JArr [scope_json ''Locals'' locals_ref,
                                      scope_json ''Durable Data'' durable_ref])]) s)"

definition runtime_error_text :: "rt_error \<Rightarrow> string" where
  "runtime_error_text e = err_code e @ '': '' @ err_message e"

definition on_variables ::
  "('e, 'v, 'm) world \<Rightarrow> json \<Rightarrow> json \<Rightarrow> ('e, 'v, 'm) session \<Rightarrow> ('e, 'v, 'm) session" where
  "on_variables W request arguments s =
     (case parse_variables_input arguments (s_paging s) of
        Inl e \<Rightarrow> reject request e s
      | Inr inp \<Rightarrow>
          (case (if vi_reference inp = locals_ref
                 then (case locals_variables W (vi_page inp) (vi_filter inp) s of
                         (body, s1) \<Rightarrow> (Inr body, s1))
                 else if vi_reference inp = durable_ref
                 then data_variables W [] (vi_page inp) s
                 else expandable_variables W (vi_reference inp) (vi_page inp) (vi_filter inp) s) of
             (Inl e, s1) \<Rightarrow>
               respond_error request (runtime_error_text e) error_variables_runtime s1
           | (Inr body, s1) \<Rightarrow> respond request True (JObj body) s1))"

definition checked_evaluate_expression ::
  "('e, 'v, 'm) world \<Rightarrow> ('e, 'v, 'm) session \<Rightarrow> string \<Rightarrow> span \<Rightarrow> string
   \<Rightarrow> dap_input_error + 'e" where
  "checked_evaluate_expression W s file sp source =
     (case s_analysis s of
        None \<Rightarrow> Inl (input_error ''not stopped'' error_not_stopped)
      | Some analysis \<Rightarrow>
          map_err (\<lambda>messages. input_error
              (diagnostic_message evaluate_expression_invalid messages)
              error_evaluate_expression_invalid)
            (w_checked_expression W analysis file sp source))"

definition on_evaluate ::
  "('e, 'v, 'm) world \<Rightarrow> json \<Rightarrow> json \<Rightarrow> ('e, 'v, 'm) session \<Rightarrow> ('e, 'v, 'm) session" where
  "on_evaluate W request arguments s =
     (case parse_evaluate_input arguments of
        Inl e \<Rightarrow> reject request e s
      | Inr source \<Rightarrow>
          (case Option.bind (stopped_info s)
                  (\<lambda>stop. map_option (\<lambda>file. (file, stop_span stop)) (stop_file stop)) of
             None \<Rightarrow> respond_error request ''not stopped'' error_not_stopped s
           | Some (file, sp) \<Rightarrow>
               (case checked_evaluate_expression W s file sp source of
                  Inl e \<Rightarrow> reject request e s
                | Inr expression \<Rightarrow>
                    (case query W (EvaluateQuery expression) s of
                       (Some (EvaluateAnswer (Inr snapshot)), s1) \<Rightarrow>
                         (case evaluate_body W (eval_value snapshot) (eval_stamp snapshot) s1 of
                            (body, s2) \<Rightarrow> respond request True (JObj body) s2)
                     | (Some (EvaluateAnswer (Inl e)), s1) \<Rightarrow>
                         respond_error request (runtime_error_text e) error_evaluate_runtime s1
                     | (_, s1) \<Rightarrow>
                         respond_error request ''not stopped'' error_not_stopped s1))))"

section \<open>Control\<close>

definition require_stopped_run ::
  "json \<Rightarrow> ('e, 'v, 'm) session \<Rightarrow> bool \<times> ('e, 'v, 'm) session" where
  "require_stopped_run request s =
     (case s_running s of
        None \<Rightarrow> (False, respond_error request ''not running'' error_not_running s)
      | Some r \<Rightarrow>
          if r_stopped_at r = None
          then (False, respond_error request ''not stopped'' error_not_stopped s)
          else (True, s))"

definition continued_event :: "('e, 'v, 'm) session \<Rightarrow> ('e, 'v, 'm) session" where
  "continued_event =
     event ''continued''
       (JObj [(''threadId'', jint thread_id), (''allThreadsContinued'', JBool True)])"

definition on_continue ::
  "json \<Rightarrow> json \<Rightarrow> ('e, 'v, 'm) session \<Rightarrow> ('e, 'v, 'm) session" where
  "on_continue request arguments s =
     (case parse_thread_id arguments of
        Inl e \<Rightarrow> reject request e s
      | Inr u \<Rightarrow>
          (case require_stopped_run request s of
             (False, s1) \<Rightarrow> s1
           | (True, s1) \<Rightarrow>
               resume_run Continue (continued_event
                 (respond request True (JObj [(''allThreadsContinued'', JBool True)]) s1))))"

datatype step_kind = StepOver | StepInto | StepOut

fun step_mode :: "step_kind \<Rightarrow> nat \<Rightarrow> resume" where
  "step_mode StepOver depth = Over depth"
| "step_mode StepInto depth = Into"
| "step_mode StepOut depth = Out depth"

definition on_step ::
  "json \<Rightarrow> json \<Rightarrow> step_kind \<Rightarrow> ('e, 'v, 'm) session \<Rightarrow> ('e, 'v, 'm) session" where
  "on_step request arguments kind s =
     (case parse_thread_id arguments of
        Inl e \<Rightarrow> reject request e s
      | Inr u \<Rightarrow>
          (case stopped_info s of
             None \<Rightarrow> respond_error request ''not stopped'' error_not_stopped s
           | Some stop \<Rightarrow>
               resume_run (step_mode kind (stop_depth stop)) (respond request True (JObj []) s)))"

definition on_pause ::
  "json \<Rightarrow> json \<Rightarrow> ('e, 'v, 'm) session \<Rightarrow> ('e, 'v, 'm) session" where
  "on_pause request arguments s =
     (case parse_thread_id arguments of
        Inl e \<Rightarrow> reject request e s
      | Inr u \<Rightarrow>
          (case s_running s of
             None \<Rightarrow> respond_error request ''not running'' error_not_running s
           | Some r \<Rightarrow>
               if r_stopped_at r \<noteq> None
               then resume_run Pause (continued_event (respond request True (JObj []) s))
               else respond request True (JObj [])
                 (update_run (\<lambda>r. r\<lparr>r_link := (r_link r)\<lparr>link_pause := True\<rparr>\<rparr>) s)))"

definition on_disconnect ::
  "('e, 'v, 'm) world \<Rightarrow> json \<Rightarrow> ('e, 'v, 'm) session \<Rightarrow> ('e, 'v, 'm) session" where
  "on_disconnect W request s = terminate_session W (respond request True (JObj []) s)"

definition on_terminate ::
  "('e, 'v, 'm) world \<Rightarrow> json \<Rightarrow> ('e, 'v, 'm) session \<Rightarrow> ('e, 'v, 'm) session" where
  "on_terminate W request s =
     (if s_running s = None then respond_error request ''not running'' error_not_running s
      else terminate_session W (respond request True (JObj []) s))"

section \<open>Dispatch\<close>

datatype command =
    Initialize | Launch | SetBreakpoints | ConfigurationDone | Threads | StackTrace | Source
  | Scopes | Variables | ContinueRun | Step step_kind | PauseRun | Evaluate | Disconnect
  | TerminateRun

definition command_of :: "string \<Rightarrow> command option" where
  "command_of name = map_of
     [(''initialize'', Initialize), (''launch'', Launch), (''setBreakpoints'', SetBreakpoints),
      (''configurationDone'', ConfigurationDone), (''threads'', Threads),
      (''stackTrace'', StackTrace), (''source'', Source), (''scopes'', Scopes),
      (''variables'', Variables), (''continue'', ContinueRun), (''next'', Step StepOver),
      (''stepIn'', Step StepInto), (''stepOut'', Step StepOut), (''pause'', PauseRun),
      (''evaluate'', Evaluate), (''disconnect'', Disconnect), (''terminate'', TerminateRun)] name"

fun dispatch ::
  "('e, 'v, 'm) world \<Rightarrow> json \<Rightarrow> command \<Rightarrow> json \<Rightarrow> ('e, 'v, 'm) session
   \<Rightarrow> ('e, 'v, 'm) session" where
  "dispatch W request Initialize arguments = on_initialize request arguments"
| "dispatch W request Launch arguments = on_launch W request arguments"
| "dispatch W request SetBreakpoints arguments = on_set_breakpoints W request arguments"
| "dispatch W request ConfigurationDone arguments = on_configuration_done W request"
| "dispatch W request Threads arguments = on_threads request"
| "dispatch W request StackTrace arguments = on_stack_trace W request arguments"
| "dispatch W request Source arguments = on_source request arguments"
| "dispatch W request Scopes arguments = on_scopes request arguments"
| "dispatch W request Variables arguments = on_variables W request arguments"
| "dispatch W request ContinueRun arguments = on_continue request arguments"
| "dispatch W request (Step kind) arguments = on_step request arguments kind"
| "dispatch W request PauseRun arguments = on_pause request arguments"
| "dispatch W request Evaluate arguments = on_evaluate W request arguments"
| "dispatch W request Disconnect arguments = on_disconnect W request"
| "dispatch W request TerminateRun arguments = on_terminate W request"

definition handle ::
  "('e, 'v, 'm) world \<Rightarrow> json \<Rightarrow> ('e, 'v, 'm) session \<Rightarrow> ('e, 'v, 'm) session" where
  "handle W request s =
     (let name = (case Option.bind (jget request ''command'') as_str of Some c \<Rightarrow> c | None \<Rightarrow> [])
      in case command_of name of
           None \<Rightarrow> respond_error request (''unsupported request `'' @ name @ ''`'')
                     error_unsupported_request s
         | Some c \<Rightarrow>
             (case request_arguments request of
                Inl e \<Rightarrow> reject request e s
              | Inr arguments \<Rightarrow> dispatch W request c arguments s))"

end
