(* ===== verification/Dap_Session_Laws.thy ===== *)
theory Dap_Session_Laws
  imports Dap_Handlers
begin

text \<open>
  What every session operation leaves alone and keeps: the inspecting operations change
  nothing but the reference registry and the channels; every message takes the next sequence
  number; a handler's first message is its one response; a query to the parked thread is
  answered and leaves the rendezvous as it was.
\<close>

section \<open>Inspecting operations\<close>

definition refs_ok :: "('e, 'v, 'm) session \<Rightarrow> bool" where
  "refs_ok s \<longleftrightarrow> first_dynamic_ref \<le> s_next_ref s
     \<and> (\<forall>k\<in>dom (s_expandables s). first_dynamic_ref \<le> k \<and> k < s_next_ref s)"

definition inspects :: "('e, 'v, 'm) session \<Rightarrow> ('e, 'v, 'm) session \<Rightarrow> bool" where
  "inspects s s' \<longleftrightarrow>
     s_out s' = s_out s \<and> s_seq s' = s_seq s \<and> s_pending s' = s_pending s
     \<and> s_analysis s' = s_analysis s \<and> s_stop_points s' = s_stop_points s
     \<and> s_breakpoints s' = s_breakpoints s \<and> s_paging s' = s_paging s \<and> s_done s' = s_done s
     \<and> (refs_ok s \<longrightarrow> refs_ok s' \<and> s_expandables s \<subseteq>\<^sub>m s_expandables s')"

lemma inspects_refl [simp]: "inspects s s"
  by (simp add: inspects_def)

lemma inspects_trans: "inspects s s' \<Longrightarrow> inspects s' s'' \<Longrightarrow> inspects s s''"
  by (auto simp: inspects_def intro: map_le_trans)

lemma inspects_running [simp]:
  "inspects s (s'\<lparr>s_running := r\<rparr>) \<longleftrightarrow> inspects s s'"
  "inspects s (s'\<lparr>s_fault := q\<rparr>) \<longleftrightarrow> inspects s s'"
  "inspects s (set_fault ft s') \<longleftrightarrow> inspects s s'"
  "inspects s (update_run g s') \<longleftrightarrow> inspects s s'"
  by (auto simp: inspects_def refs_ok_def set_fault_def update_run_def)

lemma alloc_ref_inspects: "inspects s (snd (alloc_ref x s))"
  by (auto simp: inspects_def refs_ok_def alloc_ref_def map_le_def) (blast dest: less_imp_le)+

lemma alloc_value_inspects: "inspects s (snd (alloc_value stamp v s))"
  by (cases v) (simp_all add: alloc_value_def alloc_ref_inspects)

lemma map_state_inspects:
  assumes "\<And>x s. inspects s (snd (f x s))"
  shows "inspects s (snd (map_state f xs s))"
  by (rule map_state_keeps) (auto intro: assms inspects_trans)

lemma query_inspects: "inspects s (snd (query W q s))"
  by (auto simp: query_def Let_def split: option.splits)

lemma local_json_inspects: "inspects s (snd (local_json M local s))"
  using alloc_value_inspects [of s None "local_expand local"]
  by (simp add: local_json_def Let_def split_beta)

lemma data_json_inspects: "inspects s (snd (data_json entry s))"
  using alloc_ref_inspects [of s "DataPathRef (data_path entry)"]
  by (simp add: data_json_def split_beta)

lemma child_json_inspects: "inspects s (snd (child_json M stamp ch s))"
  using alloc_value_inspects [of s stamp "child_expand ch"]
  by (simp add: child_json_def Let_def split_beta)

lemma attach_inspects: "inspects s (snd (attach_debug_data_boundary body stamp s))"
  by (auto simp: attach_debug_data_boundary_def Let_def split: option.splits)

lemma locals_inspects: "inspects s (snd (locals_variables W page filt s))"
proof -
  obtain a s1 where q: "query W (LocalsQuery page filt) s = (a, s1)" by force
  have s1: "inspects s s1" using query_inspects [of s W] q by (metis snd_conv)
  have "inspects s (snd (map_state (local_json M) es s1))" for M es
    by (rule inspects_trans [OF s1]) (rule map_state_inspects, rule local_json_inspects)
  with q s1 show ?thesis
    by (auto simp: locals_variables_def split_beta split: option.splits query_result.splits)
qed

lemma data_inspects: "inspects s (snd (data_variables W segments page s))"
proof -
  obtain a s1 where q: "query W (DataChildrenQuery segments page) s = (a, s1)" by force
  have s1: "inspects s s1" using query_inspects [of s W] q by (metis snd_conv)
  have "inspects s (snd (map_state data_json es s1))" for es
    by (rule inspects_trans [OF s1]) (rule map_state_inspects, rule data_json_inspects)
  then have "inspects s (snd (attach_debug_data_boundary body stamp (snd (map_state data_json es s1))))"
    for es body stamp
    using attach_inspects inspects_trans by blast
  with q s1 show ?thesis
    by (auto simp: data_variables_def Let_def split_beta split: option.splits
        query_result.splits sum.splits)
qed

lemma expandable_inspects: "inspects s (snd (expandable_variables W reference page filt s))"
proof -
  have cs: "inspects s (snd (child_variables M cs stamp s))" for M cs stamp
    unfolding child_variables_def by (rule map_state_inspects) (rule child_json_inspects)
  then have "inspects s (snd (attach_debug_data_boundary b st (snd (child_variables M cs stamp s))))"
    for M cs stamp b st
    using attach_inspects inspects_trans by blast
  with cs show ?thesis
    by (auto simp: expandable_variables_def Let_def data_inspects split_beta
        split: option.splits expandable.splits)
qed

lemma evaluate_body_inspects: "inspects s (snd (evaluate_body W v stamp s))"
proof -
  have "inspects s (snd (attach_debug_data_boundary b st (snd (alloc_value sp v' s))))"
    for b st sp v'
    using attach_inspects alloc_value_inspects inspects_trans by blast
  moreover have "inspects s (snd (alloc_value sp v' s))" for sp v'
    by (rule alloc_value_inspects)
  ultimately show ?thesis
    by (simp add: evaluate_body_def Let_def split_beta split: option.splits)
qed


section \<open>Messages\<close>

definition is_response :: "json \<Rightarrow> bool" where
  "is_response m \<longleftrightarrow> jget m ''type'' = Some (JStr ''response'')"

definition answers :: "json \<Rightarrow> json \<Rightarrow> bool" where
  "answers request m \<longleftrightarrow>
     is_response m \<and> jget m ''request_seq'' = Some (request_field request ''seq'')
     \<and> jget m ''command'' = Some (request_field request ''command'')"

text \<open>Message number \<open>i\<close> of the output carries the sequence number \<open>i\<close>.\<close>

definition numbered :: "('e, 'v, 'm) session \<Rightarrow> bool" where
  "numbered s \<longleftrightarrow> s_seq s = int (length (s_out s))
     \<and> (\<forall>i < length (s_out s). jget (s_out s ! i) ''seq'' = Some (jint (int i + 1)))"

text \<open>What follows a handler's response: events, and nothing undone.\<close>

definition later :: "('e, 'v, 'm) session \<Rightarrow> ('e, 'v, 'm) session \<Rightarrow> bool" where
  "later s s' \<longleftrightarrow>
     (s_fault s \<noteq> None \<longrightarrow> s_fault s' \<noteq> None)
     \<and> (\<exists>msgs. s_out s' = s_out s @ msgs \<and> list_all (\<lambda>m. \<not> is_response m) msgs)
     \<and> (numbered s \<longrightarrow> numbered s')"

definition one_response :: "json \<Rightarrow> ('e, 'v, 'm) session \<Rightarrow> ('e, 'v, 'm) session \<Rightarrow> bool" where
  "one_response request s s' \<longleftrightarrow>
     (s_fault s' = None \<longrightarrow> (\<exists>resp post. s_out s' = s_out s @ resp # post
        \<and> answers request resp \<and> list_all (\<lambda>m. \<not> is_response m) post))
     \<and> (numbered s \<longrightarrow> numbered s')"

lemma later_refl [simp]: "later s s"
  by (simp add: later_def)

lemma later_trans: "later s s' \<Longrightarrow> later s' s'' \<Longrightarrow> later s s''"
  by (auto simp: later_def)

lemma later_fields [simp]:
  "later s (s'\<lparr>s_running := r\<rparr>) \<longleftrightarrow> later s s'"
  "later s (s'\<lparr>s_done := b\<rparr>) \<longleftrightarrow> later s s'"
  "later s (s'\<lparr>s_expandables := ex\<rparr>) \<longleftrightarrow> later s s'"
  "later s (update_run g s') \<longleftrightarrow> later s s'"
  by (auto simp: later_def numbered_def update_run_def)

lemma later_fault [simp]: "later s s' \<Longrightarrow> later s (set_fault ft s')"
  by (auto simp: later_def numbered_def set_fault_def)

lemma emit_numbered:
  assumes "\<And>k. jget (message k) ''seq'' = Some (jint k)" "numbered s"
  shows "numbered (emit message s)"
  using assms by (auto simp: numbered_def emit_def nth_append less_Suc_eq)

lemma json_seq [simp]:
  "jget (event_json name body k) ''seq'' = Some (jint k)"
  "jget (response_json request success body k) ''seq'' = Some (jint k)"
  "jget (error_response_json request message contract k) ''seq'' = Some (jint k)"
  by (simp_all add: event_json_def response_json_def error_response_json_def)

lemma later_event: "later s s' \<Longrightarrow> later s (event name body s')"
proof (erule later_trans)
  have "\<not> is_response (event_json name body k)" for k
    by (simp add: is_response_def event_json_def)
  then show "later s' (event name body s')"
    by (auto simp: later_def event_def emit_numbered) (auto simp: emit_def)
qed

lemma response_answers:
  "answers request (response_json request success body k)"
  "answers request (error_response_json request message contract k)"
  by (simp_all add: answers_def is_response_def response_json_def error_response_json_def)

lemma emit_one_response:
  assumes "\<And>k. answers request (message k) \<and> jget (message k) ''seq'' = Some (jint k)"
    and "s_out s1 = s_out s" "s_seq s1 = s_seq s" "later (emit message s1) s'"
  shows "one_response request s s'"
proof -
  have "numbered s \<Longrightarrow> numbered (emit message s1)"
    using assms(1-3) by (intro emit_numbered) (auto simp: numbered_def)
  moreover have "s_fault s' = None \<Longrightarrow> s_fault (emit message s1) = None"
    using assms(4) by (auto simp: later_def)
  moreover have "s_fault (emit message s1) = None \<Longrightarrow>
      s_out (emit message s1) = s_out s @ [message (s_seq s1 + 1)]"
    using assms(2) by (auto simp: emit_def split: if_splits)
  ultimately show ?thesis
    using assms(1,4) by (fastforce simp: one_response_def later_def)
qed

lemma responds_once:
  "later (respond request success body s1) s' \<Longrightarrow> s_out s1 = s_out s \<Longrightarrow> s_seq s1 = s_seq s
     \<Longrightarrow> one_response request s s'"
  "later (respond_error request message contract s1) s' \<Longrightarrow> s_out s1 = s_out s
     \<Longrightarrow> s_seq s1 = s_seq s \<Longrightarrow> one_response request s s'"
  unfolding respond_def respond_error_def
  by (erule emit_one_response [rotated 3]; simp add: response_answers)+

lemma responds_now:
  assumes "s_out s1 = s_out s" "s_seq s1 = s_seq s"
  shows "one_response request s (respond request success body s1)"
    "one_response request s (respond_error request message contract s1)"
    "one_response request s (reject request err s1)"
  unfolding reject_def using assms by (auto intro: responds_once [OF later_refl])

lemma inspects_io: "inspects s s' \<Longrightarrow> s_out s' = s_out s \<and> s_seq s' = s_seq s"
  by (simp add: inspects_def)

lemma later_if: "later s a \<Longrightarrow> later s b \<Longrightarrow> later s (if c then a else b)"
  by simp

lemmas later_events = later_event later_if

lemma handle_run_event_later: "later s s' \<Longrightarrow> later s (handle_run_event ev s')"
  by (cases ev) (auto simp: handle_run_event_def Let_def intro!: later_events split: option.splits)

lemma fold_later: "later s s' \<Longrightarrow> later s (fold handle_run_event evs s')"
  by (induction evs arbitrary: s') (simp_all add: handle_run_event_later)

lemma outcome_later: "later s s' \<Longrightarrow> later s (emit_run_outcome out s')"
  by (auto simp: emit_run_outcome_def Let_def output_event_def exited_event_def
      intro!: later_event split: option.splits sum.splits)

lemma finish_run_later: "later s s' \<Longrightarrow> later s (finish_run s')"
  by (auto simp: finish_run_def Let_def emit_run_panic_def output_event_def exited_event_def
      intro!: later_event outcome_later split: option.splits phase.splits join_result.splits)

lemma finish_within_later: "later s s' \<Longrightarrow> later s (finish_run_within W s')"
  by (auto simp: finish_run_within_def detach_run_def Let_def
      intro!: later_event finish_run_later fold_later split: option.splits prod.splits)

lemma terminate_later: "later s s' \<Longrightarrow> later s (terminate_session W s')"
  by (simp add: terminate_session_def request_teardown_def finish_within_later)

lemma resume_later: "later s s' \<Longrightarrow> later s (resume_run mode s')"
  by (simp add: resume_run_def)

lemma flush_later: "later s (snd (flush_resume s))"
  by (auto simp: flush_resume_def Let_def intro!: finish_run_later split: option.splits)

lemma pump_later: "later s (snd (pump_run_event s))"
  by (auto simp: pump_run_event_def intro!: handle_run_event_later finish_run_later
      split: option.splits prod.splits)

lemma clear_io [simp]:
  "s_out (clear_launch_configuration s) = s_out s"
  "s_seq (clear_launch_configuration s) = s_seq s"
  by (simp_all add: clear_launch_configuration_def)

lemma update_io [simp]:
  "s_out (update_run g s) = s_out s" "s_seq (update_run g s) = s_seq s"
  "s_out (update_running_breakpoints W s) = s_out s"
  "s_seq (update_running_breakpoints W s) = s_seq s"
  by (simp_all add: update_run_def update_running_breakpoints_def Let_def)

section \<open>One response per request\<close>

lemma set_breakpoints_responds:
  "one_response request s (on_set_breakpoints W request arguments s)"
  by (auto simp: on_set_breakpoints_def Let_def intro!: responds_now split: sum.splits option.splits)

lemma launch_responds: "one_response request s (on_launch W request arguments s)"
  by (auto simp: on_launch_def Let_def launch_failed_def intro!: responds_now
      responds_once(1) [OF later_event [OF later_refl]] split: sum.splits)

lemma configuration_responds: "one_response request s (on_configuration_done W request s)"
proof -
  have "one_response request s (terminate_session W (respond_error request m c (s\<lparr>s_pending := p\<rparr>)))"
    for m c p
    by (rule responds_once(2) [OF terminate_later [OF later_refl]]) simp_all
  then show ?thesis
    by (auto simp: on_configuration_done_def Let_def launch_failed_def intro!: responds_now
        split: sum.splits option.splits spawn_error.splits)
qed

lemma inspection_responds:
  "one_response request s (on_threads request s)"
  "one_response request s (on_stack_trace W request arguments s)"
  "one_response request s (on_source request arguments s)"
  "one_response request s (on_scopes request arguments s)"
  "one_response request s (on_initialize request arguments s)"
  by (auto simp: on_threads_def on_stack_trace_def on_source_def on_scopes_def on_initialize_def
      Let_def intro!: responds_now split: sum.splits option.splits)

lemma variables_responds: "one_response request s (on_variables W request arguments s)"
proof -
  have "s_out (snd (locals_variables W page filt s)) = s_out s"
    "s_seq (snd (locals_variables W page filt s)) = s_seq s"
    "s_out (snd (data_variables W segments page s)) = s_out s"
    "s_seq (snd (data_variables W segments page s)) = s_seq s"
    "s_out (snd (expandable_variables W k page filt s)) = s_out s"
    "s_seq (snd (expandable_variables W k page filt s)) = s_seq s" for page filt segments k
    using inspects_io [OF locals_inspects] inspects_io [OF data_inspects]
      inspects_io [OF expandable_inspects] by blast+
  then show ?thesis
    by (auto simp: on_variables_def split_beta intro!: responds_now split: sum.splits)
qed

lemma evaluate_responds: "one_response request s (on_evaluate W request arguments s)"
proof -
  have q: "s_out (snd (query W q s)) = s_out s" "s_seq (snd (query W q s)) = s_seq s" for q
    using inspects_io [OF query_inspects] by blast+
  have body: "s_out (snd (evaluate_body W v stamp s1)) = s_out s1"
    "s_seq (snd (evaluate_body W v stamp s1)) = s_seq s1" for v stamp s1
    by (simp_all add: inspects_io [OF evaluate_body_inspects])
  show ?thesis
    unfolding on_evaluate_def split_beta
    by (auto simp: q body intro!: responds_now split: sum.split option.split query_result.split)
qed

lemma resumed_responds:
  "one_response request s
     (resume_run mode (continued_event (respond request success body s)))"
  "one_response request s (resume_run mode (respond request success body s))"
  unfolding continued_event_def
  by (rule responds_once(1) [OF resume_later [OF later_event [OF later_refl]]]; simp)
    (rule responds_once(1) [OF resume_later [OF later_refl]]; simp)

lemma control_responds:
  "one_response request s (on_continue request arguments s)"
  "one_response request s (on_step request arguments kind s)"
  "one_response request s (on_pause request arguments s)"
  by (auto simp: on_continue_def on_step_def on_pause_def require_stopped_run_def
      intro!: responds_now resumed_responds split: sum.splits option.splits)

lemma teardown_responds:
  "one_response request s (on_disconnect W request s)"
  "one_response request s (on_terminate W request s)"
  by (auto simp: on_disconnect_def on_terminate_def intro!: responds_now
      responds_once(1) [OF terminate_later [OF later_refl]])

lemma handle_responds: "one_response request s (handle W request s)"
proof -
  have "one_response request s (dispatch W request c arguments s)" for c arguments
    by (cases c) (simp_all add: set_breakpoints_responds launch_responds configuration_responds
        inspection_responds variables_responds evaluate_responds control_responds
        teardown_responds)
  then show ?thesis
    by (auto simp: handle_def Let_def intro!: responds_now split: option.splits sum.splits)
qed

end
