(* ===== verification/Dap_Rendezvous.thy ===== *)
theory Dap_Rendezvous
  imports Dap_Session_Laws
begin

text \<open>
  The rendezvous of the protocol thread and the run thread: the invariant that ties the
  session's view of the run (\<open>stopped_at\<close>, \<open>pending_resume\<close>) to the run thread's phase
  and to what is in the channels, and the proof that every handler and every turn of the
  protocol loop keeps it. From it follow the claims of the source's comments: an inspection
  request at a stop is answered by the parked thread, and no \<open>expect\<close> fires.
\<close>

section \<open>The invariant\<close>

fun phase_ok ::
  "('e, 'v, 'm) phase \<Rightarrow> ('e, 'm) control list \<Rightarrow> ('v, 'm, 'm) run_event list
   \<Rightarrow> stop_info option \<Rightarrow> resume option \<Rightarrow> bool" where
  "phase_ok (ParkedAt f info) control events stopped pending \<longleftrightarrow>
     (control = [] \<and> stopped = None \<and> pending = None
        \<and> (\<exists>os. events = map Output os @ [Stopped info]))
     \<or> (control = [] \<and> stopped = Some info \<and> pending = None \<and> events = [])
     \<or> (control = [] \<and> stopped = None \<and> pending \<noteq> None \<and> events = [])
     \<or> ((\<exists>m. control = [Resume m]) \<and> stopped = None \<and> pending = None \<and> events = [])"
| "phase_ok Hung control events stopped pending \<longleftrightarrow> False"
| "phase_ok phase control events stopped pending \<longleftrightarrow>
     control = [] \<and> stopped = None \<and> pending = None \<and> (\<exists>os. events = map Output os)"

definition rendezvous :: "('e, 'v, 'm) running \<Rightarrow> bool" where
  "rendezvous r \<longleftrightarrow>
     link_control_open (r_link r) \<and> link_events_open (r_link r) \<and> \<not> link_terminate (r_link r)
     \<and> \<not> r_terminating r
     \<and> phase_ok (r_phase r) (link_control (r_link r)) (link_events (r_link r))
         (r_stopped_at r) (r_pending_resume r)"

definition session_ok :: "('e, 'v, 'm) session \<Rightarrow> bool" where
  "session_ok s \<longleftrightarrow>
     s_fault s = None \<and> refs_ok s
     \<and> (\<forall>r. s_running s = Some r \<longrightarrow> rendezvous r)
     \<and> (s_running s = None \<or> s_pending s = None)
     \<and> (s_expandables s \<noteq> (\<lambda>k. None) \<longrightarrow> s_done s \<or> stopped_info s \<noteq> None)"

lemma stopped_info_Some:
  "stopped_info s = Some info \<longleftrightarrow> (\<exists>r. s_running s = Some r \<and> r_stopped_at r = Some info)"
  by (cases "s_running s") (auto simp: stopped_info_def)

lemma rendezvous_stopped:
  assumes "rendezvous r" "r_stopped_at r = Some info"
  obtains f where "r_phase r = ParkedAt f info" "link_control (r_link r) = []"
    "link_events (r_link r) = []" "link_control_open (r_link r)" "link_events_open (r_link r)"
  using assms by (cases "r_phase r") (auto simp: rendezvous_def)

section \<open>Queries\<close>

text \<open>
  A query whose answer exists is served in the parked thread's next turn, which leaves the
  thread and the channels as they were.
\<close>

definition legal_query :: "('e, 'm) query \<Rightarrow> bool" where
  "legal_query q \<longleftrightarrow>
     (case q of DataChildrenQuery segments page \<Rightarrow> page_start page \<le> u64_max | _ \<Rightarrow> True)"

lemma data_page_bounds_start: "fst (data_page_bounds M page) = page_start page"
  by (cases page) (simp_all add: data_page_bounds_def)

lemma legal_query_answered: "legal_query q \<Longrightarrow> \<exists>a. answer M f q = Some a"
proof (cases q)
  case (DataChildrenQuery segments page)
  assume "legal_query q"
  then have start: "fst (data_page_bounds M page) \<le> u64_max"
    by (simp add: legal_query_def DataChildrenQuery data_page_bounds_start)
  obtain st lim where b: "data_page_bounds M page = (st, lim)" by force
  with start have "st \<le> u64_max" by simp
  from page_loop_returns [OF this, of 0 "[]" lim]
  have "\<exists>r. data_children_at_offset M f segments st lim = Some r"
    by (simp add: data_children_at_offset_def data_children_at_offset_with_limit_def)
  then show ?thesis by (auto simp: DataChildrenQuery snapshot_data_children_def b)
qed auto

lemma park_loop_answers:
  assumes "answer M f q = Some a" "link_control_open l" "link_events_open l"
  shows "park_loop M f info d (l\<lparr>link_control := [Query q]\<rparr>)
       = (d, l\<lparr>link_control := [], link_events := link_events l @ [Answer a]\<rparr>, Parked info)"
  using assms by (subst park_loop.simps, simp) (subst park_loop.simps, simp)

lemma query_stopped:
  assumes "s_running s = Some r" "rendezvous r" "r_stopped_at r = Some info"
    and "answer (w_marrow W) f q = Some a" "r_phase r = ParkedAt f info"
  shows "query W q s = (Some a, s)"
proof -
  from assms(2,3) have l: "link_control (r_link r) = []" "link_events (r_link r) = []"
    "link_control_open (r_link r)" "link_events_open (r_link r)"
    by (auto elim: rendezvous_stopped)
  have restore: "(r_link r)\<lparr>link_control := [], link_events := []\<rparr> = r_link r"
    using l by (intro link.equality) simp_all
  let ?r1 = "r\<lparr>r_link := (r_link r)\<lparr>link_control := [Query q]\<rparr>\<rparr>"
  have "serve_parked (w_marrow W) ?r1 = r\<lparr>r_link := (r_link r)
      \<lparr>link_control := [], link_events := [Answer a]\<rparr>\<rparr>"
    using assms(5) park_loop_answers [OF assms(4) l(3,4)] l
    by (simp add: serve_parked_def)
  then have "pop_event (serve_parked (w_marrow W) ?r1) = Some (Answer a, r)"
    by (simp add: pop_event_def restore)
  moreover have "send_control (Query q) r = Some ?r1"
    using assms(5) l by (simp add: send_control_def)
  moreover have "s\<lparr>s_running := Some r\<rparr> = s"
    using assms(1) by (intro session.equality) simp_all
  ultimately show ?thesis
    using assms(1,3) by (simp add: query_def Let_def)
qed

lemma query_not_stopped: "stopped_info s = None \<Longrightarrow> query W q s = (None, s)"
  by (auto simp: query_def stopped_info_def split: option.splits)

text \<open>
  The contract the handlers rely on: while the session shows a stop, a legal query gets its
  answer and the asker's state is unchanged; otherwise it gets none.
\<close>

locale answering_peer =
  fixes ask :: "'q \<Rightarrow> 's \<Rightarrow> 'a option \<times> 's"
    and ready :: "'s \<Rightarrow> bool"
    and waiting :: "'s \<Rightarrow> bool"
    and legal :: "'q \<Rightarrow> bool"
  assumes answered: "ready s \<Longrightarrow> waiting s \<Longrightarrow> legal q \<Longrightarrow> \<exists>a. ask q s = (Some a, s)"
    and unanswered: "\<not> waiting s \<Longrightarrow> ask q s = (None, s)"
begin

lemma unchanged: "ready s \<Longrightarrow> legal q \<Longrightarrow> snd (ask q s) = s"
  using answered [of s q] unanswered [of s q] by (cases "waiting s") auto

lemma answered_iff: "ready s \<Longrightarrow> legal q \<Longrightarrow> fst (ask q s) \<noteq> None \<longleftrightarrow> waiting s"
  using answered [of s q] unanswered [of s q] by (cases "waiting s") auto

lemma all_answered:
  assumes "ready s" "waiting s" "list_all legal qs"
  shows "snd (map_state ask qs s) = s" "list_all (\<lambda>a. a \<noteq> None) (fst (map_state ask qs s))"
  using assms answered by (induction qs) (auto split: prod.splits, force+)

end

interpretation peer: answering_peer "query W" session_ok "\<lambda>s. stopped_info s \<noteq> None" legal_query
proof unfold_locales
  fix s :: "('a, 'b, 'c) session" and q :: "('a, 'c) query"
  assume ok: "session_ok s" and st: "stopped_info s \<noteq> None" and q: "legal_query q"
  then obtain r info where r: "s_running s = Some r" "r_stopped_at r = Some info"
    by (auto simp: stopped_info_Some)
  with ok have rv: "rendezvous r" by (auto simp: session_ok_def)
  from rendezvous_stopped [OF rv r(2)] obtain f where f: "r_phase r = ParkedAt f info"
    by metis
  from legal_query_answered [OF q] obtain a where "answer (w_marrow W) f q = Some a" by blast
  from query_stopped [OF r(1) rv r(2) this f] show "\<exists>a. query W q s = (Some a, s)" by blast
qed (simp add: query_not_stopped)


section \<open>Inspection keeps the invariant\<close>

definition examines :: "('e, 'v, 'm) session \<Rightarrow> ('e, 'v, 'm) session \<Rightarrow> bool" where
  "examines s s' \<longleftrightarrow>
     inspects s s' \<and> s_running s' = s_running s \<and> s_fault s' = s_fault s"

lemma examines_refl [simp]: "examines s s"
  by (simp add: examines_def)

lemma examines_trans: "examines s s' \<Longrightarrow> examines s' s'' \<Longrightarrow> examines s s''"
  by (auto simp: examines_def intro: inspects_trans)

lemma examines_ok:
  assumes "session_ok s" "examines s s'" "stopped_info s \<noteq> None \<or> s' = s"
  shows "session_ok s'"
  using assms by (auto simp: session_ok_def examines_def inspects_def stopped_info_def)

lemma alloc_ref_examines: "examines s (snd (alloc_ref x s))"
  using alloc_ref_inspects [of s x] by (simp add: examines_def alloc_ref_def)

lemma alloc_value_examines: "examines s (snd (alloc_value stamp v s))"
  by (cases v) (simp_all add: alloc_value_def alloc_ref_examines)

lemma map_state_examines:
  assumes "\<And>x s. examines s (snd (f x s))"
  shows "examines s (snd (map_state f xs s))"
  by (rule map_state_keeps) (auto intro: assms examines_trans)

lemma local_json_examines: "examines s (snd (local_json M local s))"
  using alloc_value_examines [of s None "local_expand local"]
  by (simp add: local_json_def Let_def split_beta)

lemma data_json_examines: "examines s (snd (data_json entry s))"
  using alloc_ref_examines [of s "DataPathRef (data_path entry)"]
  by (simp add: data_json_def split_beta)

lemma child_json_examines: "examines s (snd (child_json M stamp ch s))"
  using alloc_value_examines [of s stamp "child_expand ch"]
  by (simp add: child_json_def Let_def split_beta)

lemma attach_examines:
  "s_running s \<noteq> None \<Longrightarrow> examines s (snd (attach_debug_data_boundary body stamp s))"
  by (auto simp: attach_debug_data_boundary_def Let_def)

lemma attach_after_examines:
  assumes "examines s s1" "s_running s \<noteq> None"
  shows "examines s (snd (attach_debug_data_boundary body stamp s1))"
  using examines_trans [OF assms(1) attach_examines] assms by (simp add: examines_def)

lemma waiting_running: "stopped_info s \<noteq> None \<Longrightarrow> s_running s \<noteq> None"
  by (cases "s_running s") (auto simp: stopped_info_def)

lemma locals_ok:
  assumes "session_ok s"
  shows "session_ok (snd (locals_variables W page filt s))"
proof -
  have ex: "examines s (snd (map_state (local_json M) es s))" for M es
    by (rule map_state_examines) (rule local_json_examines)
  have "query W (LocalsQuery page filt) s = (fst (query W (LocalsQuery page filt) s), s)"
    using peer.unchanged [OF assms, of "LocalsQuery page filt" W]
    by (simp add: legal_query_def prod_eq_iff)
  then obtain a where q: "query W (LocalsQuery page filt) s = (a, s)" by metis
  have "a \<noteq> None \<Longrightarrow> stopped_info s \<noteq> None"
    using q query_not_stopped [of s W] by (metis prod.inject)
  then show ?thesis
    using examines_ok [OF assms ex] assms q
    by (auto simp: locals_variables_def split_beta split: option.splits query_result.splits)
qed

lemma data_ok:
  assumes "session_ok s" "page_start page \<le> u64_max"
  shows "session_ok (snd (data_variables W segments page s))"
proof -
  let ?q = "DataChildrenQuery segments page"
  have ex: "examines s (snd (map_state data_json es s))" for es
    by (rule map_state_examines) (rule data_json_examines)
  have "query W ?q s = (fst (query W ?q s), s)"
    using peer.unchanged [OF assms(1), of ?q W] assms(2)
    by (simp add: legal_query_def prod_eq_iff)
  then obtain a where q: "query W ?q s = (a, s)" by metis
  have st: "a \<noteq> None \<Longrightarrow> stopped_info s \<noteq> None"
    using q query_not_stopped [of s W] by (metis prod.inject)
  have "a \<noteq> None \<Longrightarrow> session_ok (snd (attach_debug_data_boundary b stamp
      (snd (map_state data_json es s))))" for b stamp es
    using examines_ok [OF assms(1) attach_after_examines [OF ex waiting_running]] st by blast
  then show ?thesis
    using assms(1) q
    by (auto simp: data_variables_def split_beta Let_def
        split: option.splits query_result.splits sum.splits)
qed

lemma expandable_ok:
  assumes "session_ok s" "\<not> s_done s" "page_start page \<le> u64_max"
  shows "session_ok (snd (expandable_variables W reference page filt s))"
proof (cases "s_expandables s reference")
  case (Some x)
  have ex: "examines s (snd (child_variables M cs stamp s))" for M cs stamp
    unfolding child_variables_def by (rule map_state_examines) (rule child_json_examines)
  from Some assms have st: "stopped_info s \<noteq> None"
    by (auto simp: session_ok_def fun_eq_iff)
  have "session_ok (snd (child_variables M cs stamp s))"
    "session_ok (snd (attach_debug_data_boundary b sp (snd (child_variables M cs stamp s))))"
    for M cs stamp b sp
    using examines_ok [OF assms(1) ex] st
      examines_ok [OF assms(1) attach_after_examines [OF ex waiting_running [OF st]]] by blast+
  with Some assms show ?thesis
    by (auto simp: expandable_variables_def split_beta Let_def data_ok
        split: expandable.splits option.splits)
qed (simp add: expandable_variables_def assms)

lemma evaluate_body_ok:
  assumes "session_ok s" "stopped_info s \<noteq> None"
  shows "session_ok (snd (evaluate_body W v stamp s))"
proof -
  have "session_ok (snd (alloc_value sp v' s))"
    "session_ok (snd (attach_debug_data_boundary b st (snd (alloc_value sp v' s))))" for sp v' b st
    using examines_ok [OF assms(1) alloc_value_examines] assms(2)
      examines_ok [OF assms(1) attach_after_examines
        [OF alloc_value_examines waiting_running [OF assms(2)]]] by blast+
  then show ?thesis
    by (simp add: evaluate_body_def Let_def split_beta split: option.splits)
qed


section \<open>Messages, teardown and resumption\<close>

lemma emit_ok [simp]:
  "session_ok (emit m s) \<longleftrightarrow> session_ok s"
  "session_ok (respond request success body s) \<longleftrightarrow> session_ok s"
  "session_ok (respond_error request message contract s) \<longleftrightarrow> session_ok s"
  "session_ok (reject request err s) \<longleftrightarrow> session_ok s"
  "session_ok (event name ev s) \<longleftrightarrow> session_ok s"
  by (auto simp: session_ok_def emit_def respond_def respond_error_def reject_def event_def
      refs_ok_def stopped_info_def)

lemma emit_fields [simp]:
  "s_running (emit m s) = s_running s" "s_fault (emit m s) = s_fault s"
  "s_done (emit m s) = s_done s" "s_expandables (emit m s) = s_expandables s"
  "s_next_ref (emit m s) = s_next_ref s" "s_pending (emit m s) = s_pending s"
  by (simp_all add: emit_def)

lemma clear_fields [simp]:
  "s_running (clear_launch_configuration s) = s_running s"
  "s_pending (clear_launch_configuration s) = None"
  "s_done (clear_launch_configuration s) = s_done s"
  "s_expandables (clear_launch_configuration s) = s_expandables s"
  by (simp_all add: clear_launch_configuration_def)

lemmas writes = respond_def respond_error_def reject_def event_def

lemma stopped_info_emit [simp]: "stopped_info (emit m s) = stopped_info s"
  by (simp add: stopped_info_def)

text \<open>What a run event and a finished run leave alone.\<close>

definition calm :: "('e, 'v, 'm) session \<Rightarrow> ('e, 'v, 'm) session \<Rightarrow> bool" where
  "calm s s' \<longleftrightarrow> s_fault s' = s_fault s \<and> (refs_ok s \<longrightarrow> refs_ok s')
     \<and> (s_running s = None \<longrightarrow> s_running s' = None)"

lemma calm_refl [simp]: "calm s s"
  by (simp add: calm_def)

lemma calm_emit [simp]: "calm s (emit m s') \<longleftrightarrow> calm s s'"
  by (simp add: calm_def refs_ok_def)

lemma calm_outcome [simp]: "calm s (emit_run_outcome out s') \<longleftrightarrow> calm s s'"
  by (cases out) (auto simp: emit_run_outcome_def Let_def output_event_def exited_event_def
      event_def split: sum.splits)

lemma calm_panic [simp]: "calm s (emit_run_panic s') \<longleftrightarrow> calm s s'"
  by (simp add: emit_run_panic_def output_event_def exited_event_def event_def)

lemma calm_update [simp]: "calm s (update_run g s') \<longleftrightarrow> calm s s'"
  by (simp add: calm_def update_run_def refs_ok_def)

lemma calm_event: "calm s s' \<Longrightarrow> calm s (handle_run_event ev s')"
  by (cases ev) (simp_all add: handle_run_event_def event_def)

lemma calm_fold: "calm s s' \<Longrightarrow> calm s (fold handle_run_event evs s')"
  by (induction evs arbitrary: s') (simp_all add: calm_event)

text \<open>A finished run is gone, and the session with it.\<close>

definition closed :: "('e, 'v, 'm) session \<Rightarrow> bool" where
  "closed s \<longleftrightarrow> s_running s = None \<and> s_done s"

lemma outcome_running [simp]:
  "s_running (emit_run_outcome out s) = s_running s" "s_running (emit_run_panic s) = s_running s"
  by (auto simp: emit_run_outcome_def emit_run_panic_def Let_def output_event_def
      exited_event_def event_def split: option.splits sum.splits)

lemma finish_run_closed [simp]: "closed (finish_run s)"
  by (auto simp: closed_def finish_run_def Let_def event_def set_fault_def
      split: option.splits phase.splits join_result.splits)

lemma finish_run_fault:
  assumes "\<And>r. s_running s = Some r \<Longrightarrow> ended (r_phase r)" "refs_ok s"
  shows "s_fault (finish_run s) = s_fault s" "refs_ok (finish_run s)"
proof -
  have "calm (s\<lparr>s_running := None\<rparr>) (emit_run_outcome out (s\<lparr>s_running := None\<rparr>))"
    "calm (s\<lparr>s_running := None\<rparr>) (emit_run_panic (s\<lparr>s_running := None\<rparr>))" for out
    by simp_all
  with assms have "s_fault (finish_run s) = s_fault s \<and> refs_ok (finish_run s)"
    by (auto simp: finish_run_def Let_def event_def calm_def refs_ok_def
        split: option.splits phase.splits join_result.splits)
  then show "s_fault (finish_run s) = s_fault s" "refs_ok (finish_run s)" by auto
qed

lemma closed_ok: "closed s \<Longrightarrow> s_fault s = None \<Longrightarrow> refs_ok s \<Longrightarrow> session_ok s"
  by (simp add: closed_def session_ok_def)

lemma finish_run_ok:
  assumes "session_ok s" "\<And>r. s_running s = Some r \<Longrightarrow> ended (r_phase r)"
  shows "session_ok (finish_run s)"
  using assms finish_run_fault [OF assms(2)]
  by (intro closed_ok) (simp_all add: session_ok_def)

lemma terminate_session_closed [simp]: "closed (terminate_session W s)"
  using finish_run_closed
  by (auto simp: terminate_session_def finish_run_within_def closed_def detach_run_def Let_def
      event_def split: option.splits prod.splits)

lemma terminate_session_ok:
  assumes "s_fault s = None" "refs_ok s"
  shows "session_ok (terminate_session W s)"
proof -
  define s1 where "s1 = request_teardown s"
  have s1: "s_fault s1 = None" "refs_ok s1"
    using assms by (simp_all add: s1_def request_teardown_def update_run_def refs_ok_def)
  have ev: "s_fault (fold handle_run_event evs s1) = None"
    "refs_ok (fold handle_run_event evs s1)" for evs
    using calm_fold [OF calm_refl, where s = s1 and evs = evs] s1 by (simp_all add: calm_def)
  let ?t = "\<lambda>evs j. update_run (\<lambda>r. r\<lparr>r_phase := Ended j\<rparr>) (fold handle_run_event evs s1)"
  have "s_fault (?t evs j) = None" "refs_ok (?t evs j)"
    "s_running (?t evs j) = Some r \<Longrightarrow> ended (r_phase r)" for evs j r
    using ev by (auto simp: update_run_def refs_ok_def)
  then have "s_fault (finish_run (?t evs j)) = None" "refs_ok (finish_run (?t evs j))" for evs j
    using finish_run_fault [of "?t evs j"] by simp_all
  moreover have "s_fault (detach_run (fold handle_run_event evs s1)) = None"
    "refs_ok (detach_run (fold handle_run_event evs s1))" for evs
    using ev [of evs] by (auto simp: detach_run_def Let_def event_def refs_ok_def split: option.splits)
  ultimately have "s_fault (finish_run_within W s1) = None \<and> refs_ok (finish_run_within W s1)"
    using s1 by (auto simp: finish_run_within_def Let_def simp del: fold_append
        split: option.splits prod.splits)
  then show ?thesis
    using terminate_session_closed [of W s]
    by (intro closed_ok) (simp_all add: terminate_session_def s1_def Let_def refs_ok_def)
qed

lemma resume_ok:
  assumes "session_ok s" "stopped_info s \<noteq> None"
  shows "session_ok (resume_run mode s)"
proof -
  from assms obtain r info where r: "s_running s = Some r" "r_stopped_at r = Some info"
    by (auto simp: stopped_info_Some)
  with assms(1) have rv: "rendezvous r" by (simp add: session_ok_def)
  from rendezvous_stopped [OF rv r(2)] obtain f where "r_phase r = ParkedAt f info"
    "link_control (r_link r) = []" "link_events (r_link r) = []" by metis
  with rv have "rendezvous (r\<lparr>r_stopped_at := None, r_pending_resume := Some mode\<rparr>)"
    by (simp add: rendezvous_def)
  with assms(1) r show ?thesis
    by (auto simp: resume_run_def update_run_def session_ok_def refs_ok_def)
qed

lemma flush_ok:
  assumes "session_ok s"
  shows "session_ok (snd (flush_resume s))"
proof (cases "s_running s")
  case (Some r)
  with assms have rv: "rendezvous r" by (simp add: session_ok_def)
  show ?thesis
  proof (cases "r_pending_resume r")
    case mode: (Some mode)
    with rv obtain f info where p: "r_phase r = ParkedAt f info" "link_control (r_link r) = []"
      "r_stopped_at r = None" "link_events (r_link r) = []"
      by (cases "r_phase r") (auto simp: rendezvous_def)
    with rv have "rendezvous (r\<lparr>r_pending_resume := None,
        r_link := (r_link r)\<lparr>link_control := [Resume mode]\<rparr>\<rparr>)"
      by (simp add: rendezvous_def)
    with Some mode p rv assms show ?thesis
      by (auto simp: flush_resume_def Let_def send_control_def session_ok_def refs_ok_def
          stopped_info_def rendezvous_def)
  qed (use Some rv assms in \<open>simp add: flush_resume_def rendezvous_def\<close>)
qed (simp add: flush_resume_def assms)


lemma set_running_ok:
  assumes "session_ok s" "s_running s = Some r" "rendezvous r'"
    and "r_stopped_at r \<noteq> None \<longrightarrow> r_stopped_at r' \<noteq> None"
  shows "session_ok (s\<lparr>s_running := Some r'\<rparr>)"
  using assms by (auto simp: session_ok_def refs_ok_def stopped_info_def)

lemma link_update_ok:
  assumes "rendezvous r"
  shows "rendezvous (r\<lparr>r_link := (r_link r)\<lparr>link_swaps := sw\<rparr>\<rparr>)"
    "rendezvous (r\<lparr>r_link := (r_link r)\<lparr>link_pause := b\<rparr>\<rparr>)"
  using assms by (simp_all add: rendezvous_def)

lemma events_cases:
  assumes "phase_ok ph c (ev # evs) st p"
  shows "(\<exists>o1. ev = Output o1 \<and> phase_ok ph c evs st p)
       \<or> (\<exists>f info. ph = ParkedAt f info \<and> ev = Stopped info \<and> evs = [] \<and> c = [] \<and> p = None)"
  using assms by (cases ph) (auto simp: Cons_eq_map_conv Cons_eq_append_conv append_eq_Cons_conv)

lemma pump_ok:
  assumes "session_ok s"
  shows "session_ok (snd (pump_run_event s))"
proof (cases "s_running s")
  case (Some r)
  with assms have rv: "rendezvous r" by (simp add: session_ok_def)
  show ?thesis
  proof (cases "link_events (r_link r)")
    case Nil
    show ?thesis
    proof (cases "ended (r_phase r)")
      case True
      then have "session_ok (finish_run s)"
        using Some by (intro finish_run_ok [OF assms]) simp
      then show ?thesis
        using Some Nil True by (simp add: pump_run_event_def pop_event_def)
    qed (use Some Nil assms in \<open>simp add: pump_run_event_def pop_event_def\<close>)
  next
    case (Cons ev evs)
    let ?r = "r\<lparr>r_link := (r_link r)\<lparr>link_events := evs\<rparr>\<rparr>"
    have pump: "snd (pump_run_event s) = handle_run_event ev (s\<lparr>s_running := Some ?r\<rparr>)"
      using Some Cons by (simp add: pump_run_event_def pop_event_def)
    from rv Cons events_cases [of "r_phase r" _ ev evs] show ?thesis
      unfolding pump
    proof (simp add: rendezvous_def, elim conjE disjE exE)
      assume *: "phase_ok (r_phase r) (link_control (r_link r)) (ev # evs) (r_stopped_at r)
          (r_pending_resume r)"
      from rv Cons * events_cases [OF *]
      show "session_ok (handle_run_event ev (s\<lparr>s_running := Some ?r\<rparr>))"
      proof (elim disjE exE conjE)
        fix o1 assume o1: "ev = Output o1" "phase_ok (r_phase r) (link_control (r_link r)) evs
            (r_stopped_at r) (r_pending_resume r)"
        with rv have "rendezvous ?r" by (simp add: rendezvous_def)
        from set_running_ok [OF assms Some this] o1 show ?thesis
          by (simp add: handle_run_event_def)
      next
        fix f info assume st: "r_phase r = ParkedAt f info" "ev = Stopped info" "evs = []"
          "link_control (r_link r) = []" "r_pending_resume r = None"
        with rv have "rendezvous (?r\<lparr>r_stopped_at := Some info\<rparr>)" by (simp add: rendezvous_def)
        from set_running_ok [OF assms Some this] st rv show ?thesis
          by (simp add: handle_run_event_def update_run_def rendezvous_def)
      qed
    qed
  qed
qed (simp add: pump_run_event_def assms)

section \<open>Handlers\<close>

lemma fields_ok:
  assumes "session_ok s"
  shows "session_ok (s\<lparr>s_paging := b\<rparr>)" "session_ok (s\<lparr>s_breakpoints := bs\<rparr>)"
    "session_ok (s\<lparr>s_pending := None\<rparr>)" "session_ok (clear_launch_configuration s)"
    "s_running s = None \<Longrightarrow> session_ok (s\<lparr>s_stop_points := sp, s_analysis := an, s_pending := pl\<rparr>)"
  using assms by (auto simp: session_ok_def refs_ok_def stopped_info_def
      clear_launch_configuration_def)

lemma swap_ok: "session_ok s \<Longrightarrow> session_ok (update_running_breakpoints W s)"
  using set_running_ok [of s "the (s_running s)"] link_update_ok(1)
  by (cases "s_running s")
    (auto simp: update_running_breakpoints_def update_run_def Let_def session_ok_def refs_ok_def
      stopped_info_def)

lemma set_breakpoints_ok: "session_ok s \<Longrightarrow> session_ok (on_set_breakpoints W request arguments s)"
  by (auto simp: on_set_breakpoints_def Let_def fields_ok swap_ok split: sum.splits option.splits)

lemma launch_ok: "session_ok s \<Longrightarrow> session_ok (on_launch W request arguments s)"
  using fields_ok(4) [of s] fields_ok(5) [of "clear_launch_configuration s"]
  by (auto simp: on_launch_def Let_def launch_failed_def split: sum.splits)

lemma configuration_ok:
  assumes "session_ok s" "\<not> s_done s"
  shows "session_ok (on_configuration_done W request s)"
proof (cases "s_pending s")
  case (Some pending)
  with assms have none: "s_running s = None" "s_expandables s = (\<lambda>k. None)"
    by (auto simp: session_ok_def stopped_info_def)
  have start: "session_ok (s\<lparr>s_pending := None, s_running := Some
      \<lparr>r_link = new_link, r_debugger = d, r_phase = Executing, r_execution_boundary = eb,
       r_stopped_at = None, r_pending_resume = None, r_terminating = False\<rparr>\<rparr>)" for d eb
    using assms none by (simp add: session_ok_def refs_ok_def rendezvous_def new_link_def)
  have "session_ok (terminate_session W (respond_error request m c (s\<lparr>s_pending := None\<rparr>)))" for m c
    using fields_ok(3) [OF assms(1)]
    by (intro terminate_session_ok)
      (simp_all add: respond_error_def session_ok_def refs_ok_def)
  with Some start assms show ?thesis
    by (auto simp: on_configuration_done_def Let_def launch_failed_def fields_ok spawn_Inr(1)
        split: sum.splits spawn_error.splits)
qed (simp add: on_configuration_done_def assms)

lemma variables_ok:
  assumes "session_ok s" "\<not> s_done s"
  shows "session_ok (on_variables W request arguments s)"
proof -
  have "parse_variables_input arguments paging = Inr inp \<Longrightarrow> page_start (vi_page inp) \<le> u64_max"
    for paging inp
    by (auto simp: parse_variables_input_def dest: parse_child_page_bound)
  then show ?thesis
    using assms
    by (auto simp: on_variables_def split_beta locals_ok data_ok expandable_ok split: sum.splits)
qed

lemma evaluate_ok:
  assumes "session_ok s"
  shows "session_ok (on_evaluate W request arguments s)"
proof -
  have snd: "snd (query W (EvaluateQuery e) s) = s" for e
    by (rule peer.unchanged [OF assms]) (simp add: legal_query_def)
  have "fst (query W (EvaluateQuery e) s) \<noteq> None \<Longrightarrow> stopped_info s \<noteq> None" for e
    using query_not_stopped [of s W] by (metis prod.sel(1))
  then have "fst (query W (EvaluateQuery e) s) = Some a
      \<Longrightarrow> session_ok (snd (evaluate_body W v stamp s))" for e a v stamp
    using evaluate_body_ok [OF assms, of W v stamp] by (metis option.discI)
  then show ?thesis
    unfolding on_evaluate_def split_beta
    by (auto simp: snd assms split: sum.split option.split query_result.split)
qed

lemma pause_ok: "session_ok s \<Longrightarrow> session_ok (on_pause request arguments s)"
proof -
  assume ok: "session_ok s"
  have "s_running s = Some r \<Longrightarrow> r_stopped_at r = None \<Longrightarrow>
      session_ok (update_run (\<lambda>r. r\<lparr>r_link := (r_link r)\<lparr>link_pause := True\<rparr>\<rparr>) s)" for r
    using set_running_ok [OF ok _ link_update_ok(2), of r r True] ok
    by (simp add: update_run_def session_ok_def)
  with ok show ?thesis
    by (auto simp: on_pause_def continued_event_def writes stopped_info_def
        intro!: resume_ok split: sum.splits option.splits)
qed

lemma resume_handlers_ok:
  assumes "session_ok s"
  shows "session_ok (on_continue request arguments s)"
    "session_ok (on_step request arguments kind s)"
  using assms
  by (auto simp: on_continue_def on_step_def require_stopped_run_def continued_event_def writes
      stopped_info_def intro!: resume_ok split: sum.splits option.splits)

lemma teardown_ok:
  assumes "session_ok s"
  shows "session_ok (on_disconnect W request s)" "session_ok (on_terminate W request s)"
proof -
  have "session_ok (terminate_session W (emit m s))" for m
    using assms by (intro terminate_session_ok) (simp_all add: session_ok_def refs_ok_def)
  then show "session_ok (on_disconnect W request s)" "session_ok (on_terminate W request s)"
    using assms by (simp_all add: on_disconnect_def on_terminate_def respond_def)
qed

lemma inspection_ok:
  assumes "session_ok s"
  shows "session_ok (on_threads request s)" "session_ok (on_stack_trace W request arguments s)"
    "session_ok (on_source request arguments s)" "session_ok (on_scopes request arguments s)"
    "session_ok (on_initialize request arguments s)"
  using assms
  by (auto simp: on_threads_def on_stack_trace_def on_source_def on_scopes_def on_initialize_def
      fields_ok split: sum.splits option.splits)

lemma handle_ok:
  assumes "session_ok s" "\<not> s_done s"
  shows "session_ok (handle W request s)"
proof -
  have "session_ok (dispatch W request c arguments s)" for c arguments
    using assms by (cases c) (simp_all add: set_breakpoints_ok launch_ok configuration_ok
        inspection_ok variables_ok evaluate_ok pause_ok resume_handlers_ok teardown_ok)
  with assms(1) show ?thesis
    by (auto simp: handle_def Let_def split: option.splits sum.splits)
qed

end
