(* ===== verification/Dap_System.thy ===== *)
theory Dap_System
  imports Dap_Rendezvous Dap_Protocol Transitions
begin

text \<open>
  \<open>crates/marrow-dap/src/main.rs\<close>: the protocol loop \<open>serve\<close>, run against the run
  thread and the reader thread in any interleaving. The loop's position is a value of
  \<open>serve_pc\<close>; a step of the system is a step of the loop, of the run thread (a statement,
  a turn of the park loop, its end) or of the reader (a request read, or the input closed).
  The properties are the promises the adapter makes its client.
\<close>

section \<open>The protocol loop\<close>

datatype serve_pc = Draining | Flushing | Pumping | Waiting | Returned

record ('e, 'v, 'm) system =
  sys_session :: "('e, 'v, 'm) session"
  sys_requests :: "json list"
  sys_input_open :: bool
  sys_pc :: serve_pc

text \<open>Leaving \<open>serve\<close> drops the session, whose \<open>Drop\<close> terminates it.\<close>

definition leave ::
  "('e, 'v, 'm) world \<Rightarrow> ('e, 'v, 'm) session \<Rightarrow> ('e, 'v, 'm) system \<Rightarrow> ('e, 'v, 'm) system" where
  "leave W s y = y\<lparr>sys_session := terminate_session W s, sys_pc := Returned\<rparr>"

text \<open>The return on \<open>done\<close> after a handled request, a flush or a pumped event.\<close>

definition proceed ::
  "('e, 'v, 'm) world \<Rightarrow> ('e, 'v, 'm) session \<Rightarrow> serve_pc \<Rightarrow> ('e, 'v, 'm) system
   \<Rightarrow> ('e, 'v, 'm) system" where
  "proceed W s pc y =
     (if s_done s then leave W s y else y\<lparr>sys_session := s, sys_pc := pc\<rparr>)"

definition serve_step ::
  "('e, 'v, 'm) world \<Rightarrow> ('e, 'v, 'm) system \<Rightarrow> ('e, 'v, 'm) system" where
  "serve_step W y =
     (let s = sys_session y in
      case sys_pc y of
        Draining \<Rightarrow>
          (case sys_requests y of
             [] \<Rightarrow> y\<lparr>sys_pc := Flushing\<rparr>
           | m # ms \<Rightarrow> proceed W (handle W m s) Draining (y\<lparr>sys_requests := ms\<rparr>))
      | Flushing \<Rightarrow>
          (case flush_resume s of
             (True, s') \<Rightarrow> proceed W s' Draining y
           | (False, s') \<Rightarrow> y\<lparr>sys_session := s', sys_pc := Pumping\<rparr>)
      | Pumping \<Rightarrow>
          (case pump_run_event s of
             (True, s') \<Rightarrow> proceed W s' Draining y
           | (False, s') \<Rightarrow> y\<lparr>sys_session := s', sys_pc := Waiting\<rparr>)
      | Waiting \<Rightarrow>
          (case sys_requests y of
             m # ms \<Rightarrow> proceed W (handle W m s) Draining (y\<lparr>sys_requests := ms\<rparr>)
           | [] \<Rightarrow> if sys_input_open y then y\<lparr>sys_pc := Draining\<rparr> else leave W s y)
      | Returned \<Rightarrow> y)"

section \<open>The run thread\<close>

inductive run_step ::
  "('e, 'v, 'm) marrow \<Rightarrow> ('e, 'v, 'm) running \<Rightarrow> ('e, 'v, 'm) running \<Rightarrow> bool"
  for M where
  statement: "r_phase r = Executing
    \<Longrightarrow> on_statement M sp f (r_debugger r) (r_link r) = (d, l, res)
    \<Longrightarrow> run_step M r (r\<lparr>r_debugger := d, r_link := l, r_phase := phase_after f res\<rparr>)"
| woken: "r_phase r = ParkedAt f info \<Longrightarrow> run_step M r (serve_parked M r)"
| finished: "r_phase r = Executing \<or> (\<exists>e. r_phase r = Unwinding e)
    \<Longrightarrow> run_step M r (r\<lparr>r_phase := Ended j\<rparr>)"

inductive_cases run_step_cases: "run_step M r r'"

section \<open>The system\<close>

inductive system_step ::
  "('e, 'v, 'm) system \<Rightarrow> ('e, 'v, 'm) system \<Rightarrow> bool" where
  serve: "system_step y (serve_step W y)"
| run: "s_running (sys_session y) = Some r \<Longrightarrow> run_step M r r'
    \<Longrightarrow> system_step y (y\<lparr>sys_session := (sys_session y)\<lparr>s_running := Some r'\<rparr>\<rparr>)"
| request_read: "sys_input_open y \<Longrightarrow> is_request m
    \<Longrightarrow> system_step y (y\<lparr>sys_requests := sys_requests y @ [m]\<rparr>)"
| input_closed: "system_step y (y\<lparr>sys_input_open := False\<rparr>)"

definition initial_system :: "('e, 'v, 'm) system \<Rightarrow> bool" where
  "initial_system y \<longleftrightarrow>
     y = \<lparr>sys_session = new_session, sys_requests = [], sys_input_open = True,
          sys_pc = Draining\<rparr>"

abbreviation reachable_system :: "('e, 'v, 'm) system \<Rightarrow> bool" where
  "reachable_system \<equiv> reachable initial_system system_step"

section \<open>The run thread keeps the rendezvous\<close>

lemma send_events_map_output:
  assumes "send_events (map Output os) l = Some l'"
  shows "l' = l\<lparr>link_events := link_events l @ map Output os\<rparr> \<or> os = [] \<and> l' = l"
  using assms by (auto simp: send_events_eq split: if_splits)

lemma on_statement_link:
  assumes "on_statement M sp f d l = (d', l', res)" "link_events_open l" "\<not> link_terminate l"
  obtains os where
    "link_control l' = link_control l" "link_control_open l' = link_control_open l"
    "link_events_open l'" "\<not> link_terminate l'"
    "(res = Proceed \<and> link_events l' = link_events l @ map Output os)
     \<or> (\<exists>info. res = Parked info \<and> link_events l' = link_events l @ map Output os @ [Stopped info])"
proof -
  obtain d1 l1 where dr: "drain_breakpoint_swaps d l = (d1, l1)" by force
  then have l1: "link_control l1 = link_control l" "link_control_open l1 = link_control_open l"
    "link_events_open l1 = link_events_open l" "link_terminate l1 = link_terminate l"
    "link_events l1 = link_events l"
    by (auto simp: drain_breakpoint_swaps_def)
  obtain bps act where ev: "evaluate_breakpoints M f (span_line sp) (dbg_breakpoints d1) = (bps, act)"
    by force
  obtain l2 where l2: "send_events (map Output (act_outputs act)) l1 = Some l2"
    "l2 = l1\<lparr>link_events := link_events l1 @ map Output (act_outputs act)\<rparr>"
    using assms(2) l1 by (auto simp: send_events_eq)
  obtain d3 rs where sr: "stop_reason_here (d1\<lparr>dbg_breakpoints := bps\<rparr>) (link_pause l2)
      (frame_depth f) act = (d3, rs)" by force
  show thesis
  proof (rule that [of "act_outputs act"])
  qed (use assms dr ev l2 sr l1 in \<open>auto simp: on_statement_def Let_def split: option.splits\<close>)
qed

lemma run_step_rendezvous:
  assumes "run_step M r r'" "rendezvous r"
  shows "rendezvous r'" "r_stopped_at r' = r_stopped_at r"
proof -
  have "rendezvous r' \<and> r_stopped_at r' = r_stopped_at r"
    using assms(1)
  proof cases
    case (statement sp f d l res)
    from statement(2) assms(2) obtain os where l: "link_control l = link_control (r_link r)"
      "link_control_open l = link_control_open (r_link r)" "link_events_open l"
      "\<not> link_terminate l" and res: "(res = Proceed
          \<and> link_events l = link_events (r_link r) @ map Output os)
        \<or> (\<exists>info. res = Parked info
          \<and> link_events l = link_events (r_link r) @ map Output os @ [Stopped info])"
      by (rule_tac on_statement_link [OF statement(3)]) (auto simp: rendezvous_def)
    from assms(2) statement(2) obtain os' where "link_events (r_link r) = map Output os'"
      "link_control (r_link r) = []" "r_stopped_at r = None" "r_pending_resume r = None"
      by (auto simp: rendezvous_def)
    with l res assms(2) statement(1) show ?thesis
      by (auto simp: rendezvous_def simp flip: map_append)
  next
    case (woken f info)
    with assms(2) consider "link_control (r_link r) = []"
      | m where "link_control (r_link r) = [Resume m]" "r_stopped_at r = None"
        "r_pending_resume r = None" "link_events (r_link r) = []"
      by (auto simp: rendezvous_def)
    then show ?thesis
    proof cases
      case 1
      with woken assms(2) have "serve_parked M r = r"
        by (simp add: serve_parked_def park_loop.simps rendezvous_def)
      with woken assms(2) show ?thesis by simp
    next
      case 2
      with woken assms(2) show ?thesis
        by (simp add: serve_parked_def park_loop.simps rendezvous_def)
    qed
  next
    case (finished j)
    with assms(2) show ?thesis by (auto simp: rendezvous_def)
  qed
  then show "rendezvous r'" "r_stopped_at r' = r_stopped_at r" by auto
qed

section \<open>The system invariant\<close>

definition system_ok :: "('e, 'v, 'm) system \<Rightarrow> bool" where
  "system_ok y \<longleftrightarrow>
     session_ok (sys_session y) \<and> numbered (sys_session y)
     \<and> (if sys_pc y = Returned then closed (sys_session y) else \<not> s_done (sys_session y))"

lemma handle_numbered: "numbered s \<Longrightarrow> numbered (handle W m s)"
  using handle_responds [of m s W] by (simp add: one_response_def)

lemma terminate_numbered: "numbered s \<Longrightarrow> numbered (terminate_session W s)"
  using terminate_later [OF later_refl, of s W] by (simp add: later_def)

lemma proceed_ok:
  assumes "session_ok s" "numbered s" "pc \<noteq> Returned"
  shows "system_ok (proceed W s pc y)" "system_ok (leave W s y)"
proof -
  have "session_ok (terminate_session W s)"
    using assms(1) by (intro terminate_session_ok) (simp_all add: session_ok_def)
  then show "system_ok (proceed W s pc y)" "system_ok (leave W s y)"
    using assms by (simp_all add: proceed_def leave_def system_ok_def terminate_numbered)
qed

lemma flush_not_done: "flush_resume s = (False, s') \<Longrightarrow> s_done s' = s_done s"
  by (auto simp: flush_resume_def Let_def split: option.splits if_splits)

lemma pump_not_done: "pump_run_event s = (False, s') \<Longrightarrow> s' = s"
  by (auto simp: pump_run_event_def split: option.splits if_splits)

lemma serve_step_ok:
  assumes "system_ok y"
  shows "system_ok (serve_step W y)"
proof -
  let ?s = "sys_session y"
  have ok: "session_ok ?s" "numbered ?s" using assms by (simp_all add: system_ok_def)
  show ?thesis
  proof (cases "sys_pc y")
    case PC: Draining
    with assms have nd: "\<not> s_done ?s" by (simp add: system_ok_def)
    have "system_ok (proceed W (handle W m ?s) Draining (y\<lparr>sys_requests := ms\<rparr>))" for m ms
      using ok nd by (intro proceed_ok handle_ok handle_numbered) simp_all
    moreover have "system_ok (y\<lparr>sys_pc := pc\<rparr>)" if "pc \<noteq> Returned" for pc
      using that ok nd by (simp add: system_ok_def)
    ultimately show ?thesis
      using PC proceed_ok(2) [OF ok, of Draining W y]
      by (cases "sys_requests y") (simp_all add: serve_step_def Let_def)
  next
    case Flushing
    obtain b s' where f: "flush_resume ?s = (b, s')" by force
    have "session_ok s'" "numbered s'"
      using flush_ok [OF ok(1)] flush_later [of ?s] ok(2) f by (simp_all add: later_def)
    then show ?thesis
      using Flushing assms f flush_not_done [of ?s s']
      by (cases b) (simp_all add: serve_step_def proceed_ok, simp add: system_ok_def)
  next
    case Pumping
    obtain b s' where f: "pump_run_event ?s = (b, s')" by force
    have "session_ok s'" "numbered s'"
      using pump_ok [OF ok(1)] pump_later [of ?s] ok(2) f by (simp_all add: later_def)
    then show ?thesis
      using Pumping assms f pump_not_done [of ?s s']
      by (cases b) (simp_all add: serve_step_def proceed_ok, simp add: system_ok_def)
  next
    case PC: Waiting
    with assms have nd: "\<not> s_done ?s" by (simp add: system_ok_def)
    have "system_ok (proceed W (handle W m ?s) Draining (y\<lparr>sys_requests := ms\<rparr>))" for m ms
      using ok nd by (intro proceed_ok handle_ok handle_numbered) simp_all
    moreover have "system_ok (y\<lparr>sys_pc := pc\<rparr>)" if "pc \<noteq> Returned" for pc
      using that ok nd by (simp add: system_ok_def)
    ultimately show ?thesis
      using PC proceed_ok(2) [OF ok, of Draining W y]
      by (cases "sys_requests y") (simp_all add: serve_step_def Let_def)
  next
    case Returned
    with assms show ?thesis by (simp add: serve_step_def)
  qed
qed

lemma system_ok_input [simp]:
  "system_ok (y\<lparr>sys_requests := ms\<rparr>) = system_ok y"
  "system_ok (y\<lparr>sys_input_open := b\<rparr>) = system_ok y"
  by (simp_all add: system_ok_def)

lemma system_step_ok: "system_ok y \<Longrightarrow> system_step y z \<Longrightarrow> system_ok z"
proof (erule system_step.cases)
  fix y' r M r'
  assume ok: "system_ok y" and y: "y = y'" and r: "s_running (sys_session y') = Some r"
    and step: "run_step M r r'"
    and z: "z = y'\<lparr>sys_session := (sys_session y')\<lparr>s_running := Some r'\<rparr>\<rparr>"
  from ok y r have "rendezvous r" by (simp add: system_ok_def session_ok_def)
  from run_step_rendezvous [OF step this] ok y r z show "system_ok z"
    using set_running_ok [of "sys_session y'" r r']
    by (auto simp: system_ok_def numbered_def closed_def)
qed (simp_all add: serve_step_ok)

interpretation adapter: invariant_system initial_system system_step system_ok
proof unfold_locales
  fix y :: "('a, 'b, 'c) system"
  assume "initial_system y"
  then show "system_ok y"
    by (simp add: initial_system_def system_ok_def new_session_def session_ok_def refs_ok_def
        numbered_def stopped_info_def)
qed (rule system_step_ok)

end
