(* ===== verification/Dap_Demo.thy ===== *)
theory Dap_Demo
  imports Dap_System
begin

text \<open>
  A small concrete debug session, on which the properties of the adapter are applied: a
  project without a store, a frame with one expandable local, and an executable schedule of
  the system whose states are reachable.
\<close>

definition demo_project :: "nat project_api" where
  "demo_project =
     \<lparr>api_is_file = (\<lambda>p. True), api_exists = (\<lambda>p. False), api_load_config = (\<lambda>d. Inr 0),
      api_native_store_path = (\<lambda>d c. Inr None), api_surface_read_open = (\<lambda>d. Inr 0),
      api_session_open = (\<lambda>d e a. Inr 1), api_run_entry = (\<lambda>s. Some ''main''),
      api_resolve_entry = (\<lambda>s n. Inr 2), api_analysis_snapshot = (\<lambda>s. 3),
      api_generation = (\<lambda>a. 4), api_source_admission = (\<lambda>s. Inr None),
      api_check_call = (\<lambda>s i. Inr ()), api_canonical_name = (\<lambda>i. ''main''),
      api_surface_boundary = (\<lambda>s. Inr 5)\<rparr>"

definition demo_marrow :: "(unit, nat, nat) marrow" where
  "demo_marrow =
     \<lparr>debug_value_max_page_limit = 100, max_preview_items = 20, default_value_preview_limit = 80,
      value_true = 1, value_child_counts = (\<lambda>v. if v = 0 then Some (None, Some 2) else None),
      value_children_truncated = (\<lambda>v. False),
      value_children = (\<lambda>v p filt. [(''0'', 7), (''1'', 8)]), value_preview = (\<lambda>v. ''v''),
      requires_durable_data = (\<lambda>e. False), render_path = (\<lambda>p. ''path'')\<rparr>"

definition demo_frame :: "nat \<Rightarrow> (unit, nat, nat, nat) frame" where
  "demo_frame depth =
     \<lparr>frame_file = Some ''a.mw'', frame_depth = depth, frame_evaluate = (\<lambda>e. Inr 1),
      frame_snapshot = (\<lambda>p filt. (1, False, [(''xs'', 0)])),
      frame_data_children = (\<lambda>s n c. Inl terminated),
      frame_data_preview = (\<lambda>s n. Inr None), frame_data_snapshot = Inr 9\<rparr>"

definition demo_span :: "nat \<Rightarrow> span" where
  "demo_span line = \<lparr>span_start = 0, span_end = 1, span_line = line, span_column = 1\<rparr>"

definition demo_world :: "(unit, nat, nat) world" where
  "demo_world =
     \<lparr>w_marrow = demo_marrow, w_project = demo_project, w_canonicalize = (\<lambda>p. Some p),
      w_program_stops = (\<lambda>s. [(Some ''a.mw'', demo_span 3), (Some ''a.mw'', demo_span 4)]),
      w_analysis_files = (\<lambda>a. [(''a.mw'', ''text'')]),
      w_checked_expression = (\<lambda>a f sp src. Inr ()), w_expression_is_bool = (\<lambda>e. True),
      w_entry_arguments = (\<lambda>items. Inr []), w_execution_json = (\<lambda>s. JObj []),
      w_surface_json = (\<lambda>b. JObj []), w_stamp_json = (\<lambda>s. JNull), w_thread_start = Starts,
      w_teardown = (\<lambda>r. ([], Some (Joined None)))\<rparr>"

section \<open>Schedules\<close>

datatype action = ClientSends json | LoopStep | RunStatement nat

fun perform :: "action \<Rightarrow> (unit, nat, nat) system \<Rightarrow> (unit, nat, nat) system" where
  "perform (ClientSends m) y =
     (if sys_input_open y \<and> is_request m then y\<lparr>sys_requests := sys_requests y @ [m]\<rparr> else y)"
| "perform LoopStep y = serve_step demo_world y"
| "perform (RunStatement line) y =
     (case s_running (sys_session y) of
        None \<Rightarrow> y
      | Some r \<Rightarrow>
          (case r_phase r of
             Executing \<Rightarrow>
               (case on_statement demo_marrow (demo_span line) (demo_frame 1) (r_debugger r)
                       (r_link r) of
                  (d, l, res) \<Rightarrow> y\<lparr>sys_session := (sys_session y)\<lparr>s_running := Some
                    (r\<lparr>r_debugger := d, r_link := l, r_phase := phase_after (demo_frame 1) res\<rparr>)\<rparr>\<rparr>)
           | _ \<Rightarrow> y))"

definition demo_start :: "(unit, nat, nat) system" where
  "demo_start = \<lparr>sys_session = new_session, sys_requests = [], sys_input_open = True,
     sys_pc = Draining\<rparr>"

definition schedule :: "action list \<Rightarrow> (unit, nat, nat) system" where
  "schedule actions = fold perform actions demo_start"

lemma perform_reachable:
  assumes "reachable_system y"
  shows "reachable_system (perform a y)"
proof (cases a)
  case (RunStatement line)
  show ?thesis
  proof (cases "s_running (sys_session y)")
    case (Some r)
    show ?thesis
    proof (cases "r_phase r = Executing")
      case True
      obtain d l res where st: "on_statement demo_marrow (demo_span line) (demo_frame 1)
          (r_debugger r) (r_link r) = (d, l, res)" by (metis prod_cases3)
      from reachable.further [OF assms run [OF Some run_step.statement [OF True st]]]
      show ?thesis using RunStatement Some True st by simp
    next
      case False
      then have "perform a y = y"
        using RunStatement Some by (cases "r_phase r") simp_all
      with assms show ?thesis by simp
    qed
  qed (use RunStatement assms in simp)
next
  case LoopStep
  with reachable.further [OF assms serve] show ?thesis by simp
next
  case (ClientSends m)
  with reachable.further [OF assms request_read] assms show ?thesis by auto
qed

lemma schedule_reachable: "reachable_system (schedule actions)"
proof -
  have "reachable_system y \<Longrightarrow> reachable_system (fold perform actions y)" for y
    by (induction actions arbitrary: y) (simp_all add: perform_reachable)
  moreover have "reachable_system demo_start"
    by (rule reachable.start) (simp add: initial_system_def demo_start_def)
  ultimately show ?thesis by (simp add: schedule_def)
qed

section \<open>A run stopped on entry\<close>

definition client :: "string \<Rightarrow> jobj \<Rightarrow> action" where
  "client command arguments = ClientSends (JObj
     [(''type'', JStr ''request''), (''seq'', jint 1), (''command'', JStr command),
      (''arguments'', JObj arguments)])"

definition demo_stopped :: "(unit, nat, nat) system" where
  "demo_stopped = schedule
     [client ''launch'' [(''project'', JStr ''shelf''), (''stopOnEntry'', JBool True)], LoopStep,
      client ''configurationDone'' [], LoopStep, RunStatement 3,
      LoopStep, LoopStep, LoopStep]"

lemma demo_stopped_at:
  "map_option stop_line (stopped_info (sys_session demo_stopped)) = Some 3
   \<and> sys_pc demo_stopped = Draining \<and> length (s_out (sys_session demo_stopped)) = 4"
  by code_simp

definition demo_inspected :: "(unit, nat, nat) system" where
  "demo_inspected = schedule
     [client ''launch'' [(''project'', JStr ''shelf''), (''stopOnEntry'', JBool True)], LoopStep,
      client ''configurationDone'' [], LoopStep, RunStatement 3,
      LoopStep, LoopStep, LoopStep,
      client ''variables'' [(''variablesReference'', jint 1)], LoopStep]"

lemma demo_inspected_at:
  "(case s_expandables (sys_session demo_inspected) 1000 of
      Some (ValueRef v stamp) \<Rightarrow> v = 0 | _ \<Rightarrow> False)
   \<and> length (s_out (sys_session demo_inspected)) = 5"
  by code_simp

lemma demo_reachable:
  "reachable_system demo_stopped" "reachable_system demo_inspected" "reachable_system demo_start"
proof -
  show "reachable_system demo_start" using schedule_reachable [of "[]"] by (simp add: schedule_def)
qed (simp_all only: demo_stopped_def demo_inspected_def schedule_reachable)

end
