(* ===== verification/Dap_System_Laws.thy ===== *)
theory Dap_System_Laws
  imports Dap_Demo
begin

text \<open>
  What the debug adapter promises its client, in every reachable state of the system of
  \<open>Dap_System\<close>, that is under every interleaving of requests, statements and events and
  whatever Marrow and the operating system answer.
\<close>

section \<open>The conversation\<close>

text \<open>
  C8. Every request gets exactly one response: in a reachable state whose loop has not
  returned, handling a request writes one response first, which names the request's
  sequence number and command, and after it only events.
\<close>

theorem request_answered_once:
  assumes "reachable_system y" "sys_pc y \<noteq> Returned"
  shows "\<exists>resp post. s_out (handle W request (sys_session y)) = s_out (sys_session y) @ resp # post
    \<and> answers request resp \<and> list_all (\<lambda>m. \<not> is_response m) post"
proof -
  from adapter.always [OF assms(1)] assms(2)
  have "session_ok (sys_session y)" "\<not> s_done (sys_session y)" by (simp_all add: system_ok_def)
  from handle_ok [OF this, of W request] handle_responds [of request "sys_session y" W]
  show ?thesis by (simp add: one_response_def session_ok_def)
qed

theorem request_answered_once_witness:
  "\<exists>resp post. s_out (handle demo_world (JObj [(''command'', JStr ''threads'')])
      (sys_session demo_stopped)) = s_out (sys_session demo_stopped) @ resp # post
    \<and> answers (JObj [(''command'', JStr ''threads'')]) resp
    \<and> list_all (\<lambda>m. \<not> is_response m) post"
  by (rule request_answered_once [OF demo_reachable(1)]) (simp add: demo_stopped_at)

text \<open>
  C22. The messages of a session carry the sequence numbers 1, 2, 3 and so on without a
  gap, responses and events alike.
\<close>

theorem sequence_numbers_consecutive:
  assumes "reachable_system y" "i < length (s_out (sys_session y))"
  shows "jget (s_out (sys_session y) ! i) ''seq'' = Some (jint (int i + 1))
    \<and> s_seq (sys_session y) = int (length (s_out (sys_session y)))"
  using adapter.always [OF assms(1)] assms(2) by (simp add: system_ok_def numbered_def)

theorem sequence_numbers_consecutive_witness:
  "jget (s_out (sys_session demo_stopped) ! 3) ''seq'' = Some (jint (int 3 + 1))"
  using sequence_numbers_consecutive [OF demo_reachable(1), of 3] demo_stopped_at by simp

text \<open>
  C1. The protocol thread never panics and never waits for a run thread that will not
  answer: in no reachable state has an \<open>expect\<close> failed, a query found a thread that is
  not parked, or a join found a thread that has not ended.
\<close>

theorem protocol_thread_never_stuck:
  assumes "reachable_system y"
  shows "s_fault (sys_session y) = None"
  using adapter.always [OF assms] by (simp add: system_ok_def session_ok_def)

theorem protocol_thread_never_stuck_witness:
  "s_fault (sys_session demo_inspected) = None"
  by (rule protocol_thread_never_stuck [OF demo_reachable(2)])

text \<open>
  C5. The rendezvous: whenever the session shows a stop, the run thread is parked at that
  stop with nothing in the channels, and a query for a page in range is answered from the
  parked frame and leaves the session unchanged.
\<close>

theorem stop_means_parked:
  assumes "reachable_system y" "s_running (sys_session y) = Some r" "r_stopped_at r = Some info"
    and "legal_query q"
  shows "\<exists>f. r_phase r = ParkedAt f info \<and> link_control (r_link r) = []
    \<and> link_events (r_link r) = [] \<and> answer (w_marrow W) f q \<noteq> None
    \<and> query W q (sys_session y) = (answer (w_marrow W) f q, sys_session y)"
proof -
  from adapter.always [OF assms(1)] assms(2) have rv: "rendezvous r"
    by (simp add: system_ok_def session_ok_def)
  from rendezvous_stopped [OF rv assms(3)] obtain f where f: "r_phase r = ParkedAt f info"
    "link_control (r_link r) = []" "link_events (r_link r) = []" by metis
  from legal_query_answered [OF assms(4)] obtain a where a: "answer (w_marrow W) f q = Some a"
    by blast
  from query_stopped [OF assms(2) rv assms(3) a f(1)] f a show ?thesis by auto
qed

theorem stop_means_parked_witness:
  "\<exists>r info f. s_running (sys_session demo_stopped) = Some r \<and> r_phase r = ParkedAt f info
    \<and> query demo_world (EvaluateQuery ()) (sys_session demo_stopped)
        = (answer demo_marrow f (EvaluateQuery ()), sys_session demo_stopped)"
proof -
  from demo_stopped_at obtain r info where
    r: "s_running (sys_session demo_stopped) = Some r" "r_stopped_at r = Some info"
    by (auto simp: stopped_info_Some)
  have "w_marrow demo_world = demo_marrow" by (simp add: demo_world_def)
  with stop_means_parked [OF demo_reachable(1) r, of "EvaluateQuery ()" demo_world] r show ?thesis
    by (auto simp: legal_query_def)
qed

section \<open>Variable references\<close>

definition refs_step :: "('e, 'v, 'm) session \<Rightarrow> ('e, 'v, 'm) session \<Rightarrow> bool" where
  "refs_step s s' \<longleftrightarrow>
     s_expandables s \<subseteq>\<^sub>m s_expandables s' \<or> s_expandables s' = (\<lambda>k. None)"

lemma same_refs: "s_expandables s' = s_expandables s \<Longrightarrow> refs_step s s'"
  by (simp add: refs_step_def)

lemma inspects_refs: "inspects s s' \<Longrightarrow> refs_ok s \<Longrightarrow> refs_step s s'"
  by (simp add: inspects_def refs_step_def)

lemma writes_expandables [simp]:
  "s_expandables (respond request success body s) = s_expandables s"
  "s_expandables (respond_error request message contract s) = s_expandables s"
  "s_expandables (reject request err s) = s_expandables s"
  "s_expandables (event name ev s) = s_expandables s"
  by (simp_all add: writes)

lemma refs_step_write [simp]:
  "refs_step s (respond request success body s') = refs_step s s'"
  "refs_step s (respond_error request message contract s') = refs_step s s'"
  "refs_step s (reject request err s') = refs_step s s'"
  "refs_step s (event name ev s') = refs_step s s'"
  by (simp_all add: refs_step_def)

lemma outcome_expandables [simp]:
  "s_expandables (emit_run_outcome out s) = s_expandables s"
  "s_expandables (emit_run_panic s) = s_expandables s"
  by (auto simp: emit_run_outcome_def emit_run_panic_def output_event_def exited_event_def Let_def
      split: option.splits sum.splits)

lemma run_event_expandables [simp]:
  "s_expandables (handle_run_event ev s) = s_expandables s"
  "s_expandables (update_run g s) = s_expandables s"
  by (cases ev; simp add: handle_run_event_def update_run_def) (simp add: update_run_def)

lemma fold_expandables [simp]:
  "s_expandables (fold handle_run_event evs s) = s_expandables s"
  by (induction evs arbitrary: s) simp_all

lemma finish_expandables [simp]: "s_expandables (finish_run s) = s_expandables s"
  by (auto simp: finish_run_def Let_def set_fault_def
      split: option.splits phase.splits join_result.splits)

lemma terminate_expandables [simp]: "s_expandables (terminate_session W s) = s_expandables s"
  by (auto simp: terminate_session_def request_teardown_def finish_run_within_def detach_run_def
      Let_def split: option.splits prod.splits)

lemma resume_expandables [simp]: "s_expandables (resume_run mode s) = (\<lambda>k. None)"
  by (simp add: resume_run_def)

lemma variables_refs:
  assumes "refs_ok s"
  shows "refs_step s (on_variables W request arguments s)"
    "refs_step s (on_evaluate W request arguments s)"
proof -
  have "refs_step s (snd (evaluate_body W v stamp (snd (query W q s))))" for v stamp q
    using inspects_refs [OF inspects_trans [OF query_inspects evaluate_body_inspects] assms] .
  then show "refs_step s (on_evaluate W request arguments s)"
    using inspects_refs [OF query_inspects assms]
    unfolding on_evaluate_def split_beta
    by (auto simp: same_refs split: sum.split option.split query_result.split)
  show "refs_step s (on_variables W request arguments s)"
    using inspects_refs [OF locals_inspects assms] inspects_refs [OF data_inspects assms]
      inspects_refs [OF expandable_inspects assms]
    unfolding on_variables_def split_beta
    by (auto simp: same_refs split: sum.split)
qed

lemma handle_refs:
  assumes "refs_ok s"
  shows "refs_step s (handle W request s)"
proof -
  have "refs_step s (dispatch W request c arguments s)" for c arguments
  proof (cases c)
    case Launch
    then show ?thesis
      by (auto simp: on_launch_def Let_def launch_failed_def same_refs split: sum.splits)
  next
    case SetBreakpoints
    then show ?thesis
      by (auto simp: on_set_breakpoints_def Let_def same_refs update_running_breakpoints_def
          split: sum.splits option.splits)
  next
    case ConfigurationDone
    then show ?thesis
      by (auto simp: on_configuration_done_def Let_def launch_failed_def same_refs
          split: sum.splits option.splits spawn_error.splits)
  qed (auto simp: on_initialize_def on_threads_def on_stack_trace_def on_source_def on_scopes_def
      variables_refs assms on_continue_def on_step_def on_pause_def require_stopped_run_def
      continued_event_def on_disconnect_def on_terminate_def Let_def same_refs
      refs_step_def [of s "resume_run _ _"] split: sum.splits option.splits)
  then show ?thesis
    by (auto simp: handle_def Let_def same_refs split: option.splits sum.splits)
qed

text \<open>
  C12. Variable references: a reference handed out is never one of the scopes' fixed
  references, it keeps its meaning until all references are dropped together, and none
  outlives the stop it belongs to (a session that is done apart).
\<close>

theorem references_live_for_the_stop:
  assumes "reachable_system y" "s_expandables (sys_session y) k = Some x"
  shows "locals_ref < k \<and> durable_ref < k \<and> k < s_next_ref (sys_session y)
    \<and> (stopped_info (sys_session y) \<noteq> None \<or> s_done (sys_session y))
    \<and> s_expandables (handle W request (sys_session y)) k
        \<in> {Some x} \<union> (if s_expandables (handle W request (sys_session y)) = (\<lambda>k. None)
                      then {None} else {})"
proof -
  from adapter.always [OF assms(1)] have ok: "session_ok (sys_session y)"
    by (simp add: system_ok_def)
  then have refs: "refs_ok (sys_session y)" by (simp add: session_ok_def)
  with assms(2) have "first_dynamic_ref \<le> k" "k < s_next_ref (sys_session y)"
    by (auto simp: refs_ok_def)
  moreover have "stopped_info (sys_session y) \<noteq> None \<or> s_done (sys_session y)"
    using ok assms(2) by (auto simp: session_ok_def fun_eq_iff)
  moreover have "s_expandables (handle W request (sys_session y)) k = Some x
      \<or> s_expandables (handle W request (sys_session y)) = (\<lambda>k. None)"
    using handle_refs [OF refs, of W request] assms(2)
    by (auto simp: refs_step_def map_le_def dom_def)
  ultimately show ?thesis
    by (auto simp: locals_ref_def durable_ref_def first_dynamic_ref_def)
qed

theorem references_live_for_the_stop_witness:
  "\<exists>x. s_expandables (sys_session demo_inspected) 1000 = Some x
    \<and> 1000 < s_next_ref (sys_session demo_inspected)"
proof -
  from demo_inspected_at obtain x where "s_expandables (sys_session demo_inspected) 1000 = Some x"
    by (auto split: option.splits)
  with references_live_for_the_stop [OF demo_reachable(2) this] show ?thesis by blast
qed

section \<open>Ending a run\<close>

lemma protocol_fault: "s_fault (sys_session demo_stopped) = None"
  using adapter.always [OF demo_reachable(1)] by (simp add: system_ok_def session_ok_def)

text \<open>
  C13. Pipelined terminate: a resume only staged (the request was handled but the loop has
  not flushed it) is cancelled by a teardown. The control channel then holds the terminate
  message alone, the parked thread's next turn unwinds it, and the loop has no resume left
  to flush: no statement runs after the terminate request.
\<close>

theorem staged_resume_is_cancelled:
  assumes "reachable_system y" "stopped_info (sys_session y) \<noteq> None"
  shows "\<exists>r f info. s_running (request_teardown (resume_run mode (sys_session y))) = Some r
    \<and> r_phase r = ParkedAt f info \<and> link_control (r_link r) = [Terminate]
    \<and> link_terminate (r_link r) \<and> r_pending_resume r = None
    \<and> r_phase (serve_parked M r) = Unwinding terminated
    \<and> fst (flush_resume (request_teardown (resume_run mode (sys_session y)))) = False"
proof -
  from assms(2) obtain r info where r: "s_running (sys_session y) = Some r"
    "r_stopped_at r = Some info" by (auto simp: stopped_info_Some)
  from adapter.always [OF assms(1)] r(1) have rv: "rendezvous r"
    by (simp add: system_ok_def session_ok_def)
  from rendezvous_stopped [OF rv r(2)] obtain f where "r_phase r = ParkedAt f info"
    "link_control (r_link r) = []" by metis
  with r show ?thesis
    by (simp add: request_teardown_def resume_run_def update_run_def send_control_def Let_def
        serve_parked_def park_loop.simps flush_resume_def)
qed

theorem staged_resume_is_cancelled_witness:
  "\<exists>r. s_running (request_teardown (resume_run Continue (sys_session demo_stopped))) = Some r
    \<and> r_phase (serve_parked demo_marrow r) = Unwinding terminated"
  using staged_resume_is_cancelled [OF demo_reachable(1), of Continue demo_marrow]
    demo_stopped_at by (cases "stopped_info (sys_session demo_stopped)") auto

definition is_event :: "string \<Rightarrow> json \<Rightarrow> bool" where
  "is_event name m \<longleftrightarrow> jget m ''event'' = Some (JStr name)"

text \<open>Everything written from \<open>s\<close> to \<open>s'\<close> is another event than \<open>terminated\<close>.\<close>

definition before_end :: "('e, 'v, 'm) session \<Rightarrow> ('e, 'v, 'm) session \<Rightarrow> bool" where
  "before_end s s' \<longleftrightarrow> s_fault s' = None
     \<and> (\<exists>msgs. s_out s' = s_out s @ msgs \<and> list_all (\<lambda>m. \<not> is_event ''terminated'' m) msgs)"

lemma before_end_event:
  assumes "before_end s s'" "name \<noteq> ''terminated''"
  shows "before_end s (event name body s')"
  using assms by (auto simp: before_end_def event_def emit_def is_event_def event_json_def)

lemma before_end_fields [simp]:
  "before_end s (s'\<lparr>s_running := r\<rparr>) = before_end s s'"
  "before_end s (update_run g s') = before_end s s'"
  by (simp_all add: before_end_def update_run_def)

lemma before_end_run_event: "before_end s s' \<Longrightarrow> before_end s (handle_run_event ev s')"
  by (cases ev) (simp_all add: handle_run_event_def before_end_event)

lemma before_end_fold: "before_end s s' \<Longrightarrow> before_end s (fold handle_run_event evs s')"
  by (induction evs arbitrary: s') (simp_all add: before_end_run_event)

lemma before_end_outcome:
  "before_end s s' \<Longrightarrow> before_end s (emit_run_outcome out s')"
  "before_end s s' \<Longrightarrow> before_end s (emit_run_panic s')"
  by (auto simp: emit_run_outcome_def emit_run_panic_def output_event_def exited_event_def Let_def
      before_end_event split: option.splits sum.splits)

definition ended_once :: "('e, 'v, 'm) session \<Rightarrow> ('e, 'v, 'm) session \<Rightarrow> bool" where
  "ended_once s s' \<longleftrightarrow> (\<exists>msgs k. s_out s' = s_out s @ msgs @ [event_json ''terminated'' (JObj []) k]
     \<and> list_all (\<lambda>m. \<not> is_event ''terminated'' m) msgs)"

lemma ended_once_event: "before_end s s' \<Longrightarrow> ended_once s (event ''terminated'' (JObj []) s')"
  by (auto simp: before_end_def ended_once_def event_def emit_def)

lemma ended_once_done [simp]: "ended_once s (s'\<lparr>s_done := b\<rparr>) = ended_once s s'"
  by (simp add: ended_once_def)

lemma fold_running:
  "s_running s = Some r \<Longrightarrow> \<exists>r'. s_running (fold handle_run_event evs s) = Some r'"
proof (induction evs arbitrary: s r)
  case (Cons ev evs)
  then have "\<exists>r'. s_running (handle_run_event ev s) = Some r'"
    by (cases ev) (simp_all add: handle_run_event_def event_def update_run_def)
  with Cons.IH show ?case by auto
qed simp

text \<open>
  C14. Teardown always completes: whatever the run thread does within the budget, the
  session is done and holds no run, the last message it writes is the one \<open>terminated\<close>
  event, and tearing down again changes nothing.
\<close>

theorem teardown_completes:
  assumes "s_fault s = None" "s_running s = Some r"
  shows "ended_once s (terminate_session W s) \<and> closed (terminate_session W s)
    \<and> terminate_session W' (terminate_session W s) = terminate_session W s"
proof -
  let ?s1 = "request_teardown s"
  from assms(2) obtain r1 where r1: "s_running ?s1 = Some r1"
    by (simp add: request_teardown_def update_run_def)
  have b: "before_end s (fold handle_run_event evs ?s1)" for evs
    using assms(1) by (intro before_end_fold) (simp add: before_end_def request_teardown_def update_run_def)
  have "ended_once s (detach_run (fold handle_run_event evs ?s1))" for evs
    using fold_running [OF r1, of evs] b by (auto simp: detach_run_def ended_once_event)
  moreover have "ended_once s (finish_run (update_run (\<lambda>r. r\<lparr>r_phase := Ended j\<rparr>)
      (fold handle_run_event evs ?s1)))" for evs j
    using fold_running [OF r1, of evs] b [of evs]
    by (auto simp: finish_run_def update_run_def Let_def intro!: ended_once_event before_end_outcome
        split: join_result.splits)
  ultimately have "ended_once s (terminate_session W s)"
    using r1 by (auto simp: terminate_session_def finish_run_within_def Let_def
        simp del: fold_append split: prod.splits option.splits)
  moreover have "terminate_session W' t = t" if "closed t" for t
    using that by (cases t) (simp add: closed_def terminate_session_def request_teardown_def
        update_run_def finish_run_within_def)
  ultimately show ?thesis by simp
qed

theorem teardown_completes_witness:
  "ended_once (sys_session demo_stopped) (terminate_session demo_world (sys_session demo_stopped))"
proof -
  from demo_stopped_at obtain r where "s_running (sys_session demo_stopped) = Some r"
    by (auto simp: stopped_info_Some)
  from teardown_completes [OF protocol_fault this] show ?thesis by blast
qed

section \<open>A pause that outlives the stop it raced\<close>

lemma paused_statement:
  assumes "\<not> link_terminate l" "link_swaps l = []" "link_pause l" "link_events_open l"
    and "dbg_breakpoints d = (\<lambda>file. None)" "\<not> dbg_stop_on_entry d \<or> dbg_entered d"
  shows "\<exists>d' l'. on_statement M sp f d l = (d', l', Parked (stop_info_here PauseReason sp f))"
proof -
  have "evaluate_breakpoints M f line (\<lambda>file. None) = ((\<lambda>file. None), no_action)" for line
    by (simp add: evaluate_breakpoints_def split: option.split)
  moreover have "is_entry_stop (d\<lparr>dbg_breakpoints := \<lambda>file. None\<rparr>)
      = (False, d\<lparr>dbg_breakpoints := \<lambda>file. None\<rparr>)"
    using assms(6) by (auto simp: is_entry_stop_def)
  ultimately show ?thesis
    using assms by (simp add: on_statement_def drain_breakpoint_swaps_def no_action_def
        stop_reason_here_def Let_def send_event_def)
qed

text \<open>
  The race of \<open>pause\<close> with a stop: a pause handled while the run is already parked,
  with its stop still unread in the event channel, raises the flag of a thread that will not
  look at it before the client resumes. The client sees the stop; its \<open>continue\<close> is
  answered; and at the very next statement, with no breakpoint armed, the run stops again
  with reason \<open>pause\<close>.
\<close>

theorem pause_in_flight_outlives_the_stop:
  assumes "s_running s = Some r" "rendezvous r" "r_phase r = ParkedAt f info"
    and "link_events (r_link r) = [Stopped info]" "link_swaps (r_link r) = []"
    and "r_stopped_at r = None" "r_pending_resume r = None"
    and "parse_thread_id arguments = Inr ()"
    and "dbg_breakpoints (r_debugger r) = (\<lambda>file. None)"
    and "\<not> dbg_stop_on_entry (r_debugger r) \<or> dbg_entered (r_debugger r)"
  shows "\<exists>r1 r2 d l. s_running (snd (pump_run_event (on_pause req arguments s))) = Some r1
    \<and> r_stopped_at r1 = Some info
    \<and> s_running (snd (flush_resume (on_continue req' arguments
          (snd (pump_run_event (on_pause req arguments s)))))) = Some r2
    \<and> r_phase (serve_parked M r2) = Executing
    \<and> dbg_mode (r_debugger (serve_parked M r2)) = Continue
    \<and> on_statement M sp f' (r_debugger (serve_parked M r2)) (r_link (serve_parked M r2))
        = (d, l, Parked (stop_info_here PauseReason sp f'))"
proof -
  from assms(2,3,4) have l: "link_control (r_link r) = []" "link_control_open (r_link r)"
    "link_events_open (r_link r)" "\<not> link_terminate (r_link r)" "\<not> r_terminating r"
    by (auto simp: rendezvous_def)
  let ?r1 = "r\<lparr>r_link := (r_link r)\<lparr>link_pause := True, link_events := []\<rparr>,
    r_stopped_at := Some info\<rparr>"
  let ?r2 = "?r1\<lparr>r_stopped_at := None, r_pending_resume := None,
    r_link := (r_link ?r1)\<lparr>link_control := [Resume Continue]\<rparr>\<rparr>"
  have r1: "s_running (snd (pump_run_event (on_pause req arguments s))) = Some ?r1"
    using assms l by (simp add: on_pause_def pump_run_event_def pop_event_def update_run_def
        handle_run_event_def event_def respond_def)
  then have r2: "s_running (snd (flush_resume (on_continue req' arguments
      (snd (pump_run_event (on_pause req arguments s)))))) = Some ?r2"
    using assms l by (simp add: on_continue_def require_stopped_run_def flush_resume_def Let_def
        resume_run_def update_run_def continued_event_def event_def respond_def send_control_def)
  have served: "serve_parked M ?r2 = ?r2\<lparr>r_debugger := (r_debugger r)\<lparr>dbg_mode := Continue\<rparr>,
      r_link := (r_link ?r2)\<lparr>link_control := []\<rparr>, r_phase := Executing\<rparr>"
    using assms(3) l by (simp add: serve_parked_def park_loop.simps)
  have "\<exists>d l. on_statement M sp f' (r_debugger (serve_parked M ?r2)) (r_link (serve_parked M ?r2))
      = (d, l, Parked (stop_info_here PauseReason sp f'))"
    unfolding served using assms(5,9,10) l by (intro paused_statement) simp_all
  with r1 r2 served show ?thesis by auto
qed

definition racing_run :: "(unit, nat, nat) running" where
  "racing_run =
     \<lparr>r_link = new_link\<lparr>link_events := [Stopped (stop_info_here BreakpointReason (demo_span 3)
        (demo_frame 1))]\<rparr>,
      r_debugger = new_debugger False (\<lambda>f. None),
      r_phase = ParkedAt (demo_frame 1) (stop_info_here BreakpointReason (demo_span 3) (demo_frame 1)),
      r_execution_boundary = JObj [], r_stopped_at = None, r_pending_resume = None,
      r_terminating = False\<rparr>"

theorem pause_in_flight_outlives_the_stop_witness:
  "\<exists>r2 d l. s_running (snd (flush_resume (on_continue JNull (JObj [(''threadId'', jint 1)])
       (snd (pump_run_event (on_pause JNull (JObj [(''threadId'', jint 1)])
          (new_session\<lparr>s_running := Some racing_run\<rparr>))))))) = Some r2
    \<and> on_statement demo_marrow (demo_span 4) (demo_frame 1)
        (r_debugger (serve_parked demo_marrow r2)) (r_link (serve_parked demo_marrow r2))
      = (d, l, Parked (stop_info_here PauseReason (demo_span 4) (demo_frame 1)))"
proof -
  have *: "s_running (new_session\<lparr>s_running := Some racing_run\<rparr>) = Some racing_run" by simp
  have rv: "rendezvous racing_run"
    by (simp add: racing_run_def rendezvous_def new_link_def)
  have args: "parse_thread_id (JObj [(''threadId'', jint 1)]) = Inr ()"
    by (simp add: parse_thread_id_def parse_singleton_id_def as_i64_jint thread_id_def)
  have "\<exists>info. r_phase racing_run = ParkedAt (demo_frame 1) info
      \<and> link_events (r_link racing_run) = [Stopped info]"
    by (simp add: racing_run_def)
  then obtain info where ph: "r_phase racing_run = ParkedAt (demo_frame 1) info"
    "link_events (r_link racing_run) = [Stopped info]" by blast
  show ?thesis
    using pause_in_flight_outlives_the_stop [OF * rv ph _ _ _ args, of JNull JNull demo_marrow
        "demo_span 4" "demo_frame 1"]
    by (auto simp: racing_run_def new_link_def new_debugger_def)
qed

end
