(* ===== verification/Dap_Breakpoint_Laws.thy ===== *)
theory Dap_Breakpoint_Laws
  imports Dap_Demo
begin

text \<open>
  What the breakpoint answers of the session mean: source references name the sources they
  were given for, every indexed line has a stop, and a breakpoint reported as verified is
  armed in the set pushed to the run thread.
\<close>

section \<open>The stop-point index\<close>

definition index_ok :: "stop_point_index \<Rightarrow> bool" where
  "index_ok idx \<longleftrightarrow>
     map fst (sources_by_reference idx) = map (\<lambda>i. int i + 1) [0..<length (sources_by_reference idx)]
     \<and> (\<forall>path reference. references_by_file idx path = Some reference \<longrightarrow>
          (\<exists>content. source_file idx reference = Some \<lparr>sf_canonical_path = path, sf_source = content\<rparr>))
     \<and> (\<forall>path line stops. index_stops idx path line = Some stops \<longrightarrow>
          stops \<noteq> [] \<and> (\<forall>stop\<in>set stops. span_line (rs_span stop) = line))"

lemma update_new: "k \<notin> fst ` set xs \<Longrightarrow> AList.update k v xs = xs @ [(k, v)]"
  by (induction xs) auto

lemma reference_fresh:
  assumes "map fst xs = map (\<lambda>i. int i + 1) [0..<length xs]"
  shows "map_of xs (int (length xs) + 1) = None"
    "AList.update (int (length xs) + 1) v xs = xs @ [(int (length xs) + 1, v)]"
    "map_of xs k \<noteq> None \<Longrightarrow> 1 \<le> k \<and> k \<le> int (length xs)"
proof -
  have set: "fst ` set xs = (\<lambda>i. int i + 1) ` {0..<length xs}"
    using arg_cong [OF assms, of set] by simp
  then have notin: "int (length xs) + 1 \<notin> fst ` set xs" by auto
  then show "map_of xs (int (length xs) + 1) = None" by (simp add: map_of_eq_None_iff)
  from notin show "AList.update (int (length xs) + 1) v xs = xs @ [(int (length xs) + 1, v)]"
    by (rule update_new)
  assume "map_of xs k \<noteq> None"
  then have "k \<in> fst ` set xs" by (simp add: map_of_eq_None_iff)
  then show "1 \<le> k \<and> k \<le> int (length xs)" by (auto simp: set)
qed

lemma register_source_new:
  assumes "index_ok idx" "references_by_file idx path = None"
  defines "n \<equiv> int (length (sources_by_reference idx)) + 1"
  shows "register_source path source idx = idx\<lparr>
      references_by_file := (references_by_file idx)(path \<mapsto> n),
      sources_by_reference := sources_by_reference idx
        @ [(n, \<lparr>sf_canonical_path = path, sf_source = source\<rparr>)]\<rparr>"
proof -
  have "int (length (sources_by_reference idx) + 1) = n" by (simp add: n_def)
  moreover from assms(1) have "AList.update n v (sources_by_reference idx)
      = sources_by_reference idx @ [(n, v)]" for v
    unfolding n_def by (intro reference_fresh(2)) (simp add: index_ok_def)
  ultimately show ?thesis by (simp only: register_source_def Let_def assms(2)) simp
qed

lemma register_source_ok:
  assumes "index_ok idx"
  shows "index_ok (register_source path source idx)"
proof (cases "references_by_file idx path")
  case None
  define n where "n = int (length (sources_by_reference idx)) + 1"
  from assms have refs: "map fst (sources_by_reference idx)
      = map (\<lambda>i. int i + 1) [0..<length (sources_by_reference idx)]" by (simp add: index_ok_def)
  have new: "map_of (sources_by_reference idx) n = None"
    unfolding n_def by (rule reference_fresh(1) [OF refs])
  note reg = register_source_new [OF assms None, of source, folded n_def]
  have "source_file (register_source path source idx) k =
      (if k = n then Some \<lparr>sf_canonical_path = path, sf_source = source\<rparr>
       else source_file idx k)" for k
    using new by (auto simp: reg source_file_def map_add_def split: option.splits)
  moreover have "source_file idx n = None" using new by (simp add: source_file_def)
  moreover have "index_stops (register_source path source idx) = index_stops idx"
    by (simp add: reg index_stops_def fun_eq_iff)
  moreover have "map fst (sources_by_reference (register_source path source idx))
      = map (\<lambda>i. int i + 1) [0..<length (sources_by_reference (register_source path source idx))]"
    using refs by (simp add: reg n_def)
  moreover have "references_by_file (register_source path source idx)
      = (references_by_file idx)(path \<mapsto> n)" by (simp add: reg)
  moreover have "references_by_file idx p = Some k \<Longrightarrow> k \<noteq> n" for p k
    using assms calculation(2) by (fastforce simp: index_ok_def)
  ultimately show ?thesis
    using assms by (fastforce simp: index_ok_def)
qed (simp add: register_source_def assms)

lemma index_stops_add_stop:
  "index_stops (add_stop path stop idx) p line =
     (if p = path \<and> line = span_line (rs_span stop)
      then Some ((case index_stops idx path line of None \<Rightarrow> [] | Some l \<Rightarrow> l) @ [stop])
      else index_stops idx p line)"
  by (auto simp: index_stops_def add_stop_def Let_def split: option.splits)

lemma add_stop_ok:
  assumes "index_ok idx"
  shows "index_ok (add_stop path stop idx)"
proof -
  have old: "stops \<noteq> [] \<and> (\<forall>x\<in>set stops. span_line (rs_span x) = line)"
    if "index_stops idx p line = Some stops" for p line stops
    using assms that unfolding index_ok_def by blast
  have "stops \<noteq> [] \<and> (\<forall>x\<in>set stops. span_line (rs_span x) = line)"
    if st: "index_stops (add_stop path stop idx) p line = Some stops" for p line stops
  proof (cases "p = path \<and> line = span_line (rs_span stop)")
    case True
    with st old [of path line] show ?thesis
      by (cases "index_stops idx path line") (auto simp: index_stops_add_stop)
  next
    case False
    with st have "index_stops idx p line = Some stops"
      by (simp only: index_stops_add_stop if_False)
    then show ?thesis by (rule old)
  qed
  moreover have "references_by_file (add_stop path stop idx) = references_by_file idx"
    "sources_by_reference (add_stop path stop idx) = sources_by_reference idx"
    by (simp_all add: add_stop_def Let_def)
  ultimately show ?thesis
    using assms unfolding index_ok_def source_file_def by presburger
qed

lemma from_runtime_ok: "index_ok (index_from_runtime canonicalize points files)"
proof -
  have "index_ok idx \<Longrightarrow> index_ok (fold (index_point canonicalize source_of) points idx)"
    for source_of idx
    by (induction points arbitrary: idx)
      (auto simp: index_point_def Let_def register_source_ok add_stop_ok split: option.splits)
  moreover have "index_ok empty_index"
    by (simp add: index_ok_def empty_index_def index_stops_def)
  ultimately show ?thesis by (simp add: index_from_runtime_def Let_def)
qed

text \<open>
  Source references: in the index of a launch, the reference of a file names a source
  of that very file, references are positive, and every line with stops has at least one,
  all on that line.
\<close>

theorem source_reference_roundtrip:
  assumes "source_reference (index_from_runtime canonicalize points files) path = Some reference"
  shows "1 \<le> reference \<and> (\<exists>content. source_file (index_from_runtime canonicalize points files) reference
    = Some \<lparr>sf_canonical_path = path, sf_source = content\<rparr>)"
proof -
  let ?idx = "index_from_runtime canonicalize points files"
  have ok: "index_ok ?idx" by (rule from_runtime_ok)
  with assms obtain content where t: "source_file ?idx reference
      = Some \<lparr>sf_canonical_path = path, sf_source = content\<rparr>"
    unfolding index_ok_def source_reference_def by blast
  moreover have "1 \<le> reference"
    using reference_fresh(3) [of "sources_by_reference ?idx" reference] ok t
    by (simp add: index_ok_def source_file_def)
  ultimately show ?thesis by blast
qed

theorem source_reference_roundtrip_witness:
  "source_file (index_from_runtime (\<lambda>p. Some (''/'' @ p))
      [(Some ''a.mw'', \<lparr>span_start = 0, span_end = 1, span_line = 3, span_column = 1\<rparr>)]
      [(''a.mw'', ''text'')]) 1 \<noteq> None"
  using source_reference_roundtrip [of "\<lambda>p. Some (''/'' @ p)"
      "[(Some ''a.mw'', \<lparr>span_start = 0, span_end = 1, span_line = 3, span_column = 1\<rparr>)]"
      "[(''a.mw'', ''text'')]" "''/a.mw''" 1]
  by (auto simp: index_from_runtime_def index_point_def normalize_existing_path_def
      empty_index_def register_source_def add_stop_def source_reference_def Let_def)

section \<open>Verified breakpoints are armed\<close>

definition armed_at :: "'e armed_breakpoints \<Rightarrow> string \<Rightarrow> 'e armed_breakpoint \<Rightarrow> bool" where
  "armed_at armed file bp \<longleftrightarrow> (\<exists>bps. armed file = Some bps \<and> bp \<in> set bps)"

lemma insert_armed_at: "armed_at (insert_armed file bp armed) file bp"
  by (auto simp: armed_at_def insert_armed_def Let_def)

lemma insert_armed_keeps:
  "armed_at armed file bp \<Longrightarrow> armed_at (insert_armed file' bp' armed) file bp"
  by (auto simp: armed_at_def insert_armed_def Let_def split: option.splits)

lemma fold_keeps:
  assumes "\<And>x a. P a \<Longrightarrow> P (f x a)"
  shows "P a \<Longrightarrow> P (fold f xs a)"
  by (induction xs arbitrary: a) (auto intro: assms)

lemma fold_reaches:
  assumes "x \<in> set xs" "\<And>a. P (f x a)" "\<And>y a. P a \<Longrightarrow> P (f y a)"
  shows "P (fold f xs a)"
proof -
  from split_list [OF assms(1)] obtain ys zs where "xs = ys @ x # zs" by blast
  then have split: "fold f xs a = fold f zs (f x (fold f ys a))" by simp
  show ?thesis unfolding split by (rule fold_keeps [where P = P, OF assms(3) assms(2)])
qed

lemma arm_keeps:
  "armed_at armed file bp \<Longrightarrow> armed_at (arm_stop W s line spec stop armed) file bp"
  "armed_at armed file bp \<Longrightarrow> armed_at (arm_request W s idx source b armed) file bp"
proof -
  show stop: "armed_at armed file bp \<Longrightarrow> armed_at (arm_stop W s line spec stop armed) file bp"
    for line spec stop armed
    by (auto simp: arm_stop_def insert_armed_keeps split: sum.splits)
  have "armed_at armed file bp \<Longrightarrow> armed_at (fold (arm_stop W s line spec) stops armed) file bp"
    for line spec stops
    by (rule fold_keeps [where P = "\<lambda>a. armed_at a file bp"]) (rule stop)
  then show "armed_at armed file bp \<Longrightarrow> armed_at (arm_request W s idx source b armed) file bp"
    by (simp add: arm_request_def split: requested_breakpoint.split option.split
        breakpoint_request.split)
qed

text \<open>
  C23. A verified breakpoint is armed: when a launched session reports a requested
  breakpoint of a stored source as verified, the set it pushes to the run thread has a
  breakpoint on that line, fresh and with the requested hit target, in the runtime file of
  the line's first stop.
\<close>

theorem verified_breakpoint_is_armed:
  assumes "s_stop_points s = Some idx" "index_ok idx"
    and "(source, requested) \<in> set (s_breakpoints s)"
    and "ValidBreakpoint line (ValidRequest spec) \<in> set requested"
    and "jget (resolved_breakpoint W s source line (ValidRequest spec)) ''verified''
           = Some (JBool True)"
  shows "\<exists>stops condition message. index_stops idx source line = Some stops \<and> stops \<noteq> []
    \<and> checked_breakpoint_spec W s (stops ! 0) spec = Inr (condition, message)
    \<and> armed_at (armed_breakpoints W s) (rs_file (stops ! 0))
        (new_armed line condition (spec_hit_target spec) message)"
proof -
  from assms(1,5) obtain stops condition message where st: "index_stops idx source line = Some stops"
    and ck: "checked_breakpoint_spec W s (stops ! 0) spec = Inr (condition, message)"
    by (auto simp: resolved_breakpoint_def resolved_launched_breakpoint_def
        unverified_breakpoint_def split: option.splits sum.splits)
  from st assms(2) have ne: "stops \<noteq> []" by (auto simp: index_ok_def)
  let ?bp = "new_armed line condition (spec_hit_target spec) message"
  let ?file = "rs_file (stops ! 0)"
  have one: "armed_at (arm_stop W s line spec (stops ! 0) a) ?file ?bp" for a
    using ck by (simp add: arm_stop_def insert_armed_at)
  let ?P = "\<lambda>a. armed_at a ?file ?bp"
  have request: "?P (arm_request W s idx source (ValidBreakpoint line (ValidRequest spec)) a)" for a
    using st ne fold_reaches [where P = ?P and f = "arm_stop W s line spec" and x = "stops ! 0"
        and xs = stops, OF _ one] by (simp add: arm_request_def arm_keeps)
  have src: "?P (fold (arm_request W s idx source) requested a)" for a
    by (rule fold_reaches [where P = ?P and f = "arm_request W s idx source", OF assms(4)])
      (rule request, rule arm_keeps)
  have other: "?P a \<Longrightarrow> ?P (fold (arm_request W s idx source') requested' a)" for source' requested' a
    by (rule fold_keeps [where P = ?P]) (rule arm_keeps)
  let ?arm = "\<lambda>(source, requested). fold (arm_request W s idx source) requested"
  have "?P (fold ?arm (s_breakpoints s) (\<lambda>f. None))"
    by (rule fold_reaches [where P = ?P and f = ?arm, OF assms(3)])
      (auto simp: src intro: other)
  then have "?P (armed_breakpoints W s)" by (simp add: armed_breakpoints_def assms(1))
  with st ne ck show ?thesis by blast
qed

definition armed_session :: "(unit, nat, nat) session" where
  "armed_session = new_session\<lparr>
     s_stop_points := Some (index_from_runtime (\<lambda>p. Some p) [(Some ''a.mw'', demo_span 3)] []),
     s_breakpoints := [(''a.mw'', [InvalidLine, ValidBreakpoint 3 (ValidRequest
       \<lparr>spec_condition = None, spec_hit_target = Some 2, spec_log_message = None\<rparr>)])]\<rparr>"

theorem verified_breakpoint_is_armed_witness:
  "\<exists>condition message. armed_at (armed_breakpoints demo_world armed_session) ''a.mw''
     (new_armed 3 condition (Some 2) message)"
proof -
  let ?idx = "index_from_runtime (\<lambda>p. Some p) [(Some ''a.mw'', demo_span 3)] []"
  let ?spec = "\<lparr>spec_condition = None, spec_hit_target = Some 2, spec_log_message = None\<rparr>"
  have st: "index_stops ?idx ''a.mw'' 3 = Some [\<lparr>rs_file = ''a.mw'', rs_span = demo_span 3\<rparr>]"
    by (simp add: index_from_runtime_def index_point_def normalize_existing_path_def empty_index_def
        add_stop_def index_stops_def demo_span_def Let_def)
  have sp: "s_stop_points armed_session = Some ?idx" by (simp add: armed_session_def)
  have "jget (resolved_breakpoint demo_world armed_session ''a.mw'' 3 (ValidRequest ?spec)) ''verified''
      = Some (JBool True)"
    using sp st by (simp add: resolved_breakpoint_def resolved_launched_breakpoint_def
        checked_breakpoint_spec_def)
  from verified_breakpoint_is_armed [OF sp from_runtime_ok _ _ this] st show ?thesis
    by (auto simp: armed_session_def)
qed

end
