(* ===== verification/Lsp_Positions.thy ===== *)
theory Lsp_Positions
  imports Prelude
begin

text \<open>
  \<open>crates/marrow-lsp-core/src/positions.rs\<close>: the map between UTF-8 byte offsets and LSP
  positions, whose columns count UTF-16 code units. A text is its list of bytes; the
  characters the code iterates over are cut from it by their lead bytes. Numbers the code
  casts to \<open>u32\<close> are reduced modulo \<open>2 ^ 32\<close>.
\<close>

section \<open>Characters of a text\<close>

definition char_len :: "char \<Rightarrow> nat" where
  "char_len lead =
     (if byte lead < 128 then 1 else if byte lead < 224 then 2
      else if byte lead < 240 then 3 else 4)"

definition len_utf16 :: "string \<Rightarrow> nat" where
  "len_utf16 ch = (if length ch = 4 then 2 else 1)"

function chars :: "string \<Rightarrow> string list" where
  "chars s = (case s of [] \<Rightarrow> []
     | c # cs \<Rightarrow> take (char_len c) s # chars (drop (char_len c) s))"
  by pat_completeness auto
termination
  by (relation "measure length") (auto simp: char_len_def)

declare chars.simps [simp del]

lemma chars_Nil [simp]: "chars [] = []"
  by (simp add: chars.simps)

definition as_u32 :: "nat \<Rightarrow> nat" where
  "as_u32 n = n mod 2 ^ 32"

lemma as_u32_small [simp]: "n < 2 ^ 32 \<Longrightarrow> as_u32 n = n"
  by (simp add: as_u32_def)

definition is_char_boundary :: "string \<Rightarrow> nat \<Rightarrow> bool" where
  "is_char_boundary s b \<longleftrightarrow>
     b = 0 \<or> b = length s \<or> b < length s \<and> \<not> is_cont (s ! b)"

section \<open>The index\<close>

record position =
  pos_line :: nat
  pos_character :: nat

record line_index =
  li_line_starts :: "nat list"
  li_text :: string

text \<open>The offsets after each newline of a text that starts at offset \<open>i\<close>.\<close>

fun after_newlines :: "nat \<Rightarrow> string \<Rightarrow> nat list" where
  "after_newlines i [] = []"
| "after_newlines i (c # cs) =
     (if c = CHR 0x0A then Suc i # after_newlines (Suc i) cs else after_newlines (Suc i) cs)"

definition new_line_index :: "string \<Rightarrow> line_index" where
  "new_line_index text = \<lparr>li_line_starts = 0 # after_newlines 0 text, li_text = text\<rparr>"

fun floor_char_boundary :: "string \<Rightarrow> nat \<Rightarrow> nat" where
  "floor_char_boundary s b =
     (if 0 < b \<and> \<not> is_char_boundary s b then floor_char_boundary s (b - 1) else b)"

declare floor_char_boundary.simps [simp del]

text \<open>\<open>binary_search\<close> on a strictly sorted slice: \<open>Inr\<close> where found, else \<open>Inl\<close> the place.\<close>

definition binary_search :: "nat list \<Rightarrow> nat \<Rightarrow> nat + nat" where
  "binary_search xs x =
     (let n = length (takeWhile (\<lambda>y. y < x) xs)
      in if n < length xs \<and> xs ! n = x then Inr n else Inl n)"

definition byte_slice :: "string \<Rightarrow> nat \<Rightarrow> nat \<Rightarrow> string" where
  "byte_slice s i j = take (j - i) (drop i s)"

definition position :: "line_index \<Rightarrow> nat \<Rightarrow> position" where
  "position idx b =
     (let b' = floor_char_boundary (li_text idx) (min b (length (li_text idx)));
          line = (case binary_search (li_line_starts idx) b' of
              Inr line \<Rightarrow> line | Inl next_line \<Rightarrow> next_line - 1);
          line_start = li_line_starts idx ! line;
          character = as_u32 (sum_list (map len_utf16
            (chars (byte_slice (li_text idx) line_start b'))))
      in \<lparr>pos_line = as_u32 line, pos_character = character\<rparr>)"

text \<open>The loop of \<open>offset\<close> over the characters of one line.\<close>

fun advance :: "nat \<Rightarrow> string list \<Rightarrow> nat \<Rightarrow> nat \<Rightarrow> nat" where
  "advance target [] utf16 b = b"
| "advance target (ch # chs) utf16 b =
     (if target \<le> utf16 \<or> ch = [CHR 0x0A] then b
      else advance target chs (as_u32 (utf16 + len_utf16 ch)) (b + length ch))"

definition offset :: "line_index \<Rightarrow> position \<Rightarrow> nat" where
  "offset idx p =
     (let line = pos_line p in
      if length (li_line_starts idx) \<le> line then length (li_text idx)
      else let line_start = li_line_starts idx ! line;
               line_end = (if line + 1 < length (li_line_starts idx)
                           then li_line_starts idx ! (line + 1) else length (li_text idx))
           in advance (pos_character p) (chars (byte_slice (li_text idx) line_start line_end))
                0 line_start)"

record lsp_range =
  range_start :: position
  range_end :: position

definition range_of :: "line_index \<Rightarrow> nat \<Rightarrow> nat \<Rightarrow> lsp_range" where
  "range_of idx start_byte end_byte =
     \<lparr>range_start = position idx start_byte, range_end = position idx end_byte\<rparr>"

section \<open>UTF-8 texts as lists of characters\<close>

fun good_char :: "string \<Rightarrow> bool" where
  "good_char [] = False"
| "good_char (a # conts) =
     (\<not> is_cont a \<and> list_all is_cont conts \<and> length (a # conts) = char_len a)"

lemma chars_good: "list_all good_char cs \<Longrightarrow> chars (concat cs) = cs"
proof (induction cs)
  case (Cons c cs)
  then obtain a conts where c: "c = a # conts" "Suc (length conts) = char_len a"
    by (cases c) auto
  then have "take (char_len a) (c @ concat cs) = c" "drop (char_len a) (c @ concat cs) = concat cs"
    by (simp_all flip: c(2))
  with c Cons show ?case by (subst chars.simps) simp
qed simp

lemma utf8_valid_chars: "utf8_valid s \<Longrightarrow> \<exists>cs. s = concat cs \<and> list_all good_char cs"
proof (induction s rule: utf8_valid.induct)
  case 1
  show ?case by (rule exI [of _ "[]"]) simp
next
  case (2 a s)
  show ?case
  proof (cases "byte a < 128")
    case True
    with 2 obtain cs where "s = concat cs" "list_all good_char cs" by auto
    with True show ?thesis
      by (intro exI [of _ "[a] # cs"]) (simp add: is_cont_def char_len_def)
  next
    case a: False
    then obtain b s1 where s: "s = b # s1" using "2.prems" by (cases s) auto
    show ?thesis
    proof (cases "in_bytes 194 223 a")
      case True
      with "2.prems" a s "2.IH"(2) [OF a s True] obtain cs where
        "s1 = concat cs" "list_all good_char cs" "is_cont b" by auto
      with True s show ?thesis
        by (intro exI [of _ "[a, b] # cs"]) (simp add: is_cont_def char_len_def in_bytes_def)
    next
      case a2: False
      then obtain c s2 where s1: "s1 = c # s2" using "2.prems" a s by (cases s1) auto
      show ?thesis
      proof (cases "in_bytes 224 239 a")
        case True
        with "2.prems" a a2 s s1 "2.IH"(3) [OF a s a2 s1 True] obtain cs where
          "s2 = concat cs" "list_all good_char cs" "is_cont b" "is_cont c"
          by (auto simp: is_cont_def in_bytes_def split: if_splits)
        with True s s1 show ?thesis
          by (intro exI [of _ "[a, b, c] # cs"]) (simp add: is_cont_def char_len_def in_bytes_def)
      next
        case a3: False
        then obtain d s3 where s2: "s2 = d # s3" using "2.prems" a a2 s s1 by (cases s2) auto
        with "2.prems" a a2 a3 s s1 "2.IH"(4) [OF a s a2 s1 a3 s2] obtain cs where
          "s3 = concat cs" "list_all good_char cs" "is_cont b" "is_cont c" "is_cont d"
          "in_bytes 240 244 a"
          by (auto simp: is_cont_def in_bytes_def split: if_splits)
        with s s1 s2 show ?thesis
          by (intro exI [of _ "[a, b, c, d] # cs"]) (simp add: is_cont_def char_len_def in_bytes_def)
      qed
    qed
  qed
qed

text \<open>The boundaries of a text are the ends of its prefixes of whole characters.\<close>

lemma boundary_prefix:
  assumes "list_all good_char cs" "b \<le> length (concat cs)" "is_char_boundary (concat cs) b"
  shows "\<exists>pre post. cs = pre @ post \<and> b = length (concat pre)"
  using assms
proof (induction cs arbitrary: b)
  case (Cons c cs)
  then obtain a conts where c: "c = a # conts" "list_all is_cont conts" by (cases c) auto
  show ?case
  proof (cases "b < length c")
    case True
    have "b = 0"
    proof (rule ccontr)
      assume "b \<noteq> 0"
      with True c have "is_cont ((c @ concat cs) ! b)"
        by (auto simp: nth_append nth_Cons' list_all_length)
      with Cons.prems(3) True \<open>b \<noteq> 0\<close> show False by (auto simp: is_char_boundary_def)
    qed
    then show ?thesis by (intro exI [of _ "[]"] exI [of _ "c # cs"]) simp
  next
    case False
    have "is_char_boundary (concat cs) (b - length c)"
      using Cons.prems(2,3) False by (auto simp: is_char_boundary_def nth_append)
    moreover have "list_all good_char cs" "b - length c \<le> length (concat cs)"
      using Cons.prems(1,2) by simp_all
    ultimately obtain pre post where "cs = pre @ post" "b - length c = length (concat pre)"
      using Cons.IH by blast
    with False show ?thesis by (intro exI [of _ "c # pre"] exI [of _ post]) simp
  qed
qed simp

lemma prefix_boundary:
  assumes "list_all good_char (pre @ post)"
  shows "is_char_boundary (concat (pre @ post)) (length (concat pre))"
proof (cases post)
  case (Cons c cs)
  with assms show ?thesis by (cases c) (auto simp: is_char_boundary_def nth_append)
qed (simp add: is_char_boundary_def)

lemma newline_not_cont [simp]: "\<not> is_cont CHR 0x0A"
  by (simp add: is_cont_def)

lemma good_newline: "good_char c \<Longrightarrow> CHR 0x0A \<in> set c \<longleftrightarrow> c = [CHR 0x0A]"
  by (cases c) (auto simp: list_all_iff char_len_def)

end
