(* ===== verification/Lsp_Position_Laws.thy ===== *)
theory Lsp_Position_Laws
  imports Lsp_Positions
begin

text \<open>
  The position index against its reading on whole characters: the line of an offset is the
  number of newlines before it, its column the UTF-16 length of what stands between the last
  of them and the offset; \<open>offset\<close> undoes \<open>position\<close>; positions grow with offsets.
\<close>

section \<open>The reference reading\<close>

abbreviation newline :: string where
  "newline \<equiv> [CHR 0x0A]"

definition lines_before :: "string list \<Rightarrow> nat" where
  "lines_before pre = length (filter (\<lambda>c. c = newline) pre)"

definition current_line :: "string list \<Rightarrow> string list" where
  "current_line pre = rev (takeWhile (\<lambda>c. c \<noteq> newline) (rev pre))"

definition utf16_sum :: "string list \<Rightarrow> nat" where
  "utf16_sum cs = sum_list (map len_utf16 cs)"

definition previous_lines :: "string list \<Rightarrow> string list" where
  "previous_lines pre = rev (dropWhile (\<lambda>c. c \<noteq> newline) (rev pre))"

lemma lines_split: "pre = previous_lines pre @ current_line pre"
  by (metis current_line_def previous_lines_def rev_append rev_rev_ident takeWhile_dropWhile_id)

lemma current_line_free: "newline \<notin> set (current_line pre)"
  by (auto simp: current_line_def dest: set_takeWhileD)

lemma previous_lines_end: "previous_lines pre = [] \<or> last (previous_lines pre) = newline"
proof (cases "dropWhile (\<lambda>c. c \<noteq> newline) (rev pre)")
  case (Cons c cs)
  then have "c = newline" using hd_dropWhile [of "\<lambda>c. c \<noteq> newline" "rev pre"] by auto
  with Cons show ?thesis by (simp add: previous_lines_def)
qed (simp add: previous_lines_def)

lemma current_line_append_free:
  assumes "newline \<notin> set mid"
  shows "current_line (pre @ mid) = current_line pre @ mid"
proof -
  have "takeWhile (\<lambda>c. c \<noteq> newline) (rev mid @ rev pre)
      = rev mid @ takeWhile (\<lambda>c. c \<noteq> newline) (rev pre)"
    by (rule takeWhile_append2) (use assms in auto)
  then show ?thesis by (simp add: current_line_def)
qed

lemma lines_before_free: "newline \<notin> set mid \<Longrightarrow> lines_before mid = 0"
  by (simp add: lines_before_def filter_empty_conv) metis

lemma lines_before_append [simp]: "lines_before (xs @ ys) = lines_before xs + lines_before ys"
  by (simp add: lines_before_def)

lemma utf16_sum_append [simp]: "utf16_sum (xs @ ys) = utf16_sum xs + utf16_sum ys"
  by (simp add: utf16_sum_def)

lemma utf16_sum_simps [simp]:
  "utf16_sum [] = 0" "utf16_sum (c # cs) = len_utf16 c + utf16_sum cs"
  by (simp_all add: utf16_sum_def)

lemma len_utf16_bounds: "good_char c \<Longrightarrow> 0 < len_utf16 c \<and> len_utf16 c \<le> length c"
  by (cases c) (auto simp: len_utf16_def)

lemma utf16_sum_le: "list_all good_char cs \<Longrightarrow> utf16_sum cs \<le> length (concat cs)"
  by (induction cs) (auto simp: add_mono len_utf16_bounds)

section \<open>Line starts\<close>

lemma after_newlines_append:
  "after_newlines i (s @ t) = after_newlines i s @ after_newlines (i + length s) t"
  by (induction i s rule: after_newlines.induct) auto

lemma after_newlines_free: "CHR 0x0A \<notin> set s \<Longrightarrow> after_newlines i s = []"
  by (induction i s rule: after_newlines.induct) auto

lemma after_newlines_bounds: "x \<in> set (after_newlines i s) \<Longrightarrow> i < x \<and> x \<le> i + length s"
  by (induction i s rule: after_newlines.induct) (auto split: if_splits)

lemma after_newlines_sorted: "sorted_wrt (<) (after_newlines i s)"
  by (induction i s rule: after_newlines.induct) (auto dest: after_newlines_bounds)

lemma newline_concat:
  "list_all good_char cs \<Longrightarrow> CHR 0x0A \<in> set (concat cs) \<longleftrightarrow> newline \<in> set cs"
  by (induction cs) (auto simp: good_newline)

lemma after_newlines_count:
  "list_all good_char cs \<Longrightarrow> length (after_newlines i (concat cs)) = lines_before cs"
proof (induction cs arbitrary: i)
  case (Cons c cs)
  then have "length (after_newlines i c) = lines_before [c]"
    using good_newline [of c] after_newlines_free [of c i] by (auto simp: lines_before_def)
  with Cons show ?case
    using lines_before_append [of "[c]" cs] by (simp add: after_newlines_append)
qed (simp add: lines_before_def)

definition line_starts :: "string \<Rightarrow> nat list" where
  "line_starts s = 0 # after_newlines 0 s"

lemma line_starts_index [simp]:
  "li_line_starts (new_line_index s) = line_starts s" "li_text (new_line_index s) = s"
  by (simp_all add: new_line_index_def line_starts_def)

lemma line_starts_last:
  assumes "cs = [] \<or> last cs = newline"
  shows "last (line_starts (concat cs)) = length (concat cs)"
proof (cases cs rule: rev_cases)
  case (snoc ds c)
  with assms show ?thesis by (simp add: line_starts_def after_newlines_append)
qed (simp add: line_starts_def)

lemma line_starts_le: "x \<in> set (line_starts s) \<Longrightarrow> x \<le> length s"
  by (auto simp: line_starts_def dest: after_newlines_bounds)

lemma line_starts_sorted: "sorted_wrt (<) (line_starts s)"
  using after_newlines_sorted [of 0 s] by (auto simp: line_starts_def dest: after_newlines_bounds)

text \<open>
  Around an offset inside a text, the starts are those of the lines up to the offset's own,
  the last of which is where its line starts, and those after the offset.
\<close>

lemma line_starts_around:
  assumes "list_all good_char (pre @ post)"
  shows "line_starts (concat (pre @ post))
       = line_starts (concat (previous_lines pre))
         @ after_newlines (length (concat pre)) (concat post)"
    and "length (line_starts (concat (previous_lines pre))) = Suc (lines_before pre)"
    and "last (line_starts (concat (previous_lines pre))) = length (concat (previous_lines pre))"
proof -
  let ?A = "previous_lines pre" and ?C = "current_line pre"
  have good: "list_all good_char ?A" "list_all good_char ?C"
    using assms lines_split [of pre] by (metis list_all_append)+
  have "CHR 0x0A \<notin> set (concat ?C)"
    using newline_concat [OF good(2)] current_line_free by blast
  then have "after_newlines i (concat pre) = after_newlines i (concat ?A)" for i
    by (subst lines_split [of pre]) (simp add: after_newlines_append after_newlines_free)
  then show "line_starts (concat (pre @ post)) = line_starts (concat ?A)
         @ after_newlines (length (concat pre)) (concat post)"
    by (simp add: line_starts_def after_newlines_append)
  have "lines_before pre = lines_before ?A"
    using lines_before_free [OF current_line_free [of pre]] lines_split [of pre]
    by (metis add.right_neutral lines_before_append)
  then show "length (line_starts (concat ?A)) = Suc (lines_before pre)"
    by (simp add: line_starts_def after_newlines_count [OF good(1)])
  show "last (line_starts (concat ?A)) = length (concat ?A)"
    by (rule line_starts_last) (rule previous_lines_end)
qed

section \<open>The position of a boundary\<close>

lemma binary_search_line:
  assumes "sorted_wrt (<) (A @ B)" "A \<noteq> []" "last A \<le> b" "\<forall>x\<in>set B. b < x"
  shows "(case binary_search (A @ B) b of Inr line \<Rightarrow> line | Inl next_line \<Rightarrow> next_line - 1)
       = length A - 1"
proof (cases "last A = b")
  case True
  obtain A' where A: "A = A' @ [b]" using assms(2) True by (metis append_butlast_last_id)
  with assms(1) have "\<forall>x\<in>set A'. x < b" by (simp add: sorted_wrt_append)
  then have "takeWhile (\<lambda>y. y < b) (A @ B) = A'"
    by (simp add: A takeWhile_tail takeWhile_append2)
  then show ?thesis by (simp add: binary_search_def A nth_append)
next
  case False
  with assms(3) have last: "last A < b" by simp
  from assms(2) obtain A' a where A: "A = A' @ [a]" by (metis append_butlast_last_id)
  with assms(1) last have "\<forall>x\<in>set A. x < b" by (auto simp: sorted_wrt_append)
  moreover have "takeWhile (\<lambda>y. y < b) B = []" using assms(4) by (cases B) auto
  ultimately have tw: "takeWhile (\<lambda>y. y < b) (A @ B) = A" by (simp add: takeWhile_append2)
  have "\<not> (length A < length (A @ B) \<and> (A @ B) ! length A = b)"
    using assms(4) by (cases B) auto
  then show ?thesis unfolding binary_search_def Let_def tw by auto
qed

lemma floor_boundary: "is_char_boundary s b \<Longrightarrow> floor_char_boundary s b = b"
  by (simp add: floor_char_boundary.simps)

lemma slice_concat:
  "byte_slice (concat (xs @ ys @ zs)) (length (concat xs)) (length (concat (xs @ ys))) = concat ys"
  by (simp add: byte_slice_def)

lemma position_prefix:
  assumes "list_all good_char (pre @ post)"
  shows "position (new_line_index (concat (pre @ post))) (length (concat pre))
       = \<lparr>pos_line = as_u32 (lines_before pre),
          pos_character = as_u32 (utf16_sum (current_line pre))\<rparr>"
proof -
  let ?s = "concat (pre @ post)" and ?b = "length (concat pre)"
  let ?A = "line_starts (concat (previous_lines pre))" and ?B = "after_newlines ?b (concat post)"
  note around = line_starts_around [OF assms]
  have fl: "floor_char_boundary ?s (min ?b (length ?s)) = ?b"
    using prefix_boundary [OF assms] by (simp add: floor_boundary)
  have start: "length (concat (previous_lines pre)) \<le> ?b"
    by (subst (2) lines_split [of pre]) simp
  have "sorted_wrt (<) (?A @ ?B)"
    unfolding around(1) [symmetric] by (rule line_starts_sorted)
  then have line: "(case binary_search (?A @ ?B) ?b of Inr line \<Rightarrow> line
      | Inl next_line \<Rightarrow> next_line - 1) = lines_before pre"
    using binary_search_line [of ?A ?B ?b] around(2,3) start
    by (auto dest: after_newlines_bounds simp: line_starts_def)
  have "(?A @ ?B) ! lines_before pre = length (concat (previous_lines pre))"
    using around(2,3) by (metis append_is_Nil_conv diff_Suc_1 last_conv_nth length_0_conv lessI
        nat.simps(3) nth_append)
  moreover have "byte_slice ?s (length (concat (previous_lines pre))) ?b
      = concat (current_line pre)"
    using slice_concat [of "previous_lines pre" "current_line pre" post]
    by (simp flip: lines_split [of pre] concat_append append_assoc)
  moreover have "chars (concat (current_line pre)) = current_line pre"
    using assms lines_split [of pre] by (intro chars_good) (metis list_all_append)
  ultimately show ?thesis
    unfolding position_def Let_def line_starts_index fl around(1) line
    by (simp add: utf16_sum_def)
qed

section \<open>Offsets of positions\<close>

lemma advance_exact:
  assumes "newline \<notin> set line" "list_all good_char line" "u + utf16_sum line < 2 ^ 32"
  shows "advance (u + utf16_sum line) (line @ rest) u b = b + length (concat line)"
  using assms
proof (induction line arbitrary: u b)
  case Nil
  then show ?case by (cases rest) auto
next
  case (Cons c cs)
  then have "0 < len_utf16 c" "c \<noteq> newline" using len_utf16_bounds by auto
  moreover have "as_u32 (u + len_utf16 c) = u + len_utf16 c"
    using Cons.prems(3) by (intro as_u32_small) simp
  ultimately show ?case
    using Cons.IH [of "u + len_utf16 c"] Cons.prems by (simp add: add.assoc)
qed

lemma line_rest:
  "\<exists>rest after. post = rest @ after \<and> (newline \<notin> set post \<and> rest = post
     \<or> (\<exists>ys. newline \<notin> set ys \<and> rest = ys @ [newline]))"
proof (cases "newline \<in> set post")
  case True
  then obtain ys zs where "post = ys @ newline # zs" "newline \<notin> set ys"
    by (metis split_list_first)
  then show ?thesis by (intro exI [of _ "ys @ [newline]"] exI [of _ zs]) simp
qed (intro exI [of _ post] exI [of _ "[]"], simp)

lemma offset_prefix:
  assumes good: "list_all good_char (pre @ post)"
    and "lines_before pre < 2 ^ 32" "utf16_sum (current_line pre) < 2 ^ 32"
  shows "offset (new_line_index (concat (pre @ post)))
      \<lparr>pos_line = lines_before pre, pos_character = utf16_sum (current_line pre)\<rparr>
    = length (concat pre)"
proof -
  let ?s = "concat (pre @ post)" and ?b = "length (concat pre)" and ?n = "lines_before pre"
  let ?start = "length (concat (previous_lines pre))"
  note around = line_starts_around [OF good]
  let ?B = "after_newlines ?b (concat post)"
  have len: "length (line_starts ?s) = Suc ?n + length ?B"
    using around(1,2) by simp
  have at: "line_starts ?s ! ?n = ?start"
    unfolding around(1) using around(2,3)
    by (metis diff_Suc_1 last_conv_nth length_0_conv lessI nat.simps(3) nth_append)
  have good': "list_all good_char (current_line pre)" "list_all good_char post"
    using good lines_split [of pre] by (metis list_all_append)+
  obtain rest after where post: "post = rest @ after" and
    rest: "newline \<notin> set post \<and> rest = post
      \<or> (\<exists>ys. newline \<notin> set ys \<and> rest = ys @ [newline])"
    using line_rest by blast
  have total: "length (concat (previous_lines pre @ current_line pre @ rest))
      = ?b + length (concat rest)"
    by (metis append_assoc concat_append length_append lines_split [of pre])
  from rest have ends: "(if ?n + 1 < length (line_starts ?s) then line_starts ?s ! (?n + 1)
      else length ?s) = length (concat (previous_lines pre @ current_line pre @ rest))"
  proof (elim disjE exE conjE)
    fix ys assume ys: "newline \<notin> set ys" "rest = ys @ [newline]"
    have "list_all good_char ys" using good'(2) post ys by simp
    then have "CHR 0x0A \<notin> set (concat ys)" using newline_concat ys(1) by blast
    then have B: "?B = Suc (?b + length (concat ys)) # after_newlines
        (Suc (?b + length (concat ys))) (concat after)"
      by (subst post) (simp add: ys after_newlines_append after_newlines_free)
    have "line_starts ?s ! (?n + 1) = ?B ! 0"
      unfolding around(1) using around(2) by (simp add: nth_append)
    with B len show ?thesis unfolding total by (simp add: ys)
  next
    assume no: "newline \<notin> set post" "rest = post"
    then have "?B = []"
      using newline_concat [OF good'(2)] by (intro after_newlines_free) blast
    with no len show ?thesis unfolding total by simp
  qed
  have "byte_slice ?s ?start (length (concat (previous_lines pre @ current_line pre @ rest)))
      = concat (current_line pre @ rest)"
    using slice_concat [of "previous_lines pre" "current_line pre @ rest" after]
    by (simp add: post flip: append_assoc lines_split [of pre])
  moreover have "chars (concat (current_line pre @ rest)) = current_line pre @ rest"
    using good' post by (intro chars_good) auto
  moreover have "advance (utf16_sum (current_line pre)) (current_line pre @ rest) 0 ?start
      = ?start + length (concat (current_line pre))"
    using advance_exact [OF current_line_free good'(1), of 0] assms(3) by simp
  moreover have "?start + length (concat (current_line pre)) = ?b"
    by (metis concat_append length_append lines_split [of pre])
  moreover have "\<not> length (line_starts ?s) \<le> ?n" using len by simp
  ultimately show ?thesis
    by (simp only: offset_def Let_def line_starts_index position.simps if_False at ends)
qed


section \<open>Bounds\<close>

lemma prefix_bounds:
  assumes "list_all good_char (pre @ post)"
  shows "lines_before pre \<le> length (concat pre)" "utf16_sum (current_line pre) \<le> length (concat pre)"
proof -
  have "list_all good_char pre" using assms by simp
  then have "length pre \<le> length (concat pre)"
  proof (induction pre)
    case (Cons c cs)
    then show ?case by (cases c) auto
  qed simp
  moreover have "lines_before pre \<le> length pre" by (simp add: lines_before_def)
  ultimately show "lines_before pre \<le> length (concat pre)" by simp
  have "list_all good_char (current_line pre)"
    using assms lines_split [of pre] by (metis list_all_append)
  from utf16_sum_le [OF this] show "utf16_sum (current_line pre) \<le> length (concat pre)"
    by (metis concat_append le_add2 le_trans length_append lines_split)
qed

text \<open>A text a position can address: UTF-8, with offsets below \<open>2 ^ 32\<close>.\<close>

definition addressable :: "string \<Rightarrow> bool" where
  "addressable s \<longleftrightarrow> utf8_valid s \<and> length s < 2 ^ 32"

lemma addressable_prefix:
  assumes "addressable s" "is_char_boundary s b" "b \<le> length s"
  obtains pre post where "s = concat (pre @ post)" "list_all good_char (pre @ post)"
    "b = length (concat pre)" "lines_before pre < 2 ^ 32" "utf16_sum (current_line pre) < 2 ^ 32"
proof -
  from assms(1) obtain cs where cs: "s = concat cs" "list_all good_char cs"
    using utf8_valid_chars by (auto simp: addressable_def)
  with boundary_prefix [OF cs(2)] assms(2,3) obtain pre post where
    p: "cs = pre @ post" "b = length (concat pre)" by blast
  from assms(1,3) p(2) have "length (concat pre) < 2 ^ 32" by (simp add: addressable_def)
  with prefix_bounds [of pre post] cs p that show thesis by fastforce
qed

section \<open>Properties\<close>

text \<open>
  C37. A position is what it should be: at an offset between two characters, the line is
  the number of newlines before the offset and the column the number of UTF-16 units since
  the last of them, whatever the text. The optimised index (binary search over stored line
  starts) agrees with counting.
\<close>

theorem position_counts:
  assumes "list_all good_char (pre @ post)" "length (concat (pre @ post)) < 2 ^ 32"
  shows "position (new_line_index (concat (pre @ post))) (length (concat pre))
    = \<lparr>pos_line = lines_before pre, pos_character = utf16_sum (current_line pre)\<rparr>"
  using position_prefix [OF assms(1)] prefix_bounds [OF assms(1)] assms(2) by simp

theorem position_counts_witness:
  "position (new_line_index (concat ([''a'', newline, [CHR 0xF0, CHR 0x9F, CHR 0x98, CHR 0x80]]
      @ [''b''])))
      (length (concat [''a'', newline, [CHR 0xF0, CHR 0x9F, CHR 0x98, CHR 0x80]]))
   = \<lparr>pos_line = 1, pos_character = 2\<rparr>"
  by (subst position_counts)
    (simp_all add: is_cont_def char_len_def lines_before_def current_line_def len_utf16_def)

lemma offset_position_boundary:
  assumes "utf8_valid s" "length s < 2 ^ 32" "is_char_boundary s b" "b \<le> length s"
  shows "offset (new_line_index s) (position (new_line_index s) b) = b"
proof -
  from assms have "addressable s" by (simp add: addressable_def)
  from addressable_prefix [OF this assms(3,4)] obtain pre post where
    p: "s = concat (pre @ post)" "list_all good_char (pre @ post)" "b = length (concat pre)"
    "lines_before pre < 2 ^ 32" "utf16_sum (current_line pre) < 2 ^ 32" .
  then show ?thesis
    using position_prefix [OF p(2)] offset_prefix [OF p(2,4,5)] by simp
qed

text \<open>
  C25. \<open>offset\<close> undoes \<open>position\<close>: at every character boundary of a UTF-8 text below
  4 GiB, mapping the offset to a position and back gives the offset.
\<close>

theorem offset_of_position:
  assumes "utf8_valid s" "length s < 2 ^ 32" "is_char_boundary s b" "b \<le> length s"
  shows "offset (new_line_index s) (position (new_line_index s) b) = b"
  using assms by (rule offset_position_boundary)

theorem offset_of_position_witness:
  "offset (new_line_index [CHR 0xC3, CHR 0xA9, CHR 0x0A, CHR 0x78])
     (position (new_line_index [CHR 0xC3, CHR 0xA9, CHR 0x0A, CHR 0x78]) 3) = 3"
  by (rule offset_of_position)
    (simp_all add: is_char_boundary_def is_cont_def in_bytes_def numeral_3_eq_3)

section \<open>Order\<close>

definition position_le :: "position \<Rightarrow> position \<Rightarrow> bool" where
  "position_le p q \<longleftrightarrow> pos_line p < pos_line q
     \<or> pos_line p = pos_line q \<and> pos_character p \<le> pos_character q"

lemma lines_before_newline: "newline \<in> set mid \<Longrightarrow> 0 < lines_before mid"
  by (auto simp: lines_before_def filter_empty_conv)

lemma floor_char_boundary_le:
  "floor_char_boundary s b \<le> b" "b \<le> length s \<Longrightarrow> is_char_boundary s (floor_char_boundary s b)"
  by (induction s b rule: floor_char_boundary.induct; subst floor_char_boundary.simps;
      force simp: is_char_boundary_def)+

lemma floor_char_boundary_greatest:
  "is_char_boundary s x \<Longrightarrow> x \<le> b \<Longrightarrow> x \<le> floor_char_boundary s b"
proof (induction s b rule: floor_char_boundary.induct)
  case (1 s b)
  show ?case
  proof (cases "0 < b \<and> \<not> is_char_boundary s b")
    case True
    with 1 have "x \<le> b - 1" by (cases "x = b") auto
    with 1 True show ?thesis by (subst floor_char_boundary.simps) simp
  qed (use 1 in \<open>subst floor_char_boundary.simps, auto\<close>)
qed

lemma position_floor:
  "position (new_line_index s) b
   = position (new_line_index s) (floor_char_boundary s (min b (length s)))"
proof -
  let ?f = "floor_char_boundary s (min b (length s))"
  have "?f \<le> length s" "is_char_boundary s ?f"
    using floor_char_boundary_le [where s = s and b = "min b (length s)"] by auto
  then have "floor_char_boundary s (min ?f (length s)) = ?f"
    by (simp add: floor_boundary)
  then show ?thesis by (simp add: position_def)
qed

lemma position_le_boundaries:
  assumes "addressable s" "is_char_boundary s a" "is_char_boundary s b" "a \<le> b" "b \<le> length s"
  shows "position_le (position (new_line_index s) a) (position (new_line_index s) b)"
proof -
  from addressable_prefix [OF assms(1,3,5)] obtain pre post where
    p: "s = concat (pre @ post)" "list_all good_char (pre @ post)" "b = length (concat pre)"
    "lines_before pre < 2 ^ 32" "utf16_sum (current_line pre) < 2 ^ 32" .
  have "is_char_boundary (concat pre) a"
    using assms(2,4) p by (auto simp: is_char_boundary_def nth_append)
  with boundary_prefix [of pre a] p assms(4) obtain p1 mid where
    m: "pre = p1 @ mid" "a = length (concat p1)" by auto
  then have good: "list_all good_char (p1 @ mid @ post)" using p(2) by simp
  have len: "length s < 2 ^ 32" using assms(1) by (simp add: addressable_def)
  have pos: "position (new_line_index s) a
      = \<lparr>pos_line = lines_before p1, pos_character = utf16_sum (current_line p1)\<rparr>"
    "position (new_line_index s) b
      = \<lparr>pos_line = lines_before pre, pos_character = utf16_sum (current_line pre)\<rparr>"
    using position_counts [OF good] position_counts [OF p(2)] p(1,3) m len by simp_all
  show ?thesis
  proof (cases "newline \<in> set mid")
    case True
    with pos m(1) lines_before_newline [OF True] show ?thesis by (simp add: position_le_def)
  next
    case False
    with pos m(1) lines_before_free [OF False] current_line_append_free [OF False, of p1]
    show ?thesis by (simp add: position_le_def)
  qed
qed

lemma position_mono:
  assumes "addressable s" "a \<le> b"
  shows "position_le (position (new_line_index s) a) (position (new_line_index s) b)"
proof -
  let ?f = "\<lambda>x. floor_char_boundary s (min x (length s))"
  have f: "is_char_boundary s (?f x)" "?f x \<le> length s" for x
    using floor_char_boundary_le [where s = s and b = "min x (length s)"] by auto
  have "?f a \<le> min b (length s)"
    using floor_char_boundary_le(1) [of s "min a (length s)"] assms(2) by simp
  then have "?f a \<le> ?f b" by (rule floor_char_boundary_greatest [OF f(1)])
  from position_le_boundaries [OF assms(1) f(1) f(1) this f(2)] show ?thesis
    by (simp flip: position_floor)
qed

text \<open>What the clients of the index use of it.\<close>

locale ordered_positions =
  fixes pos :: "'t \<Rightarrow> nat \<Rightarrow> position" and ok :: "'t \<Rightarrow> bool"
  assumes ordered: "ok t \<Longrightarrow> a \<le> b \<Longrightarrow> position_le (pos t a) (pos t b)"
begin

lemma same_line: "ok t \<Longrightarrow> a \<le> b \<Longrightarrow> pos_line (pos t a) = pos_line (pos t b)
    \<Longrightarrow> pos_character (pos t a) \<le> pos_character (pos t b)"
  using ordered [of t a b] by (simp add: position_le_def)

lemma line_mono: "ok t \<Longrightarrow> a \<le> b \<Longrightarrow> pos_line (pos t a) \<le> pos_line (pos t b)"
  using ordered [of t a b] by (auto simp: position_le_def)

end

interpretation text_positions: ordered_positions "\<lambda>s. position (new_line_index s)" addressable
  by unfold_locales (rule position_mono)

text \<open>
  Positions grow with offsets: a later offset of a text never has an earlier position,
  offsets inside a character or past the end included, so a range's start is never after
  its end.
\<close>

theorem range_is_ordered:
  assumes "utf8_valid s" "length s < 2 ^ 32" "start_byte \<le> end_byte"
  shows "position_le (range_start (range_of (new_line_index s) start_byte end_byte))
    (range_end (range_of (new_line_index s) start_byte end_byte))"
  using text_positions.ordered [of s start_byte end_byte] assms
  by (simp add: range_of_def addressable_def)

theorem range_is_ordered_witness:
  "position_le (range_start (range_of (new_line_index ''a'') 0 7))
     (range_end (range_of (new_line_index ''a'') 0 7))"
  by (rule range_is_ordered) simp_all

end
