(* ===== verification/Lsp_SemTokens.thy ===== *)
theory Lsp_SemTokens
  imports Lsp_Position_Laws
begin

text \<open>
  \<open>crates/marrow-lsp-core/src/semantic_tokens.rs\<close> and its module \<open>encoding.rs\<close>: the
  legend, the delta encoding of token facts against the position index, and the edits of
  \<open>semanticTokens/full/delta\<close>. The facts (a span, a role, modifiers) come from Marrow.
\<close>

section \<open>The legend\<close>

definition token_types :: "string list" where
  "token_types =
     [''keyword'', ''type'', ''string'', ''number'', ''comment'', ''operator'', ''namespace'',
      ''variable'', ''savedRoot'', ''function'', ''struct'', ''enum'', ''enumMember'',
      ''property'', ''parameter'', ''booleanLiteral'']"

definition token_modifiers :: "string list" where
  "token_modifiers = [''modification'', ''defaultLibrary'', ''readonly'']"

definition legend :: "string list \<times> string list" where
  "legend = (token_types, token_modifiers)"

datatype token_role =
    RoleKeyword | RoleTypeKeyword | RoleStringLiteral | RoleNumberLiteral | RoleBooleanLiteral
  | RoleComment | RoleOperator | RoleNamespace | RoleVariable | RoleSavedRoot | RoleFunction
  | RoleResource | RoleSurface | RoleIdentityTypeConstructor | RoleEnum | RoleEnumMember
  | RoleResourceMember | RoleIndex | RoleParameter | RoleKeyParameter

fun token_type_for_role :: "token_role \<Rightarrow> nat" where
  "token_type_for_role RoleKeyword = 0"
| "token_type_for_role RoleTypeKeyword = 1"
| "token_type_for_role RoleStringLiteral = 2"
| "token_type_for_role RoleNumberLiteral = 3"
| "token_type_for_role RoleBooleanLiteral = 15"
| "token_type_for_role RoleComment = 4"
| "token_type_for_role RoleOperator = 5"
| "token_type_for_role RoleNamespace = 6"
| "token_type_for_role RoleVariable = 7"
| "token_type_for_role RoleSavedRoot = 8"
| "token_type_for_role RoleFunction = 9"
| "token_type_for_role RoleResource = 10"
| "token_type_for_role RoleSurface = 10"
| "token_type_for_role RoleIdentityTypeConstructor = 10"
| "token_type_for_role RoleEnum = 11"
| "token_type_for_role RoleEnumMember = 12"
| "token_type_for_role RoleResourceMember = 13"
| "token_type_for_role RoleIndex = 13"
| "token_type_for_role RoleParameter = 14"
| "token_type_for_role RoleKeyParameter = 14"

record token_modifier_set =
  mod_modification :: bool
  mod_default_library :: bool
  mod_readonly :: bool

definition modifier_bits :: "token_modifier_set \<Rightarrow> 32 word" where
  "modifier_bits m =
     (let b0 = (if mod_modification m then or 0 (push_bit 0 1) else 0);
          b1 = (if mod_default_library m then or b0 (push_bit 1 1) else b0)
      in if mod_readonly m then or b1 (push_bit 2 1) else b1)"

section \<open>Encoding\<close>

record token_fact =
  fact_start :: nat
  fact_end :: nat
  fact_role :: token_role
  fact_modifiers :: token_modifier_set

record semantic_token =
  delta_line :: nat
  delta_start :: nat
  token_length :: nat
  token_type :: nat
  token_bits :: "32 word"

text \<open>Subtraction of \<open>u32\<close> values in a release build: it wraps.\<close>

definition sub_u32 :: "nat \<Rightarrow> nat \<Rightarrow> nat" where
  "sub_u32 a b = (if b \<le> a then a - b else 2 ^ 32 + a - b)"

lemma sub_u32_exact [simp]: "b \<le> a \<Longrightarrow> sub_u32 a b = a - b"
  by (simp add: sub_u32_def)

definition first_line_length :: "token_fact \<Rightarrow> line_index \<Rightarrow> nat \<Rightarrow> nat" where
  "first_line_length tf idx start_character =
     (let text = li_text idx;
          token_text = byte_slice text (fact_start tf) (min (fact_end tf) (length text));
          line_end = (case find_char CHR 0x0A token_text of
              Some off \<Rightarrow> fact_start tf + off | None \<Rightarrow> fact_end tf)
      in max 1 (pos_character (position idx line_end) - start_character))"

text \<open>\<open>push\<close> with its cursor, the previous token's line and character.\<close>

definition push_token ::
  "line_index \<Rightarrow> token_fact \<Rightarrow> semantic_token list \<times> nat \<times> nat
   \<Rightarrow> semantic_token list \<times> nat \<times> nat" where
  "push_token idx tf st =
     (case st of (out, prev_line, prev_start) \<Rightarrow>
        let start = position idx (fact_start tf);
            stop = position idx (fact_end tf);
            len = (if pos_line stop = pos_line start
                   then pos_character stop - pos_character start
                   else first_line_length tf idx (pos_character start));
            dl = sub_u32 (pos_line start) prev_line;
            ds = (if dl = 0 then sub_u32 (pos_character start) prev_start
                  else pos_character start)
        in (out @ [\<lparr>delta_line = dl, delta_start = ds, token_length = len,
                    token_type = token_type_for_role (fact_role tf),
                    token_bits = modifier_bits (fact_modifiers tf)\<rparr>],
            pos_line start, pos_character start))"

definition encode_facts :: "token_fact list \<Rightarrow> line_index \<Rightarrow> semantic_token list" where
  "encode_facts facts idx = fst (fold (push_token idx) facts ([], 0, 0))"

section \<open>Deltas\<close>

definition uints_per_token :: nat where
  "uints_per_token = 5"

record tokens_edit =
  edit_start :: nat
  edit_delete_count :: nat
  edit_data :: "semantic_token list option"

definition common_prefix :: "semantic_token list \<Rightarrow> semantic_token list \<Rightarrow> nat" where
  "common_prefix previous current =
     length (takeWhile (\<lambda>(l, r). l = r) (zip previous current))"

definition common_suffix ::
  "semantic_token list \<Rightarrow> semantic_token list \<Rightarrow> nat \<Rightarrow> nat" where
  "common_suffix previous current limit =
     length (takeWhile (\<lambda>(l, r). l = r) (take limit (zip (rev previous) (rev current))))"

definition semantic_tokens_delta_edits ::
  "semantic_token list \<Rightarrow> semantic_token list \<Rightarrow> tokens_edit list" where
  "semantic_tokens_delta_edits previous current =
     (let prefix = common_prefix previous current;
          unmatched = min (length previous) (length current) - prefix;
          suffix = common_suffix (drop prefix previous) (drop prefix current) unmatched;
          removed = drop prefix (take (length previous - suffix) previous);
          inserted = drop prefix (take (length current - suffix) current)
      in if removed = [] \<and> inserted = [] then []
         else [\<lparr>edit_start = as_u32 (as_u32 prefix * uints_per_token),
                edit_delete_count = as_u32 (as_u32 (length removed) * uints_per_token),
                edit_data = (if inserted \<noteq> [] then Some inserted else None)\<rparr>])"

section \<open>What a client does with them\<close>

text \<open>The flattened array of a token list, five integers a token.\<close>

fun token_uints :: "semantic_token \<Rightarrow> nat list" where
  "token_uints t =
     [delta_line t, delta_start t, token_length t, token_type t, unat (token_bits t)]"

definition wire :: "semantic_token list \<Rightarrow> nat list" where
  "wire ts = concat (map token_uints ts)"

definition apply_edit :: "tokens_edit \<Rightarrow> nat list \<Rightarrow> nat list" where
  "apply_edit e xs =
     take (edit_start e) xs
     @ (case edit_data e of None \<Rightarrow> [] | Some ts \<Rightarrow> wire ts)
     @ drop (edit_start e + edit_delete_count e) xs"

fun decode_starts :: "nat \<Rightarrow> nat \<Rightarrow> semantic_token list \<Rightarrow> (nat \<times> nat) list" where
  "decode_starts line start [] = []"
| "decode_starts line start (t # ts) =
     (let line' = line + delta_line t;
          start' = (if delta_line t = 0 then start + delta_start t else delta_start t)
      in (line', start') # decode_starts line' start' ts)"

text \<open>What a client reads off a stream with the legend it was given.\<close>

record decoded_token =
  dt_line :: nat
  dt_start :: nat
  dt_length :: nat
  dt_type :: string
  dt_modifiers :: "string list"

definition set_bits_of :: "string list \<Rightarrow> 32 word \<Rightarrow> string list" where
  "set_bits_of names bits = map fst (filter (\<lambda>(name, k). bit bits k) (zip names [0..<length names]))"

definition decode_tokens :: "string list \<times> string list \<Rightarrow> semantic_token list \<Rightarrow> decoded_token list" where
  "decode_tokens names ts =
     map (\<lambda>((line, start), t). \<lparr>dt_line = line, dt_start = start, dt_length = token_length t,
         dt_type = fst names ! token_type t, dt_modifiers = set_bits_of (snd names) (token_bits t)\<rparr>)
       (zip (decode_starts 0 0 ts) ts)"

text \<open>How the protocol names a role, and the modifiers of a fact.\<close>

fun role_name :: "token_role \<Rightarrow> string" where
  "role_name RoleKeyword = ''keyword''"
| "role_name RoleTypeKeyword = ''type''"
| "role_name RoleStringLiteral = ''string''"
| "role_name RoleNumberLiteral = ''number''"
| "role_name RoleBooleanLiteral = ''booleanLiteral''"
| "role_name RoleComment = ''comment''"
| "role_name RoleOperator = ''operator''"
| "role_name RoleNamespace = ''namespace''"
| "role_name RoleVariable = ''variable''"
| "role_name RoleSavedRoot = ''savedRoot''"
| "role_name RoleFunction = ''function''"
| "role_name RoleResource = ''struct''"
| "role_name RoleSurface = ''struct''"
| "role_name RoleIdentityTypeConstructor = ''struct''"
| "role_name RoleEnum = ''enum''"
| "role_name RoleEnumMember = ''enumMember''"
| "role_name RoleResourceMember = ''property''"
| "role_name RoleIndex = ''property''"
| "role_name RoleParameter = ''parameter''"
| "role_name RoleKeyParameter = ''parameter''"

definition modifier_names :: "token_modifier_set \<Rightarrow> string list" where
  "modifier_names m =
     (if mod_modification m then [''modification''] else [])
     @ (if mod_default_library m then [''defaultLibrary''] else [])
     @ (if mod_readonly m then [''readonly''] else [])"

text \<open>
  A decoded token is what a fact means: its position, its type and modifiers by name, and its
  length, to the end of the fact if that is on the same line.
\<close>

definition fact_means :: "string \<Rightarrow> token_fact \<Rightarrow> decoded_token \<Rightarrow> bool" where
  "fact_means s tf d \<longleftrightarrow>
     (let start = position (new_line_index s) (fact_start tf);
          stop = position (new_line_index s) (fact_end tf)
      in dt_line d = pos_line start \<and> dt_start d = pos_character start
         \<and> dt_type d = role_name (fact_role tf) \<and> dt_modifiers d = modifier_names (fact_modifiers tf)
         \<and> (if pos_line stop = pos_line start then dt_start d + dt_length d = pos_character stop
            else 0 < dt_length d))"

section \<open>Properties of the encoding\<close>

lemma decode_snoc:
  "decode_starts line start (ts @ [t]) =
     decode_starts line start ts @
       (case last ((line, start) # decode_starts line start ts) of
          (l, c) \<Rightarrow> [(l + delta_line t, if delta_line t = 0 then c + delta_start t else delta_start t)])"
  by (induction ts arbitrary: line start) (auto simp: Let_def)

definition start_of :: "string \<Rightarrow> token_fact \<Rightarrow> nat \<times> nat" where
  "start_of s tf = (let p = position (new_line_index s) (fact_start tf)
     in (pos_line p, pos_character p))"

lemma push_decodes:
  assumes "addressable s" "sorted (map fact_start facts)"
  shows "case fold (push_token (new_line_index s)) facts ([], 0, 0) of
    (out, line, start) \<Rightarrow> decode_starts 0 0 out = map (start_of s) facts
      \<and> (line, start) = last ((0, 0) # map (start_of s) facts)"
  using assms(2)
proof (induction facts rule: rev_induct)
  case (snoc f facts)
  obtain out line start where st: "fold (push_token (new_line_index s)) facts ([], 0, 0)
      = (out, line, start)" by (metis prod_cases3)
  with snoc have dec: "decode_starts 0 0 out = map (start_of s) facts"
    and cur: "(line, start) = last ((0, 0) # map (start_of s) facts)"
    by (simp_all add: sorted_append)
  let ?p = "position (new_line_index s) (fact_start f)"
  have le: "line < pos_line ?p \<or> line = pos_line ?p \<and> start \<le> pos_character ?p"
  proof (cases facts rule: rev_cases)
    case Nil
    with cur show ?thesis by auto
  next
    case (snoc fs g)
    with \<open>sorted (map fact_start (facts @ [f]))\<close> have "fact_start g \<le> fact_start f"
      by (simp add: sorted_append)
    from text_positions.ordered [OF assms(1) this] cur snoc show ?thesis
      by (auto simp: start_of_def Let_def position_le_def)
  qed
  obtain t where t: "push_token (new_line_index s) f (out, line, start)
      = (out @ [t], pos_line ?p, pos_character ?p)"
    "delta_line t = sub_u32 (pos_line ?p) line"
    "delta_start t = (if delta_line t = 0 then sub_u32 (pos_character ?p) start
                      else pos_character ?p)"
    by (simp add: push_token_def Let_def)
  have "decode_starts 0 0 (out @ [t]) = map (start_of s) (facts @ [f])"
    unfolding decode_snoc [of 0 0 out t] dec cur [symmetric]
    using le t(2,3) by (auto simp: start_of_def Let_def)
  then show ?case
    by (simp add: st t(1)) (simp add: start_of_def Let_def)
qed simp

lemma bit_push_one: "bit (push_bit k 1 :: 32 word) n \<longleftrightarrow> n = k \<and> k < 32"
  unfolding bit_push_bit_iff by (auto simp: bit_1_iff)

lemma bit_zero_word: "\<not> bit (0 :: 32 word) n"
  by simp

lemma modifier_bits_bit:
  "bit (modifier_bits m) n \<longleftrightarrow> n = 0 \<and> mod_modification m
      \<or> n = 1 \<and> mod_default_library m \<or> n = 2 \<and> mod_readonly m"
  unfolding modifier_bits_def Let_def
  by (cases "mod_modification m"; cases "mod_default_library m"; cases "mod_readonly m")
    (simp_all only: if_True if_False bit_or_iff bit_push_one bit_zero_word, auto)

text \<open>
  The legend covers every token: a role's type index is a position of the advertised
  types, and the modifier bits set are exactly those of the modifiers, at their positions in
  the advertised list.
\<close>

theorem legend_covers_tokens:
  "token_type_for_role role < length (fst legend)
   \<and> (bit (modifier_bits m) n \<longleftrightarrow> n < length (snd legend)
        \<and> [mod_modification m, mod_default_library m, mod_readonly m] ! n)"
proof
  show "token_type_for_role role < length (fst legend)"
    by (cases role) (simp_all add: legend_def token_types_def)
  have "(n = 0 \<or> n = 1 \<or> n = 2) \<or> 2 < n" by linarith
  then show "bit (modifier_bits m) n \<longleftrightarrow> n < length (snd legend)
      \<and> [mod_modification m, mod_default_library m, mod_readonly m] ! n"
    unfolding modifier_bits_bit by (auto simp: legend_def token_modifiers_def)
qed

section \<open>The stream means the facts\<close>

lemma role_named: "fst legend ! token_type_for_role role = role_name role"
  by (cases role) (simp_all add: legend_def token_types_def)

lemma modifiers_named: "set_bits_of (snd legend) (modifier_bits m) = modifier_names m"
proof -
  have "zip token_modifiers [0..<length token_modifiers]
      = [(''modification'', 0), (''defaultLibrary'', 1), (''readonly'', 2)]"
    by (simp add: token_modifiers_def upt_rec)
  then show ?thesis
    by (simp add: set_bits_of_def legend_def modifier_bits_bit modifier_names_def)
qed

definition token_says :: "string \<Rightarrow> token_fact \<Rightarrow> semantic_token \<Rightarrow> bool" where
  "token_says s tf t \<longleftrightarrow>
     (let start = position (new_line_index s) (fact_start tf);
          stop = position (new_line_index s) (fact_end tf)
      in token_type t = token_type_for_role (fact_role tf)
         \<and> token_bits t = modifier_bits (fact_modifiers tf)
         \<and> (if pos_line stop = pos_line start then token_length t = pos_character stop - pos_character start
            else 0 < token_length t))"

lemma encode_says:
  "list_all2 (token_says s) facts (encode_facts facts (new_line_index s))"
proof -
  have "list_all2 (token_says s) (done_facts @ facts)
      (fst (fold (push_token (new_line_index s)) facts st))"
    if "list_all2 (token_says s) done_facts (fst st)" for done_facts st
    using that
  proof (induction facts arbitrary: done_facts st)
    case (Cons f facts)
    obtain out l c where st: "st = (out, l, c)" by (cases st)
    let ?t = "last (fst (push_token (new_line_index s) f st))"
    have t: "fst (push_token (new_line_index s) f st) = out @ [?t]" "token_says s f ?t"
      by (simp_all add: push_token_def st Let_def token_says_def first_line_length_def less_max_iff_disj)
    have "list_all2 (token_says s) (done_facts @ [f]) (fst (push_token (new_line_index s) f st))"
      by (subst t(1)) (use Cons.prems st t(2) in \<open>simp add: list_all2_appendI\<close>)
    from Cons.IH [OF this] show ?case by simp
  qed (use that in simp)
  from this [of "[]" "([], 0, 0)"] show ?thesis by (simp add: encode_facts_def)
qed


definition demo_fact :: "nat \<Rightarrow> token_fact" where
  "demo_fact k = \<lparr>fact_start = k, fact_end = k + 1, fact_role = RoleVariable,
     fact_modifiers = \<lparr>mod_modification = False, mod_default_library = False,
       mod_readonly = True\<rparr>\<rparr>"


section \<open>Properties of the deltas\<close>

lemma push_token_length: "length (fst (push_token idx tf st)) = Suc (length (fst st))"
  by (cases st) (simp add: push_token_def Let_def)

lemma encode_facts_length: "length (encode_facts facts idx) = length facts"
proof -
  have "length (fst (fold (push_token idx) facts st)) = length (fst st) + length facts" for st
    by (induction facts arbitrary: st) (simp_all add: push_token_length)
  then show ?thesis by (simp add: encode_facts_def)
qed

lemma wire_append [simp]: "wire (xs @ ys) = wire xs @ wire ys"
  by (simp add: wire_def)

lemma wire_length [simp]: "length (wire ts) = 5 * length ts"
  by (induction ts) (simp_all add: wire_def)

lemma common_prefix_split:
  "\<exists>xs ys. previous = take (common_prefix previous current) previous @ xs
     \<and> current = take (common_prefix previous current) previous @ ys
     \<and> common_prefix previous current \<le> length previous
     \<and> common_prefix previous current \<le> length current"
proof (induction previous arbitrary: current)
  case (Cons p ps)
  show ?case
  proof (cases current)
    case (Cons c cs)
    with Cons.IH [of cs] show ?thesis by (auto simp: common_prefix_def)
  qed (simp add: common_prefix_def)
qed (simp add: common_prefix_def)

lemma common_suffix_prefix:
  "common_suffix previous current limit
   = min limit (common_prefix (rev previous) (rev current))"
proof -
  have "length (takeWhile P (take k xs)) = min k (length (takeWhile P xs))" for P k
    and xs :: "(semantic_token \<times> semantic_token) list"
    by (induction xs arbitrary: k) (auto simp: take_Cons' min_def)
  then show ?thesis by (simp add: common_suffix_def common_prefix_def)
qed

lemma common_suffix_split:
  assumes "suffix = common_suffix previous current limit"
  shows "suffix \<le> limit" "suffix \<le> length previous" "suffix \<le> length current"
    "drop (length previous - suffix) previous = drop (length current - suffix) current"
proof -
  obtain xs ys where *: "rev previous = take (common_prefix (rev previous) (rev current)) (rev previous) @ xs"
    "rev current = take (common_prefix (rev previous) (rev current)) (rev previous) @ ys"
    "common_prefix (rev previous) (rev current) \<le> length previous"
    "common_prefix (rev previous) (rev current) \<le> length current"
    using common_prefix_split [of "rev previous" "rev current"] by auto
  show "suffix \<le> limit" "suffix \<le> length previous" "suffix \<le> length current"
    using * assms by (auto simp: common_suffix_prefix)
  let ?n = "common_prefix (rev previous) (rev current)"
  have "take suffix (rev previous) = take suffix (rev current)"
  proof -
    have s: "suffix \<le> ?n" using assms by (simp add: common_suffix_prefix)
    have "take ?n (rev current) = take ?n (rev previous)"
      using *(3) by (subst *(2)) simp
    with s have "take suffix (rev current) = take suffix (take ?n (rev previous))"
      by (metis min.absorb1 take_take)
    also have "\<dots> = take suffix (rev previous)" using s by (simp add: min_absorb1)
    finally show ?thesis by simp
  qed
  then have "rev (drop (length previous - suffix) previous)
      = rev (drop (length current - suffix) current)"
    by (simp add: take_rev)
  then show "drop (length previous - suffix) previous = drop (length current - suffix) current"
    by simp
qed

text \<open>The shape of a delta: both arrays share a head and a tail, and the one
  edit replaces what lies between.\<close>

lemma delta_shape:
  obtains head rem ins tail where
    "previous = head @ rem @ tail" "current = head @ ins @ tail"
    "semantic_tokens_delta_edits previous current =
      (if rem = [] \<and> ins = [] then []
       else [\<lparr>edit_start = as_u32 (as_u32 (length head) * uints_per_token),
              edit_delete_count = as_u32 (as_u32 (length rem) * uints_per_token),
              edit_data = (if ins \<noteq> [] then Some ins else None)\<rparr>])"
proof -
  define p where "p = common_prefix previous current"
  obtain xs ys where pre: "previous = take p previous @ xs" "current = take p previous @ ys"
    "p \<le> length previous" "p \<le> length current"
    using common_prefix_split [of previous current] unfolding p_def by blast
  have xs: "drop p previous = xs"
    by (subst pre(1)) (simp add: pre(3))
  have ys: "drop p current = ys"
    by (subst pre(2)) (simp add: pre(3))
  have lens: "length previous = p + length xs" "length current = p + length ys"
    using pre(3,4) by (simp_all flip: xs ys)
  define k where "k = common_suffix xs ys (min (length previous) (length current) - p)"
  have k: "k \<le> length xs" "k \<le> length ys"
    "drop (length xs - k) xs = drop (length ys - k) ys"
    using common_suffix_split [OF k_def] by simp_all
  have "drop p (take (length previous - k) previous) = take (length xs - k) xs"
    using k(1) lens(1) by (simp add: drop_take xs)
  moreover have "drop p (take (length current - k) current) = take (length ys - k) ys"
    using k(2) lens(2) by (simp add: drop_take ys)
  moreover have "length (take p previous) = p" using pre(3) by simp
  ultimately have edits: "semantic_tokens_delta_edits previous current =
      (if take (length xs - k) xs = [] \<and> take (length ys - k) ys = [] then []
       else [\<lparr>edit_start = as_u32 (as_u32 (length (take p previous)) * uints_per_token),
              edit_delete_count = as_u32 (as_u32 (length (take (length xs - k) xs)) * uints_per_token),
              edit_data = (if take (length ys - k) ys \<noteq> []
                then Some (take (length ys - k) ys) else None)\<rparr>])"
    unfolding semantic_tokens_delta_edits_def Let_def p_def [symmetric] xs ys k_def [symmetric]
    by (simp only:)
  have prev: "previous = take p previous @ take (length xs - k) xs @ drop (length xs - k) xs"
    using pre(1) by (simp only: append_take_drop_id)
  have cur: "current = take p previous @ take (length ys - k) ys @ drop (length xs - k) xs"
    using pre(2) by (simp only: k(3) append_take_drop_id)
  from prev cur edits show thesis by (rule that)
qed

lemma delta_edits_current:
  assumes "5 * length previous < 2 ^ 32"
  shows "fold apply_edit (semantic_tokens_delta_edits previous current) (wire previous)
       = wire current
     \<and> (semantic_tokens_delta_edits previous current = [] \<longrightarrow> previous = current)"
proof (rule delta_shape [of previous current])
  fix head rem ins tail
  assume prev: "previous = head @ rem @ tail" and cur: "current = head @ ins @ tail"
  assume edits: "semantic_tokens_delta_edits previous current =
      (if rem = [] \<and> ins = [] then []
       else [\<lparr>edit_start = as_u32 (as_u32 (length head) * uints_per_token),
              edit_delete_count = as_u32 (as_u32 (length rem) * uints_per_token),
              edit_data = (if ins \<noteq> [] then Some ins else None)\<rparr>])"
  have small: "as_u32 (as_u32 (length head) * uints_per_token) = 5 * length head"
    "as_u32 (as_u32 (length rem) * uints_per_token) = 5 * length rem"
    using assms by (simp_all add: prev as_u32_def uints_per_token_def)
  show ?thesis
    unfolding edits small by (auto simp: prev cur apply_edit_def wire_def [of "[]"])
qed

text \<open>
  Token deltas: a client that holds the previous token array and splices the edits into
  it has exactly the current array, and the arrays are equal when there is no edit.
\<close>

theorem delta_edits_give_current:
  assumes "5 * length previous < 2 ^ 32"
  shows "fold apply_edit (semantic_tokens_delta_edits previous current) (wire previous)
       = wire current
     \<and> (semantic_tokens_delta_edits previous current = [] \<longrightarrow> previous = current)"
  using assms by (rule delta_edits_current)

theorem delta_edits_give_current_witness:
  "fold apply_edit
     (semantic_tokens_delta_edits
       (encode_facts [demo_fact 0, demo_fact 2] (new_line_index ''a bc d''))
       (encode_facts [demo_fact 0, demo_fact 3, demo_fact 5] (new_line_index ''a bc d'')))
     (wire (encode_facts [demo_fact 0, demo_fact 2] (new_line_index ''a bc d'')))
   = wire (encode_facts [demo_fact 0, demo_fact 3, demo_fact 5] (new_line_index ''a bc d''))"
  by (rule delta_edits_give_current [THEN conjunct1])
    (simp add: encode_facts_length)

end
