(* ===== verification/Lsp_Editing.thy ===== *)
theory Lsp_Editing
  imports Lsp_Position_Laws
begin

text \<open>
  \<open>crates/marrow-lsp-core/src/indentation.rs\<close> and \<open>formatting.rs\<close>: the two requests that
  answer with text edits. The lexer, the parser and the formatter are Marrow's: the token
  list, the error flag and the formatting function are arguments here. Then the meaning of
  an edit for the client, and that each request's edit changes what it should.
\<close>

section \<open>Edits\<close>

record text_edit =
  te_range :: lsp_range
  te_new_text :: string

text \<open>What a client does with an edit, in the offsets of the shared index.\<close>

definition apply_text_edit :: "string \<Rightarrow> text_edit \<Rightarrow> string" where
  "apply_text_edit text e =
     take (offset (new_line_index text) (range_start (te_range e))) text
     @ te_new_text e
     @ drop (offset (new_line_index text) (range_end (te_range e))) text"

section \<open>Formatting\<close>

definition formatting ::
  "(string \<Rightarrow> string) \<Rightarrow> string \<Rightarrow> bool \<Rightarrow> line_index \<Rightarrow> text_edit list option" where
  "formatting format_source text parsed_has_errors index =
     (if parsed_has_errors then None
      else let formatted = format_source text in
        if formatted = text then None
        else let stop = position index (length text) in
          Some [\<lparr>te_range = \<lparr>range_start = \<lparr>pos_line = 0, pos_character = 0\<rparr>,
                  range_end = \<lparr>pos_line = pos_line stop, pos_character = pos_character stop\<rparr>\<rparr>,
                 te_new_text = formatted\<rparr>])"

section \<open>Indentation of a new line\<close>

datatype keyword =
    KwPub | KwFn | KwResource | KwEnum | KwSurface | KwEvolve | KwIf | KwElse | KwFor
  | KwWhile | KwMatch | KwTransaction | KwTry | KwCatch | KwReturn | KwThrow | KwBreak
  | KwContinue | KwOther nat

datatype token_kind =
    TkIndent | TkDedent | TkNewline | TkEof | TkComment | TkDocComment
  | TkKeyword keyword | TkOther nat

record lex_token =
  lt_start_byte :: nat
  lt_kind :: token_kind

record formatting_options =
  fo_tab_size :: nat
  fo_insert_spaces :: bool

text \<open>The loop of \<open>line_bounds\<close>: the start of the line \<open>n\<close> lines further on.\<close>

fun skip_lines :: "string \<Rightarrow> nat \<Rightarrow> nat \<Rightarrow> nat option" where
  "skip_lines text 0 start = Some start"
| "skip_lines text (Suc n) start =
     (case find_char CHR 0x0A (drop start text) of
        None \<Rightarrow> None
      | Some nl \<Rightarrow> skip_lines text n (start + (nl + 1)))"

definition line_bounds :: "string \<Rightarrow> nat \<Rightarrow> (nat \<times> nat) option" where
  "line_bounds text line =
     (case skip_lines text line 0 of
        None \<Rightarrow> None
      | Some start \<Rightarrow>
          let stop = (case find_char CHR 0x0A (drop start text) of
                        None \<Rightarrow> length text | Some nl \<Rightarrow> start + nl)
          in Some (start, if start < stop \<and> text ! (stop - 1) = CHR 0x0D
                          then stop - 1 else stop))"

definition is_indent_byte :: "char \<Rightarrow> bool" where
  "is_indent_byte b \<longleftrightarrow> b = CHR 0x20 \<or> b = CHR 0x09"

definition leading_indent_end :: "string \<Rightarrow> nat \<Rightarrow> nat \<Rightarrow> nat" where
  "leading_indent_end text start stop =
     start + length (takeWhile is_indent_byte (byte_slice text start stop))"

definition leading_indent :: "string \<Rightarrow> nat \<Rightarrow> nat \<Rightarrow> string" where
  "leading_indent text start stop =
     byte_slice text start (leading_indent_end text start stop)"

definition is_trivia :: "token_kind \<Rightarrow> bool" where
  "is_trivia kind \<longleftrightarrow>
     kind \<in> {TkIndent, TkDedent, TkNewline, TkEof, TkComment, TkDocComment}"

definition significant_line_tokens :: "lex_token list \<Rightarrow> nat \<Rightarrow> nat \<Rightarrow> token_kind list" where
  "significant_line_tokens lexed line_start line_end =
     map lt_kind (filter (\<lambda>t. \<not> is_trivia (lt_kind t))
       (filter (\<lambda>t. line_start \<le> lt_start_byte t \<and> lt_start_byte t < line_end) lexed))"

fun is_block_starter :: "token_kind list \<Rightarrow> bool" where
  "is_block_starter (TkKeyword k # rest) =
     (k = KwPub \<and> rest \<noteq> [] \<and> hd rest \<in> {TkKeyword KwFn, TkKeyword KwEnum}
      \<or> k \<in> {KwFn, KwResource, KwEnum, KwSurface, KwEvolve, KwIf, KwElse, KwFor, KwWhile,
             KwMatch, KwTransaction, KwTry, KwCatch})"
| "is_block_starter _ = False"

fun is_terminator :: "token_kind list \<Rightarrow> bool" where
  "is_terminator (TkKeyword k # rest) \<longleftrightarrow> k \<in> {KwReturn, KwThrow, KwBreak, KwContinue}"
| "is_terminator _ = False"

definition tab_size :: "formatting_options \<Rightarrow> nat" where
  "tab_size options = (if fo_tab_size options = 0 then 4 else fo_tab_size options)"

definition indent_unit :: "formatting_options \<Rightarrow> string" where
  "indent_unit options =
     (if fo_insert_spaces options then replicate (tab_size options) CHR 0x20
      else [CHR 0x09])"

text \<open>The loop of \<open>outdented\<close>: how much of the indentation is left.\<close>

fun outdent_loop :: "string \<Rightarrow> nat \<Rightarrow> nat \<Rightarrow> nat" where
  "outdent_loop indent 0 upto_byte = upto_byte"
| "outdent_loop indent (Suc remaining) upto_byte =
     (if upto_byte = 0 then upto_byte
      else if indent ! (upto_byte - 1) = CHR 0x20 then outdent_loop indent remaining (upto_byte - 1)
      else if indent ! (upto_byte - 1) = CHR 0x09 then upto_byte - 1
      else upto_byte)"

definition outdented :: "string \<Rightarrow> formatting_options \<Rightarrow> string" where
  "outdented indent options =
     (if indent = [] then []
      else if \<not> fo_insert_spaces options \<and> last indent = CHR 0x09 then butlast indent
      else take (outdent_loop indent (tab_size options) (length indent)) indent)"

definition desired_indent :: "token_kind list \<Rightarrow> string \<Rightarrow> formatting_options \<Rightarrow> string" where
  "desired_indent tokens previous_indent options =
     (if tokens = [] then previous_indent
      else if is_terminator tokens then outdented previous_indent options
      else if is_block_starter tokens then previous_indent @ indent_unit options
      else previous_indent)"

definition newline_indentation ::
  "string \<Rightarrow> lex_token list \<Rightarrow> position \<Rightarrow> formatting_options \<Rightarrow> text_edit list option" where
  "newline_indentation text lexed p options =
     (if pos_line p = 0 then None
      else case line_bounds text (pos_line p - 1) of None \<Rightarrow> None
      | Some (previous_start, previous_end) \<Rightarrow>
      (case line_bounds text (pos_line p) of None \<Rightarrow> None
       | Some (current_start, current_end) \<Rightarrow>
        let previous_indent = leading_indent text previous_start previous_end;
            current_indent_end = leading_indent_end text current_start current_end;
            current_indent = byte_slice text current_start current_indent_end;
            desired = desired_indent (significant_line_tokens lexed previous_start previous_end)
              previous_indent options
        in if current_indent = desired then None
           else Some [\<lparr>te_range =
               \<lparr>range_start = \<lparr>pos_line = pos_line p, pos_character = 0\<rparr>,
                range_end = \<lparr>pos_line = pos_line p,
                  pos_character = as_u32 (current_indent_end - current_start)\<rparr>\<rparr>,
              te_new_text = desired\<rparr>]))"

section \<open>Lines of a text\<close>

text \<open>The line number \<open>n\<close> of a text: what is before it, its bytes, and what follows.\<close>

definition line_at :: "nat \<Rightarrow> string \<Rightarrow> string \<Rightarrow> string \<Rightarrow> bool" where
  "line_at n before body after \<longleftrightarrow>
     count_list before CHR 0x0A = n \<and> (before = [] \<or> last before = CHR 0x0A)
     \<and> CHR 0x0A \<notin> set body \<and> (after = [] \<or> hd after = CHR 0x0A)"

definition without_cr :: "string \<Rightarrow> nat" where
  "without_cr body =
     (if body \<noteq> [] \<and> last body = CHR 0x0D then length body - 1 else length body)"

lemma find_newline:
  assumes "CHR 0x0A \<notin> set body" "after = [] \<or> hd after = CHR 0x0A"
  shows "find_char CHR 0x0A (body @ after) = (if after = [] then None else Some (length body))"
  using assms find_char_append [of "CHR 0x0A" body "tl after"]
  by (cases after) (auto simp: find_char_None)

lemma line_bounds_body:
  assumes "line_at n before body after"
    and "skip_lines (before @ body @ after) n 0 = Some (length before)"
  shows "line_bounds (before @ body @ after) n
    = Some (length before, length before + without_cr body)"
proof -
  have "(before @ body @ after) ! (length before + length body - 1) = last body" if "body \<noteq> []"
    using that by (cases body rule: rev_cases) (simp_all add: nth_append)
  with assms show ?thesis
    by (auto simp: line_bounds_def line_at_def find_newline without_cr_def Let_def
        split: option.splits; cases body; simp)
qed

lemma skip_lines_forward:
  assumes "count_list mid CHR 0x0A = n" "mid = [] \<or> last mid = CHR 0x0A"
  shows "skip_lines (before @ mid @ rest) n (length before) = Some (length (before @ mid))"
  using assms
proof (induction n arbitrary: before mid)
  case 0
  then have "mid = []" by (cases mid rule: rev_cases) auto
  then show ?case by simp
next
  case (Suc n)
  then have "CHR 0x0A \<in> set mid" by (metis Zero_not_Suc count_notin)
  then obtain xs ys where mid: "mid = xs @ CHR 0x0A # ys" "CHR 0x0A \<notin> set xs"
    by (meson split_list_first)
  have "skip_lines ((before @ xs @ [CHR 0x0A]) @ ys @ rest) n (length (before @ xs @ [CHR 0x0A]))
      = Some (length ((before @ xs @ [CHR 0x0A]) @ ys))"
    using Suc.prems mid by (intro Suc.IH) (auto split: if_splits)
  with mid show ?case
    using find_char_append [of "CHR 0x0A" xs "ys @ rest"] by (simp add: ac_simps)
qed

lemma skip_lines_backward:
  assumes "skip_lines (before @ rest) n (length before) = Some start"
  shows "\<exists>mid after. rest = mid @ after \<and> start = length (before @ mid)
    \<and> count_list mid CHR 0x0A = n \<and> (mid = [] \<or> last mid = CHR 0x0A)"
  using assms
proof (induction n arbitrary: before rest)
  case (Suc n)
  then obtain nl where nl: "find_char CHR 0x0A rest = Some nl"
    "skip_lines (before @ rest) n (length before + (nl + 1)) = Some start"
    by (auto split: option.splits)
  define xs where "xs = take nl rest"
  define ys where "ys = drop (Suc nl) rest"
  have rest: "rest = xs @ CHR 0x0A # ys"
    unfolding xs_def ys_def by (rule find_char_take [OF nl(1)])
  have len: "length xs = nl" and free: "CHR 0x0A \<notin> set xs"
    using nl(1) by (simp_all add: xs_def find_char_Some)
  from nl(2) have "skip_lines ((before @ xs @ [CHR 0x0A]) @ ys) n
      (length (before @ xs @ [CHR 0x0A])) = Some start"
    by (simp add: rest len)
  from Suc.IH [OF this] obtain mid after where
    "ys = mid @ after" "start = length ((before @ xs @ [CHR 0x0A]) @ mid)"
    "count_list mid CHR 0x0A = n" "mid = [] \<or> last mid = CHR 0x0A" by blast
  with rest free show ?case
    by (intro exI [of _ "xs @ CHR 0x0A # mid"] exI [of _ after]) auto
qed simp

lemma line_bounds_line:
  assumes "line_at n before body after"
  shows "line_bounds (before @ body @ after) n
    = Some (length before, length before + without_cr body)"
  using line_bounds_body [OF assms] skip_lines_forward [of before n "[]" "body @ after"] assms
  by (simp add: line_at_def)

lemma line_bounds_cases:
  assumes "line_bounds text n = Some bounds"
  obtains before body after where "text = before @ body @ after" "line_at n before body after"
    "bounds = (length before, length before + without_cr body)"
proof -
  from assms obtain start where "skip_lines text n 0 = Some start"
    by (auto simp: line_bounds_def split: option.splits)
  with skip_lines_backward [of "[]" "text" n start] obtain mid after where
    t: "text = mid @ after" "count_list mid CHR 0x0A = n" "mid = [] \<or> last mid = CHR 0x0A"
    by auto
  let ?body = "takeWhile (\<lambda>c. c \<noteq> CHR 0x0A) after" and ?rest = "dropWhile (\<lambda>c. c \<noteq> CHR 0x0A) after"
  have l: "line_at n mid ?body ?rest"
    using t hd_dropWhile [of "\<lambda>c. c \<noteq> CHR 0x0A" after]
    by (auto simp: line_at_def dest: set_takeWhileD)
  moreover have "text = mid @ ?body @ ?rest" using t by simp
  moreover have "bounds = (length mid, length mid + without_cr ?body)"
    using line_bounds_line [OF l] assms t(1) by simp
  ultimately show thesis using that by blast
qed

lemma previous_line:
  assumes "line_at (Suc n) before body after"
  obtains before0 body0 where "before = before0 @ body0 @ [CHR 0x0A]"
    "line_at n before0 body0 (CHR 0x0A # body @ after)"
proof -
  from assms obtain xs where xs: "before = xs @ [CHR 0x0A]" "count_list xs CHR 0x0A = n"
    by (cases before rule: rev_cases) (auto simp: line_at_def)
  let ?p = "\<lambda>c. c \<noteq> CHR 0x0A"
  have eq: "rev (dropWhile ?p (rev xs)) @ rev (takeWhile ?p (rev xs)) = xs"
    by (simp flip: rev_append)
  have free: "CHR 0x0A \<notin> set (takeWhile ?p (rev xs))" by (auto dest: set_takeWhileD)
  have "count_list (rev (dropWhile ?p (rev xs)) @ rev (takeWhile ?p (rev xs))) CHR 0x0A = n"
    using xs(2) eq by simp
  with free have "count_list (rev (dropWhile ?p (rev xs))) CHR 0x0A = n" by simp
  moreover have "rev (dropWhile ?p (rev xs)) = []
      \<or> last (rev (dropWhile ?p (rev xs))) = CHR 0x0A"
    using hd_dropWhile [of ?p "rev xs"] by (auto simp: last_rev)
  ultimately have "line_at n (rev (dropWhile ?p (rev xs))) (rev (takeWhile ?p (rev xs)))
      (CHR 0x0A # body @ after)"
    using free by (simp add: line_at_def)
  with that show thesis using xs(1) eq by (metis append.assoc)
qed

section \<open>Bytes and characters of an indentation\<close>

lemma ascii_end_boundary:
  assumes "list_all good_char cs" "concat cs = before @ after" "before = [] \<or> byte (last before) < 128"
  obtains pre post where "cs = pre @ post" "concat pre = before" "concat post = after"
proof -
  have "\<exists>pre post. cs = pre @ post \<and> concat pre = before \<and> concat post = after"
    using assms
  proof (induction cs arbitrary: before)
    case (Cons c cs)
    show ?case
    proof (cases "before = []")
      case True
      with Cons.prems(2) show ?thesis by (intro exI [of _ "[]"] exI [of _ "c # cs"]) simp
    next
      case False
      from Cons.prems(1) obtain a conts where c: "c = a # conts" "list_all is_cont conts"
        "Suc (length conts) = char_len a" by (cases c) auto
      have "length c \<le> length before"
      proof (rule ccontr)
        assume short: "\<not> length c \<le> length before"
        then have "before = take (length before) (c @ concat cs)"
          using Cons.prems(2) by simp
        with short have before: "before = take (length before) c" by simp
        with False obtain x where "last before = c ! x" "x < length c"
          using short by (metis last_conv_nth length_0_conv less_imp_diff_less not_le nth_take
              diff_less length_greater_0_conv less_one)
        then have "last before = a \<or> is_cont (last before)"
          using c by (auto simp: nth_Cons' list_all_length)
        moreover have "1 < length c" using False short by (cases before) auto
        then have "128 \<le> byte a" using c by (auto simp: char_len_def split: if_splits)
        ultimately show False using Cons.prems(3) False by (auto simp: is_cont_def)
      qed
      then obtain before' where before: "before = c @ before'" "concat cs = before' @ after"
        using Cons.prems(2) by (auto simp: append_eq_append_conv2)
      moreover have "before' = [] \<or> byte (last before') < 128"
        using Cons.prems(3) before False by (cases "before' = []") simp_all
      ultimately obtain pre post where "cs = pre @ post" "concat pre = before'" "concat post = after"
        using Cons.IH [of before'] Cons.prems(1) by auto
      with before show ?thesis by (intro exI [of _ "c # pre"] exI [of _ post]) simp
    qed
  qed simp
  with that show thesis by blast
qed

lemma ascii_chars:
  assumes "list_all good_char cs" "concat cs = run" "list_all (\<lambda>c. byte c < 128) run"
  shows "cs = map (\<lambda>c. [c]) run"
  using assms
proof (induction cs arbitrary: run)
  case (Cons c cs)
  then obtain a conts where c: "c = a # conts" "Suc (length conts) = char_len a" by (cases c) auto
  with Cons.prems have "conts = []" by (auto simp: char_len_def)
  with Cons c show ?case by auto
qed simp

lemma lines_before_bytes:
  "list_all good_char cs \<Longrightarrow> lines_before cs = count_list (concat cs) CHR 0x0A"
proof (induction cs)
  case (Cons c cs)
  then have "lines_before [c] = count_list c CHR 0x0A"
    using good_newline [of c] by (auto simp: lines_before_def count_notin)
  with Cons show ?case using lines_before_append [of "[c]" cs] by simp
qed (simp add: lines_before_def)

lemma current_line_start:
  assumes "list_all good_char cs" "concat cs = [] \<or> last (concat cs) = CHR 0x0A"
  shows "current_line cs = []"
proof (cases cs rule: rev_cases)
  case (snoc ds c)
  with assms have "good_char c" "last c = CHR 0x0A" by (cases c; auto)+
  then have "c = newline" using good_newline [of c] by (cases c rule: rev_cases) auto
  with snoc show ?thesis by (simp add: current_line_def)
qed (simp add: current_line_def)

text \<open>In a run of ASCII bytes at the start of a line, columns count bytes.\<close>

lemma offset_in_indent:
  assumes whole: "addressable text" "text = before @ run @ rest"
    and start: "before = [] \<or> last before = CHR 0x0A"
    and run: "list_all (\<lambda>c. byte c < 128) run" "CHR 0x0A \<notin> set run"
  shows "offset (new_line_index text)
    \<lparr>pos_line = count_list before CHR 0x0A, pos_character = length run\<rparr> = length before + length run"
proof -
  from whole(1) obtain cs where cs: "text = concat cs" "list_all good_char cs"
    using utf8_valid_chars by (auto simp: addressable_def)
  have "before = [] \<or> byte (last before) < 128" using start by auto
  from ascii_end_boundary [OF cs(2) _ this, of "run @ rest"] obtain pre post1 where
    pre: "cs = pre @ post1" "concat pre = before" "concat post1 = run @ rest"
    using cs(1) whole(2) by auto
  have "run = [] \<or> byte (last run) < 128"
    using run(1) by (cases run rule: rev_cases) auto
  moreover have "list_all good_char post1" using cs(2) pre(1) by simp
  ultimately obtain mid post where mid: "post1 = mid @ post" "concat mid = run"
    using ascii_end_boundary [OF _ pre(3)] by blast
  have good: "list_all good_char ((pre @ mid) @ post)" using cs(2) pre(1) mid(1) by simp
  have single: "mid = map (\<lambda>c. [c]) run"
    using ascii_chars [OF _ mid(2) run(1)] good by simp
  have "newline \<notin> set mid" using run(2) single by auto
  then have line: "current_line (pre @ mid) = mid"
    using current_line_append_free current_line_start [of pre] start pre(2) good by simp
  have "utf16_sum mid = length run"
    unfolding single by (induction run) (simp_all add: len_utf16_def)
  moreover have "lines_before (pre @ mid) = count_list before CHR 0x0A"
    using good lines_before_bytes [of "pre @ mid"] pre(2) mid(2) run(2) by (simp add: count_notin)
  moreover have "text = concat ((pre @ mid) @ post)" using cs(1) pre(1) mid(1) by simp
  moreover have "length text < 2 ^ 32" using whole(1) by (simp add: addressable_def)
  ultimately show ?thesis
    using offset_prefix [OF good] prefix_bounds [OF good] line pre(2) mid(2) by simp
qed

section \<open>The indentation requests\<close>

lemma indent_bytes: "is_indent_byte c \<Longrightarrow> byte c < 128 \<and> c \<noteq> CHR 0x0A \<and> c \<noteq> CHR 0x0D"
  by (auto simp: is_indent_byte_def)

lemma takeWhile_without_cr:
  "takeWhile is_indent_byte (take (without_cr body) body) = takeWhile is_indent_byte body"
proof (cases body rule: rev_cases)
  case (snoc xs x)
  then show ?thesis
    by (cases "\<forall>c\<in>set xs. is_indent_byte c")
      (auto simp: without_cr_def is_indent_byte_def takeWhile_append split: if_splits)
qed simp

text \<open>What the helpers return on a line.\<close>

lemma leading_indent_line:
  defines "indent body \<equiv> takeWhile is_indent_byte body"
  shows "leading_indent_end (before @ body @ after) (length before)
      (length before + without_cr body) = length before + length (indent body)"
    and "leading_indent (before @ body @ after) (length before)
      (length before + without_cr body) = indent body"
proof -
  have "without_cr body \<le> length body" by (simp add: without_cr_def)
  then show a: "leading_indent_end (before @ body @ after) (length before)
      (length before + without_cr body) = length before + length (indent body)"
    by (simp add: leading_indent_end_def byte_slice_def indent_def takeWhile_without_cr)
  have "take (length (indent body)) body = indent body"
    unfolding indent_def by (rule takeWhile_eq_take [symmetric])
  then have "take (length (indent body)) (body @ after) = indent body"
    by (simp add: indent_def length_takeWhile_le)
  then show "leading_indent (before @ body @ after) (length before)
      (length before + without_cr body) = indent body"
    by (simp add: leading_indent_def a byte_slice_def)
qed

text \<open>The request on a text cut at the line above (\<open>up\<close>) and at the line itself.\<close>

lemma newline_indentation_lines:
  assumes whole: "whole = up @ prior @ [CHR 0x0A] @ body @ after"
    and desired: "desired = desired_indent (significant_line_tokens lexed (length up)
      (length up + without_cr prior)) (takeWhile is_indent_byte prior) options"
    and lines: "line_at n up prior (CHR 0x0A # body @ after)"
      "line_at (Suc n) (up @ prior @ [CHR 0x0A]) body after"
    and p: "pos_line p = Suc n"
  shows "newline_indentation whole lexed p options =
    (if takeWhile is_indent_byte body = desired then None
     else Some [\<lparr>te_range = \<lparr>range_start = \<lparr>pos_line = Suc n, pos_character = 0\<rparr>,
        range_end = \<lparr>pos_line = Suc n,
          pos_character = as_u32 (length (takeWhile is_indent_byte body))\<rparr>\<rparr>,
        te_new_text = desired\<rparr>])"
proof -
  let ?before = "up @ prior @ [CHR 0x0A]"
  have w: "whole = up @ prior @ CHR 0x0A # body @ after" "whole = ?before @ body @ after"
    by (simp_all add: whole)
  note bounds = line_bounds_line [OF lines(1), folded w(1)] line_bounds_line [OF lines(2), folded w(2)]
  note indents = leading_indent_line [where before = up and body = prior
      and after = "CHR 0x0A # body @ after", folded w(1)]
    leading_indent_line [where before = ?before and body = body and after = after, folded w(2)]
  show ?thesis
    using indents(2-4)
    by (simp add: newline_indentation_def p bounds indents Let_def leading_indent_def
        desired)
qed

lemma newline_indentation_no_line:
  assumes "pos_line p = Suc n" "line_bounds whole (Suc n) = None"
  shows "newline_indentation whole lexed p options = None"
proof (cases "line_bounds whole n")
  case None
  show ?thesis unfolding newline_indentation_def assms(1) by (simp add: None)
next
  case (Some b)
  show ?thesis
    unfolding newline_indentation_def assms(1) diff_Suc_1 Some assms(2) option.case
    by (simp split: prod.split)
qed

lemma newline_indentation_Some:
  assumes "newline_indentation whole lexed p options = Some edits"
  obtains up prior body after n where "whole = up @ prior @ [CHR 0x0A] @ body @ after"
    "pos_line p = Suc n" "line_at n up prior (CHR 0x0A # body @ after)"
    "line_at (Suc n) (up @ prior @ [CHR 0x0A]) body after"
proof -
  have "pos_line p \<noteq> 0"
    using assms by (cases "pos_line p = 0") (simp_all add: newline_indentation_def)
  then obtain n where n: "pos_line p = Suc n" by (cases "pos_line p") simp_all
  have "line_bounds whole (Suc n) \<noteq> None"
  proof
    assume "line_bounds whole (Suc n) = None"
    from newline_indentation_no_line [OF n this, of lexed options] assms show False by simp
  qed
  then have "\<exists>bounds. line_bounds whole (Suc n) = Some bounds"
    by (rule not_None_eq [THEN iffD1])
  then obtain bounds where b: "line_bounds whole (Suc n) = Some bounds" ..
  from line_bounds_cases [OF b] obtain before body after where
    w: "whole = before @ body @ after" "line_at (Suc n) before body after"
    "bounds = (length before, length before + without_cr body)" .
  from previous_line [OF w(2)] obtain up prior where
    "before = up @ prior @ [CHR 0x0A]" "line_at n up prior (CHR 0x0A # body @ after)" .
  with w n that show thesis by simp
qed

lemma indents_free:
  "list_all is_indent_byte s \<Longrightarrow> CHR 0x0A \<notin> set s \<and> list_all (\<lambda>c. byte c < 128) s"
  using indent_bytes by (auto simp: list_all_iff)

lemma takeWhile_indent: "list_all is_indent_byte (takeWhile is_indent_byte s)"
  by (auto simp: list_all_iff dest: set_takeWhileD)

lemma outdented_subset: "set (outdented indent options) \<subseteq> set indent"
  by (auto simp: outdented_def dest: in_set_butlastD in_set_takeD)

lemma desired_indent_indents:
  assumes "list_all is_indent_byte s"
  shows "list_all is_indent_byte (desired_indent tokens s options)"
proof -
  have "list_all is_indent_byte (indent_unit options)"
    by (simp add: indent_unit_def is_indent_byte_def list_all_iff)
  with assms outdented_subset [of s options] show ?thesis
    by (auto simp: desired_indent_def list_all_iff subset_iff)
qed

lemma takeWhile_run:
  assumes "list_all P run" "rest = [] \<or> \<not> P (hd rest)"
  shows "takeWhile P (run @ rest) = run"
  using assms by (induction run) (cases rest; auto)+

text \<open>
  The indentation request settles: its one edit replaces exactly the indentation of the
  new line by the wanted one and leaves every other byte, and on the edited text the request
  has nothing more to do, whatever the lexer now says of other lines.
\<close>

theorem indentation_settles:
  assumes "utf8_valid whole" "length whole < 2 ^ 32"
    "newline_indentation whole lexed p options = Some edits"
  shows "\<exists>e before indent after.
     edits = [e] \<and> whole = before @ indent @ after \<and> list_all is_indent_byte indent
     \<and> te_new_text e \<noteq> indent
     \<and> apply_text_edit whole e = before @ te_new_text e @ after
     \<and> (\<forall>lexed'. (\<forall>start stop. significant_line_tokens lexed' start stop
                              = significant_line_tokens lexed start stop)
          \<longrightarrow> newline_indentation (apply_text_edit whole e) lexed' p options = None)"
proof -
  from newline_indentation_Some [OF assms(3)] obtain up prior body after n where
    w: "whole = up @ prior @ [CHR 0x0A] @ body @ after" "pos_line p = Suc n"
    "line_at n up prior (CHR 0x0A # body @ after)"
    "line_at (Suc n) (up @ prior @ [CHR 0x0A]) body after" .
  define desired where "desired = desired_indent (significant_line_tokens lexed (length up)
      (length up + without_cr prior)) (takeWhile is_indent_byte prior) options"
  define before where "before = up @ prior @ [CHR 0x0A]"
  define indent where "indent = takeWhile is_indent_byte body"
  define tail where "tail = dropWhile is_indent_byte body"
  have body: "body = indent @ tail" by (simp add: indent_def tail_def)
  let ?e = "\<lparr>te_range = \<lparr>range_start = \<lparr>pos_line = Suc n, pos_character = 0\<rparr>,
      range_end = \<lparr>pos_line = Suc n, pos_character = as_u32 (length indent)\<rparr>\<rparr>,
    te_new_text = desired\<rparr>"
  have edits: "edits = [?e]" and new: "desired \<noteq> indent"
    using newline_indentation_lines [OF w(1) desired_def w(3,4,2)] assms(3)
    by (auto simp: indent_def split: if_splits)
  have whole: "whole = before @ indent @ tail @ after" using w(1) body by (simp add: before_def)
  have small: "as_u32 (length indent) = length indent" using assms(2) whole by simp
  have indents: "list_all is_indent_byte indent" "list_all is_indent_byte desired"
    by (simp_all add: indent_def desired_def takeWhile_indent desired_indent_indents)
  have addr: "addressable whole" using assms(1,2) by (simp add: addressable_def)
  have start: "before = [] \<or> last before = CHR 0x0A" "count_list before CHR 0x0A = Suc n"
    using w(4) by (simp_all add: before_def line_at_def)
  have "offset (new_line_index whole) \<lparr>pos_line = Suc n, pos_character = 0\<rparr> = length before"
    using offset_in_indent [OF addr _ start(1), of "[]"] start(2) whole by simp
  moreover have "offset (new_line_index whole) \<lparr>pos_line = Suc n, pos_character = length indent\<rparr>
      = length before + length indent"
    using offset_in_indent [OF addr whole start(1)] indents_free [OF indents(1)] start(2) by simp
  ultimately have applied: "apply_text_edit whole ?e = before @ desired @ tail @ after"
    by (simp add: apply_text_edit_def small) (simp add: whole)
  have tail: "tail = [] \<or> \<not> is_indent_byte (hd tail)"
    using hd_dropWhile [of is_indent_byte body] by (auto simp: tail_def)
  have lines': "line_at n up prior (CHR 0x0A # (desired @ tail) @ after)"
    "line_at (Suc n) (up @ prior @ [CHR 0x0A]) (desired @ tail) after"
    using w(3,4) indents_free [OF indents(2)] by (simp_all add: line_at_def body)
  have applied': "apply_text_edit whole ?e = up @ prior @ [CHR 0x0A] @ (desired @ tail) @ after"
    by (simp add: applied before_def)
  have "newline_indentation (apply_text_edit whole ?e) lexed' p options = None"
    if "\<forall>start stop. significant_line_tokens lexed' start stop
      = significant_line_tokens lexed start stop" for lexed'
    using newline_indentation_lines [OF applied' _ lines' w(2), of desired lexed' options]
      takeWhile_run [OF indents(2) tail] that by (simp add: desired_def)
  with edits whole indents new applied show ?thesis
    by (intro exI [of _ ?e] exI [of _ before] exI [of _ indent] exI [of _ "tail @ after"]) auto
qed

definition demo_text :: string where
  "demo_text = ''  if x'' @ [CHR 0x0D, CHR 0x0A, CHR 0x09] @ ''y''"

definition demo_lexed :: "lex_token list" where
  "demo_lexed = [\<lparr>lt_start_byte = 2, lt_kind = TkKeyword KwIf\<rparr>,
     \<lparr>lt_start_byte = 5, lt_kind = TkOther 0\<rparr>, \<lparr>lt_start_byte = 9, lt_kind = TkOther 0\<rparr>]"

lemma demo_edit: "newline_indentation demo_text demo_lexed \<lparr>pos_line = 1, pos_character = 0\<rparr>
    \<lparr>fo_tab_size = 2, fo_insert_spaces = True\<rparr>
  = Some [\<lparr>te_range = \<lparr>range_start = \<lparr>pos_line = 1, pos_character = 0\<rparr>,
      range_end = \<lparr>pos_line = 1, pos_character = 1\<rparr>\<rparr>, te_new_text = ''    ''\<rparr>]"
  by (simp add: demo_text_def demo_lexed_def newline_indentation_def line_bounds_def Let_def
      leading_indent_def leading_indent_end_def byte_slice_def is_indent_byte_def
      significant_line_tokens_def is_trivia_def desired_indent_def indent_unit_def tab_size_def
      numeral_2_eq_2 as_u32_def)

theorem indentation_settles_witness:
  "newline_indentation
     (apply_text_edit demo_text \<lparr>te_range = \<lparr>range_start = \<lparr>pos_line = 1, pos_character = 0\<rparr>,
        range_end = \<lparr>pos_line = 1, pos_character = 1\<rparr>\<rparr>, te_new_text = ''    ''\<rparr>)
     demo_lexed \<lparr>pos_line = 1, pos_character = 0\<rparr> \<lparr>fo_tab_size = 2, fo_insert_spaces = True\<rparr>
   = None"
  using indentation_settles [OF _ _ demo_edit] by (auto simp: demo_text_def)

text \<open>
  Formatting replaces the whole document: a text with parse errors is left alone, an
  already formatted one yields no edit, and otherwise a client that applies the one edit
  holds exactly the formatter's output.
\<close>

theorem formatting_replaces_document:
  assumes "utf8_valid whole" "length whole < 2 ^ 32"
  shows "formatting format_source whole True index = None
    \<and> (case formatting format_source whole False (new_line_index whole) of
         None \<Rightarrow> format_source whole = whole
       | Some edits \<Rightarrow> format_source whole \<noteq> whole
           \<and> fold (\<lambda>e t. apply_text_edit t e) edits whole = format_source whole)"
proof -
  have "addressable whole" using assms by (simp add: addressable_def)
  then have "offset (new_line_index whole) \<lparr>pos_line = 0, pos_character = 0\<rparr> = 0"
    using offset_in_indent [of whole "[]" "[]" whole] by simp
  moreover have "offset (new_line_index whole) (position (new_line_index whole) (length whole))
      = length whole"
    using offset_position_boundary assms by (simp add: is_char_boundary_def)
  moreover have whole_pos: "\<lparr>pos_line = pos_line q, pos_character = pos_character q\<rparr> = q" for q :: position
    by (cases q) simp
  ultimately show ?thesis
    by (simp add: formatting_def Let_def apply_text_edit_def whole_pos)
qed

theorem formatting_replaces_document_witness:
  "fold (\<lambda>e t. apply_text_edit t e)
     (the (formatting (\<lambda>_. ''const N: int = 1'') ''const N:int=1'' False
        (new_line_index ''const N:int=1''))) ''const N:int=1''
   = ''const N: int = 1''"
  using formatting_replaces_document [where whole = "''const N:int=1''"
      and format_source = "\<lambda>_. ''const N: int = 1''" and index = "new_line_index []"]
  by (auto split: option.splits)

end
