(* ===== verification/Lsp_Paths.thy ===== *)
theory Lsp_Paths
  imports Prelude "HOL-Library.Sublist" "HOL-Library.Char_ord" "HOL-Library.List_Lexorder"
begin

text \<open>
  What the language server uses of \<open>std::path\<close>, the URLs of documents and sorting by URL. A
  Unix path is the list of its components, which is what \<open>Path\<close> compares and hashes: an
  absolute one starts with the component \<open>/\<close>. A URL is its text.
\<close>

type_synonym path = "string list"
type_synonym url = string

definition path_join :: "path \<Rightarrow> path \<Rightarrow> path" where
  "path_join p q =
     (if q \<noteq> [] \<and> hd q = ''/'' then q
      else p @ (if q \<noteq> [] \<and> hd q = ''.'' then tl q else q))"

definition path_parent :: "path \<Rightarrow> path option" where
  "path_parent p = (if p = [] \<or> p = [''/''] then None else Some (butlast p))"

definition path_file_name :: "path \<Rightarrow> string option" where
  "path_file_name p =
     (if p = [] \<or> last p \<in> {''/'', ''.'', ''..''} then None else Some (last p))"

text \<open>\<open>Path::extension\<close>: what follows the last dot of the file name, unless that dot is its
  first byte or there is none.\<close>

definition path_extension :: "path \<Rightarrow> string option" where
  "path_extension p =
     (case path_file_name p of None \<Rightarrow> None
      | Some f \<Rightarrow>
          (case find_char CHR ''.'' (rev f) of None \<Rightarrow> None
           | Some n \<Rightarrow> if n + 1 = length f then None else Some (drop (length f - n) f)))"

text \<open>\<open>Path::starts_with\<close>.\<close>

abbreviation starts_with :: "path \<Rightarrow> path \<Rightarrow> bool" where
  "starts_with p root \<equiv> prefix root p"

text \<open>The directories above a file, nearest first: what walking \<open>parent\<close> visits.\<close>

function ancestors :: "path \<Rightarrow> path list" where
  "ancestors p =
     (case path_parent p of None \<Rightarrow> []
      | Some d \<Rightarrow> if length d < length p then d # ancestors d else [])"
  by pat_completeness auto
termination
  by (relation "measure length") auto

declare ancestors.simps [simp del]

lemma path_parent_Some: "path_parent p = Some d \<Longrightarrow> d = butlast p \<and> length d < length p"
  by (auto simp: path_parent_def split: if_splits)

lemma ancestors_prefix: "d \<in> set (ancestors p) \<Longrightarrow> strict_prefix d p"
proof (induction p rule: ancestors.induct)
  case (1 p)
  show ?case
  proof (cases "path_parent p")
    case None
    with "1.prems" show ?thesis by (subst (asm) ancestors.simps) simp
  next
    case (Some d')
    then have d': "d' = butlast p" "length d' < length p" using path_parent_Some by blast+
    then have step: "strict_prefix d' p"
      by (metis append_butlast_last_id less_nat_zero_code list.size(3) strict_prefixI')
    from "1.prems" Some d'(2) have "d = d' \<or> d \<in> set (ancestors d')"
      by (subst (asm) ancestors.simps) simp
    with "1.IH" [OF Some d'(2)] step show ?thesis by (auto intro: prefix_order.less_trans)
  qed
qed

text \<open>\<open>sort_by(as_str().cmp)\<close>: texts are ordered by their bytes.\<close>

definition sort_urls :: "url list \<Rightarrow> url list" where
  "sort_urls us = sort_key id us"

lemma set_sort_urls [simp]: "set (sort_urls us) = set us"
  by (simp add: sort_urls_def)

end
