(* ===== verification/Lsp_Documents.thy ===== *)
theory Lsp_Documents
  imports Lsp_Paths Lsp_Positions Transitions
begin

text \<open>
  \<open>crates/marrow-lsp-core/src/documents.rs\<close>: the open buffers and their generation. The lexer,
  the parser and the file path of a URL are the record \<open>doc_api\<close>, an argument. A hash map is
  an association list with distinct keys; its order is not used except where the code
  sorts.
\<close>

section \<open>State\<close>

record ('lex, 'parse) doc_api =
  lex_source :: "string \<Rightarrow> 'lex"
  parse_source :: "string \<Rightarrow> 'parse"
  to_file_path :: "url \<Rightarrow> path option"

text \<open>One open buffer; \<open>DocumentSnapshot\<close> has the same fields and shares them.\<close>

record ('lex, 'parse) document =
  doc_text :: string
  doc_version :: "int option"
  doc_index :: line_index
  doc_lexed :: 'lex
  doc_parsed :: 'parse

record ('lex, 'parse) documents =
  docs_map :: "(url \<times> ('lex, 'parse) document) list"
  docs_generation :: nat

record open_document =
  od_url :: url
  od_path :: path
  od_text :: string
  od_version :: "int option"
  od_index :: line_index

record analysis_docs =
  ad_generation :: nat
  ad_open :: "open_document list"

section \<open>Operations\<close>

definition new_document ::
  "('lex, 'parse) doc_api \<Rightarrow> string \<Rightarrow> int option \<Rightarrow> ('lex, 'parse) document" where
  "new_document M s version =
     \<lparr>doc_text = s, doc_version = version, doc_index = new_line_index s,
      doc_lexed = lex_source M s, doc_parsed = parse_source M s\<rparr>"

definition new_documents :: "('lex, 'parse) documents" where
  "new_documents = \<lparr>docs_map = [], docs_generation = 0\<rparr>"

definition open_with_version ::
  "('lex, 'parse) doc_api \<Rightarrow> url \<Rightarrow> string \<Rightarrow> int option
   \<Rightarrow> ('lex, 'parse) documents \<Rightarrow> ('lex, 'parse) documents" where
  "open_with_version M u s version d =
     d\<lparr>docs_map := AList.update u (new_document M s version) (docs_map d),
       docs_generation := docs_generation d + 1\<rparr>"

definition change_with_version ::
  "('lex, 'parse) doc_api \<Rightarrow> url \<Rightarrow> string \<Rightarrow> int option
   \<Rightarrow> ('lex, 'parse) documents \<Rightarrow> ('lex, 'parse) documents" where
  "change_with_version M u s version d =
     (case map_of (docs_map d) u of
        None \<Rightarrow> d
      | Some _ \<Rightarrow> d\<lparr>docs_map := AList.update u (new_document M s version) (docs_map d),
                    docs_generation := docs_generation d + 1\<rparr>)"

definition close_document :: "url \<Rightarrow> ('lex, 'parse) documents \<Rightarrow> ('lex, 'parse) documents" where
  "close_document u d =
     (case map_of (docs_map d) u of
        None \<Rightarrow> d
      | Some _ \<Rightarrow> d\<lparr>docs_map := AList.delete u (docs_map d),
                    docs_generation := docs_generation d + 1\<rparr>)"

definition get_document :: "url \<Rightarrow> ('lex, 'parse) documents \<Rightarrow> ('lex, 'parse) document option" where
  "get_document u d = map_of (docs_map d) u"

definition version_of :: "url \<Rightarrow> ('lex, 'parse) documents \<Rightarrow> int option" where
  "version_of u d = Option.bind (get_document u d) doc_version"

definition snapshot_of :: "url \<Rightarrow> ('lex, 'parse) documents \<Rightarrow> ('lex, 'parse) document option" where
  "snapshot_of u d =
     map_option (\<lambda>x. \<lparr>doc_text = doc_text x, doc_version = doc_version x, doc_index = doc_index x,
       doc_lexed = doc_lexed x, doc_parsed = doc_parsed x\<rparr>) (map_of (docs_map d) u)"

definition analysis_snapshot ::
  "('lex, 'parse) doc_api \<Rightarrow> ('lex, 'parse) documents \<Rightarrow> analysis_docs" where
  "analysis_snapshot M d =
     \<lparr>ad_generation = docs_generation d,
      ad_open = sort_key od_url (List.map_filter (\<lambda>(u, x).
        map_option (\<lambda>p. \<lparr>od_url = u, od_path = p, od_text = doc_text x,
          od_version = doc_version x, od_index = doc_index x\<rparr>) (to_file_path M u)) (docs_map d))\<rparr>"

definition matches_generation :: "('lex, 'parse) documents \<Rightarrow> analysis_docs \<Rightarrow> bool" where
  "matches_generation d s \<longleftrightarrow> docs_generation d = ad_generation s"

definition ad_get :: "analysis_docs \<Rightarrow> url \<Rightarrow> open_document option" where
  "ad_get s u = find (\<lambda>d. od_url d = u) (ad_open s)"

definition line_index_for_path :: "analysis_docs \<Rightarrow> path \<Rightarrow> line_index option" where
  "line_index_for_path s p = map_option od_index (find (\<lambda>d. od_path d = p) (ad_open s))"

definition text_for_path :: "analysis_docs \<Rightarrow> path \<Rightarrow> string option" where
  "text_for_path s p = map_option od_text (find (\<lambda>d. od_path d = p) (ad_open s))"

section \<open>What the editor sees\<close>

text \<open>
  The specification: a map from URLs to the text and version last sent, changed by the three
  notifications, and how often it has changed.
\<close>

datatype notification =
    DidOpen url string "int option"
  | DidChange url string "int option"
  | DidClose url

type_synonym buffers = "url \<rightharpoonup> string \<times> int option"

fun effective :: "buffers \<Rightarrow> notification \<Rightarrow> bool" where
  "effective b (DidOpen u s v) = True"
| "effective b (DidChange u s v) = (b u \<noteq> None)"
| "effective b (DidClose u) = (b u \<noteq> None)"

fun buffers_step :: "notification \<Rightarrow> buffers \<Rightarrow> buffers" where
  "buffers_step (DidOpen u s v) b = b(u \<mapsto> (s, v))"
| "buffers_step (DidChange u s v) b = (if b u = None then b else b(u \<mapsto> (s, v)))"
| "buffers_step (DidClose u) b = b(u := None)"

fun documents_step ::
  "('lex, 'parse) doc_api \<Rightarrow> notification \<Rightarrow> ('lex, 'parse) documents \<Rightarrow> ('lex, 'parse) documents"
  where
  "documents_step M (DidOpen u s v) d = open_with_version M u s v d"
| "documents_step M (DidChange u s v) d = change_with_version M u s v d"
| "documents_step M (DidClose u) d = close_document u d"

definition abs_documents :: "('lex, 'parse) documents \<Rightarrow> buffers" where
  "abs_documents d u = map_option (\<lambda>x. (doc_text x, doc_version x)) (map_of (docs_map d) u)"

text \<open>Every stored buffer is what \<open>Document::new\<close> builds, and keys are distinct.\<close>

definition documents_ok :: "('lex, 'parse) doc_api \<Rightarrow> ('lex, 'parse) documents \<Rightarrow> bool" where
  "documents_ok M d \<longleftrightarrow> distinct (map fst (docs_map d))
     \<and> (\<forall>(u, x)\<in>set (docs_map d). x = new_document M (doc_text x) (doc_version x))"

lemma documents_ok_new [simp]: "documents_ok M new_documents"
  by (simp add: documents_ok_def new_documents_def)

lemma new_document_fields [simp]:
  "doc_text (new_document M s v) = s" "doc_version (new_document M s v) = v"
  "doc_index (new_document M s v) = new_line_index s"
  by (simp_all add: new_document_def)

lemma set_update_subset: "set (AList.update k v al) \<subseteq> insert (k, v) (set al)"
  by (induction al) auto

lemma set_delete_subset: "set (AList.delete k al) \<subseteq> set al"
  by (induction al) auto

lemma documents_ok_put:
  assumes "documents_ok M d"
  shows "documents_ok M (d\<lparr>docs_map := AList.update u (new_document M s v) (docs_map d),
      docs_generation := g\<rparr>)"
  using assms set_update_subset [of u "new_document M s v" "docs_map d"]
  by (auto simp: documents_ok_def distinct_update)

lemma documents_ok_step [keeps]:
  assumes "documents_ok M d"
  shows "documents_ok M (documents_step M n d)"
proof (cases n)
  case (DidClose u)
  with assms set_delete_subset [of u "docs_map d"] show ?thesis
    by (fastforce simp: documents_ok_def close_document_def distinct_delete split: option.splits)
qed (use assms documents_ok_put in \<open>auto simp: open_with_version_def change_with_version_def
    split: option.splits\<close>)

lemma abs_step:
  "abs_documents (documents_step M n d) = buffers_step n (abs_documents d)"
  by (cases n) (auto simp: abs_documents_def open_with_version_def change_with_version_def
      close_document_def update_conv' delete_conv' split: option.splits)

lemma generation_step:
  "docs_generation (documents_step M n d)
   = docs_generation d + (if effective (abs_documents d) n then 1 else 0)"
  by (cases n) (auto simp: abs_documents_def open_with_version_def change_with_version_def
      close_document_def split: option.splits)

lemma ineffective_step:
  "\<not> effective (abs_documents d) n \<Longrightarrow> documents_step M n d = d"
  by (cases n) (auto simp: abs_documents_def change_with_version_def close_document_def
      split: option.splits)

text \<open>The number of notifications that changed a buffer.\<close>

fun changes_of :: "notification list \<Rightarrow> buffers \<Rightarrow> nat" where
  "changes_of [] b = 0"
| "changes_of (n # ns) b =
     (if effective b n then 1 else 0) + changes_of ns (buffers_step n b)"

text \<open>
  C21. The document store refines the editor's view: after any notifications the stored texts
  and versions are those the editor last sent for its open buffers, every buffer's index,
  tokens and parse are computed from exactly that text, and the generation has counted every
  change and nothing else.
\<close>

theorem documents_refine:
  "abs_documents (fold (documents_step M) ns new_documents)
     = fold buffers_step ns (\<lambda>_. None)
   \<and> documents_ok M (fold (documents_step M) ns new_documents)
   \<and> docs_generation (fold (documents_step M) ns new_documents)
     = changes_of ns (\<lambda>_. None)"
proof -
  have refines: "abs_documents (fold (documents_step M) ns d) = fold buffers_step ns (abs_documents d)
      \<and> documents_ok M (fold (documents_step M) ns d)
      \<and> docs_generation (fold (documents_step M) ns d)
        = docs_generation d + changes_of ns (abs_documents d)"
    if "documents_ok M d" for d
    using that by (induction ns arbitrary: d) (simp_all add: documents_ok_step abs_step generation_step)
  have start: "abs_documents new_documents = (\<lambda>_. None)"
    by (simp add: abs_documents_def new_documents_def fun_eq_iff)
  have zero: "docs_generation new_documents = 0" by (simp add: new_documents_def)
  from refines [OF documents_ok_new, unfolded start zero add_0] show ?thesis .
qed

lemma generation_mono: "docs_generation d \<le> docs_generation (fold (documents_step M) ns d)"
proof (induction ns arbitrary: d)
  case (Cons n ns)
  have "docs_generation d \<le> docs_generation (documents_step M n d)"
    by (simp add: generation_step)
  with Cons [of "documents_step M n d"] show ?case by simp
qed simp

text \<open>
  The generation is a sound freshness check: a snapshot whose generation still matches a
  later state of the store is exactly the snapshot that state would give.
\<close>

theorem same_generation_same_documents:
  "matches_generation (fold (documents_step M) ns d) (analysis_snapshot M d)
   \<longleftrightarrow> fold (documents_step M) ns d = d"
proof (induction ns arbitrary: d)
  case Nil
  show ?case by (simp add: matches_generation_def analysis_snapshot_def)
next
  case (Cons n ns)
  show ?case
  proof (cases "effective (abs_documents d) n")
    case True
    then have "docs_generation d < docs_generation (fold (documents_step M) (n # ns) d)"
      using generation_mono [of "documents_step M n d" M ns] by (simp add: generation_step)
    then show ?thesis
      by (auto simp: matches_generation_def analysis_snapshot_def)
  next
    case False
    with Cons show ?thesis by (simp add: ineffective_step)
  qed
qed

end
