(* ===== verification/Lsp_Store.thy ===== *)
theory Lsp_Store
  imports Lsp_Paths
begin

text \<open>
  \<open>crates/marrow-lsp-core/src/store_view.rs\<close>, \<open>catalog_binding.rs\<close> and
  \<open>session_cache.rs\<close>: what the language server reads of a project's native store, and the two
  caches that save it from opening the store on every keystroke. The file system and the
  Marrow crates at one moment are a record, a \<open>store_world\<close>; every operation is given the
  world it runs in, so a history is a list of worlds.
\<close>

section \<open>The world\<close>

record file_stat =
  fs_modified :: nat
  fs_len :: nat

record commit_metadata =
  commit_id :: nat
  catalog_epoch :: nat

text \<open>An opened store: each read may fail. A failed pin fails every read after it.\<close>

record ('cat, 'e) store_view =
  view_pin :: "'e + unit"
  view_uid :: "'e + string option"
  view_commit :: "'e + commit_metadata option"
  view_accepted :: "path \<Rightarrow> 'e + 'cat option"

record ('cat, 'lock, 'conf, 'e) store_world =
  sw_native_path :: "path \<Rightarrow> 'conf \<Rightarrow> 'e + path option"
  sw_exists :: "path \<Rightarrow> bool"
  sw_stat :: "path \<Rightarrow> file_stat option"
  sw_open :: "path \<Rightarrow> ('cat, 'e) store_view option"
  sw_committed_lock :: "path \<Rightarrow> 'e + 'lock option"

section \<open>Catalog binding\<close>

record store_identity =
  si_path :: path
  si_uid :: "string option"
  si_commit_id :: "nat option"
  si_epoch :: "nat option"

definition from_commit ::
  "path \<Rightarrow> string option \<Rightarrow> commit_metadata option \<Rightarrow> store_identity" where
  "from_commit p uid commit =
     \<lparr>si_path = p, si_uid = uid, si_commit_id = map_option commit_id commit,
      si_epoch = map_option catalog_epoch commit\<rparr>"

datatype 'cat store_probe =
    Absent
  | Unavailable
  | Unchanged
  | Cached "file_stat option"
  | Fresh store_identity "'cat option" "file_stat option"

record ('cat, 'lock) catalog_binding =
  cb_accepted :: "'cat option"
  cb_lock :: "'lock option"

record 'cat binding_cache =
  bc_key :: "store_identity option"
  bc_accepted :: "'cat option"
  bc_stat :: "file_stat option"
  bc_bound :: bool

definition new_binding_cache :: "'cat binding_cache" where
  "new_binding_cache = \<lparr>bc_key = None, bc_accepted = None, bc_stat = None, bc_bound = False\<rparr>"

definition lock_for_adoption ::
  "('cat, 'lock, 'conf, 'e) store_world \<Rightarrow> path \<Rightarrow> 'cat option \<Rightarrow> 'e + 'lock option" where
  "lock_for_adoption w root accepted =
     (if accepted \<noteq> None then Inr None else sw_committed_lock w root)"

text \<open>The reads of an opened store, in the code's order.\<close>

definition read_identity ::
  "('cat, 'e) store_view \<Rightarrow> path \<Rightarrow> 'e + store_identity" where
  "read_identity v p =
     bind_result (view_pin v) (\<lambda>_. bind_result (view_uid v) (\<lambda>uid.
       bind_result (view_commit v) (\<lambda>commit. Inr (from_commit p uid commit))))"

definition probe_store ::
  "('cat, 'lock, 'conf, 'e) store_world \<Rightarrow> path \<Rightarrow> 'conf \<Rightarrow> store_identity option
   \<Rightarrow> file_stat option \<Rightarrow> 'e + 'cat store_probe" where
  "probe_store w root config cached_key cached_stat =
     (case sw_native_path w root config of Inl e \<Rightarrow> Inl e
      | Inr None \<Rightarrow> Inr Absent
      | Inr (Some p) \<Rightarrow>
          if \<not> sw_exists w p then Inr Absent
          else let stat = sw_stat w p in
            if cached_key \<noteq> None \<and> stat \<noteq> None \<and> stat = cached_stat then Inr Unchanged
            else (case sw_open w p of None \<Rightarrow> Inr Unavailable
              | Some view \<Rightarrow>
                  bind_result (read_identity view p) (\<lambda>identity.
                    if cached_key = Some identity then Inr (Cached stat)
                    else bind_result (view_accepted view root) (\<lambda>accepted.
                      Inr (Fresh identity accepted stat)))))"

definition adopt ::
  "store_identity option \<Rightarrow> 'cat option \<Rightarrow> file_stat option \<Rightarrow> 'cat binding_cache
   \<Rightarrow> 'cat binding_cache" where
  "adopt key accepted stat c =
     c\<lparr>bc_key := key, bc_accepted := accepted, bc_stat := stat, bc_bound := True\<rparr>"

definition current_binding ::
  "('cat, 'lock, 'conf, 'e) store_world \<Rightarrow> path \<Rightarrow> 'cat binding_cache
   \<Rightarrow> 'e + ('cat, 'lock) catalog_binding" where
  "current_binding w root c =
     bind_result (lock_for_adoption w root (bc_accepted c))
       (\<lambda>l. Inr \<lparr>cb_accepted = bc_accepted c, cb_lock = l\<rparr>)"

definition bind_uncached ::
  "('cat, 'lock, 'conf, 'e) store_world \<Rightarrow> path \<Rightarrow> 'e + ('cat, 'lock) catalog_binding" where
  "bind_uncached w root =
     bind_result (lock_for_adoption w root (None :: 'cat option))
       (\<lambda>l. Inr \<lparr>cb_accepted = None, cb_lock = l\<rparr>)"

definition bind_catalog ::
  "('cat, 'lock, 'conf, 'e) store_world \<Rightarrow> path \<Rightarrow> 'conf \<Rightarrow> 'cat binding_cache
   \<Rightarrow> ('e + ('cat, 'lock) catalog_binding) \<times> 'cat binding_cache" where
  "bind_catalog w root config c =
     (case probe_store w root config (bc_key c) (bc_stat c) of
        Inl e \<Rightarrow> (Inl e, c)
      | Inr probe \<Rightarrow>
          (case probe of
             Unchanged \<Rightarrow> (current_binding w root c, c)
           | Cached stat \<Rightarrow>
               (current_binding w root (c\<lparr>bc_stat := stat\<rparr>), c\<lparr>bc_stat := stat\<rparr>)
           | Fresh identity accepted stat \<Rightarrow>
               let c1 = adopt (Some identity) accepted stat c in (current_binding w root c1, c1)
           | Absent \<Rightarrow>
               if bc_bound c \<and> bc_key c = None then (current_binding w root c, c)
               else let c1 = adopt None None None c in (current_binding w root c1, c1)
           | Unavailable \<Rightarrow>
               if bc_bound c then (current_binding w root c, c)
               else (bind_uncached w root, c)))"

section \<open>Reading the store without a cache\<close>

text \<open>The reference: what the store says, read from scratch.\<close>

definition read_catalog ::
  "('cat, 'lock, 'conf, 'e) store_world \<Rightarrow> path \<Rightarrow> 'conf \<Rightarrow> 'e + 'cat option" where
  "read_catalog w root config =
     (case sw_native_path w root config of Inl e \<Rightarrow> Inl e
      | Inr None \<Rightarrow> Inr None
      | Inr (Some p) \<Rightarrow>
          if \<not> sw_exists w p then Inr None
          else (case sw_open w p of None \<Rightarrow> Inr None
            | Some view \<Rightarrow> bind_result (read_identity view p) (\<lambda>_. view_accepted view root)))"

definition bind_direct ::
  "('cat, 'lock, 'conf, 'e) store_world \<Rightarrow> path \<Rightarrow> 'conf \<Rightarrow> 'e + ('cat, 'lock) catalog_binding" where
  "bind_direct w root config =
     bind_result (read_catalog w root config) (\<lambda>accepted.
       bind_result (lock_for_adoption w root accepted)
         (\<lambda>l. Inr \<lparr>cb_accepted = accepted, cb_lock = l\<rparr>))"

definition identity_of ::
  "('cat, 'lock, 'conf, 'e) store_world \<Rightarrow> path \<Rightarrow> 'conf
   \<Rightarrow> (store_identity \<times> file_stat option) option" where
  "identity_of w root config =
     (case sw_native_path w root config of Inr (Some p) \<Rightarrow>
        if sw_exists w p then
          (case sw_open w p of None \<Rightarrow> None
           | Some v \<Rightarrow> (case read_identity v p of Inl e \<Rightarrow> None
               | Inr identity \<Rightarrow> Some (identity, sw_stat w p)))
        else None
      | _ \<Rightarrow> None)"

definition catalog_of ::
  "('cat, 'lock, 'conf, 'e) store_world \<Rightarrow> path \<Rightarrow> 'conf \<Rightarrow> 'cat option option" where
  "catalog_of w root config =
     (case read_catalog w root config of Inl e \<Rightarrow> None | Inr a \<Rightarrow> Some a)"

text \<open>
  What Marrow says of the store at one moment: its path, UID and last commit, when it opens; and
  the fingerprint of the file.
\<close>

definition commit_fact ::
  "('cat, 'lock, 'conf, 'e) store_world \<Rightarrow> path \<Rightarrow> 'conf
   \<Rightarrow> (path \<times> string option \<times> commit_metadata option) option" where
  "commit_fact w root config =
     (case sw_native_path w root config of Inr (Some p) \<Rightarrow>
        if sw_exists w p then
          (case sw_open w p of None \<Rightarrow> None
           | Some v \<Rightarrow> (case (view_pin v, view_uid v, view_commit v) of
               (Inr _, Inr uid, Inr commit) \<Rightarrow> Some (p, uid, commit) | _ \<Rightarrow> None))
        else None
      | _ \<Rightarrow> None)"

definition store_stat ::
  "('cat, 'lock, 'conf, 'e) store_world \<Rightarrow> path \<Rightarrow> 'conf \<Rightarrow> file_stat option" where
  "store_stat w root config =
     (case sw_native_path w root config of Inr (Some p) \<Rightarrow> sw_stat w p | _ \<Rightarrow> None)"

text \<open>
  What Marrow documents of its stores: a commit of a store, named by the store's UID and the
  commit fact, has one accepted catalog. Nothing is said here about files and their times.
\<close>

definition commits_tell ::
  "('cat, 'lock, 'conf, 'e) store_world set \<Rightarrow> path \<Rightarrow> 'conf \<Rightarrow> bool" where
  "commits_tell ws root config \<longleftrightarrow>
     (\<forall>w\<in>ws. \<forall>w'\<in>ws. commit_fact w root config \<noteq> None
        \<longrightarrow> commit_fact w root config = commit_fact w' root config
        \<longrightarrow> catalog_of w root config \<noteq> None \<longrightarrow> catalog_of w' root config \<noteq> None
        \<longrightarrow> catalog_of w root config = catalog_of w' root config)"

text \<open>The cached identity is the commit fact: nothing of it is lost.\<close>

lemma from_commit_inject:
  "from_commit p uid commit = from_commit p' uid' commit' \<longleftrightarrow> p = p' \<and> uid = uid' \<and> commit = commit'"
  by (cases commit; cases commit') (auto simp: from_commit_def)

lemma identity_fact:
  "identity_of w root config = Some (i, st) \<longleftrightarrow>
     (\<exists>p uid commit. commit_fact w root config = Some (p, uid, commit) \<and> i = from_commit p uid commit
        \<and> st = store_stat w root config)"
  by (auto simp: identity_of_def commit_fact_def store_stat_def read_identity_def
      split: sum.splits option.splits)

lemma same_identity_fact:
  assumes "identity_of w root config = Some (i, st)" "identity_of w' root config = Some (i, st')"
  shows "commit_fact w root config = commit_fact w' root config" "commit_fact w root config \<noteq> None"
  using assms by (auto simp: identity_fact from_commit_inject)

text \<open>The cache holds what some world of the history had.\<close>

definition cache_from ::
  "('cat, 'lock, 'conf, 'e) store_world set \<Rightarrow> path \<Rightarrow> 'conf \<Rightarrow> 'cat binding_cache \<Rightarrow> bool" where
  "cache_from ws root config c \<longleftrightarrow>
     (case bc_key c of None \<Rightarrow> bc_accepted c = None
      | Some i \<Rightarrow> bc_bound c
          \<and> (\<exists>w\<in>ws. \<exists>st. identity_of w root config = Some (i, st)
                \<and> catalog_of w root config = Some (bc_accepted c))
          \<and> (bc_stat c \<noteq> None \<longrightarrow> (\<exists>w\<in>ws. identity_of w root config = Some (i, bc_stat c))))"

lemma cache_from_new [simp]: "cache_from ws root config new_binding_cache"
  by (simp add: cache_from_def new_binding_cache_def)

text \<open>What a probe says about the world it looked at.\<close>

lemma probe_Absent:
  "probe_store w root config key stat = Inr Absent \<Longrightarrow> read_catalog w root config = Inr None"
  by (auto simp: probe_store_def read_catalog_def Let_def bind_result_Inl
      split: sum.splits option.splits if_splits)

lemma probe_Fresh:
  assumes "probe_store w root config key stat = Inr (Fresh i a st)"
  shows "identity_of w root config = Some (i, st)" "catalog_of w root config = Some a"
  using assms by (auto simp: probe_store_def identity_of_def catalog_of_def read_catalog_def Let_def
      split: sum.splits option.splits if_splits)

lemma probe_Cached:
  assumes "probe_store w root config key stat = Inr (Cached st)"
  shows "\<exists>i. key = Some i \<and> identity_of w root config = Some (i, st)"
  using assms by (auto simp: probe_store_def identity_of_def Let_def
      split: sum.splits option.splits if_splits)

lemma probe_Unchanged:
  assumes "probe_store w root config key stat = Inr Unchanged"
  shows "key \<noteq> None" "stat \<noteq> None"
    "\<And>i st. identity_of w root config = Some (i, st) \<Longrightarrow> st = stat"
  using assms by (auto simp: probe_store_def identity_of_def Let_def
      split: sum.splits option.splits if_splits)

lemma bind_keeps_cache:
  assumes "cache_from ws root config c" "w \<in> ws"
  shows "cache_from ws root config (snd (bind_catalog w root config c))"
proof (cases "probe_store w root config (bc_key c) (bc_stat c)")
  case (Inr probe)
  show ?thesis
  proof (cases probe)
    case (Cached st)
    from probe_Cached [OF Inr [unfolded this]] obtain i where
      "bc_key c = Some i" "identity_of w root config = Some (i, st)" by blast
    with assms Inr Cached show ?thesis by (auto simp: bind_catalog_def cache_from_def)
  next
    case (Fresh i a st)
    from probe_Fresh [OF Inr [unfolded this]] assms Inr Fresh show ?thesis
      by (auto simp: bind_catalog_def cache_from_def adopt_def Let_def)
  qed (use assms Inr in \<open>auto simp: bind_catalog_def cache_from_def adopt_def Let_def
      split: option.splits\<close>)
qed (use assms in \<open>simp add: bind_catalog_def\<close>)

text \<open>A world whose store, if there is one, opens and can be read.\<close>

definition readable ::
  "('cat, 'lock, 'conf, 'e) store_world \<Rightarrow> path \<Rightarrow> 'conf \<Rightarrow> bool" where
  "readable w root config \<longleftrightarrow> catalog_of w root config \<noteq> None
     \<and> (case sw_native_path w root config of Inr (Some p) \<Rightarrow>
          sw_exists w p \<longrightarrow> sw_open w p \<noteq> None | _ \<Rightarrow> True)"

lemma probe_readable:
  assumes "readable w root config"
  shows "probe_store w root config key stat \<noteq> Inl e"
    and "probe_store w root config key stat \<noteq> Inr Unavailable"
    and "probe_store w root config key stat = Inr probe \<Longrightarrow> probe \<noteq> Absent
      \<Longrightarrow> identity_of w root config \<noteq> None"
  using assms by (auto simp: readable_def catalog_of_def read_catalog_def probe_store_def
      identity_of_def Let_def bind_result_Inl split: sum.splits option.splits if_splits)

lemma direct_binding:
  "catalog_of w root config = Some (bc_accepted c)
   \<Longrightarrow> current_binding w root c = bind_direct w root config"
  by (auto simp: current_binding_def bind_direct_def catalog_of_def split: sum.splits)

lemma same_identity:
  assumes "commits_tell ws root config" "cache_from ws root config c" "w \<in> ws"
    and "bc_key c = Some i" "identity_of w root config = Some (i, st)" "readable w root config"
  shows "catalog_of w root config = Some (bc_accepted c)"
proof -
  obtain w' st' where w': "w' \<in> ws" "identity_of w' root config = Some (i, st')"
    "catalog_of w' root config = Some (bc_accepted c)"
    using assms(2,4) by (auto simp: cache_from_def)
  note fact = same_identity_fact [OF assms(5) w'(2)]
  have "catalog_of w root config \<noteq> None" using assms(6) by (simp add: readable_def)
  then have "catalog_of w root config = catalog_of w' root config"
    using assms(1,3) w'(1,3) fact unfolding commits_tell_def by (metis option.distinct(1))
  with w'(3) show ?thesis by simp
qed

text \<open>A binding of a given catalog, with the lock as it is now.\<close>

definition bind_with ::
  "('cat, 'lock, 'conf, 'e) store_world \<Rightarrow> path \<Rightarrow> 'cat option
   \<Rightarrow> 'e + ('cat, 'lock) catalog_binding" where
  "bind_with w root accepted =
     bind_result (lock_for_adoption w root accepted)
       (\<lambda>l. Inr \<lparr>cb_accepted = accepted, cb_lock = l\<rparr>)"

lemma current_is_with: "current_binding w root c = bind_with w root (bc_accepted c)"
  by (simp add: current_binding_def bind_with_def)

text \<open>The catalog of the commit the store was at in \<open>w\<close>, as some world of \<open>ws\<close> reads it.\<close>

definition committed_catalog ::
  "('cat, 'lock, 'conf, 'e) store_world set \<Rightarrow> ('cat, 'lock, 'conf, 'e) store_world \<Rightarrow> path \<Rightarrow> 'conf
   \<Rightarrow> 'cat option \<Rightarrow> bool" where
  "committed_catalog ws w root config a \<longleftrightarrow> commit_fact w root config \<noteq> None
     \<and> (\<exists>w'\<in>ws. commit_fact w' root config = commit_fact w root config
          \<and> catalog_of w' root config = Some a)"

lemma bind_cases:
  assumes tell: "commits_tell (insert w ws) root config" and c: "cache_from ws root config c"
    and w: "readable w root config"
  obtains (direct) "fst (bind_catalog w root config c) = bind_direct w root config"
  | (unchanged) w' where "w' \<in> ws" "store_stat w' root config = store_stat w root config"
      "store_stat w root config \<noteq> None" "committed_catalog ws w' root config (bc_accepted c)"
      "fst (bind_catalog w root config c) = bind_with w root (bc_accepted c)"
proof -
  obtain probe where p: "probe_store w root config (bc_key c) (bc_stat c) = Inr probe"
    "probe \<noteq> Unavailable" "probe \<noteq> Absent \<longrightarrow> identity_of w root config \<noteq> None"
    using probe_readable [OF w, where key = "bc_key c" and stat = "bc_stat c"]
    by (cases "probe_store w root config (bc_key c) (bc_stat c)") auto
  have c': "cache_from (insert w ws) root config c"
    using c by (auto simp: cache_from_def split: option.splits)
  show thesis
  proof (cases probe)
    case Absent
    then have "catalog_of w root config = Some None"
      using probe_Absent [OF p(1) [unfolded Absent]] by (simp add: catalog_of_def)
    then show thesis
      using p(1) Absent c direct_binding [of w root config c]
        direct_binding [of w root config "adopt None None None c"]
      by (intro direct) (auto simp: bind_catalog_def cache_from_def adopt_def Let_def split: option.splits)
  next
    case Unchanged
    note u = probe_Unchanged [OF p(1) [unfolded Unchanged]]
    from u(1) obtain i where i: "bc_key c = Some i" by blast
    obtain i' where i': "identity_of w root config = Some (i', bc_stat c)"
      using p(3) Unchanged u(3) by auto
    obtain w' where w': "w' \<in> ws" "identity_of w' root config = Some (i, bc_stat c)"
      using c i u(2) by (auto simp: cache_from_def)
    obtain v st where v: "v \<in> ws" "identity_of v root config = Some (i, st)"
      "catalog_of v root config = Some (bc_accepted c)"
      using c i by (auto simp: cache_from_def)
    have "committed_catalog ws w' root config (bc_accepted c)"
      using same_identity_fact [OF v(2) w'(2)] v(1,3) by (auto simp: committed_catalog_def)
    moreover have "store_stat w' root config = bc_stat c" "store_stat w root config = bc_stat c"
      using w'(2) i' by (auto simp: identity_fact)
    ultimately show thesis
      using w'(1) u(2) p(1) Unchanged by (intro unchanged [of w']) (auto simp: bind_catalog_def current_is_with)
  next
    case (Cached st)
    from probe_Cached [OF p(1) [unfolded Cached]] same_identity [OF tell c' _ _ _ w]
    have "catalog_of w root config = Some (bc_accepted (c\<lparr>bc_stat := st\<rparr>))" by auto
    then show thesis using p(1) Cached by (intro direct) (simp add: bind_catalog_def direct_binding)
  next
    case (Fresh i a st)
    from probe_Fresh(2) [OF p(1) [unfolded Fresh]]
    have "catalog_of w root config = Some (bc_accepted (adopt (Some i) a st c))"
      by (simp add: adopt_def)
    then show thesis using p(1) Fresh by (intro direct) (simp add: bind_catalog_def Let_def direct_binding)
  qed (use p in simp)
qed

text \<open>No commit hides behind the fingerprint of \<open>w\<close>: one of the same second and length would.\<close>

definition stat_tells ::
  "('cat, 'lock, 'conf, 'e) store_world set \<Rightarrow> ('cat, 'lock, 'conf, 'e) store_world \<Rightarrow> path \<Rightarrow> 'conf
   \<Rightarrow> bool" where
  "stat_tells ws w root config \<longleftrightarrow>
     (\<forall>w'\<in>ws. store_stat w' root config = store_stat w root config \<longrightarrow> store_stat w root config \<noteq> None
        \<longrightarrow> commit_fact w' root config \<noteq> None \<longrightarrow> commit_fact w root config \<noteq> None
        \<longrightarrow> commit_fact w' root config = commit_fact w root config)"

lemma bind_is_direct:
  assumes tell: "commits_tell (insert w ws) root config" and c: "cache_from ws root config c"
    and w: "readable w root config" and stat: "stat_tells ws w root config"
  shows "fst (bind_catalog w root config c) = bind_direct w root config"
  using tell c w
proof (cases rule: bind_cases)
  case (unchanged w')
  from unchanged(4) obtain v where v: "v \<in> ws" "commit_fact v root config = commit_fact w' root config"
    "catalog_of v root config = Some (bc_accepted c)" "commit_fact w' root config \<noteq> None"
    by (auto simp: committed_catalog_def)
  obtain a where a: "catalog_of w root config = Some a" using w by (auto simp: readable_def)
  show ?thesis
  proof (cases "commit_fact w root config")
    case None
    have "sw_native_path w root config = Inr None \<or> (\<exists>p. sw_native_path w root config = Inr (Some p) \<and> \<not> sw_exists w p)"
      using None a w by (auto simp: commit_fact_def readable_def catalog_of_def read_catalog_def
          read_identity_def bind_result_Inl split: sum.splits option.splits if_splits)
    moreover have "store_stat w root config \<noteq> None" by (rule unchanged(3))
    ultimately obtain p where p: "sw_native_path w root config = Inr (Some p)" "\<not> sw_exists w p"
      by (auto simp: store_stat_def)
    then have "catalog_of w root config = Some None" by (simp add: catalog_of_def read_catalog_def)
    have "probe_store w root config (bc_key c) (bc_stat c) = Inr Absent"
      using p by (simp add: probe_store_def)
    then show ?thesis
      using \<open>catalog_of w root config = Some None\<close> c direct_binding [of w root config c]
        direct_binding [of w root config "adopt None None None c"]
      by (auto simp: bind_catalog_def cache_from_def adopt_def Let_def split: option.splits)
  next
    case (Some x)
    then have "commit_fact w' root config = commit_fact w root config"
      using stat unchanged(1,2,3) v(4) unfolding stat_tells_def by (metis option.distinct(1))
    then have "catalog_of w root config = Some (bc_accepted c)"
      using tell v a Some unfolding commits_tell_def by (metis insert_iff option.distinct(1))
    then show ?thesis
      using unchanged(5) direct_binding [of w root config c] by (simp add: current_is_with)
  qed
qed

text \<open>A history of debounced recomputes of one project: each binds in the world it finds.\<close>

definition bind_all ::
  "('cat, 'lock, 'conf, 'e) store_world list \<Rightarrow> path \<Rightarrow> 'conf \<Rightarrow> 'cat binding_cache" where
  "bind_all ws root config = fold (\<lambda>w c. snd (bind_catalog w root config c)) ws new_binding_cache"

lemma bind_all_cache:
  assumes "set past \<subseteq> ws"
  shows "cache_from ws root config (bind_all past root config)"
proof -
  have "cache_from ws root config c \<Longrightarrow>
      cache_from ws root config (fold (\<lambda>w c. snd (bind_catalog w root config c)) past c)" for c
    using assms by (induction past arbitrary: c) (simp_all add: bind_keeps_cache)
  then show ?thesis by (simp add: bind_all_def)
qed

text \<open>
  C35. The catalog binding cache is transparent up to its change detector: after any history of
  recomputes, binding in a world whose store can be read gives what reading the store from
  scratch gives; or else the file has exactly the fingerprint it had in an earlier world, and
  the catalog bound is that of the commit the store was at then. So a commit is missed only if
  it left time and length of the file as they were, and the answer is the one from scratch when
  there is no such commit. While the store cannot be opened, the last accepted catalog is kept
  and the cache unchanged.
\<close>

theorem cached_binding_is_current:
  assumes "commits_tell (set past \<union> {now}) root config"
  shows "(readable now root config \<longrightarrow>
      fst (bind_catalog now root config (bind_all past root config)) = bind_direct now root config
      \<or> (\<exists>w\<in>set past. \<exists>a. store_stat w root config = store_stat now root config
           \<and> store_stat now root config \<noteq> None \<and> committed_catalog (set past) w root config a
           \<and> fst (bind_catalog now root config (bind_all past root config)) = bind_with now root a))
    \<and> (readable now root config \<and> stat_tells (set past) now root config \<longrightarrow>
      fst (bind_catalog now root config (bind_all past root config)) = bind_direct now root config)
    \<and> (probe_store now root config (bc_key (bind_all past root config))
          (bc_stat (bind_all past root config)) = Inr Unavailable
       \<and> bc_accepted (bind_all past root config) = Some cat \<longrightarrow>
        bind_catalog now root config (bind_all past root config)
        = (Inr \<lparr>cb_accepted = Some cat, cb_lock = None\<rparr>, bind_all past root config))"
proof -
  have tell: "commits_tell (insert now (set past)) root config" using assms by simp
  have c: "cache_from (set past) root config (bind_all past root config)"
    by (rule bind_all_cache) auto
  then have "bc_accepted (bind_all past root config) = Some cat \<Longrightarrow>
      bc_bound (bind_all past root config)"
    by (auto simp: cache_from_def split: option.splits)
  moreover have "fst (bind_catalog now root config (bind_all past root config)) = bind_direct now root config
      \<or> (\<exists>w\<in>set past. \<exists>a. store_stat w root config = store_stat now root config
           \<and> store_stat now root config \<noteq> None \<and> committed_catalog (set past) w root config a
           \<and> fst (bind_catalog now root config (bind_all past root config)) = bind_with now root a)"
    if "readable now root config"
    using tell c that by (cases rule: bind_cases) blast+
  ultimately show ?thesis
    using bind_is_direct [OF tell c]
    by (auto simp: bind_catalog_def current_binding_def lock_for_adoption_def)
qed

definition demo_world :: "nat \<Rightarrow> bool \<Rightarrow> (nat, nat, unit, unit) store_world" where
  "demo_world n opens =
     \<lparr>sw_native_path = (\<lambda>_ _. Inr (Some [''/'', ''p'', ''data'', ''marrow.redb''])),
      sw_exists = (\<lambda>_. True), sw_stat = (\<lambda>_. Some \<lparr>fs_modified = n, fs_len = 1\<rparr>),
      sw_open = (\<lambda>_. if opens then Some \<lparr>view_pin = Inr (), view_uid = Inr (Some ''s''),
        view_commit = Inr (Some \<lparr>commit_id = n, catalog_epoch = 1\<rparr>),
        view_accepted = (\<lambda>_. Inr (Some n))\<rparr> else None),
      sw_committed_lock = (\<lambda>_. Inr None)\<rparr>"

lemmas demo_eval = demo_world_def bind_all_def new_binding_cache_def bind_catalog_def
  probe_store_def read_identity_def from_commit_def adopt_def current_binding_def
  lock_for_adoption_def bind_direct_def read_catalog_def identity_of_def catalog_of_def

theorem cached_binding_is_current_witness:
  "fst (bind_catalog (demo_world 2 True) [''/'', ''p''] ()
     (bind_all [demo_world 1 True, demo_world 1 True, demo_world 1 False] [''/'', ''p''] ()))
   = Inr \<lparr>cb_accepted = Some 2, cb_lock = None\<rparr>"
proof -
  have "commits_tell (set [demo_world 1 True, demo_world 1 True, demo_world 1 False]
      \<union> {demo_world 2 True}) [''/'', ''p''] ()"
    by (simp add: commits_tell_def commit_fact_def demo_eval)
  moreover have "readable (demo_world 2 True) [''/'', ''p''] ()"
    by (simp add: readable_def demo_eval)
  moreover have "stat_tells (set [demo_world 1 True, demo_world 1 True, demo_world 1 False])
      (demo_world 2 True) [''/'', ''p''] ()"
    by (simp add: stat_tells_def store_stat_def demo_world_def)
  moreover have "bind_direct (demo_world 2 True) [''/'', ''p''] ()
      = Inr \<lparr>cb_accepted = Some 2, cb_lock = None\<rparr>"
    by (simp add: demo_eval)
  ultimately show ?thesis using cached_binding_is_current by metis
qed

end
