(* ===== verification/Lsp_Session_Cache.thy ===== *)
theory Lsp_Session_Cache
  imports Lsp_Store
begin

text \<open>
  \<open>crates/marrow-lsp-core/src/session_cache.rs\<close>: the saved-data session cache of the data
  view. What the file system and the Marrow session API answer at one moment is the record
  \<open>data_world\<close>; sessions, checked snapshots and rendered roots are type variables.
\<close>

section \<open>State\<close>

record checked_program =
  cp_modules :: "string list"
  cp_source_digest :: string
  cp_context_digest :: string

record session_generation =
  sg_source_digest :: string
  sg_context_digest :: string

definition generation_of_program :: "checked_program \<Rightarrow> session_generation" where
  "generation_of_program program =
     \<lparr>sg_source_digest = cp_source_digest program, sg_context_digest = cp_context_digest program\<rparr>"

record ('snap, 'roots) cached_session =
  cs_generation :: session_generation
  cs_stat :: "file_stat option"
  cs_snapshot :: 'snap
  cs_roots :: 'roots

type_synonym ('snap, 'roots) session_cache = "('snap, 'roots) cached_session option"

text \<open>
  \<open>dw_native_path\<close> is \<open>native_store_path\<close> with its error dropped, \<open>dw_stat\<close> the file
  fingerprint, \<open>dw_unavailable\<close> the reason the configuration has no data view,
  \<open>dw_open_snapshot\<close> and \<open>dw_open_session\<close> the two Marrow calls, \<open>dw_admits\<close> the program check.
\<close>

record ('proj, 'snap, 'sess, 'roots) data_world =
  dw_native_path :: "'proj \<Rightarrow> path option"
  dw_stat :: "path \<Rightarrow> file_stat option"
  dw_unavailable :: "'proj \<Rightarrow> string + string option"
  dw_open_snapshot :: "'proj \<Rightarrow> 'snap option"
  dw_open_session :: "'snap \<Rightarrow> 'sess option"
  dw_admits :: "'sess \<Rightarrow> checked_program \<Rightarrow> bool"
  dw_roots :: "'sess option \<Rightarrow> 'roots"

section \<open>Operations\<close>

definition native_store_stat ::
  "('proj, 'snap, 'sess, 'roots) data_world \<Rightarrow> 'proj \<Rightarrow> file_stat option" where
  "native_store_stat w project = Option.bind (dw_native_path w project) (dw_stat w)"

definition open_saved_data_snapshot ::
  "('proj, 'snap, 'sess, 'roots) data_world \<Rightarrow> 'proj \<Rightarrow> 'snap option" where
  "open_saved_data_snapshot w project =
     (case dw_unavailable w project of Inl e \<Rightarrow> None | Inr (Some reason) \<Rightarrow> None
      | Inr None \<Rightarrow> dw_open_snapshot w project)"

definition session_matching ::
  "('proj, 'snap, 'sess, 'roots) data_world \<Rightarrow> 'sess \<Rightarrow> checked_program \<Rightarrow> 'sess option" where
  "session_matching w session program = (if dw_admits w session program then Some session else None)"

definition is_current ::
  "('snap, 'roots) session_cache \<Rightarrow> session_generation \<Rightarrow> file_stat option \<Rightarrow> bool" where
  "is_current cache generation stat \<longleftrightarrow>
     (case cache of None \<Rightarrow> False
      | Some cached \<Rightarrow> cs_generation cached = generation \<and> stat \<noteq> None \<and> cs_stat cached = stat)"

definition refresh_session ::
  "('proj, 'snap, 'sess, 'roots) data_world \<Rightarrow> 'proj \<Rightarrow> checked_program \<Rightarrow> session_generation
   \<Rightarrow> file_stat option \<Rightarrow> ('snap, 'roots) session_cache
   \<Rightarrow> ('snap, 'roots) cached_session option \<times> ('snap, 'roots) session_cache" where
  "refresh_session w project program generation stat cache =
     (case open_saved_data_snapshot w project of None \<Rightarrow> (None, cache)
      | Some snapshot \<Rightarrow>
      (case dw_open_session w snapshot of None \<Rightarrow> (None, cache)
       | Some session \<Rightarrow>
       (case session_matching w session program of None \<Rightarrow> (None, cache)
        | Some session \<Rightarrow>
          let cached = \<lparr>cs_generation = generation, cs_stat = stat, cs_snapshot = snapshot,
                        cs_roots = dw_roots w (Some session)\<rparr>
          in (Some cached, Some cached))))"

definition cached_saved_roots ::
  "('proj, 'snap, 'sess, 'roots) data_world \<Rightarrow> 'proj \<Rightarrow> checked_program
   \<Rightarrow> ('snap, 'roots) session_cache \<Rightarrow> 'roots \<times> ('snap, 'roots) session_cache" where
  "cached_saved_roots w project program cache =
     (let stat = native_store_stat w project; generation = generation_of_program program in
      if is_current cache generation stat then (cs_roots (the cache), cache)
      else (case refresh_session w project program generation stat cache of
              (Some cached, cache') \<Rightarrow> (cs_roots cached, cache')
            | (None, cache') \<Rightarrow> (dw_roots w None, cache')))"

definition read_session ::
  "('proj, 'snap, 'sess, 'roots) data_world \<Rightarrow> 'proj \<Rightarrow> checked_program
   \<Rightarrow> ('snap, 'roots) session_cache \<Rightarrow> 'sess option \<times> ('snap, 'roots) session_cache" where
  "read_session w project program cache =
     (let stat = native_store_stat w project; generation = generation_of_program program;
          step = (if is_current cache generation stat then (cache, cache)
                  else refresh_session w project program generation stat cache)
      in case step of
           (None, cache') \<Rightarrow> (None, cache')
         | (Some _, cache') \<Rightarrow>
             (case cache' of None \<Rightarrow> (None, cache')
              | Some cached \<Rightarrow>
                  (case dw_open_session w (cs_snapshot cached) of None \<Rightarrow> (None, cache')
                   | Some session \<Rightarrow> (session_matching w session program, cache'))))"

section \<open>Transparency\<close>

text \<open>The reference: open the session afresh and read its roots.\<close>

definition direct_session ::
  "('proj, 'snap, 'sess, 'roots) data_world \<Rightarrow> 'proj \<Rightarrow> checked_program \<Rightarrow> 'sess option" where
  "direct_session w project program =
     (case open_saved_data_snapshot w project of None \<Rightarrow> None
      | Some snapshot \<Rightarrow> (case dw_open_session w snapshot of None \<Rightarrow> None
         | Some session \<Rightarrow> session_matching w session program))"

definition direct_roots ::
  "('proj, 'snap, 'sess, 'roots) data_world \<Rightarrow> 'proj \<Rightarrow> checked_program \<Rightarrow> 'roots option" where
  "direct_roots w project program =
     map_option (\<lambda>s. dw_roots w (Some s)) (direct_session w project program)"

text \<open>The cache holds what a fresh session gave at one of the reads: its world and its program.\<close>

definition session_from ::
  "(('proj, 'snap, 'sess, 'roots) data_world \<times> checked_program) set \<Rightarrow> 'proj
   \<Rightarrow> ('snap, 'roots) session_cache \<Rightarrow> bool"
  where
  "session_from asked project cache \<longleftrightarrow>
     (case cache of None \<Rightarrow> True
      | Some cached \<Rightarrow> (\<exists>(w, program)\<in>asked.
          cs_generation cached = generation_of_program program
          \<and> cs_stat cached = native_store_stat w project
          \<and> direct_roots w project program = Some (cs_roots cached)))"

lemma refresh_is_direct:
  "refresh_session w project program (generation_of_program program) (native_store_stat w project)
     cache = (r, cache') \<Longrightarrow>
   (case r of None \<Rightarrow> direct_session w project program = None \<and> cache' = cache
    | Some cached \<Rightarrow> cache' = r \<and> direct_roots w project program = Some (cs_roots cached)
        \<and> cs_generation cached = generation_of_program program
        \<and> cs_stat cached = native_store_stat w project)"
  by (auto simp: refresh_session_def direct_session_def direct_roots_def Let_def
      split: option.splits)

lemma refresh_keeps [keeps]:
  assumes "session_from asked project cache" "(w, program) \<in> asked"
  shows "session_from asked project (snd (refresh_session w project program
    (generation_of_program program) (native_store_stat w project) cache))"
proof (cases "refresh_session w project program (generation_of_program program)
    (native_store_stat w project) cache")
  case (Pair r cache')
  from refresh_is_direct [OF this] assms Pair show ?thesis
    by (cases r) (auto simp: session_from_def)
qed

lemma roots_keep [keeps]:
  "session_from asked project cache \<Longrightarrow> (w, program) \<in> asked
   \<Longrightarrow> session_from asked project (snd (cached_saved_roots w project program cache))"
  using refresh_keeps [of asked project cache w program]
  by (auto simp: cached_saved_roots_def Let_def split: prod.splits option.splits)

lemma read_keeps [keeps]:
  "session_from asked project cache \<Longrightarrow> (w, program) \<in> asked
   \<Longrightarrow> session_from asked project (snd (read_session w project program cache))"
  using refresh_keeps [of asked project cache w program]
  by (auto simp: read_session_def Let_def split: prod.splits option.splits if_splits)

text \<open>Equal generations are equal digests, both of them.\<close>

lemma generation_inject:
  "generation_of_program program = generation_of_program program' \<longleftrightarrow>
     cp_source_digest program = cp_source_digest program'
     \<and> cp_context_digest program = cp_context_digest program'"
  by (simp add: generation_of_program_def)

lemma roots_cases:
  assumes "session_from asked project cache"
  obtains (fresh) "fst (cached_saved_roots w project program cache)
      = (case direct_roots w project program of Some r \<Rightarrow> r | None \<Rightarrow> dw_roots w None)"
  | (cached) w' program' where "(w', program') \<in> asked"
      "cp_source_digest program' = cp_source_digest program"
      "cp_context_digest program' = cp_context_digest program"
      "native_store_stat w' project = native_store_stat w project" "native_store_stat w project \<noteq> None"
      "direct_roots w' project program' = Some (fst (cached_saved_roots w project program cache))"
proof (cases "is_current cache (generation_of_program program) (native_store_stat w project)")
  case True
  then obtain cached where c: "cache = Some cached" "cs_generation cached = generation_of_program program"
    "native_store_stat w project \<noteq> None" "cs_stat cached = native_store_stat w project"
    by (auto simp: is_current_def split: option.splits)
  then obtain w' program' where w': "(w', program') \<in> asked"
    "generation_of_program program' = generation_of_program program"
    "native_store_stat w' project = native_store_stat w project"
    "direct_roots w' project program' = Some (cs_roots cached)"
    using assms by (fastforce simp: session_from_def)
  have "fst (cached_saved_roots w project program cache) = cs_roots cached"
    using True c(1) by (simp add: cached_saved_roots_def Let_def)
  with cached [OF w'(1)] w' c(3) generation_inject show thesis by metis
next
  case False
  obtain res cache' where res: "refresh_session w project program (generation_of_program program)
      (native_store_stat w project) cache = (res, cache')" by fastforce
  from refresh_is_direct [OF res] False res
  have "fst (cached_saved_roots w project program cache)
      = (case direct_roots w project program of Some r \<Rightarrow> r | None \<Rightarrow> dw_roots w None)"
    by (cases res) (auto simp: cached_saved_roots_def Let_def direct_roots_def)
  then show thesis by (rule fresh)
qed

text \<open>Any reads of the data view: of the roots, or of children and leaves.\<close>

datatype data_read = ReadRoots checked_program | ReadSession checked_program

fun data_step ::
  "'proj \<Rightarrow> ('proj, 'snap, 'sess, 'roots) data_world \<times> data_read
   \<Rightarrow> ('snap, 'roots) session_cache \<Rightarrow> ('snap, 'roots) session_cache" where
  "data_step project (w, ReadRoots program) cache = snd (cached_saved_roots w project program cache)"
| "data_step project (w, ReadSession program) cache = snd (read_session w project program cache)"

fun data_asked ::
  "('proj, 'snap, 'sess, 'roots) data_world \<times> data_read
   \<Rightarrow> ('proj, 'snap, 'sess, 'roots) data_world \<times> checked_program" where
  "data_asked (w, ReadRoots program) = (w, program)"
| "data_asked (w, ReadSession program) = (w, program)"

lemma data_steps_keep:
  "session_from asked project cache \<Longrightarrow> data_asked ` set reads \<subseteq> asked
   \<Longrightarrow> session_from asked project (fold (data_step project) reads cache)"
proof (induction reads arbitrary: cache)
  case (Cons x reads)
  obtain w r where x: "x = (w, r)" by (cases x)
  then have "session_from asked project (data_step project x cache)"
    using Cons.prems unfolding x by (cases r) (simp_all add: roots_keep read_keeps)
  with Cons show ?case by simp
qed simp

text \<open>
  C36. The data view shows no other roots than a session gave: after any reads, the answer is
  the one of a session opened afresh, with the typed unavailable roots where none opens; or
  else it is the answer a fresh session gave at an earlier read, for a program with the same
  source digest and the same context digest, over a store file with the same time and length.
  In the second case the fresh session is not tried, so a project it would refuse by now is
  still answered.
\<close>

theorem cached_roots_are_current:
  "let answer = fst (cached_saved_roots now project program (fold (data_step project) reads None)) in
    answer = (case direct_roots now project program of Some r \<Rightarrow> r | None \<Rightarrow> dw_roots now None)
    \<or> (\<exists>w program'. (w, program') \<in> data_asked ` set reads
         \<and> cp_source_digest program' = cp_source_digest program
         \<and> cp_context_digest program' = cp_context_digest program
         \<and> native_store_stat w project = native_store_stat now project
         \<and> (\<exists>stat. native_store_stat now project = Some stat)
         \<and> direct_roots w project program' = Some answer)"
proof -
  have "session_from (data_asked ` set reads) project (fold (data_step project) reads None)"
    by (rule data_steps_keep) (auto simp: session_from_def)
  then show ?thesis
    unfolding Let_def by (cases rule: roots_cases [where w = now and program = program]) blast+
qed

definition demo_data_world :: "nat \<Rightarrow> (unit, nat, nat, nat option) data_world" where
  "demo_data_world n =
     \<lparr>dw_native_path = (\<lambda>_. Some [''/'', ''s'']), dw_stat = (\<lambda>_. Some \<lparr>fs_modified = n, fs_len = 9\<rparr>),
      dw_unavailable = (\<lambda>_. Inr None), dw_open_snapshot = (\<lambda>_. Some n), dw_open_session = Some,
      dw_admits = (\<lambda>_ _. True), dw_roots = id\<rparr>"

definition demo_program :: checked_program where
  "demo_program = \<lparr>cp_modules = [''m''], cp_source_digest = ''d'', cp_context_digest = ''c''\<rparr>"

theorem cached_roots_are_current_witness:
  "fst (cached_saved_roots (demo_data_world 2) () demo_program
     (fold (data_step ()) [(demo_data_world 1, ReadRoots demo_program)] None)) = Some 2"
  using cached_roots_are_current [of "demo_data_world 2" "()" demo_program
      "[(demo_data_world 1, ReadRoots demo_program)]"]
  by (simp add: Let_def demo_data_world_def direct_roots_def direct_session_def native_store_stat_def
      open_saved_data_snapshot_def session_matching_def)

end
