(* ===== verification/Lsp_Workspace.thy ===== *)
theory Lsp_Workspace
  imports Lsp_Documents Lsp_Session_Cache
begin

text \<open>
  \<open>crates/marrow-lsp-core/src/workspace.rs\<close>: resolving the project of a file, preparing,
  running and committing a recompute, and the retained analyses that reads draw from. The
  fields of Marrow's types that the code reads are records; the binding index, the
  configuration parser and the test module rule are the record \<open>check_api\<close>; the file system
  at one moment, with what the project checker says over the files then on disk, is a
  \<open>fs_world\<close>.
\<close>

section \<open>Marrow's data\<close>

text \<open>The committed lock is Marrow's and is only handed on.\<close>

typedecl catalog_lock

datatype severity = SevError | SevWarning

record check_diagnostic =
  cd_file :: path
  cd_code :: string
  cd_severity :: severity
  cd_start :: nat
  cd_end :: nat
  cd_message :: string

record analyzed_file =
  af_path :: path
  af_source :: string
  af_has_errors :: bool

record analysis =
  an_generation :: nat
  an_program :: checked_program
  an_files :: "analyzed_file list"
  an_report :: "check_diagnostic list"

record 'c project_config =
  pc_source_roots :: "path list"
  pc_tests :: "path list"
  pc_other :: 'c

record 'c project =
  pr_root :: path
  pr_config :: "'c project_config"

datatype workspace_error =
    WsNoProject
  | WsConfig string
  | WsContext string
  | WsDiscover string

definition workspace_error_text :: "workspace_error \<Rightarrow> string" where
  "workspace_error_text e = (case e of
     WsNoProject \<Rightarrow> ''no marrow.json found for the file''
   | WsConfig m \<Rightarrow> m
   | WsContext m \<Rightarrow> ''analysis context: '' @ m
   | WsDiscover m \<Rightarrow> m)"

type_synonym sources = "(path \<times> string) list"

record ('c, 'ix) check_api =
  parse_config :: "string \<Rightarrow> string + 'c project_config"
  test_module_file :: "path \<Rightarrow> 'c project_config \<Rightarrow> path \<Rightarrow> bool"
  native_store_path :: "path \<Rightarrow> 'c project_config \<Rightarrow> string + path option"
  build_binding_index :: "analysis \<Rightarrow> 'ix"

record ('c, 'cat) fs_world =
  fw_is_file :: "path \<Rightarrow> bool"
  fw_read :: "path \<Rightarrow> string + string"
  fw_store :: "('cat, catalog_lock, 'c project_config, string) store_world"
  fw_analyze :: "path \<Rightarrow> 'c project_config \<Rightarrow> sources \<Rightarrow> 'cat option \<Rightarrow> catalog_lock option
    \<Rightarrow> string + analysis"

section \<open>Projects\<close>

definition ws_config_file :: string where
  "ws_config_file = ''marrow.json''"

definition analyzes_file :: "('c, 'ix) check_api \<Rightarrow> 'c project \<Rightarrow> path \<Rightarrow> bool" where
  "analyzes_file M pr p \<longleftrightarrow>
     (path_extension p = Some ''mw''
        \<and> list_ex (\<lambda>r. starts_with p (path_join (pr_root pr) r)) (pc_source_roots (pr_config pr)))
     \<or> test_module_file M (pr_root pr) (pr_config pr) p"

definition store_file :: "('c, 'ix) check_api \<Rightarrow> 'c project \<Rightarrow> path option" where
  "store_file M pr =
     (case native_store_path M (pr_root pr) (pr_config pr) of Inl e \<Rightarrow> None | Inr p \<Rightarrow> p)"

definition project_root_of :: "('c, 'cat) fs_world \<Rightarrow> path \<Rightarrow> path option" where
  "project_root_of w file = find (\<lambda>d. fw_is_file w (d @ [ws_config_file])) (ancestors file)"

definition resolve_project ::
  "('c, 'ix) check_api \<Rightarrow> ('c, 'cat) fs_world \<Rightarrow> path
   \<Rightarrow> workspace_error + 'c project" where
  "resolve_project M w file =
     bind_result (ok_or (project_root_of w file) WsNoProject) (\<lambda>root.
     bind_result (map_err WsConfig (fw_read w (root @ [ws_config_file]))) (\<lambda>t.
     bind_result (map_err WsConfig (parse_config M t)) (\<lambda>config.
       Inr \<lparr>pr_root = root, pr_config = config\<rparr>)))"

definition overlay_snapshot :: "path \<Rightarrow> analysis_docs \<Rightarrow> sources" where
  "overlay_snapshot root docs =
     fold (\<lambda>d srcs. if starts_with (od_path d) root then AList.update (od_path d) (od_text d) srcs
                    else srcs) (ad_open docs) []"

definition any_open_test_module ::
  "('c, 'ix) check_api \<Rightarrow> 'c project \<Rightarrow> analysis_docs \<Rightarrow> bool" where
  "any_open_test_module M pr docs =
     list_ex (\<lambda>d. test_module_file M (pr_root pr) (pr_config pr) (od_path d)) (ad_open docs)"

definition snapshot_is_good :: "analysis \<Rightarrow> bool" where
  "snapshot_is_good s \<longleftrightarrow>
     cp_modules (an_program s) \<noteq> [] \<and> \<not> list_ex af_has_errors (an_files s)"

definition snapshot_contains_file :: "analysis \<Rightarrow> path \<Rightarrow> bool" where
  "snapshot_contains_file s file \<longleftrightarrow> list_ex (\<lambda>f. af_path f = file) (an_files s)"

section \<open>The workspace\<close>

record index_key =
  ik_root :: path
  ik_generation :: nat

definition new_index_key :: "'c project \<Rightarrow> analysis \<Rightarrow> index_key" where
  "new_index_key pr s = \<lparr>ik_root = pr_root pr, ik_generation = an_generation s\<rparr>"

record ('c, 'cat, 'ix) workspace =
  ws_project :: "'c project option"
  ws_latest :: "analysis option"
  ws_last_program :: "checked_program option"
  ws_last_good :: "(analysis \<times> 'ix) option"
  ws_index :: "'ix option"
  ws_index_key :: "index_key option"
  ws_latest_generation :: "nat option"
  ws_catalog :: "'cat binding_cache"
  ws_epoch :: nat

definition new_workspace :: "('c, 'cat, 'ix) workspace" where
  "new_workspace = \<lparr>ws_project = None, ws_latest = None, ws_last_program = None,
     ws_last_good = None, ws_index = None, ws_index_key = None, ws_latest_generation = None,
     ws_catalog = new_binding_cache, ws_epoch = 0\<rparr>"

datatype read_source = Latest | LastGood

datatype recompute_scope = Interactive | Full

record ('c, 'cat) prepared =
  pp_root :: path
  pp_config :: "'c project_config"
  pp_sources :: sources
  pp_accepted :: "'cat option"
  pp_lock :: "catalog_lock option"
  pp_generation :: nat
  pp_epoch :: nat
  pp_source_only :: bool

definition analyze ::
  "('c, 'cat) fs_world \<Rightarrow> ('c, 'cat) prepared \<Rightarrow> string + analysis" where
  "analyze w p =
     fw_analyze w (pp_root p)
       (if pp_source_only p then (pp_config p)\<lparr>pc_tests := []\<rparr> else pp_config p)
       (pp_sources p) (pp_accepted p) (pp_lock p)"

definition program_of :: "('c, 'cat, 'ix) workspace \<Rightarrow> checked_program option" where
  "program_of ws =
     (case ws_latest ws of
        Some s \<Rightarrow> if cp_modules (an_program s) \<noteq> [] then Some (an_program s) else ws_last_program ws
      | None \<Rightarrow> ws_last_program ws)"

definition binding_index ::
  "('c, 'ix) check_api \<Rightarrow> ('c, 'cat, 'ix) workspace \<Rightarrow> ('c, 'cat, 'ix) workspace" where
  "binding_index M ws =
     (if ws_index ws = None then
        (case (ws_latest ws, ws_project ws) of
           (Some s, Some pr) \<Rightarrow> ws\<lparr>ws_index_key := Some (new_index_key pr s),
                                  ws_index := Some (build_binding_index M s)\<rparr>
         | _ \<Rightarrow> ws)
      else ws)"

definition latest_matches :: "('c, 'cat, 'ix) workspace \<Rightarrow> analysis_docs \<Rightarrow> bool" where
  "latest_matches ws docs \<longleftrightarrow>
     ws_latest ws \<noteq> None \<and> ws_latest_generation ws = Some (ad_generation docs)"

definition fresh_latest :: "('c, 'cat, 'ix) workspace \<Rightarrow> analysis_docs \<Rightarrow> analysis option" where
  "fresh_latest ws docs = (if latest_matches ws docs then ws_latest ws else None)"

definition fresh_program :: "('c, 'cat, 'ix) workspace \<Rightarrow> analysis_docs \<Rightarrow> checked_program option" where
  "fresh_program ws docs =
     (case map_option an_program (fresh_latest ws docs) of
        None \<Rightarrow> None
      | Some program \<Rightarrow> if cp_modules program \<noteq> [] then Some program else None)"

definition fresh_program_or_empty ::
  "('c, 'cat, 'ix) workspace \<Rightarrow> analysis_docs \<Rightarrow> checked_program option" where
  "fresh_program_or_empty ws docs = map_option an_program (fresh_latest ws docs)"

section \<open>Recomputes\<close>

definition prepare_recompute ::
  "('c, 'ix) check_api \<Rightarrow> ('c, 'cat) fs_world \<Rightarrow> path \<Rightarrow> analysis_docs
   \<Rightarrow> recompute_scope \<Rightarrow> ('c, 'cat, 'ix) workspace
   \<Rightarrow> (workspace_error + ('c, 'cat) prepared) \<times> ('c, 'cat, 'ix) workspace" where
  "prepare_recompute M w file docs scope ws =
     (let resolved = (case ws_project ws of
            Some pr \<Rightarrow> if starts_with file (pr_root pr) then Inr (pr, ws) else
              bind_result (resolve_project M w file) (\<lambda>pr. Inr (pr,
                ws\<lparr>ws_project := Some pr, ws_catalog := new_binding_cache\<rparr>))
          | None \<Rightarrow> bind_result (resolve_project M w file) (\<lambda>pr. Inr (pr,
                ws\<lparr>ws_project := Some pr, ws_catalog := new_binding_cache\<rparr>)))
      in case resolved of Inl e \<Rightarrow> (Inl e, ws)
       | Inr (pr, ws1) \<Rightarrow>
         let source_only = (scope = Interactive \<and> \<not> any_open_test_module M pr docs);
             srcs = overlay_snapshot (pr_root pr) docs;
             (binding, cache) = bind_catalog (fw_store w) (pr_root pr) (pr_config pr) (ws_catalog ws1);
             ws2 = ws1\<lparr>ws_catalog := cache\<rparr>
         in (case binding of
               Inl e \<Rightarrow> (Inl (WsContext e), ws2)
             | Inr b \<Rightarrow> (Inr \<lparr>pp_root = pr_root pr, pp_config = pr_config pr, pp_sources = srcs,
                   pp_accepted = cb_accepted b, pp_lock = cb_lock b,
                   pp_generation = ad_generation docs, pp_epoch = ws_epoch ws2,
                   pp_source_only = source_only\<rparr>, ws2)))"

text \<open>
  \<open>commit_recompute\<close>, past its three guards: retain the program, keep or replace the last
  good analysis, and install the snapshot.
\<close>

definition retain_last_good ::
  "('c, 'ix) check_api \<Rightarrow> analysis \<Rightarrow> ('c, 'cat, 'ix) workspace
   \<Rightarrow> ('c, 'cat, 'ix) workspace" where
  "retain_last_good M s ws =
     (if snapshot_is_good s then ws\<lparr>ws_last_good := None\<rparr>
      else case ws_latest ws of
        None \<Rightarrow> ws
      | Some previous \<Rightarrow>
          if snapshot_is_good previous then
            ws\<lparr>ws_latest := None, ws_index := None,
               ws_last_good := Some (previous, case ws_index ws of Some ix \<Rightarrow> ix
                 | None \<Rightarrow> build_binding_index M previous)\<rparr>
          else ws\<lparr>ws_latest := None\<rparr>)"

definition install ::
  "('c, 'ix) check_api \<Rightarrow> 'c project \<Rightarrow> nat \<Rightarrow> analysis \<Rightarrow> ('c, 'cat, 'ix) workspace
   \<Rightarrow> ('c, 'cat, 'ix) workspace" where
  "install M pr generation s ws =
     (let key = new_index_key pr s;
          ws1 = (if cp_modules (an_program s) \<noteq> []
                 then ws\<lparr>ws_last_program := Some (an_program s)\<rparr> else ws);
          ws2 = retain_last_good M s ws1;
          keep = (ws_index_key ws2 = Some key);
          ws3 = ws2\<lparr>ws_latest := Some s\<rparr>;
          ws4 = (if keep then ws3 else ws3\<lparr>ws_index := None, ws_index_key := None\<rparr>)
      in ws4\<lparr>ws_latest_generation := Some generation\<rparr>)"

definition commit_recompute ::
  "('c, 'ix) check_api \<Rightarrow> nat \<Rightarrow> nat \<Rightarrow> analysis \<Rightarrow> ('c, 'cat, 'ix) workspace
   \<Rightarrow> bool \<times> ('c, 'cat, 'ix) workspace" where
  "commit_recompute M generation captured_epoch s ws =
     (if ws_epoch ws \<noteq> captured_epoch then (False, ws)
      else case ws_project ws of None \<Rightarrow> (False, ws)
      | Some pr \<Rightarrow>
          if (case ws_latest_generation ws of None \<Rightarrow> False | Some installed \<Rightarrow> generation < installed)
          then (False, ws)
          else (True, install M pr generation s ws))"

definition clear_latest :: "('c, 'cat, 'ix) workspace \<Rightarrow> ('c, 'cat, 'ix) workspace" where
  "clear_latest ws = ws\<lparr>ws_latest := None, ws_last_program := None, ws_index := None,
     ws_index_key := None, ws_latest_generation := None\<rparr>"

definition demote_latest ::
  "('c, 'ix) check_api \<Rightarrow> ('c, 'cat, 'ix) workspace \<Rightarrow> ('c, 'cat, 'ix) workspace" where
  "demote_latest M ws =
     (case ws_latest ws of None \<Rightarrow> ws
      | Some s \<Rightarrow>
          if snapshot_is_good s then
            ws\<lparr>ws_latest := None, ws_index := None,
               ws_last_good := Some (s, case ws_index ws of Some ix \<Rightarrow> ix
                 | None \<Rightarrow> build_binding_index M s)\<rparr>
          else ws)"

definition invalidate_analysis ::
  "('c, 'ix) check_api \<Rightarrow> ('c, 'cat, 'ix) workspace \<Rightarrow> ('c, 'cat, 'ix) workspace" where
  "invalidate_analysis M ws =
     clear_latest (demote_latest M (ws\<lparr>ws_epoch := ws_epoch ws + 1\<rparr>))"

definition invalidate_project :: "('c, 'cat, 'ix) workspace \<Rightarrow> ('c, 'cat, 'ix) workspace" where
  "invalidate_project ws =
     clear_latest (ws\<lparr>ws_epoch := ws_epoch ws + 1, ws_project := None, ws_last_good := None\<rparr>)"

text \<open>\<open>recompute_from_snapshot\<close>: \<open>None\<close> is the panic of its \<open>expect\<close>.\<close>

definition recompute_from_snapshot ::
  "('c, 'ix) check_api \<Rightarrow> ('c, 'cat) fs_world \<Rightarrow> path \<Rightarrow> analysis_docs
   \<Rightarrow> ('c, 'cat, 'ix) workspace
   \<Rightarrow> (workspace_error + analysis) option \<times> ('c, 'cat, 'ix) workspace" where
  "recompute_from_snapshot M w file docs ws =
     (case prepare_recompute M w file docs Full ws of
        (Inl e, ws1) \<Rightarrow> (Some (Inl e), ws1)
      | (Inr p, ws1) \<Rightarrow>
          (case analyze w p of
             Inl e \<Rightarrow> (Some (Inl (WsDiscover e)), ws1)
           | Inr s \<Rightarrow>
               (case commit_recompute M (pp_generation p) (pp_epoch p) s ws1 of
                  (_, ws2) \<Rightarrow> (map_option Inr (ws_latest ws2), ws2))))"

section \<open>Reads\<close>

definition choose_read_source ::
  "('c, 'ix) check_api \<Rightarrow> path \<Rightarrow> ('c, 'cat, 'ix) workspace
   \<Rightarrow> read_source option \<times> ('c, 'cat, 'ix) workspace" where
  "choose_read_source M file ws =
     (if (case ws_latest ws of None \<Rightarrow> False
          | Some s \<Rightarrow> snapshot_is_good s \<and> snapshot_contains_file s file)
      then (Some Latest, binding_index M ws)
      else if (case ws_last_good ws of None \<Rightarrow> False
               | Some (s, ix) \<Rightarrow> snapshot_contains_file s file)
      then (Some LastGood, ws)
      else (None, ws))"

text \<open>\<open>read_facts\<close> of the backend: \<open>None\<close> is the panic of one of its \<open>expect\<close> calls.\<close>

definition read_facts ::
  "('c, 'cat, 'ix) workspace \<Rightarrow> read_source \<Rightarrow> (analysis \<times> 'ix) option" where
  "read_facts ws source =
     (case source of
        Latest \<Rightarrow> (case (ws_latest ws, ws_index ws) of (Some s, Some ix) \<Rightarrow> Some (s, ix) | _ \<Rightarrow> None)
      | LastGood \<Rightarrow> ws_last_good ws)"

end
