(* ===== verification/Lsp_Diagnostics.thy ===== *)
theory Lsp_Diagnostics
  imports Lsp_Workspace
begin

text \<open>
  \<open>crates/marrow-lsp-core/src/diagnostics.rs\<close> and the diagnostics bookkeeping of
  \<open>crates/marrow-lsp/src/backend.rs\<close>: check reports grouped by URL, the tracker of what each
  project root has on the client, and the scope a run may reconcile. Hash maps are
  association lists and hash sets lists without order; where the code sorts, so does the model.
\<close>

section \<open>Reports as LSP diagnostics\<close>

record lsp_diagnostic =
  dg_range :: lsp_range
  dg_severity :: nat
  dg_code :: string
  dg_source :: string
  dg_message :: string

definition diagnostic_source :: string where
  "diagnostic_source = ''marrow''"

fun severity_to_lsp :: "severity \<Rightarrow> nat" where
  "severity_to_lsp SevError = 1"
| "severity_to_lsp SevWarning = 2"

definition diagnostic_to_lsp ::
  "string \<Rightarrow> severity \<Rightarrow> nat \<times> nat \<Rightarrow> string \<Rightarrow> string option \<Rightarrow> line_index \<Rightarrow> lsp_diagnostic" where
  "diagnostic_to_lsp code sev span message help index =
     \<lparr>dg_range = range_of index (fst span) (snd span), dg_severity = severity_to_lsp sev,
      dg_code = code, dg_source = diagnostic_source,
      dg_message = (case help of Some h \<Rightarrow> message @ [CHR 0x0A] @ ''help: '' @ h | None \<Rightarrow> message)\<rparr>"

definition check_diagnostic_to_lsp :: "check_diagnostic \<Rightarrow> line_index \<Rightarrow> lsp_diagnostic" where
  "check_diagnostic_to_lsp d index =
     diagnostic_to_lsp (cd_code d) (cd_severity d) (cd_start d, cd_end d) (cd_message d) None index"

type_synonym url_diagnostics = "(url \<times> lsp_diagnostic list) list"

text \<open>\<open>entry(url).or_default().push(x)\<close>.\<close>

definition push_entry :: "url \<Rightarrow> lsp_diagnostic \<Rightarrow> url_diagnostics \<Rightarrow> url_diagnostics" where
  "push_entry u x m =
     AList.update u ((case map_of m u of None \<Rightarrow> [] | Some xs \<Rightarrow> xs) @ [x]) m"

definition or_default :: "url \<Rightarrow> url_diagnostics \<Rightarrow> url_diagnostics" where
  "or_default u m = (if map_of m u = None then AList.update u [] m else m)"

text \<open>
  The loop over a report. The index of a file that is not open is built from disk once and
  kept; \<open>path_to_url\<close> and \<open>read_file\<close> (which gives the empty text on an error) are arguments.
\<close>

definition report_step ::
  "(path \<Rightarrow> url option) \<Rightarrow> (path \<Rightarrow> string) \<Rightarrow> (url \<Rightarrow> line_index option)
   \<Rightarrow> check_diagnostic \<Rightarrow> url_diagnostics \<times> (url \<times> line_index) list
   \<Rightarrow> url_diagnostics \<times> (url \<times> line_index) list" where
  "report_step path_to_url read_file index_for d st =
     (case st of (result, disk) \<Rightarrow>
        (case path_to_url (cd_file d) of None \<Rightarrow> st
         | Some u \<Rightarrow>
             let (index, disk') = (case index_for u of
                   Some index \<Rightarrow> (index, disk)
                 | None \<Rightarrow> (case map_of disk u of
                       Some index \<Rightarrow> (index, disk)
                     | None \<Rightarrow> let index = new_line_index (read_file (cd_file d))
                               in (index, AList.update u index disk)))
             in (push_entry u (check_diagnostic_to_lsp d index) result, disk')))"

definition snapshot_to_diagnostics ::
  "(path \<Rightarrow> url option) \<Rightarrow> (path \<Rightarrow> string) \<Rightarrow> analysis \<Rightarrow> url list
   \<Rightarrow> (url \<Rightarrow> line_index option) \<Rightarrow> url_diagnostics" where
  "snapshot_to_diagnostics path_to_url read_file s open_urls index_for =
     fst (fold (report_step path_to_url read_file index_for) (an_report s)
       (fold (\<lambda>u m. AList.update u [] m) open_urls [], []))"

section \<open>The tracker\<close>

record root_diagnostics =
  rd_epoch :: nat
  rd_urls :: "url list"

type_synonym tracker = "(path \<times> root_diagnostics) list"

definition new_root_diagnostics :: root_diagnostics where
  "new_root_diagnostics = \<lparr>rd_epoch = 0, rd_urls = []\<rparr>"

definition root_entry :: "path \<Rightarrow> tracker \<Rightarrow> root_diagnostics" where
  "root_entry root t = (case map_of t root of None \<Rightarrow> new_root_diagnostics | Some d \<Rightarrow> d)"

definition bump_root_epoch :: "path \<Rightarrow> tracker \<Rightarrow> nat \<times> tracker" where
  "bump_root_epoch root t =
     (let d = (root_entry root t)\<lparr>rd_epoch := rd_epoch (root_entry root t) + 1\<rparr>
      in (rd_epoch d, AList.update root d t))"

definition tracker_epoch :: "tracker \<Rightarrow> path \<Rightarrow> nat" where
  "tracker_epoch t root = (case map_of t root of None \<Rightarrow> 0 | Some d \<Rightarrow> rd_epoch d)"

definition is_stale :: "tracker \<Rightarrow> path \<Rightarrow> nat \<Rightarrow> bool" where
  "is_stale t root epoch \<longleftrightarrow> tracker_epoch t root \<noteq> epoch"

definition clear_root :: "path \<Rightarrow> tracker \<Rightarrow> url list \<times> tracker" where
  "clear_root root t =
     (case map_of t root of None \<Rightarrow> ([], t)
      | Some d \<Rightarrow> (sort_urls (rd_urls d), AList.update root (d\<lparr>rd_urls := []\<rparr>) t))"

definition clear_url :: "path \<Rightarrow> url \<Rightarrow> tracker \<Rightarrow> bool \<times> tracker" where
  "clear_url root u t =
     (case map_of t root of None \<Rightarrow> (False, t)
      | Some d \<Rightarrow> (u \<in> set (rd_urls d), AList.update root (d\<lparr>rd_urls := removeAll u (rd_urls d)\<rparr>) t))"

datatype reconcile_scope = Whole | SourceOnly "url list"

definition scope_source_only :: "(path \<Rightarrow> url option) \<Rightarrow> analysis \<Rightarrow> reconcile_scope" where
  "scope_source_only path_to_url s =
     SourceOnly (List.map_filter (\<lambda>f. path_to_url (af_path f)) (an_files s))"

fun covers :: "reconcile_scope \<Rightarrow> url \<Rightarrow> bool" where
  "covers Whole u = True"
| "covers (SourceOnly analyzed) u = (u \<in> set analyzed)"

definition reconcile_success ::
  "path \<Rightarrow> nat \<Rightarrow> reconcile_scope \<Rightarrow> url_diagnostics \<Rightarrow> tracker
   \<Rightarrow> bool \<times> url_diagnostics \<times> tracker" where
  "reconcile_success root epoch scope diagnostics t =
     (if is_stale t root epoch then (False, diagnostics, t)
      else let tracked = (case map_of t root of None \<Rightarrow> [] | Some d \<Rightarrow> rd_urls d);
               carried_forward = filter (\<lambda>u. \<not> covers scope u) tracked;
               diagnostics' = fold or_default (filter (covers scope) tracked) diagnostics;
               non_empty = map fst (filter (\<lambda>(u, ds). ds \<noteq> []) diagnostics')
           in (True, diagnostics',
               AList.update root ((root_entry root t)\<lparr>rd_urls := remdups (non_empty @ carried_forward)\<rparr>) t))"

text \<open>\<open>max_by_key\<close> over the component count: the last of the longest.\<close>

definition tracked_root_for_path :: "tracker \<Rightarrow> path \<Rightarrow> path option" where
  "tracked_root_for_path t p =
     (case filter (starts_with p) (map fst t) of
        [] \<Rightarrow> None
      | r # rs \<Rightarrow> Some (fold (\<lambda>x best. if length best \<le> length x then x else best) rs r))"

definition tracked_root_for_url :: "tracker \<Rightarrow> url \<Rightarrow> path option" where
  "tracked_root_for_url t u = map_option fst (find (\<lambda>(r, d). u \<in> set (rd_urls d)) t)"

definition tracked_root_for_config_path :: "tracker \<Rightarrow> path \<Rightarrow> path option" where
  "tracked_root_for_config_path t p = find (\<lambda>r. p = r @ [ws_config_file]) (map fst t)"

section \<open>Publishing\<close>

record published =
  pb_url :: url
  pb_diagnostics :: "lsp_diagnostic list"
  pb_version :: "int option"

definition open_analysis_document_urls ::
  "('c, 'ix) check_api \<Rightarrow> analysis_docs \<Rightarrow> 'c project \<Rightarrow> url list" where
  "open_analysis_document_urls M docs pr =
     sort_urls (map od_url (filter (\<lambda>d. analyzes_file M pr (od_path d)) (ad_open docs)))"

definition open_document_versions :: "analysis_docs \<Rightarrow> (url \<times> int option) list" where
  "open_document_versions docs =
     fold (\<lambda>d m. AList.update (od_url d) (od_version d) m) (ad_open docs) []"

definition version_for :: "(url \<times> int option) list \<Rightarrow> url \<Rightarrow> int option" where
  "version_for versions u = (case map_of versions u of None \<Rightarrow> None | Some v \<Rightarrow> v)"

definition clear_publish :: "url \<Rightarrow> (url \<times> int option) list \<Rightarrow> published" where
  "clear_publish u versions =
     \<lparr>pb_url = u, pb_diagnostics = [], pb_version = version_for versions u\<rparr>"

definition known_root_for_path ::
  "('c, 'cat, 'ix) workspace option \<Rightarrow> tracker \<Rightarrow> path \<Rightarrow> path option" where
  "known_root_for_path ws t p =
     (case Option.bind ws ws_project of
        Some pr \<Rightarrow> if starts_with p (pr_root pr) then Some (pr_root pr) else tracked_root_for_path t p
      | None \<Rightarrow> tracked_root_for_path t p)"

text \<open>What the client shows after a list of publishes: the last one for each URL.\<close>

definition show_published :: "published \<Rightarrow> (url \<Rightarrow> lsp_diagnostic list) \<Rightarrow> url \<Rightarrow> lsp_diagnostic list"
  where "show_published p shown = shown(pb_url p := pb_diagnostics p)"

section \<open>Properties of the tracker\<close>

lemma root_entry_update [simp]:
  "root_entry r (AList.update root d t) = (if r = root then d else root_entry r t)"
  by (simp add: root_entry_def update_conv')

lemma root_entry_bump [simp]:
  "root_entry r (snd (bump_root_epoch root t)) =
    (if r = root then (root_entry root t)\<lparr>rd_epoch := Suc (rd_epoch (root_entry root t))\<rparr>
     else root_entry r t)"
  by (simp add: bump_root_epoch_def Let_def)

lemma root_entry_lookup:
  "map_of t root = None \<Longrightarrow> root_entry root t = new_root_diagnostics"
  "map_of t root = Some d \<Longrightarrow> root_entry root t = d"
  by (simp_all add: root_entry_def)

lemma root_entry_clear [simp]:
  "root_entry r (snd (clear_root root t)) =
    (if r = root then (root_entry root t)\<lparr>rd_urls := []\<rparr> else root_entry r t)"
  by (cases "map_of t root")
    (simp_all add: clear_root_def root_entry_lookup, simp_all add: new_root_diagnostics_def)

lemma root_entry_clear_url [simp]:
  "root_entry r (snd (clear_url root u t)) =
    (if r = root then (root_entry root t)\<lparr>rd_urls := removeAll u (rd_urls (root_entry root t))\<rparr>
     else root_entry r t)"
  by (cases "map_of t root")
    (simp_all add: clear_url_def root_entry_lookup, simp_all add: new_root_diagnostics_def)

lemma clear_root_urls: "set (fst (clear_root root t)) = set (rd_urls (root_entry root t))"
  by (simp add: clear_root_def root_entry_def new_root_diagnostics_def split: option.split)

lemma epoch_root_entry: "tracker_epoch t root = rd_epoch (root_entry root t)"
  by (simp add: tracker_epoch_def root_entry_def new_root_diagnostics_def split: option.split)

lemma bump_fst [simp]: "fst (bump_root_epoch root t) = Suc (rd_epoch (root_entry root t))"
  by (simp add: bump_root_epoch_def Let_def)

text \<open>The URLs a tracker holds for some root.\<close>

definition tracked :: "tracker \<Rightarrow> url set" where
  "tracked t = {u. \<exists>root. u \<in> set (rd_urls (root_entry root t))}"

lemma tracked_bump [simp]: "tracked (snd (bump_root_epoch root t)) = tracked t"
  by (auto simp: tracked_def split: if_splits)

lemma or_default_lookup [simp]:
  "map_of (or_default u m) v = (if v = u \<and> map_of m u = None then Some [] else map_of m v)"
  by (auto simp: or_default_def update_conv')

lemma fold_or_default:
  "map_of (fold or_default us m) v = (if v \<in> set us \<and> map_of m v = None then Some [] else map_of m v)"
  by (induction us arbitrary: m) auto

lemma or_default_distinct: "distinct (map fst m) \<Longrightarrow> distinct (map fst (or_default u m))"
  by (simp add: or_default_def distinct_update)

lemma fold_or_default_distinct:
  "distinct (map fst m) \<Longrightarrow> distinct (map fst (fold or_default us m))"
  by (induction us arbitrary: m) (simp_all add: or_default_distinct)

lemma reconcile_entry:
  assumes "reconcile_success root epoch scope m t = (ok, m', t')"
  shows "root_entry r t' = (if ok \<and> r = root then (root_entry root t)\<lparr>rd_urls :=
      remdups (map fst (filter (\<lambda>(u, ds). ds \<noteq> []) m')
        @ filter (\<lambda>u. \<not> covers scope u) (rd_urls (root_entry root t)))\<rparr> else root_entry r t)"
    and "ok \<longleftrightarrow> rd_epoch (root_entry root t) = epoch"
    and "ok \<Longrightarrow> m' = fold or_default (filter (covers scope) (rd_urls (root_entry root t))) m"
    and "\<not> ok \<Longrightarrow> m' = m \<and> t' = t"
proof -
  have urls: "(case map_of t root of None \<Rightarrow> [] | Some d \<Rightarrow> rd_urls d) = rd_urls (root_entry root t)"
    by (simp add: root_entry_def new_root_diagnostics_def split: option.split)
  show "root_entry r t' = (if ok \<and> r = root then (root_entry root t)\<lparr>rd_urls :=
      remdups (map fst (filter (\<lambda>(u, ds). ds \<noteq> []) m')
        @ filter (\<lambda>u. \<not> covers scope u) (rd_urls (root_entry root t)))\<rparr> else root_entry r t)"
    and "ok \<longleftrightarrow> rd_epoch (root_entry root t) = epoch"
    and "ok \<Longrightarrow> m' = fold or_default (filter (covers scope) (rd_urls (root_entry root t))) m"
    and "\<not> ok \<Longrightarrow> m' = m \<and> t' = t"
    using assms unfolding reconcile_success_def urls
    by (auto simp: is_stale_def epoch_root_entry Let_def split: if_splits)
qed

lemma covered_known:
  assumes "reconcile_success root epoch scope m t = (True, m', t')"
    and "u \<in> set (rd_urls (root_entry root t))" "covers scope u"
  shows "map_of m' u = Some (case map_of m u of None \<Rightarrow> [] | Some ds \<Rightarrow> ds)"
proof -
  have "m' = fold or_default (filter (covers scope) (rd_urls (root_entry root t))) m"
    by (rule reconcile_entry(3) [OF assms(1)]) simp
  with assms(2,3) show ?thesis by (auto simp: fold_or_default split: option.split)
qed

lemma reported_kept:
  assumes "reconcile_success root epoch scope m t = (True, m', t')" "map_of m u = Some ds"
  shows "map_of m' u = Some ds"
proof -
  have "m' = fold or_default (filter (covers scope) (rd_urls (root_entry root t))) m"
    by (rule reconcile_entry(3) [OF assms(1)]) simp
  with assms(2) show ?thesis by (simp add: fold_or_default)
qed

lemma non_empty_urls:
  assumes "distinct (map fst m)"
  shows "u \<in> set (map fst (filter (\<lambda>(u, ds). ds \<noteq> []) m))
    \<longleftrightarrow> (case map_of m u of Some ds \<Rightarrow> ds \<noteq> [] | None \<Rightarrow> False)"
proof (cases "map_of m u")
  case None
  then have "u \<notin> fst ` set m" by (simp add: map_of_eq_None_iff)
  with None show ?thesis by auto
next
  case (Some ds)
  then have "(u, ds') \<in> set m \<longleftrightarrow> ds' = ds" for ds'
    using map_of_is_SomeI [OF assms, of u ds'] map_of_SomeD [of m u ds] by auto
  moreover have "u \<in> set (map fst (filter (\<lambda>(u, ds). ds \<noteq> []) m))
      \<longleftrightarrow> (\<exists>ds'. (u, ds') \<in> set m \<and> ds' \<noteq> [])" by force
  ultimately show ?thesis using Some by simp
qed

lemma reconcile_exact:
  assumes "reconcile_success root epoch scope m t = (ok, m', t')" "distinct (map fst m)"
  shows "ok = (tracker_epoch t root = epoch)
    \<and> (\<not> ok \<longrightarrow> m' = m \<and> t' = t)
    \<and> (ok \<longrightarrow>
        (\<forall>u. map_of m' u = (case map_of m u of Some ds \<Rightarrow> Some ds
           | None \<Rightarrow> if u \<in> set (rd_urls (root_entry root t)) \<and> covers scope u then Some [] else None))
        \<and> (\<forall>u. u \<in> set (rd_urls (root_entry root t')) \<longleftrightarrow>
             (case map_of m' u of Some ds \<Rightarrow> ds \<noteq> [] | None \<Rightarrow> False)
             \<or> u \<in> set (rd_urls (root_entry root t)) \<and> \<not> covers scope u)
        \<and> (\<forall>r. r \<noteq> root \<longrightarrow> root_entry r t' = root_entry r t))"
proof -
  note e = reconcile_entry [OF assms(1)]
  have lookup: "map_of m' u = (case map_of m u of Some ds \<Rightarrow> Some ds
      | None \<Rightarrow> if u \<in> set (rd_urls (root_entry root t)) \<and> covers scope u then Some [] else None)"
    if ok for u
    using e(3) [OF that] by (auto simp: fold_or_default split: option.split)
  have "u \<in> set (rd_urls (root_entry root t')) \<longleftrightarrow>
      (case map_of m' u of Some ds \<Rightarrow> ds \<noteq> [] | None \<Rightarrow> False)
      \<or> u \<in> set (rd_urls (root_entry root t)) \<and> \<not> covers scope u" if ok for u
  proof -
    have "distinct (map fst m')"
      using e(3) [OF that] fold_or_default_distinct [OF assms(2)] by simp
    from non_empty_urls [OF this, of u] that show ?thesis by (simp add: e(1))
  qed
  with e lookup show ?thesis by (auto simp: epoch_root_entry)
qed

text \<open>
  C15. Reconciling a run's diagnostics is exact: an outdated run changes nothing; otherwise every
  URL the run covers that had problems and has none now is published empty, what the run
  reported is published as reported, a URL the run did not cover is not published and stays
  tracked, and the root then tracks exactly the URLs the client shows problems for.
\<close>

theorem reconcile_is_exact:
  assumes "reconcile_success root epoch scope m t = (ok, m', t')" "distinct (map fst m)"
  shows "ok = (tracker_epoch t root = epoch)
    \<and> (\<not> ok \<longrightarrow> m' = m \<and> t' = t)
    \<and> (ok \<longrightarrow>
        (\<forall>u. map_of m' u = (case map_of m u of Some ds \<Rightarrow> Some ds
           | None \<Rightarrow> if u \<in> set (rd_urls (root_entry root t)) \<and> covers scope u then Some [] else None))
        \<and> (\<forall>u. u \<in> set (rd_urls (root_entry root t')) \<longleftrightarrow>
             (case map_of m' u of Some ds \<Rightarrow> ds \<noteq> [] | None \<Rightarrow> False)
             \<or> u \<in> set (rd_urls (root_entry root t)) \<and> \<not> covers scope u)
        \<and> (\<forall>r. r \<noteq> root \<longrightarrow> root_entry r t' = root_entry r t))"
  using assms by (rule reconcile_exact)

theorem reconcile_is_exact_witness:
  "map_of (fst (snd (reconcile_success [''p''] 1 Whole [(''b'', [])]
     [([''p''], \<lparr>rd_epoch = 1, rd_urls = [''a'']\<rparr>)]))) ''a'' = Some []"
proof -
  obtain ok m' t' where r: "reconcile_success [''p''] 1 Whole [(''b'', [])]
     [([''p''], \<lparr>rd_epoch = 1, rd_urls = [''a'']\<rparr>)] = (ok, m', t')" by (rule prod_cases3)
  from reconcile_is_exact [OF r] have "ok" "map_of m' ''a'' = Some []"
    by (simp_all add: tracker_epoch_def root_entry_def)
  with r show ?thesis by simp
qed

end
