(* ===== verification/Lsp_Watch.thy ===== *)
theory Lsp_Watch
  imports Lsp_Diagnostics
begin

unbundle bit_operations_syntax

text \<open>
  The file watcher's half of \<open>crates/marrow-lsp/src/backend.rs\<close>: which watched changes concern
  which project root, how a batch is summed up per root, and what it does to the tracker, the
  invalidation bits and the schedule.
\<close>

section \<open>Changes\<close>

datatype file_change = Created | Changed | Deleted

record watched_path_change =
  wc_uri :: url
  wc_path :: path
  wc_typ :: file_change

datatype watched_change =
    ProjectConfig path path bool        \<comment> \<open>root, path, deleted\<close>
  | AnalysisFile path path "url option" \<comment> \<open>root, path, deleted URL\<close>

record pending_root =
  pw_recompute_path :: "path option"
  pw_invalidate_project :: bool
  pw_invalidate_analysis :: bool
  pw_clear_root :: bool
  pw_deleted_urls :: "url list"

definition new_pending_root :: pending_root where
  "new_pending_root = \<lparr>pw_recompute_path = None, pw_invalidate_project = False,
     pw_invalidate_analysis = False, pw_clear_root = False, pw_deleted_urls = []\<rparr>"

record scheduled =
  sr_path :: path
  sr_root_epoch :: "(path \<times> nat) option"

record watch_effects =
  we_bits :: "8 word"
  we_schedules :: "scheduled list"
  we_clears :: "published list"
  we_project :: bool
  we_analysis :: bool

definition no_effects :: watch_effects where
  "no_effects = \<lparr>we_bits = 0, we_schedules = [], we_clears = [], we_project = False,
     we_analysis = False\<rparr>"

datatype clear_root_drain = Schedule | Skip

definition pending_analysis_invalidation :: "8 word" where
  "pending_analysis_invalidation = 1"

definition pending_project_invalidation :: "8 word" where
  "pending_project_invalidation = 2"

text \<open>The committed lock and the native store, by the names Marrow documents.\<close>

definition committed_lock_file :: string where
  "committed_lock_file = ''marrow.lock''"

definition native_store_file_name :: string where
  "native_store_file_name = ''marrow.redb''"

section \<open>One entry per root\<close>

definition pending_entry :: "path \<Rightarrow> (path \<times> pending_root) list \<Rightarrow> pending_root" where
  "pending_entry root m = (case map_of m root of None \<Rightarrow> new_pending_root | Some p \<Rightarrow> p)"

fun pending_step :: "watched_change \<Rightarrow> (path \<times> pending_root) list \<Rightarrow> (path \<times> pending_root) list" where
  "pending_step (ProjectConfig root p deleted) m =
     (let e = (pending_entry root m)\<lparr>pw_invalidate_project := True, pw_recompute_path := Some p\<rparr>
      in AList.update root
           (if deleted then e\<lparr>pw_clear_root := True, pw_deleted_urls := []\<rparr> else e) m)"
| "pending_step (AnalysisFile root p deleted_url) m =
     (let e = (pending_entry root m)\<lparr>pw_invalidate_analysis := True\<rparr>;
          e1 = (if \<not> pw_clear_root e \<and> pw_recompute_path e = None
                then e\<lparr>pw_recompute_path := Some p\<rparr> else e);
          e2 = (case deleted_url of
                  Some u \<Rightarrow> if \<not> pw_clear_root e1
                    then e1\<lparr>pw_deleted_urls := List.insert u (pw_deleted_urls e1)\<rparr> else e1
                | None \<Rightarrow> e1)
      in AList.update root e2 m)"

definition pending_watched_roots :: "watched_change list \<Rightarrow> (path \<times> pending_root) list" where
  "pending_watched_roots events = fold pending_step events []"

text \<open>The loop over the deleted URLs of a root that stays.\<close>

definition clear_deleted ::
  "(url \<times> int option) list \<Rightarrow> path \<Rightarrow> url \<Rightarrow> published list \<times> tracker \<Rightarrow> published list \<times> tracker" where
  "clear_deleted versions root u st =
     (case st of (clears, t) \<Rightarrow>
        if map_of versions u \<noteq> None then st
        else (case clear_url root u t of (removed, t') \<Rightarrow>
          (if removed then clears @ [clear_publish u versions] else clears, t')))"

text \<open>The bits of one root, and the flags when it is the current root.\<close>

definition raise_flags :: "path option \<Rightarrow> path \<Rightarrow> pending_root \<Rightarrow> watch_effects \<Rightarrow> watch_effects" where
  "raise_flags current_root root p e =
     (let e1 = e\<lparr>we_bits := we_bits e
                  OR (if pw_invalidate_project p then pending_project_invalidation else 0)
                  OR (if pw_invalidate_analysis p then pending_analysis_invalidation else 0)\<rparr>
      in if current_root = Some root
         then e1\<lparr>we_project := (we_project e1 \<or> pw_invalidate_project p),
                 we_analysis := (we_analysis e1 \<or> pw_invalidate_analysis p)\<rparr> else e1)"

lemma raise_flags_frame [simp]:
  "we_schedules (raise_flags current_root root p e) = we_schedules e"
  "we_clears (raise_flags current_root root p e) = we_clears e"
  by (simp_all add: raise_flags_def Let_def)

definition effects_step ::
  "(url \<times> int option) list \<Rightarrow> path option \<Rightarrow> clear_root_drain \<Rightarrow> path \<times> pending_root
   \<Rightarrow> watch_effects \<times> tracker \<Rightarrow> watch_effects \<times> tracker" where
  "effects_step versions current_root drain rp st =
     (case rp of (root, p) \<Rightarrow> case st of (e, t) \<Rightarrow>
      let e = raise_flags current_root root p e
      in if pw_clear_root p then
           (let (epoch, t1) = bump_root_epoch root t;
                (urls, t2) = clear_root root t1;
                e = e\<lparr>we_clears := we_clears e @ map (\<lambda>u. clear_publish u versions) urls\<rparr>
            in case (drain, pw_recompute_path p) of
                 (Schedule, Some r) \<Rightarrow> (e\<lparr>we_schedules := we_schedules e
                    @ [\<lparr>sr_path = r, sr_root_epoch = Some (root, epoch)\<rparr>]\<rparr>, t2)
               | _ \<Rightarrow> (e, t2))
         else
           (let (clears, t1) = fold (clear_deleted versions root) (sort_urls (pw_deleted_urls p))
                  (we_clears e, t);
                e = e\<lparr>we_clears := clears\<rparr>
            in case pw_recompute_path p of
                 Some r \<Rightarrow>
                   (case bump_root_epoch root t1 of (epoch, t2) \<Rightarrow>
                      (e\<lparr>we_schedules := we_schedules e
                         @ [\<lparr>sr_path = r, sr_root_epoch = Some (root, epoch)\<rparr>]\<rparr>, t2))
               | None \<Rightarrow> (e, t1)))"

definition watched_root_effects ::
  "tracker \<Rightarrow> (url \<times> int option) list \<Rightarrow> (path \<times> pending_root) list \<Rightarrow> path option
   \<Rightarrow> clear_root_drain \<Rightarrow> watch_effects \<times> tracker" where
  "watched_root_effects t versions pending current_root drain =
     fold (effects_step versions current_root drain) pending (no_effects, t)"

section \<open>Which changes matter\<close>

definition tracked_root_analysis_change :: "path \<Rightarrow> watched_path_change \<Rightarrow> bool" where
  "tracked_root_analysis_change root c \<longleftrightarrow>
     wc_path c = root @ [committed_lock_file] \<or> path_extension (wc_path c) = Some ''mw''
     \<or> path_file_name (wc_path c) = Some native_store_file_name"

definition nearest_project_root :: "(path \<Rightarrow> bool) \<Rightarrow> path \<Rightarrow> path option" where
  "nearest_project_root is_file p = find (\<lambda>d. is_file (d @ [ws_config_file])) (ancestors p)"

definition snapshot_has_file :: "analysis option \<Rightarrow> path \<Rightarrow> bool" where
  "snapshot_has_file s p = (case s of None \<Rightarrow> False | Some s \<Rightarrow> list_ex (\<lambda>f. af_path f = p) (an_files s))"

definition watched_project_changes ::
  "('c, 'ix) check_api \<Rightarrow> ('c, 'cat, 'ix) workspace \<Rightarrow> watched_path_change list
   \<Rightarrow> watched_change list" where
  "watched_project_changes M ws changes =
     (case ws_project ws of None \<Rightarrow> []
      | Some pr \<Rightarrow>
        (case find (\<lambda>c. wc_path c = pr_root pr @ [ws_config_file]) changes of
           Some c \<Rightarrow> [ProjectConfig (pr_root pr) (wc_path c) (wc_typ c = Deleted)]
         | None \<Rightarrow>
             (case find (\<lambda>c. wc_path c = pr_root pr @ [committed_lock_file]) changes of
                Some c \<Rightarrow> [AnalysisFile (pr_root pr) (wc_path c) None] | None \<Rightarrow> [])
             @ (case store_file M pr of None \<Rightarrow> []
                | Some sp \<Rightarrow> (case find (\<lambda>c. wc_path c = sp) changes of
                    Some c \<Rightarrow> [AnalysisFile (pr_root pr) (wc_path c) None] | None \<Rightarrow> []))
             @ (case find (\<lambda>c. analyzes_file M pr (wc_path c)
                               \<or> snapshot_has_file (ws_latest ws) (wc_path c)) changes of
                  Some c \<Rightarrow> [AnalysisFile (pr_root pr) (wc_path c)
                    (if wc_typ c = Deleted then Some (wc_uri c) else None)]
                | None \<Rightarrow> [])))"

definition watched_tracked_change :: "tracker \<Rightarrow> watched_path_change \<Rightarrow> watched_change list" where
  "watched_tracked_change t c =
     (case tracked_root_for_config_path t (wc_path c) of
        Some root \<Rightarrow> [ProjectConfig root (wc_path c) (wc_typ c = Deleted)]
      | None \<Rightarrow>
          (case tracked_root_for_path t (wc_path c) of None \<Rightarrow> []
           | Some root \<Rightarrow>
               if tracked_root_analysis_change root c
               then [AnalysisFile root (wc_path c)
                      (if wc_typ c = Deleted \<and> tracked_root_for_url t (wc_uri c) = Some root
                       then Some (wc_uri c) else None)]
               else []))"

definition watched_tracked_diagnostic_changes ::
  "tracker \<Rightarrow> watched_path_change list \<Rightarrow> watched_change list" where
  "watched_tracked_diagnostic_changes t changes = concat (map (watched_tracked_change t) changes)"

definition watched_untracked_change ::
  "(path \<Rightarrow> bool) \<Rightarrow> tracker \<Rightarrow> watched_path_change \<Rightarrow> watched_change list" where
  "watched_untracked_change is_file t c =
     (if tracked_root_for_config_path t (wc_path c) \<noteq> None
         \<or> tracked_root_for_path t (wc_path c) \<noteq> None then []
      else if path_file_name (wc_path c) = Some ws_config_file then
        (case path_parent (wc_path c) of
           Some root \<Rightarrow> [ProjectConfig root (wc_path c) (wc_typ c = Deleted)] | None \<Rightarrow> [])
      else (case nearest_project_root is_file (wc_path c) of None \<Rightarrow> []
        | Some root \<Rightarrow> if tracked_root_analysis_change root c
                       then [AnalysisFile root (wc_path c) None] else []))"

definition busy_watched_project_changes ::
  "(path \<Rightarrow> bool) \<Rightarrow> tracker \<Rightarrow> watched_path_change list \<Rightarrow> watched_change list" where
  "busy_watched_project_changes is_file t changes =
     watched_tracked_diagnostic_changes t changes
     @ concat (map (watched_untracked_change is_file t) changes)"

definition pre_invalidation_bits :: "(path \<Rightarrow> bool) \<Rightarrow> watched_path_change \<Rightarrow> 8 word" where
  "pre_invalidation_bits is_file c =
     (if path_file_name (wc_path c) = Some ws_config_file then pending_project_invalidation
      else if (path_file_name (wc_path c) = Some committed_lock_file
               \<or> path_file_name (wc_path c) = Some native_store_file_name
               \<or> path_extension (wc_path c) = Some ''mw'')
              \<and> nearest_project_root is_file (wc_path c) \<noteq> None
      then pending_analysis_invalidation else 0)"

definition busy_watched_pre_invalidation_bits ::
  "(path \<Rightarrow> bool) \<Rightarrow> watched_path_change list \<Rightarrow> 8 word" where
  "busy_watched_pre_invalidation_bits is_file changes =
     fold (\<lambda>c bits. bits OR pre_invalidation_bits is_file c) changes 0"

definition apply_pending_workspace_invalidation ::
  "('c, 'ix) check_api \<Rightarrow> 8 word \<Rightarrow> ('c, 'cat, 'ix) workspace \<Rightarrow> ('c, 'cat, 'ix) workspace" where
  "apply_pending_workspace_invalidation M bits ws =
     (if bits AND pending_project_invalidation \<noteq> 0 then invalidate_project ws
      else if bits AND pending_analysis_invalidation \<noteq> 0 then invalidate_analysis M ws
      else ws)"

end
