(* ===== verification/Lsp_Watch_Laws.thy ===== *)
theory Lsp_Watch_Laws
  imports Lsp_Watch
begin

text \<open>
  What a batch of watched changes leaves behind: every root it concerns gets a new epoch, and
  either a recompute scheduled under that epoch or, for a deleted project, its published
  problems cleared.
\<close>

definition event_root :: "watched_change \<Rightarrow> path" where
  "event_root e = (case e of ProjectConfig root p d \<Rightarrow> root | AnalysisFile root p u \<Rightarrow> root)"

lemma pending_step_other: "r \<noteq> event_root e \<Longrightarrow> map_of (pending_step e m) r = map_of m r"
  by (cases e) (simp_all add: event_root_def Let_def update_conv')

lemma pending_step_own:
  "\<exists>p. map_of (pending_step e m) (event_root e) = Some p \<and> pw_recompute_path p \<noteq> None"
  if "\<forall>p. map_of m (event_root e) = Some p \<longrightarrow> pw_recompute_path p \<noteq> None"
proof (cases e)
  case (AnalysisFile root p u)
  with that show ?thesis
    by (cases "map_of m root"; cases u)
      (auto simp: event_root_def Let_def update_conv' pending_entry_def new_pending_root_def)
qed (auto simp: event_root_def Let_def update_conv' pending_entry_def)

lemma pending_step_paths:
  assumes "\<forall>r p. map_of m r = Some p \<longrightarrow> pw_recompute_path p \<noteq> None"
  shows "\<forall>r p. map_of (pending_step e m) r = Some p \<longrightarrow> pw_recompute_path p \<noteq> None"
  using pending_step_own [of m e] pending_step_other [of _ e m] assms by (metis option.inject)

lemma pending_step_distinct:
  "distinct (map fst m) \<Longrightarrow> distinct (map fst (pending_step e m))"
  by (cases e) (simp_all add: Let_def distinct_update)

lemma pending_roots:
  "distinct (map fst (pending_watched_roots events))"
  "map_of (pending_watched_roots events) r = Some p \<Longrightarrow> pw_recompute_path p \<noteq> None"
  "e \<in> set events \<Longrightarrow> \<exists>p. map_of (pending_watched_roots events) (event_root e) = Some p"
proof -
  define good where "good m \<longleftrightarrow> distinct (map fst m)
      \<and> (\<forall>r p. map_of m r = Some p \<longrightarrow> pw_recompute_path p \<noteq> None)" for m :: "(path \<times> pending_root) list"
  have step: "good m \<Longrightarrow> good (pending_step e m)" for e m
    unfolding good_def using pending_step_distinct pending_step_paths by blast
  have all: "good m \<Longrightarrow> good (fold pending_step es m)" for es m
    by (induction es arbitrary: m) (simp_all add: step)
  have start: "good []" by (simp add: good_def)
  from all [OF start, of events]
  show "distinct (map fst (pending_watched_roots events))"
    "map_of (pending_watched_roots events) r = Some p \<Longrightarrow> pw_recompute_path p \<noteq> None"
    by (auto simp: good_def pending_watched_roots_def)
  have keep: "good m \<Longrightarrow> map_of m r \<noteq> None \<Longrightarrow> map_of (fold pending_step es m) r \<noteq> None" for es m r
  proof (induction es arbitrary: m)
    case (Cons x es)
    have "map_of (pending_step x m) r \<noteq> None"
    proof (cases "r = event_root x")
      case True
      with pending_step_own [of m x] Cons.prems(1) show ?thesis by (auto simp: good_def)
    qed (simp add: pending_step_other Cons.prems(2))
    with Cons step show ?case by simp
  qed simp
  have "e \<in> set es \<Longrightarrow> good m \<Longrightarrow> map_of (fold pending_step es m) (event_root e) \<noteq> None" for es m
  proof (induction es arbitrary: m)
    case (Cons x es)
    show ?case
    proof (cases "e = x")
      case True
      have "map_of (pending_step x m) (event_root x) \<noteq> None"
        using pending_step_own [of m x] Cons.prems(2) by (auto simp: good_def)
      with keep [OF step [OF Cons.prems(2)]] True show ?thesis by simp
    next
      case False
      with Cons.IH [OF _ step [OF Cons.prems(2)]] Cons.prems(1) show ?thesis by simp
    qed
  qed simp
  from this [OF _ start, of events]
  show "e \<in> set events \<Longrightarrow> \<exists>p. map_of (pending_watched_roots events) (event_root e) = Some p"
    by (simp add: pending_watched_roots_def)
qed

section \<open>One root's effects\<close>

text \<open>
  What clearing does to the tracker and the publishes: other roots are left alone, epochs stay,
  and a URL leaves the tracker only with an empty publish for it.
\<close>

definition clears_to ::
  "(url \<times> int option) list \<Rightarrow> published list \<times> tracker \<Rightarrow> published list \<times> tracker \<Rightarrow> bool" where
  "clears_to versions st st' \<longleftrightarrow>
     (\<forall>r. rd_epoch (root_entry r (snd st')) = rd_epoch (root_entry r (snd st)))
     \<and> (\<forall>r. set (rd_urls (root_entry r (snd st))) \<subseteq> set (rd_urls (root_entry r (snd st')))
           \<union> {u. clear_publish u versions \<in> set (fst st')})
     \<and> set (fst st) \<subseteq> set (fst st')
     \<and> (\<forall>p\<in>set (fst st') - set (fst st). pb_diagnostics p = [])"

lemma clears_to_refl [simp]: "clears_to versions st st"
  by (auto simp: clears_to_def)

lemma clears_to_trans [trans]:
  "clears_to versions st1 st2 \<Longrightarrow> clears_to versions st2 st3 \<Longrightarrow> clears_to versions st1 st3"
  unfolding clears_to_def by (elim conjE, intro conjI; (simp; fail)?; blast)

lemma clear_deleted_to: "clears_to versions st (clear_deleted versions root u st)"
proof (cases "map_of versions u = None")
  case True
  obtain clears t where st: "st = (clears, t)" by fastforce
  obtain removed t1 where c: "clear_url root u t = (removed, t1)" by fastforce
  have e: "root_entry r t1 = (if r = root then (root_entry root t)\<lparr>rd_urls :=
      removeAll u (rd_urls (root_entry root t))\<rparr> else root_entry r t)" for r
    using root_entry_clear_url [of r root u t] c by simp
  have "removed \<longleftrightarrow> u \<in> set (rd_urls (root_entry root t))"
    using c by (auto simp: clear_url_def root_entry_def new_root_diagnostics_def split: option.splits)
  with True c show ?thesis
    unfolding st by (auto simp: clears_to_def clear_deleted_def e clear_publish_def)
qed (auto simp: clear_deleted_def)

lemma clear_deleted_fold: "clears_to versions st (fold (clear_deleted versions root) us st)"
proof (induction us arbitrary: st)
  case (Cons u us)
  show ?case using clears_to_trans [OF clear_deleted_to Cons.IH] by simp
qed simp

lemma clear_deleted_other:
  "r \<noteq> root \<Longrightarrow> root_entry r (snd (fold (clear_deleted versions root) us st)) = root_entry r (snd st)"
proof (induction us arbitrary: st)
  case (Cons u us)
  have "root_entry r (snd (clear_deleted versions root u st)) = root_entry r (snd st)"
  proof (cases st)
    case (Pair clears t)
    obtain removed t1 where "clear_url root u t = (removed, t1)" by fastforce
    with Pair Cons.prems root_entry_clear_url [of r root u t] show ?thesis
      by (simp add: clear_deleted_def)
  qed
  with Cons show ?case by simp
qed simp

text \<open>The effect of one root: \<open>left\<close> says what it leaves for the root.\<close>

definition scheduled_or_cleared ::
  "clear_root_drain \<Rightarrow> (url \<times> int option) list \<Rightarrow> tracker \<Rightarrow> path \<times> pending_root
   \<Rightarrow> watch_effects \<times> tracker \<Rightarrow> bool" where
  "scheduled_or_cleared drain versions t rp st =
     (case rp of (root, p) \<Rightarrow> case st of (e, t') \<Rightarrow>
        rd_epoch (root_entry root t') = Suc (rd_epoch (root_entry root t))
        \<and> set (rd_urls (root_entry root t)) \<subseteq> set (rd_urls (root_entry root t'))
             \<union> {u. clear_publish u versions \<in> set (we_clears e)}
        \<and> (if pw_clear_root p \<and> drain = Skip then rd_urls (root_entry root t') = []
           else \<exists>s\<in>set (we_schedules e).
                  sr_root_epoch s = Some (root, rd_epoch (root_entry root t'))))"

lemma effects_step_own:
  assumes "pw_recompute_path p \<noteq> None"
  shows "scheduled_or_cleared drain versions t (root, p)
    (effects_step versions current_root drain (root, p) (e, t))"
proof -
  obtain x where x: "pw_recompute_path p = Some x" using assms by blast
  show ?thesis
  proof (cases "pw_clear_root p")
    case True
    obtain epoch t1 where b: "bump_root_epoch root t = (epoch, t1)" by fastforce
    obtain urls t2 where c: "clear_root root t1 = (urls, t2)" by fastforce
    have t1: "root_entry root t1 = (root_entry root t)\<lparr>rd_epoch := Suc (rd_epoch (root_entry root t))\<rparr>"
      "epoch = Suc (rd_epoch (root_entry root t))"
      using root_entry_bump [of root root t] bump_fst [of root t] b by simp_all
    have t2: "root_entry root t2 = (root_entry root t1)\<lparr>rd_urls := []\<rparr>"
      "set urls = set (rd_urls (root_entry root t1))"
      using root_entry_clear [of root root t1] clear_root_urls [of root t1] c by simp_all
    show ?thesis
      using True b c t1 t2 x
      by (cases drain) (auto simp: effects_step_def scheduled_or_cleared_def Let_def)
  next
    case False
    let ?st = "fold (clear_deleted versions root) (sort_urls (pw_deleted_urls p)) (we_clears e, t)"
    obtain clears t1 where f: "?st = (clears, t1)" by fastforce
    have t1: "clears_to versions (we_clears e, t) (clears, t1)"
      using clear_deleted_fold [of versions "(we_clears e, t)" root] f by metis
    obtain epoch t2 where b: "bump_root_epoch root t1 = (epoch, t2)" by fastforce
    have t2: "root_entry root t2 = (root_entry root t1)\<lparr>rd_epoch := Suc (rd_epoch (root_entry root t1))\<rparr>"
      "epoch = Suc (rd_epoch (root_entry root t1))"
      using root_entry_bump [of root root t1] bump_fst [of root t1] b by simp_all
    show ?thesis
      using False f b t1 t2 x
      by (auto simp: effects_step_def scheduled_or_cleared_def Let_def clears_to_def)
  qed
qed

text \<open>What later roots cannot undo.\<close>

definition effects_grow ::
  "watch_effects \<times> tracker \<Rightarrow> watch_effects \<times> tracker \<Rightarrow> bool" where
  "effects_grow st st' \<longleftrightarrow> set (we_schedules (fst st)) \<subseteq> set (we_schedules (fst st'))
     \<and> set (we_clears (fst st)) \<subseteq> set (we_clears (fst st'))
     \<and> (\<forall>p\<in>set (we_clears (fst st')) - set (we_clears (fst st)). pb_diagnostics p = [])"

lemma effects_grow_refl [simp]: "effects_grow st st"
  by (simp add: effects_grow_def)

lemma effects_grow_trans [trans]:
  "effects_grow st1 st2 \<Longrightarrow> effects_grow st2 st3 \<Longrightarrow> effects_grow st1 st3"
  unfolding effects_grow_def by (elim conjE, intro conjI; blast)

lemma effects_step_grow:
  "effects_grow (e, t) (effects_step versions current_root drain (root, p) (e, t))
   \<and> (\<forall>r. r \<noteq> root \<longrightarrow> root_entry r (snd (effects_step versions current_root drain (root, p) (e, t)))
        = root_entry r t)"
proof (cases "pw_clear_root p")
  case True
  obtain epoch t1 where b: "bump_root_epoch root t = (epoch, t1)" by fastforce
  obtain urls t2 where c: "clear_root root t1 = (urls, t2)" by fastforce
  have "root_entry r t2 = root_entry r t" if "r \<noteq> root" for r
    using that root_entry_bump [of r root t] root_entry_clear [of r root t1] b c by simp
  with True b c show ?thesis
    by (auto simp: effects_step_def effects_grow_def Let_def clear_publish_def
        split: option.split clear_root_drain.split)
next
  case False
  let ?st = "fold (clear_deleted versions root) (sort_urls (pw_deleted_urls p)) (we_clears e, t)"
  obtain clears t1 where f: "?st = (clears, t1)" by fastforce
  have t1: "clears_to versions (we_clears e, t) (clears, t1)"
    using clear_deleted_fold [of versions "(we_clears e, t)" root] f by metis
  obtain epoch t2 where b: "bump_root_epoch root t1 = (epoch, t2)" by fastforce
  have "root_entry r t1 = root_entry r t \<and> root_entry r t2 = root_entry r t" if "r \<noteq> root" for r
    using that root_entry_bump [of r root t1] b
      clear_deleted_other [OF that, of versions "sort_urls (pw_deleted_urls p)" "(we_clears e, t)"] f
    by simp
  with False f b t1 show ?thesis
    by (auto simp: effects_step_def effects_grow_def Let_def clears_to_def split: option.split)
qed

lemma effects_fold_grow:
  "effects_grow st (fold (effects_step versions current_root drain) pending st)
   \<and> (\<forall>r. r \<notin> fst ` set pending \<longrightarrow>
        root_entry r (snd (fold (effects_step versions current_root drain) pending st))
        = root_entry r (snd st))"
proof (induction pending arbitrary: st)
  case (Cons x pending)
  obtain root p e t where "x = (root, p)" "st = (e, t)" by (metis surj_pair)
  with effects_step_grow [of e t versions current_root drain root p]
    Cons.IH [of "effects_step versions current_root drain x st"] show ?case
    by (auto intro: effects_grow_trans)
qed simp

lemma effects_of_root:
  assumes "distinct (map fst pending)" "(root, p) \<in> set pending" "pw_recompute_path p \<noteq> None"
  shows "scheduled_or_cleared drain versions t (root, p)
    (fold (effects_step versions current_root drain) pending (e, t))"
proof -
  let ?step = "effects_step versions current_root drain"
  from assms(2) obtain pre post where pending: "pending = pre @ (root, p) # post"
    by (meson split_list)
  obtain e1 t1 where st1: "fold ?step pre (e, t) = (e1, t1)" by fastforce
  obtain e2 t2 where st2: "?step (root, p) (e1, t1) = (e2, t2)" by fastforce
  obtain e3 t3 where st3: "fold ?step post (e2, t2) = (e3, t3)" by fastforce
  have "root \<notin> fst ` set pre" "root \<notin> fst ` set post" using assms(1) pending by auto
  then have "root_entry root t1 = root_entry root t" "root_entry root t3 = root_entry root t2"
    and grow: "effects_grow (e2, t2) (e3, t3)"
    using effects_fold_grow [of "(e, t)" versions current_root drain pre]
      effects_fold_grow [of "(e2, t2)" versions current_root drain post] st1 st3 by simp_all
  moreover have "scheduled_or_cleared drain versions t1 (root, p) (e2, t2)"
    using effects_step_own [OF assms(3), of drain versions t1 root current_root e1] st2 by simp
  moreover have "fold ?step pending (e, t) = (e3, t3)" using pending st1 st2 st3 by simp
  ultimately show ?thesis
    by (auto simp: scheduled_or_cleared_def effects_grow_def) blast+
qed

section \<open>Invalidations\<close>

text \<open>What is summed up of a root's events.\<close>

lemma pending_entry_map: "map_of m r = Some p \<Longrightarrow> pending_entry r m = p"
  by (simp add: pending_entry_def)

lemma pending_entry_update: "pending_entry r (AList.update r' p m) = (if r = r' then p else pending_entry r m)"
  by (simp add: pending_entry_def update_conv')

lemma pending_flags:
  "pw_invalidate_project (pending_entry r (pending_watched_roots events))
     \<longleftrightarrow> (\<exists>p deleted. ProjectConfig r p deleted \<in> set events)"
  "pw_invalidate_analysis (pending_entry r (pending_watched_roots events))
     \<longleftrightarrow> (\<exists>p u. AnalysisFile r p u \<in> set events)"
  "pw_clear_root (pending_entry r (pending_watched_roots events))
     \<longleftrightarrow> (\<exists>p. ProjectConfig r p True \<in> set events)"
proof (induction events rule: rev_induct)
  case Nil
  { case 1 show ?case by (simp add: pending_watched_roots_def pending_entry_def new_pending_root_def) }
  { case 2 show ?case by (simp add: pending_watched_roots_def pending_entry_def new_pending_root_def) }
  { case 3 show ?case by (simp add: pending_watched_roots_def pending_entry_def new_pending_root_def) }
next
  case (snoc e events)
  have step: "pending_watched_roots (events @ [e]) = pending_step e (pending_watched_roots events)"
    by (simp add: pending_watched_roots_def)
  { case 1 show ?case
      using snoc(1) unfolding step
      by (cases e) (auto simp: pending_entry_update Let_def split: option.split) }
  { case 2 show ?case
      using snoc(2) unfolding step
      by (cases e) (auto simp: pending_entry_update Let_def split: option.split) }
  { case 3 show ?case
      using snoc(3) unfolding step
      by (cases e) (auto simp: pending_entry_update Let_def split: option.split) }
qed

text \<open>The bits and flags of the effects, after any roots.\<close>

definition raised :: "path option \<Rightarrow> (path \<times> pending_root) list \<Rightarrow> watch_effects \<Rightarrow> watch_effects \<Rightarrow> bool" where
  "raised current_root pending e e' \<longleftrightarrow>
     (bit (we_bits e') 1 \<longleftrightarrow> bit (we_bits e) 1 \<or> list_ex (\<lambda>(root, p). pw_invalidate_project p) pending)
     \<and> (bit (we_bits e') 0 \<longleftrightarrow> bit (we_bits e) 0 \<or> list_ex (\<lambda>(root, p). pw_invalidate_analysis p) pending)
     \<and> (we_project e' \<longleftrightarrow> we_project e
          \<or> list_ex (\<lambda>(root, p). current_root = Some root \<and> pw_invalidate_project p) pending)
     \<and> (we_analysis e' \<longleftrightarrow> we_analysis e
          \<or> list_ex (\<lambda>(root, p). current_root = Some root \<and> pw_invalidate_analysis p) pending)"

lemma raise_flags_raised: "raised current_root [(root, p)] e (raise_flags current_root root p e)"
  by (auto simp: raised_def raise_flags_def Let_def bit_or_iff pending_project_invalidation_def
      pending_analysis_invalidation_def bit_numeral_rec(1) bit_1_iff)

lemma raised_frame:
  "raised current_root pending e e' \<Longrightarrow> we_bits e'' = we_bits e' \<Longrightarrow> we_project e'' = we_project e'
   \<Longrightarrow> we_analysis e'' = we_analysis e' \<Longrightarrow> raised current_root pending e e''"
  by (simp add: raised_def)

lemma effects_step_raised:
  "raised current_root [(root, p)] e (fst (effects_step versions current_root drain (root, p) (e, t)))"
  by (rule raised_frame [OF raise_flags_raised])
    (auto simp: effects_step_def Let_def split: prod.split option.split clear_root_drain.split)

lemma effects_fold_raised:
  "raised current_root pending (fst st) (fst (fold (effects_step versions current_root drain) pending st))"
proof (induction pending arbitrary: st)
  case Nil
  then show ?case by (simp add: raised_def)
next
  case (Cons x pending)
  obtain root p e t where x: "x = (root, p)" "st = (e, t)" by (metis surj_pair)
  with effects_step_raised [of current_root root p e versions drain t]
    Cons.IH [of "effects_step versions current_root drain x st"]
  show ?case by (auto simp: raised_def)
qed

lemma bit_masks:
  "x AND pending_project_invalidation \<noteq> 0 \<longleftrightarrow> bit x 1"
  "x AND pending_analysis_invalidation \<noteq> 0 \<longleftrightarrow> bit x 0"
proof -
  have "pending_project_invalidation = push_bit 1 1" by (simp add: pending_project_invalidation_def)
  then show "x AND pending_project_invalidation \<noteq> 0 \<longleftrightarrow> bit x 1"
    by (simp add: bit_iff_and_push_bit_not_eq_0)
  show "x AND pending_analysis_invalidation \<noteq> 0 \<longleftrightarrow> bit x 0"
    by (simp add: bit_iff_and_push_bit_not_eq_0 pending_analysis_invalidation_def)
qed

lemma watched_flags:
  assumes "watched_root_effects t versions (pending_watched_roots events) current_root drain = (e, t')"
  shows "we_bits e AND pending_project_invalidation \<noteq> 0
      \<longleftrightarrow> (\<exists>root p deleted. ProjectConfig root p deleted \<in> set events)"
    "we_bits e AND pending_analysis_invalidation \<noteq> 0
      \<longleftrightarrow> (\<exists>root p u. AnalysisFile root p u \<in> set events)"
    "we_project e \<longleftrightarrow> (\<exists>root p deleted. current_root = Some root \<and> ProjectConfig root p deleted \<in> set events)"
    "we_analysis e \<longleftrightarrow> (\<exists>root p u. current_root = Some root \<and> AnalysisFile root p u \<in> set events)"
proof -
  let ?pending = "pending_watched_roots events"
  have r: "raised current_root ?pending no_effects e"
    using effects_fold_raised [of current_root ?pending "(no_effects, t)" versions drain] assms
    by (simp add: watched_root_effects_def)
  have listed: "(\<exists>root. P root (pending_entry root ?pending) \<and> map_of ?pending root \<noteq> None)
      \<longleftrightarrow> list_ex (\<lambda>(root, p). P root p) ?pending" for P
  proof
    assume "\<exists>root. P root (pending_entry root ?pending) \<and> map_of ?pending root \<noteq> None"
    then obtain root p where "map_of ?pending root = Some p" "P root (pending_entry root ?pending)" by blast
    then show "list_ex (\<lambda>(root, p). P root p) ?pending"
      using map_of_SomeD [of ?pending root p] by (auto simp: list_ex_iff pending_entry_map)
  next
    assume "list_ex (\<lambda>(root, p). P root p) ?pending"
    then obtain root p where "(root, p) \<in> set ?pending" "P root p" by (auto simp: list_ex_iff)
    then have "map_of ?pending root = Some p" "P root p"
      using map_of_is_SomeI [OF pending_roots(1)] by simp_all
    then show "\<exists>root. P root (pending_entry root ?pending) \<and> map_of ?pending root \<noteq> None"
      by (intro exI [of _ root]) (simp add: pending_entry_map)
  qed
  have there: "map_of ?pending root \<noteq> None" if "event \<in> set events" "event_root event = root" for event root
    using pending_roots(3) [OF that(1)] that(2) by auto
  have config: "map_of ?pending root \<noteq> None" if "ProjectConfig root p deleted \<in> set events" for root p deleted
    by (rule there [OF that]) (simp add: event_root_def)
  have source: "map_of ?pending root \<noteq> None" if "AnalysisFile root p u \<in> set events" for root p u
    by (rule there [OF that]) (simp add: event_root_def)
  have facts:
    "bit (we_bits e) 1 \<longleftrightarrow> (\<exists>root. (\<exists>p deleted. ProjectConfig root p deleted \<in> set events)
       \<and> map_of ?pending root \<noteq> None)"
    "bit (we_bits e) 0 \<longleftrightarrow> (\<exists>root. (\<exists>p u. AnalysisFile root p u \<in> set events) \<and> map_of ?pending root \<noteq> None)"
    "we_project e \<longleftrightarrow> (\<exists>root. (current_root = Some root \<and> (\<exists>p deleted. ProjectConfig root p deleted \<in> set events))
       \<and> map_of ?pending root \<noteq> None)"
    "we_analysis e \<longleftrightarrow> (\<exists>root. (current_root = Some root \<and> (\<exists>p u. AnalysisFile root p u \<in> set events))
       \<and> map_of ?pending root \<noteq> None)"
    using r listed [of "\<lambda>_ p. pw_invalidate_project p"] listed [of "\<lambda>_ p. pw_invalidate_analysis p"]
      listed [of "\<lambda>root p. current_root = Some root \<and> pw_invalidate_project p"]
      listed [of "\<lambda>root p. current_root = Some root \<and> pw_invalidate_analysis p"]
    unfolding raised_def pending_flags by (simp_all add: no_effects_def)
  show "we_bits e AND pending_project_invalidation \<noteq> 0
      \<longleftrightarrow> (\<exists>root p deleted. ProjectConfig root p deleted \<in> set events)"
    unfolding bit_masks facts(1) using config by blast
  show "we_bits e AND pending_analysis_invalidation \<noteq> 0
      \<longleftrightarrow> (\<exists>root p u. AnalysisFile root p u \<in> set events)"
    unfolding bit_masks facts(2) using source by blast
  show "we_project e \<longleftrightarrow> (\<exists>root p deleted. current_root = Some root \<and> ProjectConfig root p deleted \<in> set events)"
    unfolding facts(3) using config by blast
  show "we_analysis e \<longleftrightarrow> (\<exists>root p u. current_root = Some root \<and> AnalysisFile root p u \<in> set events)"
    unfolding facts(4) using source by blast
qed

text \<open>
  C19. No watched change is lost: for every event of a batch its root gets a new epoch, so that
  results computed before the change are dropped, and either a recompute is scheduled under
  exactly that epoch or, when the drain skips a project whose configuration was deleted, nothing
  of the root stays tracked; a URL leaves the tracker only with an empty publish for it. And the
  batch raises the invalidations its events ask for and no others: a configuration event the
  project bit, any other the analysis bit, and for the current project the flag as well.
\<close>

theorem watched_changes_take_effect:
  assumes "event \<in> set events"
    and "watched_root_effects t versions (pending_watched_roots events) current_root drain = (e, t')"
  shows "tracker_epoch t' (event_root event) = Suc (tracker_epoch t (event_root event))
    \<and> set (rd_urls (root_entry (event_root event) t))
        \<subseteq> set (rd_urls (root_entry (event_root event) t'))
          \<union> {u. clear_publish u versions \<in> set (we_clears e)}
    \<and> ((\<exists>s\<in>set (we_schedules e). sr_root_epoch s
            = Some (event_root event, tracker_epoch t' (event_root event)))
        \<or> drain = Skip \<and> (\<exists>p. ProjectConfig (event_root event) p True \<in> set events)
          \<and> rd_urls (root_entry (event_root event) t') = [])
    \<and> (we_bits e AND pending_project_invalidation \<noteq> 0
        \<longleftrightarrow> (\<exists>root p deleted. ProjectConfig root p deleted \<in> set events))
    \<and> (we_bits e AND pending_analysis_invalidation \<noteq> 0
        \<longleftrightarrow> (\<exists>root p u. AnalysisFile root p u \<in> set events))
    \<and> (we_project e \<longleftrightarrow> (\<exists>root p deleted. current_root = Some root \<and> ProjectConfig root p deleted \<in> set events))
    \<and> (we_analysis e \<longleftrightarrow> (\<exists>root p u. current_root = Some root \<and> AnalysisFile root p u \<in> set events))"
proof -
  obtain p where p: "map_of (pending_watched_roots events) (event_root event) = Some p"
    using pending_roots(3) [OF assms(1)] by blast
  have "scheduled_or_cleared drain versions t (event_root event, p) (e, t')"
    using effects_of_root [OF pending_roots(1) map_of_SomeD [OF p] pending_roots(2) [OF p]]
      assms(2) by (metis watched_root_effects_def)
  moreover have "pw_clear_root p \<longleftrightarrow> (\<exists>q. ProjectConfig (event_root event) q True \<in> set events)"
    using pending_flags(3) [of "event_root event" events] by (simp add: pending_entry_map [OF p])
  ultimately show ?thesis
    unfolding watched_flags [OF assms(2)]
    by (auto simp: scheduled_or_cleared_def epoch_root_entry split: if_splits)
qed

theorem watched_changes_take_effect_witness:
  "\<exists>e t'. watched_root_effects [([''/'', ''p''], \<lparr>rd_epoch = 4, rd_urls = [''u'']\<rparr>)] []
     (pending_watched_roots [ProjectConfig [''/'', ''p''] [''/'', ''p'', ''marrow.json''] True])
     (Some [''/'', ''p'']) Skip = (e, t')
   \<and> tracker_epoch t' [''/'', ''p''] = 5 \<and> we_project e \<and> \<not> we_analysis e"
proof -
  let ?t = "[([''/'', ''p''], \<lparr>rd_epoch = 4, rd_urls = [''u'']\<rparr>)]"
  let ?events = "[ProjectConfig [''/'', ''p''] [''/'', ''p'', ''marrow.json''] True]"
  obtain e t' where e: "watched_root_effects ?t [] (pending_watched_roots ?events) (Some [''/'', ''p'']) Skip
      = (e, t')" by fastforce
  with watched_changes_take_effect [OF _ e, of "hd ?events"] show ?thesis
    by (fastforce simp: event_root_def tracker_epoch_def [of ?t])
qed

section \<open>The busy path\<close>

lemma demo_ancestors:
  "ancestors [''/'', ''p'', ''q'', ''marrow.lock''] = [[''/'', ''p'', ''q''], [''/'', ''p''], [''/'']]"
  by (simp add: ancestors.simps path_parent_def)

lemma demo_find_dot: "find_char CHR ''.'' (rev ''marrow.lock'') = Some 4"
  by simp

text \<open>
  While the analysis is locked, the watcher raises the invalidation bits of a change before it
  decides which roots to recompute, and the two rules differ: a project nested in a tracked
  root whose lock changes sets a bit, which makes the recompute in flight drop its result, but
  no root is recomputed for it.
\<close>

theorem nested_lock_change_schedules_nothing:
  "let is_file = (\<lambda>p. p \<in> {[''/'', ''p'', ''marrow.json''], [''/'', ''p'', ''q'', ''marrow.json'']});
       t = [([''/'', ''p''], \<lparr>rd_epoch = 1, rd_urls = []\<rparr>)];
       change = \<lparr>wc_uri = ''file:///p/q/marrow.lock'',
                 wc_path = [''/'', ''p'', ''q'', ''marrow.lock''], wc_typ = Changed\<rparr>
   in busy_watched_pre_invalidation_bits is_file [change] = pending_analysis_invalidation
     \<and> busy_watched_project_changes is_file t [change] = []
     \<and> fst (watched_root_effects t [] (pending_watched_roots []) None Schedule) = no_effects"
  by (simp add: Let_def busy_watched_pre_invalidation_bits_def pre_invalidation_bits_def
      path_file_name_def path_extension_def ws_config_file_def committed_lock_file_def
      nearest_project_root_def demo_ancestors busy_watched_project_changes_def
      watched_tracked_diagnostic_changes_def watched_tracked_change_def
      tracked_root_for_config_path_def tracked_root_for_path_def tracked_root_analysis_change_def
      watched_untracked_change_def native_store_file_name_def watched_root_effects_def
      pending_watched_roots_def)

end
