(* ===== verification/Lsp_Workspace_Laws.thy ===== *)
theory Lsp_Workspace_Laws
  imports Lsp_Workspace
begin

text \<open>
  The workspace under any interleaving of its operations: prepared recomputes that are
  committed late or never, invalidations by the file watcher, and reads. What holds in every
  reachable workspace, and what a reader gets from it.
\<close>

section \<open>Steps\<close>

inductive workspace_step ::
  "('c, 'ix) check_api \<Rightarrow> ('c, 'cat, 'ix) workspace \<Rightarrow> ('c, 'cat, 'ix) workspace \<Rightarrow> bool"
  for M where
  prepared: "workspace_step M ws (snd (prepare_recompute M w file docs scope ws))"
| committed: "workspace_step M ws (snd (commit_recompute M generation epoch s ws))"
| indexed: "workspace_step M ws (binding_index M ws)"
| chosen: "workspace_step M ws (snd (choose_read_source M file ws))"
| analysis_invalidated: "workspace_step M ws (invalidate_analysis M ws)"
| project_invalidated: "workspace_step M ws (invalidate_project ws)"

text \<open>An index is built from a snapshot of the generation it is kept for.\<close>

definition index_of ::
  "('c, 'ix) check_api \<Rightarrow> analysis \<Rightarrow> 'ix \<Rightarrow> bool" where
  "index_of M s ix \<longleftrightarrow>
     (\<exists>s'. an_generation s' = an_generation s \<and> ix = build_binding_index M s')"

lemma index_of_built [simp]: "index_of M s (build_binding_index M s)"
  by (auto simp: index_of_def)

definition workspace_ok ::
  "('c, 'ix) check_api \<Rightarrow> ('c, 'cat, 'ix) workspace \<Rightarrow> bool" where
  "workspace_ok M ws \<longleftrightarrow>
     (case ws_latest ws of
        None \<Rightarrow> ws_index ws = None \<and> ws_latest_generation ws = None
      | Some s \<Rightarrow> ws_latest_generation ws \<noteq> None \<and> ws_project ws \<noteq> None
          \<and> (\<forall>ix. ws_index ws = Some ix \<longrightarrow> index_of M s ix
               \<and> (\<exists>k. ws_index_key ws = Some k \<and> ik_generation k = an_generation s))
          \<and> (snapshot_is_good s \<longrightarrow> ws_last_good ws = None))
     \<and> (\<forall>g ix. ws_last_good ws = Some (g, ix) \<longrightarrow> snapshot_is_good g \<and> index_of M g ix)"

lemma workspace_ok_new: "workspace_ok M new_workspace"
  by (simp add: workspace_ok_def new_workspace_def)

lemma resolve_project_root:
  assumes "resolve_project M w file = Inr pr"
  shows "starts_with file (pr_root pr) \<and> fw_is_file w (pr_root pr @ [ws_config_file])"
proof -
  from assms obtain root where "project_root_of w file = Some root" "pr_root pr = root"
    by (auto simp: resolve_project_def elim: ok_or.elims)
  then have "root \<in> set (ancestors file)" "fw_is_file w (root @ [ws_config_file])" "pr_root pr = root"
    by (auto simp: project_root_of_def find_Some_iff)
  then show ?thesis using ancestors_prefix [where d = root and p = "file"] by (auto simp: strict_prefix_def)
qed

text \<open>The project a recompute of \<open>file\<close> works on.\<close>

definition project_for ::
  "('c, 'ix) check_api \<Rightarrow> ('c, 'cat) fs_world \<Rightarrow> path
   \<Rightarrow> ('c, 'cat, 'ix) workspace \<Rightarrow> workspace_error + 'c project" where
  "project_for M w file ws =
     (case ws_project ws of
        Some pr \<Rightarrow> if starts_with file (pr_root pr) then Inr pr else resolve_project M w file
      | None \<Rightarrow> resolve_project M w file)"

lemma prepare_cases:
  assumes "prepare_recompute M w file docs scope ws = (r, ws')"
  obtains (unresolved) e where "project_for M w file ws = Inl e" "r = Inl e" "ws' = ws"
  | (failed) pr cache e where "project_for M w file ws = Inr pr" "r = Inl (WsContext e)"
      "ws' = ws\<lparr>ws_project := Some pr, ws_catalog := cache\<rparr>"
  | (prepared) pr cache p where "project_for M w file ws = Inr pr" "r = Inr p"
      "ws' = ws\<lparr>ws_project := Some pr, ws_catalog := cache\<rparr>"
      "pp_root p = pr_root pr" "pp_config p = pr_config pr"
      "pp_sources p = overlay_snapshot (pr_root pr) docs"
      "pp_generation p = ad_generation docs" "pp_epoch p = ws_epoch ws"
      "pp_source_only p = (scope = Interactive \<and> \<not> any_open_test_module M pr docs)"
proof (cases "project_for M w file ws")
  case (Inl e)
  with assms have "r = Inl e \<and> ws' = ws"
    by (auto simp: prepare_recompute_def project_for_def split: option.splits if_splits)
  with Inl unresolved show thesis by blast
next
  case (Inr pr)
  define ws1 where "ws1 = (if ws_project ws = Some pr \<and> starts_with file (pr_root pr) then ws
    else ws\<lparr>ws_project := Some pr, ws_catalog := new_binding_cache\<rparr>)"
  obtain b cache where b: "bind_catalog (fw_store w) (pr_root pr) (pr_config pr) (ws_catalog ws1)
      = (b, cache)" by fastforce
  have ws1: "ws1\<lparr>ws_catalog := cache\<rparr> = ws\<lparr>ws_project := Some pr, ws_catalog := cache\<rparr>"
    "ws_epoch ws1 = ws_epoch ws"
    by (auto simp: ws1_def)
  have "(case ws_project ws of
            Some pr \<Rightarrow> if starts_with file (pr_root pr) then Inr (pr, ws) else
              bind_result (resolve_project M w file) (\<lambda>pr. Inr (pr,
                ws\<lparr>ws_project := Some pr, ws_catalog := new_binding_cache\<rparr>))
          | None \<Rightarrow> bind_result (resolve_project M w file) (\<lambda>pr. Inr (pr,
                ws\<lparr>ws_project := Some pr, ws_catalog := new_binding_cache\<rparr>))) = Inr (pr, ws1)"
    using Inr resolve_project_root [of M w "file" pr]
    by (auto simp: project_for_def ws1_def split: option.splits if_splits)
  note eval = assms [unfolded prepare_recompute_def this Let_def] and found = Inr
  show thesis
  proof (cases b)
    case (Inl e)
    then have "r = Inl (WsContext e)" "ws' = ws\<lparr>ws_project := Some pr, ws_catalog := cache\<rparr>"
      using eval b ws1 by simp_all
    with found show thesis by (rule failed)
  next
    case (Inr binding)
    then have "r = Inr \<lparr>pp_root = pr_root pr, pp_config = pr_config pr,
        pp_sources = overlay_snapshot (pr_root pr) docs, pp_accepted = cb_accepted binding,
        pp_lock = cb_lock binding, pp_generation = ad_generation docs, pp_epoch = ws_epoch ws,
        pp_source_only = (scope = Interactive \<and> \<not> any_open_test_module M pr docs)\<rparr>"
      "ws' = ws\<lparr>ws_project := Some pr, ws_catalog := cache\<rparr>"
      using eval b ws1 by simp_all
    with found show thesis by (rule prepared) simp_all
  qed
qed

lemma workspace_ok_prepare [keeps]:
  assumes "workspace_ok M ws"
  shows "workspace_ok M (snd (prepare_recompute M w file docs scope ws))"
proof -
  obtain r ws' where *: "prepare_recompute M w file docs scope ws = (r, ws')" by fastforce
  then show ?thesis
    by (rule prepare_cases) (use assms * in \<open>auto simp: workspace_ok_def split: option.splits\<close>)
qed

lemma workspace_ok_index [keeps]:
  "workspace_ok M ws \<Longrightarrow> workspace_ok M (binding_index M ws)"
  by (auto simp: workspace_ok_def binding_index_def new_index_key_def split: option.splits)

lemma workspace_ok_choose [keeps]:
  "workspace_ok M ws \<Longrightarrow> workspace_ok M (snd (choose_read_source M file ws))"
  by (simp add: choose_read_source_def workspace_ok_index)

lemma workspace_ok_invalidate_project [keeps]:
  "workspace_ok M ws \<Longrightarrow> workspace_ok M (invalidate_project ws)"
  by (simp add: workspace_ok_def invalidate_project_def clear_latest_def)

lemma workspace_ok_invalidate_analysis [keeps]:
  "workspace_ok M ws \<Longrightarrow> workspace_ok M (invalidate_analysis M ws)"
  by (auto simp: workspace_ok_def invalidate_analysis_def clear_latest_def demote_latest_def
      split: option.splits)

text \<open>What \<open>install\<close> leaves.\<close>

lemma install_fields [simp]:
  "ws_latest (install M pr generation s ws) = Some s"
  "ws_latest_generation (install M pr generation s ws) = Some generation"
  "ws_project (install M pr generation s ws) = ws_project ws"
  "ws_epoch (install M pr generation s ws) = ws_epoch ws"
  by (auto simp: install_def retain_last_good_def Let_def split: option.splits)

lemma install_last_good:
  "ws_last_good (install M pr generation s ws) =
    (if snapshot_is_good s then None
     else case ws_latest ws of None \<Rightarrow> ws_last_good ws
     | Some p \<Rightarrow> if snapshot_is_good p
        then Some (p, case ws_index ws of Some ix \<Rightarrow> ix | None \<Rightarrow> build_binding_index M p)
        else ws_last_good ws)"
  by (auto simp: install_def retain_last_good_def Let_def split: option.splits)

lemma install_index:
  "ws_index (install M pr generation s ws) = Some ix \<Longrightarrow>
     ws_index ws = Some ix \<and> ws_index_key ws = Some (new_index_key pr s)
     \<and> ws_index_key (install M pr generation s ws) = Some (new_index_key pr s)"
  by (auto simp: install_def retain_last_good_def Let_def split: option.splits if_splits)

lemma workspace_ok_install:
  assumes "workspace_ok M ws" "ws_project ws = Some pr"
  shows "workspace_ok M (install M pr generation s ws)"
proof -
  have index: "index_of M s ix
      \<and> (\<exists>k. ws_index_key (install M pr generation s ws) = Some k \<and> ik_generation k = an_generation s)"
    if "ws_index (install M pr generation s ws) = Some ix" for ix
    using install_index [OF that] assms(1)
    by (auto simp: workspace_ok_def new_index_key_def index_of_def split: option.splits)
  have good: "snapshot_is_good g \<and> index_of M g ix"
    if "ws_last_good (install M pr generation s ws) = Some (g, ix)" for g ix
    using that assms(1)
    by (auto simp: install_last_good workspace_ok_def split: option.splits if_splits)
  have "snapshot_is_good s \<longrightarrow> ws_last_good (install M pr generation s ws) = None"
    by (simp add: install_last_good)
  with index good assms(2) show ?thesis unfolding workspace_ok_def by simp
qed

lemma workspace_ok_commit [keeps]:
  "workspace_ok M ws \<Longrightarrow> workspace_ok M (snd (commit_recompute M generation epoch s ws))"
  by (auto simp: commit_recompute_def workspace_ok_install split: option.splits)

interpretation workspace_inv: invariant_system "\<lambda>ws. ws = new_workspace" "workspace_step M"
  "workspace_ok M" for M
proof
  fix ws ws' :: "('a, 'b, 'c) workspace"
  show "ws = new_workspace \<Longrightarrow> workspace_ok M ws" by (simp add: workspace_ok_new)
  assume "workspace_ok M ws" "workspace_step M ws ws'"
  then show "workspace_ok M ws'" by (auto elim!: workspace_step.cases intro: keeps)
qed

abbreviation reachable_workspace ::
  "('c, 'ix) check_api \<Rightarrow> ('c, 'cat, 'ix) workspace \<Rightarrow> bool" where
  "reachable_workspace M \<equiv> reachable (\<lambda>ws. ws = new_workspace) (workspace_step M)"

section \<open>Reads\<close>

lemma chosen_facts:
  assumes "workspace_ok M ws" "choose_read_source M file ws = (Some source, ws')"
  shows "\<exists>s ix. read_facts ws' source = Some (s, ix) \<and> snapshot_is_good s
    \<and> snapshot_contains_file s file \<and> index_of M s ix"
proof (cases source)
  case Latest
  with assms(2) obtain s where s: "ws_latest ws = Some s" "snapshot_is_good s"
    "snapshot_contains_file s file" "ws' = binding_index M ws"
    by (auto simp: choose_read_source_def split: option.splits if_splits)
  moreover have "ws_project ws \<noteq> None" using assms(1) s(1) by (simp add: workspace_ok_def)
  ultimately show ?thesis
    using Latest assms(1)
    by (auto simp: read_facts_def binding_index_def workspace_ok_def split: option.splits)
next
  case LastGood
  with assms show ?thesis
    by (auto simp: choose_read_source_def read_facts_def workspace_ok_def
        split: option.splits if_splits)
qed

text \<open>
  Hover and navigation read coherent facts: in every workspace the server can reach, when
  an analysis is chosen for a file, reading it does not panic and gives a parse-clean analysis
  of that very file together with an index built for that analysis generation.
\<close>

theorem reads_are_coherent:
  assumes "reachable_workspace M ws" "choose_read_source M file ws = (Some source, ws')"
  shows "\<exists>s ix. read_facts ws' source = Some (s, ix) \<and> snapshot_is_good s
    \<and> snapshot_contains_file s file
    \<and> (\<exists>s'. an_generation s' = an_generation s \<and> ix = build_binding_index M s')"
  using chosen_facts [OF workspace_inv.always [OF assms(1)] assms(2)] by (simp add: index_of_def)

definition demo_analysis :: "sources \<Rightarrow> bool \<Rightarrow> analysis" where
  "demo_analysis srcs errors =
     \<lparr>an_generation = length srcs, an_program = demo_program,
      an_files = [\<lparr>af_path = [''/'', ''p'', ''a.mw''], af_source = ''x'', af_has_errors = errors\<rparr>],
      an_report = []\<rparr>"

definition demo_api :: "(unit, nat) check_api" where
  "demo_api =
     \<lparr>parse_config = (\<lambda>_. Inr \<lparr>pc_source_roots = [[]], pc_tests = [], pc_other = ()\<rparr>),
      test_module_file = (\<lambda>_ _ _. False), native_store_path = (\<lambda>_ _. Inr None),
      build_binding_index = an_generation\<rparr>"

definition demo_fs :: "(unit, nat) fs_world" where
  "demo_fs =
     \<lparr>fw_is_file = (\<lambda>p. p = [''/'', ''p'', ''marrow.json'']), fw_read = (\<lambda>_. Inr ''{}''),
      fw_store = \<lparr>sw_native_path = (\<lambda>_ _. Inr None), sw_exists = (\<lambda>_. False),
        sw_stat = (\<lambda>_. None), sw_open = (\<lambda>_. None), sw_committed_lock = (\<lambda>_. Inr None)\<rparr>,
      fw_analyze = (\<lambda>_ _ srcs _ _. Inr (demo_analysis srcs False))\<rparr>"

definition demo_docs :: "nat \<Rightarrow> analysis_docs" where
  "demo_docs n = \<lparr>ad_generation = n, ad_open = []\<rparr>"

definition demo_prepared :: "(unit, nat, nat) workspace" where
  "demo_prepared = snd (prepare_recompute demo_api demo_fs [''/'', ''p'', ''a.mw''] (demo_docs 1)
     Full new_workspace)"

definition demo_workspace :: "(unit, nat, nat) workspace" where
  "demo_workspace = snd (commit_recompute demo_api 1 0 (demo_analysis [] False) demo_prepared)"

lemma demo_workspace_reachable: "reachable_workspace demo_api demo_workspace"
proof -
  have "reachable_workspace demo_api demo_prepared"
    unfolding demo_prepared_def
  proof (rule reachable.further [where s = new_workspace])
    show "reachable_workspace demo_api new_workspace" by (simp add: reachable.start)
  qed (rule workspace_step.prepared)
  then show ?thesis
    unfolding demo_workspace_def
    by (rule reachable.further [where s = demo_prepared]) (rule workspace_step.committed)
qed

lemmas demo_workspace_eval = demo_api_def demo_fs_def demo_docs_def prepare_recompute_def
  new_workspace_def resolve_project_def project_root_of_def ancestors.simps path_parent_def
  ws_config_file_def overlay_snapshot_def any_open_test_module_def bind_catalog_def
  probe_store_def new_binding_cache_def adopt_def current_binding_def lock_for_adoption_def

lemma demo_prepared_fields:
  "ws_project demo_prepared = Some \<lparr>pr_root = [''/'', ''p''],
     pr_config = \<lparr>pc_source_roots = [[]], pc_tests = [], pc_other = ()\<rparr>\<rparr>"
  "ws_epoch demo_prepared = 0" "ws_latest_generation demo_prepared = None"
  by (simp_all add: demo_prepared_def demo_workspace_eval)

lemma demo_latest:
  "ws_latest demo_workspace = Some (demo_analysis [] False)"
  "ws_latest_generation demo_workspace = Some 1"
  by (simp_all add: demo_workspace_def commit_recompute_def demo_prepared_fields)

lemma demo_good: "snapshot_is_good (demo_analysis srcs False)"
  "snapshot_contains_file (demo_analysis srcs b) [''/'', ''p'', ''a.mw'']"
  by (simp_all add: snapshot_is_good_def demo_analysis_def demo_program_def snapshot_contains_file_def)

lemma demo_choose:
  "choose_read_source demo_api [''/'', ''p'', ''a.mw''] demo_workspace
   = (Some Latest, binding_index demo_api demo_workspace)"
  by (simp add: choose_read_source_def demo_latest demo_good)

theorem reads_are_coherent_witness:
  "read_facts (binding_index demo_api demo_workspace) Latest \<noteq> None"
  using reads_are_coherent [OF demo_workspace_reachable demo_choose] by auto

text \<open>
  Facts survive mistakes: while hover can answer for a file, neither an invalidation by the
  watcher nor an analysis with parse errors, installed or refused, takes the answer away.
\<close>

theorem facts_survive_errors:
  assumes "reachable_workspace M ws" "fst (choose_read_source M file ws) \<noteq> None"
    "\<not> snapshot_is_good s"
  shows "fst (choose_read_source M file (invalidate_analysis M ws)) \<noteq> None
    \<and> fst (choose_read_source M file (snd (commit_recompute M generation epoch s ws))) \<noteq> None"
proof
  have ok: "workspace_ok M ws" using assms(1) by (rule workspace_inv.always)
  have source: "(\<exists>s. ws_latest ws = Some s \<and> snapshot_is_good s \<and> snapshot_contains_file s file)
      \<or> (\<exists>g ix. ws_last_good ws = Some (g, ix) \<and> snapshot_contains_file g file
            \<and> \<not> (\<exists>s. ws_latest ws = Some s \<and> snapshot_is_good s))"
    using assms(2) ok
    by (auto simp: choose_read_source_def workspace_ok_def split: option.splits if_splits)
  then show "fst (choose_read_source M file (invalidate_analysis M ws)) \<noteq> None"
    by (auto simp: choose_read_source_def invalidate_analysis_def clear_latest_def
        demote_latest_def split: option.split)
  have "fst (choose_read_source M file (install M pr generation s ws)) \<noteq> None" for pr
    using source assms(3)
    by (auto simp: choose_read_source_def install_last_good split: option.split)
  with assms(2) show "fst (choose_read_source M file
      (snd (commit_recompute M generation epoch s ws))) \<noteq> None"
    by (simp add: commit_recompute_def split: option.split)
qed

theorem facts_survive_errors_witness:
  "fst (choose_read_source demo_api [''/'', ''p'', ''a.mw'']
     (snd (commit_recompute demo_api 2 0 (demo_analysis [] True) demo_workspace))) \<noteq> None"
  by (rule facts_survive_errors [OF demo_workspace_reachable, THEN conjunct2])
    (simp_all add: demo_choose snapshot_is_good_def demo_analysis_def)

section \<open>Recomputes\<close>

text \<open>
  The synchronous recompute never panics: in every reachable workspace it returns an error or
  an analysis, and on success what is then fresh for the given documents is exactly the
  checker's answer for their overlay, unless a newer one had been installed.
\<close>

theorem recompute_returns:
  assumes "reachable_workspace M ws" "recompute_from_snapshot M w file docs ws = (r, ws')"
  shows "r \<noteq> None
    \<and> (\<forall>s. r = Some (Inr s) \<longrightarrow> ws_latest ws' = Some s
        \<and> ((\<forall>g. ws_latest_generation ws = Some g \<longrightarrow> g \<le> ad_generation docs) \<longrightarrow>
            fresh_latest ws' docs = Some s
            \<and> (\<exists>pr accepted lock. ws_project ws' = Some pr
                \<and> fw_analyze w (pr_root pr) (pr_config pr)
                    (overlay_snapshot (pr_root pr) docs) accepted lock = Inr s)))"
proof -
  have ok: "workspace_ok M ws" using assms(1) by (rule workspace_inv.always)
  obtain res ws1 where prep: "prepare_recompute M w file docs Full ws = (res, ws1)" by fastforce
  then show ?thesis
  proof (cases rule: prepare_cases)
    case (prepared pr cache p)
    show ?thesis
    proof (cases "analyze w p")
      case (Inl e)
      with assms(2) prep prepared show ?thesis by (auto simp: recompute_from_snapshot_def)
    next
      case (Inr s)
      have a: "fw_analyze w (pr_root pr) (pr_config pr) (overlay_snapshot (pr_root pr) docs)
          (pp_accepted p) (pp_lock p) = Inr s"
        using Inr prepared by (simp add: analyze_def)
      obtain b ws2 where c: "commit_recompute M (ad_generation docs) (ws_epoch ws) s ws1 = (b, ws2)"
        by fastforce
      have r: "r = map_option Inr (ws_latest ws2)" "ws' = ws2"
        using assms(2) prep prepared Inr c by (auto simp: recompute_from_snapshot_def)
      show ?thesis
      proof (cases "\<exists>g. ws_latest_generation ws = Some g \<and> ad_generation docs < g")
        case True
        then have "ws2 = ws1" using c prepared by (auto simp: commit_recompute_def)
        moreover have "ws_latest ws \<noteq> None" using True ok by (auto simp: workspace_ok_def split: option.splits)
        ultimately show ?thesis using r True prepared by auto
      next
        case False
        then have "ws2 = install M pr (ad_generation docs) s ws1"
          using c prepared by (auto simp: commit_recompute_def not_less split: option.splits)
        with r a prepared show ?thesis
          by (auto simp: fresh_latest_def latest_matches_def)
      qed
    qed
  qed (use assms(2) prep in \<open>auto simp: recompute_from_snapshot_def\<close>)
qed

theorem recompute_returns_witness:
  "fst (recompute_from_snapshot demo_api demo_fs [''/'', ''p'', ''a.mw''] (demo_docs 3) demo_workspace)
   \<noteq> None"
  using recompute_returns [OF demo_workspace_reachable] by (metis prod.collapse)

text \<open>Epochs only grow.\<close>

lemma epoch_mono: "workspace_step M ws ws' \<Longrightarrow> ws_epoch ws \<le> ws_epoch ws'"
proof (induction rule: workspace_step.induct)
  case (prepared ws w "file" docs scope)
  obtain r ws' where *: "prepare_recompute M w file docs scope ws = (r, ws')" by fastforce
  then show ?case by (rule prepare_cases) (use * in auto)
qed (auto simp: commit_recompute_def binding_index_def choose_read_source_def
    invalidate_analysis_def invalidate_project_def clear_latest_def demote_latest_def
    split: option.splits)

lemma epochs_mono: "(workspace_step M)\<^sup>*\<^sup>* ws ws' \<Longrightarrow> ws_epoch ws \<le> ws_epoch ws'"
  by (induction rule: rtranclp_induct) (auto dest: epoch_mono)

text \<open>Without an invalidation the project stays known and the installed generation never falls.\<close>

definition ws_onwards :: "('c, 'cat, 'ix) workspace \<Rightarrow> ('c, 'cat, 'ix) workspace \<Rightarrow> bool" where
  "ws_onwards ws ws' \<longleftrightarrow> ws_epoch ws \<le> ws_epoch ws'
     \<and> (ws_epoch ws' = ws_epoch ws \<longrightarrow>
          (ws_project ws \<noteq> None \<longrightarrow> ws_project ws' \<noteq> None)
          \<and> (\<forall>g. ws_latest_generation ws = Some g
               \<longrightarrow> (\<exists>g'. ws_latest_generation ws' = Some g' \<and> g \<le> g')))"

lemma ws_onwards_refl [simp]: "ws_onwards ws ws"
  by (simp add: ws_onwards_def)

lemma ws_onwards_trans: "ws_onwards ws1 ws2 \<Longrightarrow> ws_onwards ws2 ws3 \<Longrightarrow> ws_onwards ws1 ws3"
  unfolding ws_onwards_def by (metis le_antisym le_trans)

lemma step_onwards: "workspace_step M ws ws' \<Longrightarrow> ws_onwards ws ws'"
proof (induction rule: workspace_step.induct)
  case (prepared ws w "file" docs scope)
  obtain r ws' where *: "prepare_recompute M w file docs scope ws = (r, ws')" by fastforce
  then show ?case by (rule prepare_cases) (use * in \<open>auto simp: ws_onwards_def\<close>)
next
  case (committed ws generation epoch s)
  then show ?case by (auto simp: commit_recompute_def ws_onwards_def split: option.split)
next
  case (chosen ws "file")
  have "ws_onwards ws (binding_index M ws)"
    by (auto simp: binding_index_def ws_onwards_def split: option.split)
  then show ?case by (auto simp: choose_read_source_def split: option.split)
qed (auto simp: ws_onwards_def binding_index_def invalidate_analysis_def invalidate_project_def
    clear_latest_def demote_latest_def split: option.splits)

lemma steps_onwards: "(workspace_step M)\<^sup>*\<^sup>* ws ws' \<Longrightarrow> ws_onwards ws ws'"
  by (induction rule: rtranclp_induct) (auto dest: step_onwards intro: ws_onwards_trans)

text \<open>What supersedes a prepared recompute: an invalidation, or an analysis of later buffers.\<close>

definition supersedes ::
  "('c, 'ix) check_api \<Rightarrow> ('c, 'cat) prepared \<Rightarrow> ('c, 'cat, 'ix) workspace
   \<Rightarrow> ('c, 'cat, 'ix) workspace \<Rightarrow> bool" where
  "supersedes M p ws ws' \<longleftrightarrow> ws' = invalidate_analysis M ws \<or> ws' = invalidate_project ws
     \<or> (\<exists>generation epoch s. pp_generation p < generation
          \<and> commit_recompute M generation epoch s ws = (True, ws'))"

lemma superseded_refused:
  assumes "pp_epoch p \<le> ws_epoch ws" "supersedes M p ws ws'" "ws_onwards ws' ws4"
  shows "commit_recompute M (pp_generation p) (pp_epoch p) s ws4 = (False, ws4)"
proof (cases "ws_epoch ws4 = pp_epoch p")
  case True
  have "ws_epoch ws \<le> ws_epoch ws'" "ws_epoch ws' \<le> ws_epoch ws4"
    using assms(2,3) by (auto simp: supersedes_def ws_onwards_def commit_recompute_def
        invalidate_analysis_def invalidate_project_def clear_latest_def demote_latest_def
        split: option.splits if_splits)
  then have same: "ws_epoch ws' = ws_epoch ws" "ws_epoch ws4 = ws_epoch ws'"
    using True assms(1) by simp_all
  then obtain generation epoch s' where "pp_generation p < generation"
    "commit_recompute M generation epoch s' ws = (True, ws')"
    using assms(2) by (auto simp: supersedes_def invalidate_analysis_def invalidate_project_def
        clear_latest_def demote_latest_def split: option.splits if_splits)
  then have "pp_generation p < generation" "ws_latest_generation ws' = Some generation"
    by (auto simp: commit_recompute_def split: option.splits if_splits)
  then show ?thesis
    using assms(3) same(2) by (fastforce simp: ws_onwards_def commit_recompute_def split: option.split)
qed (simp add: commit_recompute_def)

text \<open>
  C7. A superseded analysis is never installed: whatever happens between preparing a recompute
  and committing it, if an invalidation was among it, or the installing of an analysis of later
  buffers, the commit is refused and changes nothing. Otherwise it takes place, unless an
  analysis of later buffers was there from the start: of two analyses of the same buffers the
  last to commit stays.
\<close>

theorem superseded_recompute_is_discarded:
  assumes "prepare_recompute M w file docs scope ws0 = (Inr p, ws1)"
    and "(workspace_step M)\<^sup>*\<^sup>* ws1 ws4"
  shows "((\<exists>ws2 ws3. (workspace_step M)\<^sup>*\<^sup>* ws1 ws2 \<and> supersedes M p ws2 ws3
             \<and> (workspace_step M)\<^sup>*\<^sup>* ws3 ws4)
        \<longrightarrow> commit_recompute M (pp_generation p) (pp_epoch p) s ws4 = (False, ws4))
    \<and> (ws_epoch ws4 = ws_epoch ws1
          \<and> (\<forall>g. ws_latest_generation ws4 = Some g \<longrightarrow> g \<le> pp_generation p)
        \<longrightarrow> (\<exists>ws5. commit_recompute M (pp_generation p) (pp_epoch p) s ws4 = (True, ws5)
             \<and> ws_latest ws5 = Some s \<and> ws_latest_generation ws5 = Some (ad_generation docs)))"
proof -
  have p: "pp_epoch p = ws_epoch ws1" "ws_project ws1 \<noteq> None" "pp_generation p = ad_generation docs"
    using assms(1) by (cases rule: prepare_cases; simp)+
  have refused: "commit_recompute M (pp_generation p) (pp_epoch p) s ws4 = (False, ws4)"
    if "(workspace_step M)\<^sup>*\<^sup>* ws1 ws2" "supersedes M p ws2 ws3" "(workspace_step M)\<^sup>*\<^sup>* ws3 ws4"
    for ws2 ws3
    using superseded_refused [OF _ that(2) steps_onwards [OF that(3)]] steps_onwards [OF that(1)] p(1)
    by (simp add: ws_onwards_def)
  have installed: "\<exists>ws5. commit_recompute M (pp_generation p) (pp_epoch p) s ws4 = (True, ws5)
      \<and> ws_latest ws5 = Some s \<and> ws_latest_generation ws5 = Some (ad_generation docs)"
    if h: "ws_epoch ws4 = ws_epoch ws1"
      "\<forall>g. ws_latest_generation ws4 = Some g \<longrightarrow> g \<le> pp_generation p"
  proof -
    obtain pr where "ws_project ws4 = Some pr"
      using steps_onwards [OF assms(2)] h(1) p(2) by (auto simp: ws_onwards_def)
    with h p show ?thesis by (auto simp: commit_recompute_def not_less split: option.split)
  qed
  from refused installed show ?thesis by blast
qed

theorem superseded_recompute_is_discarded_witness:
  "fst (commit_recompute demo_api 1 0 (demo_analysis [] False) (invalidate_analysis demo_api demo_prepared))
   = False"
proof -
  define r where "r = prepare_recompute demo_api demo_fs [''/'', ''p'', ''a.mw''] (demo_docs 1)
    Full (new_workspace :: (unit, nat, nat) workspace)"
  define p where "p = projr (fst r)"
  have r: "r = (Inr p, demo_prepared)"
    unfolding p_def r_def demo_prepared_def by (rule prod_eqI) (simp_all add: demo_workspace_eval)
  have p: "pp_epoch p = 0" "pp_generation p = 1"
    by (simp_all add: p_def r_def demo_workspace_eval)
  have invalidated: "(workspace_step demo_api)\<^sup>*\<^sup>* demo_prepared (invalidate_analysis demo_api demo_prepared)"
    by (rule r_into_rtranclp) (rule workspace_step.analysis_invalidated)
  have "supersedes demo_api p demo_prepared (invalidate_analysis demo_api demo_prepared)"
    by (simp add: supersedes_def)
  with superseded_recompute_is_discarded [OF r [unfolded r_def] invalidated,
      where s = "demo_analysis [] False"] p show ?thesis
    by (metis fst_conv rtranclp.rtrancl_refl)
qed

end
