(* ===== verification/Lsp_Token_Cache.thy ===== *)
theory Lsp_Token_Cache
  imports Lsp_SemTokens Lsp_Paths
begin

text \<open>
  The semantic token cache of \<open>crates/marrow-lsp/src/backend.rs\<close>: the stream last returned for
  each document, under the result identifier the client echoes, and the answers of the two
  token requests. Then a client that applies deltas to what it holds, over any sequence of
  exchanges, lost answers and closes.
\<close>

section \<open>The cache\<close>

record cached_tokens =
  ct_result_id :: string
  ct_tokens :: "semantic_token list"

record tokens_cache =
  tc_next_id :: nat
  tc_entries :: "(url \<times> cached_tokens) list"

definition new_tokens_cache :: tokens_cache where
  "new_tokens_cache = \<lparr>tc_next_id = 0, tc_entries = []\<rparr>"

definition store_tokens :: "url \<Rightarrow> semantic_token list \<Rightarrow> tokens_cache \<Rightarrow> string \<times> tokens_cache" where
  "store_tokens u tokens c =
     (let next_id = tc_next_id c + 1; result_id = show_nat next_id
      in (result_id, \<lparr>tc_next_id = next_id, tc_entries =
            AList.update u \<lparr>ct_result_id = result_id, ct_tokens = tokens\<rparr> (tc_entries c)\<rparr>))"

definition forget_tokens :: "url \<Rightarrow> tokens_cache \<Rightarrow> tokens_cache" where
  "forget_tokens u c = c\<lparr>tc_entries := AList.delete u (tc_entries c)\<rparr>"

definition previous_tokens :: "url \<Rightarrow> string \<Rightarrow> tokens_cache \<Rightarrow> semantic_token list option" where
  "previous_tokens u result_id c =
     (case map_of (tc_entries c) u of None \<Rightarrow> None
      | Some e \<Rightarrow> if ct_result_id e = result_id then Some (ct_tokens e) else None)"

section \<open>The answers\<close>

datatype tokens_answer =
    FullTokens string "semantic_token list"
  | TokensDelta string "tokens_edit list"

definition full_answer :: "url \<Rightarrow> semantic_token list \<Rightarrow> tokens_cache \<Rightarrow> tokens_answer \<times> tokens_cache"
  where
  "full_answer u data c =
     (case store_tokens u data c of (result_id, c') \<Rightarrow> (FullTokens result_id data, c'))"

definition delta_answer ::
  "url \<Rightarrow> string \<Rightarrow> semantic_token list \<Rightarrow> tokens_cache \<Rightarrow> tokens_answer \<times> tokens_cache" where
  "delta_answer u previous_result_id data c =
     (let edits = map_option (\<lambda>previous. semantic_tokens_delta_edits previous data)
            (previous_tokens u previous_result_id c)
      in case store_tokens u data c of (result_id, c') \<Rightarrow>
           (case edits of Some es \<Rightarrow> (TokensDelta result_id es, c')
            | None \<Rightarrow> (FullTokens result_id data, c')))"

section \<open>A client\<close>

text \<open>What the client holds for a document: the identifier of its last answer and the array.\<close>

type_synonym held = "url \<rightharpoonup> string \<times> nat list"

definition receive :: "url \<Rightarrow> tokens_answer \<Rightarrow> held \<Rightarrow> held" where
  "receive u a h = (case a of
     FullTokens i data \<Rightarrow> h(u \<mapsto> (i, wire data))
   | TokensDelta i edits \<Rightarrow>
       (case h u of None \<Rightarrow> h | Some (_, xs) \<Rightarrow> h(u \<mapsto> (i, fold apply_edit edits xs))))"

text \<open>
  One exchange: the client asks for the tokens of a document, by a delta against what it holds
  whenever it holds something and wants to; its answer may be lost on the way. Or it closes the
  document and drops what it holds.
\<close>

datatype exchange = Ask url bool "semantic_token list" bool | CloseTokens url

fun exchange_step :: "exchange \<Rightarrow> held \<times> tokens_cache \<Rightarrow> held \<times> tokens_cache" where
  "exchange_step (Ask u by_delta data delivered) (h, c) =
     (let (a, c') = (case h u of
            Some (i, _) \<Rightarrow> if by_delta then delta_answer u i data c else full_answer u data c
          | None \<Rightarrow> full_answer u data c)
      in (if delivered then receive u a h else h, c'))"
| "exchange_step (CloseTokens u) (h, c) = (h(u := None), forget_tokens u c)"

definition exchanges :: "exchange list \<Rightarrow> held \<times> tokens_cache" where
  "exchanges es = fold exchange_step es (Map.empty, new_tokens_cache)"

text \<open>Whenever the cache still knows the identifier the client holds, both have the same stream.\<close>

definition in_step :: "held \<times> tokens_cache \<Rightarrow> bool" where
  "in_step st \<longleftrightarrow> (case st of (h, c) \<Rightarrow>
     (\<forall>u i xs. h u = Some (i, xs) \<longrightarrow>
        (\<exists>n\<le>tc_next_id c. i = show_nat n)
        \<and> (\<forall>e. map_of (tc_entries c) u = Some e \<longrightarrow> ct_result_id e = i \<longrightarrow> xs = wire (ct_tokens e)))
     \<and> (\<forall>u e. map_of (tc_entries c) u = Some e \<longrightarrow> 5 * length (ct_tokens e) < 2 ^ 32))"

definition short_streams :: "exchange list \<Rightarrow> bool" where
  "short_streams es \<longleftrightarrow>
     (\<forall>u d data r. Ask u d data r \<in> set es \<longrightarrow> 5 * length data < 2 ^ 32)"

lemma show_nat_inj [simp]: "show_nat m = show_nat n \<longleftrightarrow> m = n"
  by (metis digits_value_show)

definition stored_as :: "url \<Rightarrow> semantic_token list \<Rightarrow> tokens_cache \<Rightarrow> tokens_cache" where
  "stored_as u data c = \<lparr>tc_next_id = tc_next_id c + 1, tc_entries = AList.update u
     \<lparr>ct_result_id = show_nat (tc_next_id c + 1), ct_tokens = data\<rparr> (tc_entries c)\<rparr>"

lemma store_tokens_eq: "store_tokens u data c = (show_nat (tc_next_id c + 1), stored_as u data c)"
  by (simp add: store_tokens_def stored_as_def Let_def)

lemma delta_received:
  assumes "in_step (h, c)" "h u = Some (i, xs)" "delta_answer u i data c = (a, c')"
  shows "receive u a h = h(u \<mapsto> (show_nat (tc_next_id c + 1), wire data)) \<and> c' = stored_as u data c"
proof (cases "previous_tokens u i c")
  case None
  with assms(3) show ?thesis
    by (auto simp: delta_answer_def store_tokens_eq receive_def)
next
  case (Some previous)
  then obtain e where e: "map_of (tc_entries c) u = Some e" "ct_result_id e = i"
    "ct_tokens e = previous" by (auto simp: previous_tokens_def split: option.splits if_splits)
  with assms(1,2) have "xs = wire previous" "5 * length previous < 2 ^ 32"
    by (auto simp: in_step_def)
  with delta_edits_current [of previous data]
  have "fold apply_edit (semantic_tokens_delta_edits previous data) xs = wire data" by simp
  with assms(2,3) Some show ?thesis
    by (auto simp: delta_answer_def store_tokens_eq receive_def)
qed

lemma answer_received:
  assumes "in_step (h, c)"
    "(case h u of Some (i, _) \<Rightarrow> if d then delta_answer u i data c else full_answer u data c
      | None \<Rightarrow> full_answer u data c) = (a, c')"
  shows "receive u a h = h(u \<mapsto> (show_nat (tc_next_id c + 1), wire data)) \<and> c' = stored_as u data c"
proof (cases "full_answer u data c = (a, c')")
  case True
  then show ?thesis by (auto simp: full_answer_def store_tokens_eq receive_def)
next
  case False
  with assms(2) obtain i xs where "h u = Some (i, xs)" "delta_answer u i data c = (a, c')"
    by (auto split: option.splits prod.splits if_splits)
  with delta_received [OF assms(1)] show ?thesis by blast
qed

lemma in_step_stored:
  assumes "in_step (h, c)" "5 * length data < 2 ^ 32"
    "h' = h \<or> h' = h(u \<mapsto> (show_nat (tc_next_id c + 1), wire data))"
  shows "in_step (h', stored_as u data c)"
proof -
  have known: "i \<noteq> show_nat (Suc (tc_next_id c))" if "h v = Some (i, xs)" for v i xs
    using assms(1) that by (fastforce simp: in_step_def)
  have ids: "\<exists>n\<le>Suc (tc_next_id c). i = show_nat n" if "h v = Some (i, xs)" for v i xs
    using assms(1) that by (fastforce simp: in_step_def)
  show ?thesis
    using assms known ids
    by (auto simp: in_step_def stored_as_def update_conv' split: if_splits)
qed

lemma in_step_step:
  assumes "in_step st" "short_streams [e]"
  shows "in_step (exchange_step e st)"
proof -
  obtain h c where st: "st = (h, c)" by fastforce
  show ?thesis
  proof (cases e)
    case (Ask u d data r)
    with assms(2) have short: "5 * length data < 2 ^ 32" by (simp add: short_streams_def)
    obtain a c' where a: "(case h u of Some (i, _) \<Rightarrow> if d then delta_answer u i data c
        else full_answer u data c | None \<Rightarrow> full_answer u data c) = (a, c')" by fastforce
    note ac = answer_received [OF assms(1) [unfolded st] a]
    have "exchange_step e st = (if r then receive u a h else h, stored_as u data c)"
      using a ac by (simp add: st Ask)
    with ac in_step_stored [OF assms(1) [unfolded st] short] show ?thesis by simp
  next
    case (CloseTokens u)
    with assms(1) show ?thesis
      by (auto simp: st in_step_def forget_tokens_def delete_conv')
  qed
qed

lemma exchanges_in_step: "short_streams es \<Longrightarrow> in_step (exchanges es)"
proof -
  have "in_step st \<Longrightarrow> short_streams es \<Longrightarrow> in_step (fold exchange_step es st)" for st
  proof (induction es arbitrary: st)
    case (Cons e es)
    then have "short_streams [e]" "short_streams es" by (auto simp: short_streams_def)
    with Cons in_step_step [of st e] show ?case by simp
  qed simp
  then show "short_streams es \<Longrightarrow> in_step (exchanges es)"
    by (simp add: exchanges_def in_step_def new_tokens_cache_def)
qed

text \<open>
  C9. A client that applies deltas never drifts: after any exchanges, over any documents, with
  answers lost and documents closed and opened again, an answer that arrives, full or delta,
  leaves the client with exactly the array of the tokens the server computed for it.
\<close>

theorem client_holds_server_tokens:
  assumes "short_streams es"
  shows "map_option snd (fst (exchange_step (Ask u by_delta data True) (exchanges es)) u)
    = Some (wire data)"
proof -
  obtain h c where st: "exchanges es = (h, c)" by fastforce
  obtain a c' where a: "(case h u of Some (i, _) \<Rightarrow> if by_delta then delta_answer u i data c
      else full_answer u data c | None \<Rightarrow> full_answer u data c) = (a, c')" by fastforce
  have "in_step (h, c)" using exchanges_in_step [OF assms(1)] st by simp
  from answer_received [OF this a] a show ?thesis by (simp add: st)
qed

definition demo_tokens :: "nat \<Rightarrow> semantic_token list" where
  "demo_tokens n = [\<lparr>delta_line = 0, delta_start = n, token_length = 1, token_type = 0, token_bits = 0\<rparr>]"

definition demo_exchanges :: "exchange list" where
  "demo_exchanges = [Ask ''u'' False (demo_tokens 1) True, Ask ''u'' True (demo_tokens 2) False]"

theorem client_holds_server_tokens_witness:
  "map_option snd (fst (exchange_step (Ask ''u'' True (demo_tokens 3 @ demo_tokens 4) True)
     (exchanges demo_exchanges)) ''u'') = Some (wire (demo_tokens 3 @ demo_tokens 4))"
  by (rule client_holds_server_tokens)
    (auto simp: short_streams_def demo_exchanges_def demo_tokens_def)

end
