(* ===== verification/Lsp_Backend.thy ===== *)
theory Lsp_Backend
  imports Lsp_Watch_Laws Lsp_Workspace_Laws Lsp_Token_Cache
begin

text \<open>
  \<open>crates/marrow-lsp/src/backend.rs\<close>: the server over its shared state. The notification
  handlers hold the publish lock from their first to their last effect, so each is one step;
  a recompute task is a sequence of steps cut where the code releases or waits for a lock. Its
  phase says where it stands and which locks it holds: a task between preparing and publishing
  holds \<open>analysis_run\<close>, a committed one also holds the analysis lock until it has published.
  A handler's \<open>try_lock\<close> of the analysis is the argument \<open>got\<close>: it can only succeed
  while no task is committed, and may fail at any time, since reads and preparing tasks hold
  the lock too.
\<close>

section \<open>State\<close>

datatype ('c, 'cat) phase =
    Sleeping
  | Checked
  | Captured analysis_docs
  | Prepared analysis_docs "('c, 'cat) prepared"
  | Analyzed analysis_docs "('c, 'cat) prepared" analysis
  | Committed analysis_docs "('c, 'cat) prepared"

record ('c, 'cat) recompute_task =
  rt_file :: path
  rt_root_epoch :: "(path \<times> nat) option"
  rt_seq :: "nat option"
  rt_scope :: recompute_scope
  rt_debounce :: nat
  rt_phase :: "('c, 'cat) phase"

record ('lex, 'parse, 'c, 'cat, 'ix) backend =
  b_docs :: "('lex, 'parse) documents"
  b_ws :: "('c, 'cat, 'ix) workspace"
  b_tracker :: tracker
  b_edit_seq :: nat
  b_pending :: "8 word"
  b_file_count :: nat
  b_tasks :: "('c, 'cat) recompute_task list"
  b_published :: "published list"
  b_tokens :: tokens_cache

definition new_backend :: "('lex, 'parse, 'c, 'cat, 'ix) backend" where
  "new_backend = \<lparr>b_docs = new_documents, b_ws = new_workspace, b_tracker = [], b_edit_seq = 0,
     b_pending = 0, b_file_count = 0, b_tasks = [], b_published = [], b_tokens = new_tokens_cache\<rparr>"

text \<open>Marrow and the URL library, which do not change: both interfaces and \<open>from_file_path\<close>.\<close>

record ('lex, 'parse, 'c, 'ix) server_api =
  sv_docs :: "('lex, 'parse) doc_api"
  sv_check :: "('c, 'ix) check_api"
  sv_path_to_url :: "path \<Rightarrow> url option"

definition publish ::
  "published list \<Rightarrow> ('lex, 'parse, 'c, 'cat, 'ix) backend \<Rightarrow> ('lex, 'parse, 'c, 'cat, 'ix) backend"
  where "publish ps b = b\<lparr>b_published := b_published b @ ps\<rparr>"

section \<open>Scheduling\<close>

definition debounce_max :: nat where
  "debounce_max = 700"

definition debounce_min :: nat where
  "debounce_min = 150"

definition small_project_file_limit :: nat where
  "small_project_file_limit = 8"

definition adaptive_debounce :: "nat \<Rightarrow> nat" where
  "adaptive_debounce file_count =
     (if file_count \<le> small_project_file_limit then debounce_min else debounce_max)"

definition schedule_recompute ::
  "path \<Rightarrow> (path \<times> nat) option \<Rightarrow> recompute_scope \<Rightarrow> ('lex, 'parse, 'c, 'cat, 'ix) backend
   \<Rightarrow> ('lex, 'parse, 'c, 'cat, 'ix) backend" where
  "schedule_recompute p root_epoch scope b =
     (let seq = (if root_epoch = None then Some (b_edit_seq b + 1) else None)
      in b\<lparr>b_edit_seq := (if root_epoch = None then b_edit_seq b + 1 else b_edit_seq b),
           b_tasks := b_tasks b @ [\<lparr>rt_file = p, rt_root_epoch = root_epoch, rt_seq = seq,
             rt_scope = scope, rt_debounce = adaptive_debounce (b_file_count b),
             rt_phase = Sleeping\<rparr>]\<rparr>)"

text \<open>The known root of a path, whose epoch is bumped.\<close>

definition bump_known_root ::
  "bool \<Rightarrow> path \<Rightarrow> ('lex, 'parse, 'c, 'cat, 'ix) backend
   \<Rightarrow> (path \<times> nat) option \<times> ('lex, 'parse, 'c, 'cat, 'ix) backend" where
  "bump_known_root got p b =
     (case known_root_for_path (if got then Some (b_ws b) else None) (b_tracker b) p of
        None \<Rightarrow> (None, b)
      | Some root \<Rightarrow> (case bump_root_epoch root (b_tracker b) of
          (epoch, t) \<Rightarrow> (Some (root, epoch), b\<lparr>b_tracker := t\<rparr>)))"

section \<open>Document notifications\<close>

definition did_open ::
  "('lex, 'parse, 'c, 'ix) server_api \<Rightarrow> bool \<Rightarrow> url \<Rightarrow> string \<Rightarrow> int
   \<Rightarrow> ('lex, 'parse, 'c, 'cat, 'ix) backend \<Rightarrow> ('lex, 'parse, 'c, 'cat, 'ix) backend" where
  "did_open S got u s version b =
     (let b1 = b\<lparr>b_docs := open_with_version (sv_docs S) u s (Some version) (b_docs b)\<rparr>
      in case to_file_path (sv_docs S) u of None \<Rightarrow> b1
      | Some p \<Rightarrow> (case bump_known_root got p b1 of
          (root_epoch, b2) \<Rightarrow> schedule_recompute p root_epoch Full b2))"

definition did_change ::
  "('lex, 'parse, 'c, 'ix) server_api \<Rightarrow> bool \<Rightarrow> url \<Rightarrow> string list \<Rightarrow> int
   \<Rightarrow> ('lex, 'parse, 'c, 'cat, 'ix) backend \<Rightarrow> ('lex, 'parse, 'c, 'cat, 'ix) backend" where
  "did_change S got u changes version b =
     (if changes = [] then b
      else let b1 = b\<lparr>b_docs := change_with_version (sv_docs S) u (last changes) (Some version) (b_docs b)\<rparr>
      in case to_file_path (sv_docs S) u of None \<Rightarrow> b1
      | Some p \<Rightarrow> (case bump_known_root got p b1 of
          (root_epoch, b2) \<Rightarrow> schedule_recompute p root_epoch Interactive b2))"

definition did_close ::
  "('lex, 'parse, 'c, 'ix) server_api \<Rightarrow> bool \<Rightarrow> url
   \<Rightarrow> ('lex, 'parse, 'c, 'cat, 'ix) backend \<Rightarrow> ('lex, 'parse, 'c, 'cat, 'ix) backend" where
  "did_close S got u b =
     (let b1 = b\<lparr>b_docs := close_document u (b_docs b), b_tokens := forget_tokens u (b_tokens b)\<rparr>;
          p = to_file_path (sv_docs S) u;
          root = (case p of None \<Rightarrow> None | Some p \<Rightarrow>
            known_root_for_path (if got then Some (b_ws b1) else None) (b_tracker b1) p);
          (root_epoch, b2) = (case root of None \<Rightarrow> (None, b1)
            | Some root \<Rightarrow> (case bump_root_epoch root (snd (clear_url root u (b_tracker b1))) of
                (epoch, t) \<Rightarrow> (Some (root, epoch), b1\<lparr>b_tracker := t\<rparr>)));
          b3 = publish [\<lparr>pb_url = u, pb_diagnostics = [], pb_version = None\<rparr>] b2
      in case p of None \<Rightarrow> b3 | Some p \<Rightarrow> schedule_recompute p root_epoch Full b3)"

section \<open>Watched files\<close>

definition schedule_all ::
  "scheduled list \<Rightarrow> ('lex, 'parse, 'c, 'cat, 'ix) backend \<Rightarrow> ('lex, 'parse, 'c, 'cat, 'ix) backend"
  where "schedule_all ss b = fold (\<lambda>s. schedule_recompute (sr_path s) (sr_root_epoch s) Full) ss b"

definition watched_path_changes ::
  "('lex, 'parse, 'c, 'ix) server_api \<Rightarrow> (url \<times> file_change) list \<Rightarrow> watched_path_change list" where
  "watched_path_changes S events =
     List.map_filter (\<lambda>(u, typ). map_option (\<lambda>p. \<lparr>wc_uri = u, wc_path = p, wc_typ = typ\<rparr>)
       (to_file_path (sv_docs S) u)) events"

definition watched_busy ::
  "('c, 'cat) fs_world \<Rightarrow> (url \<times> int option) list \<Rightarrow> watched_path_change list
   \<Rightarrow> ('lex, 'parse, 'c, 'cat, 'ix) backend \<Rightarrow> ('lex, 'parse, 'c, 'cat, 'ix) backend" where
  "watched_busy w versions changes b =
     (let pre_bits = busy_watched_pre_invalidation_bits (fw_is_file w) changes;
          b1 = b\<lparr>b_pending := b_pending b OR pre_bits\<rparr>;
          (effects, t) = watched_root_effects (b_tracker b1) versions
            (pending_watched_roots (busy_watched_project_changes (fw_is_file w) (b_tracker b1) changes))
            None Schedule;
          b2 = b1\<lparr>b_tracker := t, b_pending := b_pending b1 OR we_bits effects\<rparr>
      in schedule_all (we_schedules effects) (publish (we_clears effects) b2))"

definition watched_idle ::
  "('lex, 'parse, 'c, 'ix) server_api \<Rightarrow> (url \<times> int option) list \<Rightarrow> watched_path_change list
   \<Rightarrow> ('lex, 'parse, 'c, 'cat, 'ix) backend \<Rightarrow> ('lex, 'parse, 'c, 'cat, 'ix) backend" where
  "watched_idle S versions changes b =
     (let ws = apply_pending_workspace_invalidation (sv_check S) (b_pending b) (b_ws b);
          b1 = b\<lparr>b_pending := 0, b_ws := ws\<rparr>;
          events = watched_project_changes (sv_check S) ws changes
            @ watched_tracked_diagnostic_changes (b_tracker b1) changes
      in if events = [] then b1
         else let (effects, t) = watched_root_effects (b_tracker b1) versions
                    (pending_watched_roots events) (map_option pr_root (ws_project ws)) Skip;
                  ws' = (if we_project effects then invalidate_project ws
                         else if we_analysis effects then invalidate_analysis (sv_check S) ws else ws);
                  b2 = b1\<lparr>b_tracker := t, b_ws := ws'\<rparr>
              in schedule_all (we_schedules effects) (publish (we_clears effects) b2))"

definition did_change_watched_files ::
  "('lex, 'parse, 'c, 'ix) server_api \<Rightarrow> ('c, 'cat) fs_world \<Rightarrow> bool \<Rightarrow> (url \<times> file_change) list
   \<Rightarrow> ('lex, 'parse, 'c, 'cat, 'ix) backend \<Rightarrow> ('lex, 'parse, 'c, 'cat, 'ix) backend" where
  "did_change_watched_files S w got events b =
     (let changes = watched_path_changes S events;
          versions = open_document_versions (analysis_snapshot (sv_docs S) (b_docs b))
      in if changes = [] then b
         else if got then watched_idle S versions changes b
         else watched_busy w versions changes b)"

section \<open>A recompute task\<close>

text \<open>The preflight after the debounce: whether the task has been superseded.\<close>

definition superseded ::
  "('c, 'cat) recompute_task \<Rightarrow> ('lex, 'parse, 'c, 'cat, 'ix) backend \<Rightarrow> bool" where
  "superseded task b =
     (case (rt_root_epoch task, rt_seq task) of
        (Some (root, epoch), _) \<Rightarrow> is_stale (b_tracker b) root epoch
      | (None, Some seq) \<Rightarrow> b_edit_seq b \<noteq> seq
      | _ \<Rightarrow> False)"

definition swap_pending ::
  "('lex, 'parse, 'c, 'ix) server_api \<Rightarrow> ('lex, 'parse, 'c, 'cat, 'ix) backend
   \<Rightarrow> ('lex, 'parse, 'c, 'cat, 'ix) backend" where
  "swap_pending S b =
     b\<lparr>b_pending := 0, b_ws := apply_pending_workspace_invalidation (sv_check S) (b_pending b) (b_ws b)\<rparr>"

definition prepare_task ::
  "('lex, 'parse, 'c, 'ix) server_api \<Rightarrow> ('c, 'cat) fs_world \<Rightarrow> ('c, 'cat) recompute_task
   \<Rightarrow> analysis_docs \<Rightarrow> ('lex, 'parse, 'c, 'cat, 'ix) backend
   \<Rightarrow> ('c, 'cat) phase option \<times> ('lex, 'parse, 'c, 'cat, 'ix) backend" where
  "prepare_task S w task docs b =
     (let b1 = swap_pending S b
      in case prepare_recompute (sv_check S) w (rt_file task) docs (rt_scope task) (b_ws b1) of
           (Inl e, ws) \<Rightarrow> (None, b1\<lparr>b_ws := ws\<rparr>)
         | (Inr p, ws) \<Rightarrow> (Some (Prepared docs p), b1\<lparr>b_ws := ws\<rparr>))"

definition analyze_task ::
  "('c, 'cat) fs_world \<Rightarrow> analysis_docs \<Rightarrow> ('c, 'cat) prepared \<Rightarrow> ('c, 'cat) phase option" where
  "analyze_task w docs p =
     (case analyze w p of Inl e \<Rightarrow> None | Inr s \<Rightarrow> Some (Analyzed docs p s))"

definition commit_task ::
  "('lex, 'parse, 'c, 'ix) server_api \<Rightarrow> analysis_docs \<Rightarrow> ('c, 'cat) prepared \<Rightarrow> analysis
   \<Rightarrow> ('lex, 'parse, 'c, 'cat, 'ix) backend
   \<Rightarrow> ('c, 'cat) phase option \<times> ('lex, 'parse, 'c, 'cat, 'ix) backend" where
  "commit_task S docs p s b =
     (if b_pending b \<noteq> 0 then (None, swap_pending S b)
      else case commit_recompute (sv_check S) (pp_generation p) (pp_epoch p) s (b_ws b) of
        (False, ws) \<Rightarrow> (None, b\<lparr>b_ws := ws\<rparr>)
      | (True, ws) \<Rightarrow> (Some (Committed docs p), b\<lparr>b_ws := ws, b_file_count :=
          (case ws_latest ws of Some latest \<Rightarrow> length (an_files latest) | None \<Rightarrow> b_file_count b)\<rparr>))"

definition read_to_string :: "('c, 'cat) fs_world \<Rightarrow> path \<Rightarrow> string" where
  "read_to_string w p = (case fw_read w p of Inl e \<Rightarrow> [] | Inr s \<Rightarrow> s)"

text \<open>The diagnostics a committed task is about to publish, and the epoch and scope it reconciles.\<close>

definition diagnostics_of ::
  "('lex, 'parse, 'c, 'ix) server_api \<Rightarrow> ('c, 'cat) fs_world \<Rightarrow> analysis_docs \<Rightarrow> 'c project
   \<Rightarrow> analysis \<Rightarrow> url_diagnostics" where
  "diagnostics_of S w docs pr s =
     snapshot_to_diagnostics (sv_path_to_url S) (read_to_string w) s
       (open_analysis_document_urls (sv_check S) docs pr)
       (\<lambda>u. map_option od_index (ad_get docs u))"

definition publish_epoch :: "('c, 'cat) recompute_task \<Rightarrow> path \<Rightarrow> tracker \<Rightarrow> nat" where
  "publish_epoch task root t =
     (case rt_root_epoch task of
        Some (scheduled_root, epoch) \<Rightarrow> if scheduled_root = root then epoch else tracker_epoch t root
      | None \<Rightarrow> tracker_epoch t root)"

text \<open>
  The rest of \<open>recompute_and_publish\<close>, under the publish lock: \<open>None\<close> is the panic of one
  of its two \<open>expect\<close> calls.
\<close>

definition publish_task ::
  "('lex, 'parse, 'c, 'ix) server_api \<Rightarrow> ('c, 'cat) fs_world \<Rightarrow> ('c, 'cat) recompute_task
   \<Rightarrow> analysis_docs \<Rightarrow> ('c, 'cat) prepared \<Rightarrow> ('lex, 'parse, 'c, 'cat, 'ix) backend
   \<Rightarrow> ('lex, 'parse, 'c, 'cat, 'ix) backend option" where
  "publish_task S w task docs p b =
     (if b_pending b \<noteq> 0 then Some (swap_pending S b)
      else if \<not> matches_generation (b_docs b) docs then Some b
      else case ws_project (b_ws b) of None \<Rightarrow> None
      | Some pr \<Rightarrow> (case ws_latest (b_ws b) of None \<Rightarrow> None
      | Some s \<Rightarrow>
          let root = pr_root pr;
              versions = open_document_versions docs;
              scope = (if pp_source_only p then scope_source_only (sv_path_to_url S) s else Whole);
              epoch = publish_epoch task root (b_tracker b)
          in (case reconcile_success root epoch scope (diagnostics_of S w docs pr s) (b_tracker b) of
                (False, _, t) \<Rightarrow> Some (b\<lparr>b_tracker := t\<rparr>)
              | (True, m, t) \<Rightarrow> Some (publish (map (\<lambda>(u, ds). \<lparr>pb_url = u, pb_diagnostics = ds,
                    pb_version = version_for versions u\<rparr>) m) (b\<lparr>b_tracker := t\<rparr>)))))"

text \<open>A request that reads facts: it never waits for the analysis lock.\<close>

definition read_request ::
  "('lex, 'parse, 'c, 'ix) server_api \<Rightarrow> bool \<Rightarrow> path \<Rightarrow> ('lex, 'parse, 'c, 'cat, 'ix) backend
   \<Rightarrow> read_source option \<times> ('lex, 'parse, 'c, 'cat, 'ix) backend" where
  "read_request S got p b =
     (if \<not> got \<or> b_pending b \<noteq> 0 then (None, b)
      else case choose_read_source (sv_check S) p (b_ws b) of
        (source, ws) \<Rightarrow> (source, b\<lparr>b_ws := ws\<rparr>))"

section \<open>The server as a step relation\<close>

fun running :: "('c, 'cat) phase \<Rightarrow> bool" where
  "running (Prepared docs p) = True"
| "running (Analyzed docs p s) = True"
| "running (Committed docs p) = True"
| "running _ = False"

fun committed_phase :: "('c, 'cat) phase \<Rightarrow> bool" where
  "committed_phase (Committed docs p) = True"
| "committed_phase _ = False"

definition idle :: "('lex, 'parse, 'c, 'cat, 'ix) backend \<Rightarrow> bool" where
  "idle b \<longleftrightarrow> \<not> list_ex (\<lambda>t. running (rt_phase t)) (b_tasks b)"

definition analysis_free :: "('lex, 'parse, 'c, 'cat, 'ix) backend \<Rightarrow> bool" where
  "analysis_free b \<longleftrightarrow> \<not> list_ex (\<lambda>t. committed_phase (rt_phase t)) (b_tasks b)"

text \<open>Task \<open>i\<close> ends, or goes on in a new phase.\<close>

definition task_ends ::
  "nat \<Rightarrow> ('lex, 'parse, 'c, 'cat, 'ix) backend \<Rightarrow> ('lex, 'parse, 'c, 'cat, 'ix) backend" where
  "task_ends i b = b\<lparr>b_tasks := take i (b_tasks b) @ drop (Suc i) (b_tasks b)\<rparr>"

definition task_goes ::
  "nat \<Rightarrow> ('c, 'cat) phase \<Rightarrow> ('lex, 'parse, 'c, 'cat, 'ix) backend
   \<Rightarrow> ('lex, 'parse, 'c, 'cat, 'ix) backend" where
  "task_goes i ph b = b\<lparr>b_tasks := (b_tasks b)[i := (b_tasks b ! i)\<lparr>rt_phase := ph\<rparr>]\<rparr>"

definition task_after ::
  "nat \<Rightarrow> ('c, 'cat) phase option \<times> ('lex, 'parse, 'c, 'cat, 'ix) backend
   \<Rightarrow> ('lex, 'parse, 'c, 'cat, 'ix) backend" where
  "task_after i r = (case r of (None, b) \<Rightarrow> task_ends i b | (Some ph, b) \<Rightarrow> task_goes i ph b)"

definition at_phase ::
  "nat \<Rightarrow> ('c, 'cat) phase \<Rightarrow> ('lex, 'parse, 'c, 'cat, 'ix) backend \<Rightarrow> bool" where
  "at_phase i ph b \<longleftrightarrow> i < length (b_tasks b) \<and> rt_phase (b_tasks b ! i) = ph"

text \<open>
  The server in an environment whose files, stores and checker are, whenever it looks, as in one
  of the worlds \<open>Ws\<close>: each step that reads them does so in some world of that set. \<open>did_open\<close> and
  \<open>did_change\<close> schedule their recompute right after releasing the publish lock, with nothing
  awaited between; of the steps another task can take there, only its preflight looks at what
  scheduling changes, and it is the same as taken before the notification.
\<close>

inductive backend_step ::
  "('lex, 'parse, 'c, 'ix) server_api \<Rightarrow> ('c, 'cat) fs_world set
   \<Rightarrow> ('lex, 'parse, 'c, 'cat, 'ix) backend \<Rightarrow> ('lex, 'parse, 'c, 'cat, 'ix) backend \<Rightarrow> bool"
  for S Ws where
  opens: "got \<longrightarrow> analysis_free b \<Longrightarrow> backend_step S Ws b (did_open S got u s v b)"
| changes: "got \<longrightarrow> analysis_free b \<Longrightarrow> backend_step S Ws b (did_change S got u cs v b)"
| closes: "got \<longrightarrow> analysis_free b \<Longrightarrow> backend_step S Ws b (did_close S got u b)"
| watches: "got \<longrightarrow> analysis_free b \<Longrightarrow> w \<in> Ws \<Longrightarrow>
    backend_step S Ws b (did_change_watched_files S w got events b)"
| reads: "got \<longrightarrow> analysis_free b \<Longrightarrow> backend_step S Ws b (snd (read_request S got p b))"
| indexes: "analysis_free b \<Longrightarrow>
    backend_step S Ws b (b\<lparr>b_ws := binding_index (sv_check S) (b_ws b)\<rparr>)"
| stores: "backend_step S Ws b (b\<lparr>b_tokens := snd (store_tokens u data (b_tokens b))\<rparr>)"
| wakes: "at_phase i Sleeping b \<Longrightarrow>
    backend_step S Ws b (if superseded (b_tasks b ! i) b then task_ends i b else task_goes i Checked b)"
| captures: "at_phase i Checked b \<Longrightarrow>
    backend_step S Ws b (task_goes i (Captured (analysis_snapshot (sv_docs S) (b_docs b))) b)"
| prepares: "at_phase i (Captured docs) b \<Longrightarrow> idle b \<Longrightarrow> w \<in> Ws \<Longrightarrow>
    backend_step S Ws b (task_after i (prepare_task S w (b_tasks b ! i) docs b))"
| analyzes: "at_phase i (Prepared docs p) b \<Longrightarrow> w \<in> Ws \<Longrightarrow>
    backend_step S Ws b (task_after i (analyze_task w docs p, b))"
| commits: "at_phase i (Analyzed docs p s) b \<Longrightarrow>
    backend_step S Ws b (task_after i (commit_task S docs p s b))"
| publishes: "at_phase i (Committed docs p) b \<Longrightarrow> w \<in> Ws \<Longrightarrow>
    publish_task S w (b_tasks b ! i) docs p b = Some b' \<Longrightarrow> backend_step S Ws b (task_ends i b')"

end
