(* ===== verification/Lsp_Backend_Laws.thy ===== *)
theory Lsp_Backend_Laws
  imports Lsp_Backend
begin

text \<open>
  Invariants of the server over every interleaving of notifications, watcher batches, reads and
  recompute tasks. First the analysis side: documents, workspace and task phases.
\<close>

section \<open>The analysis side\<close>

abbreviation phases :: "('lex, 'parse, 'c, 'cat, 'ix) backend \<Rightarrow> ('c, 'cat) phase list" where
  "phases b \<equiv> map rt_phase (b_tasks b)"

abbreviation reachable_server ::
  "('lex, 'parse, 'c, 'ix) server_api \<Rightarrow> ('c, 'cat) fs_world set
   \<Rightarrow> ('lex, 'parse, 'c, 'cat, 'ix) backend \<Rightarrow> bool" where
  "reachable_server S Ws \<equiv> reachable (\<lambda>b. b = new_backend) (backend_step S Ws)"

text \<open>
  A captured snapshot is the current one as soon as its generation is. \<open>K\<close> are snapshots taken
  before, which every other of their generation equals.
\<close>

definition docs_ok ::
  "analysis_docs set \<Rightarrow> ('lex, 'parse) doc_api \<Rightarrow> ('lex, 'parse) documents \<Rightarrow> analysis_docs \<Rightarrow> bool"
  where
  "docs_ok K D docs d \<longleftrightarrow> ad_generation d \<le> docs_generation docs
     \<and> (ad_generation d = docs_generation docs \<longrightarrow> d = analysis_snapshot D docs)
     \<and> (\<forall>k\<in>K. ad_generation d = ad_generation k \<longrightarrow> d = k)"

text \<open>
  What the server gives the checker for the buffers \<open>d\<close>: what some reachable server prepared of
  them, for some file, in one of its worlds; and what the checker answered, in one of them.
\<close>

definition prepared_in ::
  "('lex, 'parse, 'c, 'ix) server_api \<Rightarrow> ('c, 'cat) fs_world set \<Rightarrow> analysis_docs
   \<Rightarrow> ('c, 'cat) prepared \<Rightarrow> bool" where
  "prepared_in S Ws d p \<longleftrightarrow> (\<exists>w\<in>Ws. \<exists>b file scope. reachable_server S Ws b
     \<and> fst (prepare_recompute (sv_check S) w file d scope (b_ws (swap_pending S b))) = Inr p)"

definition analyzed_in :: "('c, 'cat) fs_world set \<Rightarrow> ('c, 'cat) prepared \<Rightarrow> analysis \<Rightarrow> bool" where
  "analyzed_in Ws p s \<longleftrightarrow> (\<exists>w\<in>Ws. analyze w p = Inr s)"

lemma prepared_in_fields:
  assumes "prepared_in S Ws d p"
  shows "pp_sources p = overlay_snapshot (pp_root p) d" "pp_generation p = ad_generation d"
proof -
  obtain w b "file" scope where "fst (prepare_recompute (sv_check S) w file d scope
      (b_ws (swap_pending S b))) = Inr p" using assms by (auto simp: prepared_in_def)
  then obtain ws where "prepare_recompute (sv_check S) w file d scope (b_ws (swap_pending S b)) = (Inr p, ws)"
    by (metis prod.collapse)
  then show "pp_sources p = overlay_snapshot (pp_root p) d" "pp_generation p = ad_generation d"
    by (cases rule: prepare_cases; simp)+
qed

definition project_is :: "('c, 'cat, 'ix) workspace \<Rightarrow> ('c, 'cat) prepared \<Rightarrow> bool" where
  "project_is ws p \<longleftrightarrow>
     (\<exists>pr. ws_project ws = Some pr \<and> pr_root pr = pp_root p \<and> pr_config pr = pp_config p)"

fun phase_ok ::
  "('lex, 'parse, 'c, 'ix) server_api \<Rightarrow> ('c, 'cat) fs_world set \<Rightarrow> analysis_docs set
   \<Rightarrow> ('lex, 'parse) documents \<Rightarrow> ('c, 'cat, 'ix) workspace \<Rightarrow> ('c, 'cat) phase \<Rightarrow> bool" where
  "phase_ok S Ws K docs ws (Captured d) = docs_ok K (sv_docs S) docs d"
| "phase_ok S Ws K docs ws (Prepared d p) =
     (docs_ok K (sv_docs S) docs d \<and> prepared_in S Ws d p \<and> pp_epoch p \<le> ws_epoch ws
      \<and> (pp_epoch p = ws_epoch ws \<longrightarrow> project_is ws p))"
| "phase_ok S Ws K docs ws (Analyzed d p s) =
     (docs_ok K (sv_docs S) docs d \<and> prepared_in S Ws d p \<and> pp_epoch p \<le> ws_epoch ws
      \<and> (pp_epoch p = ws_epoch ws \<longrightarrow> project_is ws p) \<and> analyzed_in Ws p s)"
| "phase_ok S Ws K docs ws (Committed d p) =
     (docs_ok K (sv_docs S) docs d \<and> prepared_in S Ws d p \<and> project_is ws p
      \<and> ws_latest_generation ws = Some (ad_generation d)
      \<and> (\<exists>s. ws_latest ws = Some s \<and> analyzed_in Ws p s))"
| "phase_ok S Ws K docs ws _ = True"

text \<open>An installed analysis is one of the buffers of its generation.\<close>

definition fresh_ok ::
  "('lex, 'parse, 'c, 'ix) server_api \<Rightarrow> ('c, 'cat) fs_world set \<Rightarrow> analysis_docs set
   \<Rightarrow> ('lex, 'parse) documents \<Rightarrow> ('c, 'cat, 'ix) workspace \<Rightarrow> bool" where
  "fresh_ok S Ws K docs ws \<longleftrightarrow>
     (\<forall>g s. ws_latest_generation ws = Some g \<longrightarrow> ws_latest ws = Some s \<longrightarrow>
        (\<exists>d p. ad_generation d = g \<and> docs_ok K (sv_docs S) docs d \<and> prepared_in S Ws d p
           \<and> analyzed_in Ws p s))"

definition core_ok ::
  "('lex, 'parse, 'c, 'ix) server_api \<Rightarrow> ('c, 'cat) fs_world set \<Rightarrow> analysis_docs set
   \<Rightarrow> ('lex, 'parse) documents \<Rightarrow> ('c, 'cat, 'ix) workspace \<Rightarrow> ('c, 'cat) phase list \<Rightarrow> bool" where
  "core_ok S Ws K docs ws phs \<longleftrightarrow> workspace_ok (sv_check S) ws \<and> length (filter running phs) \<le> 1
     \<and> (\<forall>ph\<in>set phs. phase_ok S Ws K docs ws ph) \<and> fresh_ok S Ws K docs ws
     \<and> (\<forall>k\<in>K. docs_ok K (sv_docs S) docs k)"

lemma core_ok_new: "core_ok S Ws {} new_documents new_workspace []"
proof -
  have "fresh_ok S Ws {} new_documents new_workspace"
    by (simp add: fresh_ok_def new_workspace_def)
  then show ?thesis by (simp add: core_ok_def workspace_ok_new)
qed

text \<open>A snapshot taken now can be kept in mind.\<close>

lemma docs_ok_remember:
  "docs_ok {} D docs d \<Longrightarrow> docs_ok {analysis_snapshot D docs} D docs d"
  by (simp add: docs_ok_def analysis_snapshot_def)

lemma core_ok_remember:
  assumes "core_ok S Ws {} docs ws phs"
  shows "core_ok S Ws {analysis_snapshot (sv_docs S) docs} docs ws phs"
proof -
  let ?K = "{analysis_snapshot (sv_docs S) docs}"
  have "phase_ok S Ws {} docs ws ph \<Longrightarrow> phase_ok S Ws ?K docs ws ph" for ph
    by (cases ph) (auto intro: docs_ok_remember)
  moreover have "fresh_ok S Ws {} docs ws \<Longrightarrow> fresh_ok S Ws ?K docs ws"
    unfolding fresh_ok_def by (meson docs_ok_remember)
  moreover have "\<forall>k\<in>?K. docs_ok ?K (sv_docs S) docs k"
    by (simp add: docs_ok_def analysis_snapshot_def)
  ultimately show ?thesis using assms by (simp add: core_ok_def)
qed

text \<open>New sleeping tasks change nothing.\<close>

lemma core_ok_sleeping:
  "core_ok S Ws K docs ws phs \<Longrightarrow> set new \<subseteq> {Sleeping} \<Longrightarrow> core_ok S Ws K docs ws (phs @ new)"
proof -
  assume *: "core_ok S Ws K docs ws phs" "set new \<subseteq> {Sleeping}"
  then have "filter running new = []" by (auto simp: filter_empty_conv)
  with * show ?thesis by (auto simp: core_ok_def)
qed

text \<open>A notification: snapshots taken before can only fall behind.\<close>

lemma docs_ok_step:
  "docs_ok K D docs d \<Longrightarrow> docs_ok K D (documents_step D n docs) d"
  using ineffective_step [of docs n D]
  by (auto simp: docs_ok_def generation_step)

lemma phase_ok_step:
  "phase_ok S Ws K docs ws ph \<Longrightarrow> phase_ok S Ws K (documents_step (sv_docs S) n docs) ws ph"
  by (cases ph) (auto intro: docs_ok_step)

lemma fresh_ok_step:
  "fresh_ok S Ws K docs ws \<Longrightarrow> fresh_ok S Ws K (documents_step (sv_docs S) n docs) ws"
  unfolding fresh_ok_def by (meson docs_ok_step)

lemma core_ok_step:
  "core_ok S Ws K docs ws phs \<Longrightarrow> core_ok S Ws K (documents_step (sv_docs S) n docs) ws phs"
  by (simp add: core_ok_def phase_ok_step fresh_ok_step docs_ok_step)

text \<open>
  The workspace under the analysis lock: it keeps its latest analysis or drops it, and its
  project within an epoch.
\<close>

definition ws_moves :: "('c, 'cat, 'ix) workspace \<Rightarrow> ('c, 'cat, 'ix) workspace \<Rightarrow> bool" where
  "ws_moves ws ws' \<longleftrightarrow> ws_epoch ws \<le> ws_epoch ws'
     \<and> (ws_latest ws' = ws_latest ws \<and> ws_latest_generation ws' = ws_latest_generation ws
        \<or> ws_latest ws' = None)"

definition ws_settles :: "('c, 'cat, 'ix) workspace \<Rightarrow> ('c, 'cat, 'ix) workspace \<Rightarrow> bool" where
  "ws_settles ws ws' \<longleftrightarrow> ws_moves ws ws'
     \<and> (ws_epoch ws' = ws_epoch ws \<longrightarrow> ws_project ws' = ws_project ws)"

lemma ws_settles_refl [simp]: "ws_settles ws ws"
  by (simp add: ws_settles_def ws_moves_def)

lemma ws_settles_trans [trans]:
  "ws_settles ws1 ws2 \<Longrightarrow> ws_settles ws2 ws3 \<Longrightarrow> ws_settles ws1 ws3"
  by (auto simp: ws_settles_def ws_moves_def)

lemma fresh_ok_moves: "fresh_ok S Ws K docs ws \<Longrightarrow> ws_moves ws ws' \<Longrightarrow> fresh_ok S Ws K docs ws'"
  by (auto simp: fresh_ok_def ws_moves_def)

lemma phase_ok_settles:
  "phase_ok S Ws K docs ws ph \<Longrightarrow> ws_settles ws ws' \<Longrightarrow> \<not> committed_phase ph \<Longrightarrow> phase_ok S Ws K docs ws' ph"
  by (cases ph) (auto simp: ws_settles_def ws_moves_def project_is_def)

lemma phase_ok_not_running:
  "phase_ok S Ws K docs ws ph \<Longrightarrow> \<not> running ph \<Longrightarrow> phase_ok S Ws K docs ws' ph"
  by (cases ph) auto

lemma core_ok_settles:
  assumes "core_ok S Ws K docs ws phs" "ws_settles ws ws'" "workspace_ok (sv_check S) ws'"
    "\<not> list_ex committed_phase phs"
  shows "core_ok S Ws K docs ws' phs"
  using assms by (auto simp: core_ok_def ws_settles_def list_ex_iff
      intro: fresh_ok_moves phase_ok_settles [unfolded ws_settles_def])

lemma core_ok_moves_idle:
  assumes "core_ok S Ws K docs ws phs" "ws_moves ws ws'" "workspace_ok (sv_check S) ws'"
    "\<not> list_ex running phs"
  shows "core_ok S Ws K docs ws' phs"
  using assms by (auto simp: core_ok_def list_ex_iff intro: fresh_ok_moves phase_ok_not_running)

lemma ws_settles_invalidate [simp]:
  "ws_settles ws (invalidate_analysis M ws)" "ws_settles ws (invalidate_project ws)"
  by (auto simp: ws_settles_def ws_moves_def invalidate_analysis_def invalidate_project_def
      clear_latest_def demote_latest_def split: option.split)

lemma ws_settles_pending [simp]:
  "ws_settles ws (apply_pending_workspace_invalidation M bits ws)"
  by (simp add: apply_pending_workspace_invalidation_def)

lemma workspace_ok_pending [keeps]:
  "workspace_ok M ws \<Longrightarrow> workspace_ok M (apply_pending_workspace_invalidation M bits ws)"
  by (simp add: apply_pending_workspace_invalidation_def keeps)

lemma ws_settles_index [simp]: "ws_settles ws (binding_index M ws)"
  by (auto simp: binding_index_def ws_settles_def ws_moves_def split: option.split)

lemma ws_settles_choose [simp]:
  "ws_settles ws (snd (choose_read_source M file ws))"
  by (auto simp: choose_read_source_def binding_index_def ws_settles_def ws_moves_def
      split: option.split)

section \<open>The analysis side, step by step\<close>

lemma publish_frame [simp]:
  "b_docs (publish ps b) = b_docs b" "b_ws (publish ps b) = b_ws b" "b_tasks (publish ps b) = b_tasks b"
  "b_tracker (publish ps b) = b_tracker b" "b_pending (publish ps b) = b_pending b"
  "b_published (publish ps b) = b_published b @ ps"
  by (simp_all add: publish_def)

lemma schedule_frame [simp]:
  "b_docs (schedule_recompute p e sc b) = b_docs b" "b_ws (schedule_recompute p e sc b) = b_ws b"
  "b_tracker (schedule_recompute p e sc b) = b_tracker b"
  "b_published (schedule_recompute p e sc b) = b_published b"
  "phases (schedule_recompute p e sc b) = phases b @ [Sleeping]"
  by (simp_all add: schedule_recompute_def Let_def)

lemma schedule_all_frame [simp]:
  "b_docs (schedule_all ss b) = b_docs b" "b_ws (schedule_all ss b) = b_ws b"
  "b_tracker (schedule_all ss b) = b_tracker b"
  "b_published (schedule_all ss b) = b_published b"
  "phases (schedule_all ss b) = phases b @ replicate (length ss) Sleeping"
proof -
  have step: "schedule_all (s # ss) b
      = schedule_all ss (schedule_recompute (sr_path s) (sr_root_epoch s) Full b)" for s ss b
    by (simp add: schedule_all_def)
  have nil: "schedule_all [] b = b" for b by (simp add: schedule_all_def)
  show "b_docs (schedule_all ss b) = b_docs b" "b_ws (schedule_all ss b) = b_ws b"
    "b_tracker (schedule_all ss b) = b_tracker b"
    "b_published (schedule_all ss b) = b_published b"
    "phases (schedule_all ss b) = phases b @ replicate (length ss) Sleeping"
    by (induction ss arbitrary: b) (simp_all add: step nil)
qed

lemma bump_frame:
  assumes "bump_known_root got p b = (root_epoch, b')"
  shows "b_docs b' = b_docs b" "b_ws b' = b_ws b" "b_tasks b' = b_tasks b"
    "b_published b' = b_published b"
  using assms by (auto simp: bump_known_root_def split: option.splits prod.splits)

lemma did_open_core:
  "b_docs (did_open S got u s v b) = documents_step (sv_docs S) (DidOpen u s (Some v)) (b_docs b)
   \<and> b_ws (did_open S got u s v b) = b_ws b
   \<and> (\<exists>new. phases (did_open S got u s v b) = phases b @ new \<and> set new \<subseteq> {Sleeping})"
  by (auto simp: did_open_def Let_def dest: bump_frame split: option.split prod.split)

lemma did_change_core:
  "(b_docs (did_change S got u cs v b) = b_docs b
     \<or> b_docs (did_change S got u cs v b)
       = documents_step (sv_docs S) (DidChange u (last cs) (Some v)) (b_docs b))
   \<and> b_ws (did_change S got u cs v b) = b_ws b
   \<and> (\<exists>new. phases (did_change S got u cs v b) = phases b @ new \<and> set new \<subseteq> {Sleeping})"
  by (auto simp: did_change_def Let_def dest: bump_frame split: option.split prod.split)

lemma did_close_core:
  "b_docs (did_close S got u b) = documents_step (sv_docs S) (DidClose u) (b_docs b)
   \<and> b_ws (did_close S got u b) = b_ws b
   \<and> (\<exists>new. phases (did_close S got u b) = phases b @ new \<and> set new \<subseteq> {Sleeping})"
  by (auto simp: did_close_def Let_def split: option.split prod.split)

lemma watched_core:
  "b_docs (did_change_watched_files S w got events b) = b_docs b
   \<and> ws_settles (b_ws b) (b_ws (did_change_watched_files S w got events b))
   \<and> (workspace_ok (sv_check S) (b_ws b) \<longrightarrow>
        workspace_ok (sv_check S) (b_ws (did_change_watched_files S w got events b)))
   \<and> (\<not> got \<longrightarrow> b_ws (did_change_watched_files S w got events b) = b_ws b)
   \<and> (\<exists>new. phases (did_change_watched_files S w got events b) = phases b @ new \<and> set new \<subseteq> {Sleeping})"
proof -
  have busy: "b_docs (watched_busy w vs cs b) = b_docs b \<and> b_ws (watched_busy w vs cs b) = b_ws b
      \<and> (\<exists>new. phases (watched_busy w vs cs b) = phases b @ new \<and> set new \<subseteq> {Sleeping})" for vs cs
    by (auto simp: watched_busy_def Let_def split: prod.split)
  have settles: "ws_settles ws (invalidate_project (apply_pending_workspace_invalidation M bits ws))"
    "ws_settles ws (invalidate_analysis M (apply_pending_workspace_invalidation M bits ws))"
    for ws M bits
    using ws_settles_trans [OF ws_settles_pending] ws_settles_invalidate by blast+
  have idle: "b_docs (watched_idle S vs cs b) = b_docs b
      \<and> ws_settles (b_ws b) (b_ws (watched_idle S vs cs b))
      \<and> (workspace_ok (sv_check S) (b_ws b) \<longrightarrow> workspace_ok (sv_check S) (b_ws (watched_idle S vs cs b)))
      \<and> (\<exists>new. phases (watched_idle S vs cs b) = phases b @ new \<and> set new \<subseteq> {Sleeping})" for vs cs
    by (auto simp: watched_idle_def Let_def settles keeps split: prod.split)
  show ?thesis
    using busy idle by (auto simp: did_change_watched_files_def Let_def)
qed

lemma analysis_free_phases: "analysis_free b \<longleftrightarrow> \<not> list_ex committed_phase (phases b)"
  by (simp add: analysis_free_def list_ex_iff)

lemma idle_phases: "idle b \<longleftrightarrow> \<not> list_ex running (phases b)"
  by (simp add: idle_def list_ex_iff)

definition analysis_inv ::
  "('lex, 'parse, 'c, 'ix) server_api \<Rightarrow> ('c, 'cat) fs_world set \<Rightarrow> analysis_docs set
   \<Rightarrow> ('lex, 'parse, 'c, 'cat, 'ix) backend \<Rightarrow> bool" where
  "analysis_inv S Ws K b \<longleftrightarrow> core_ok S Ws K (b_docs b) (b_ws b) (phases b)"

lemma inv_notification:
  assumes "analysis_inv S Ws K b" "b_docs b' = b_docs b \<or> b_docs b' = documents_step (sv_docs S) n (b_docs b)"
    "b_ws b' = b_ws b" "\<exists>new. phases b' = phases b @ new \<and> set new \<subseteq> {Sleeping}"
  shows "analysis_inv S Ws K b'"
  using assms core_ok_sleeping core_ok_step unfolding analysis_inv_def by metis

lemma inv_watched:
  assumes "analysis_inv S Ws K b" "got \<longrightarrow> analysis_free b"
  shows "analysis_inv S Ws K (did_change_watched_files S w got events b)"
proof -
  let ?b' = "did_change_watched_files S w got events b"
  from watched_core [of S w got events b] obtain new where
    c: "b_docs ?b' = b_docs b" "ws_settles (b_ws b) (b_ws ?b')"
    "workspace_ok (sv_check S) (b_ws b) \<longrightarrow> workspace_ok (sv_check S) (b_ws ?b')"
    "\<not> got \<longrightarrow> b_ws ?b' = b_ws b" "phases ?b' = phases b @ new" "set new \<subseteq> {Sleeping}" by blast
  have ok: "workspace_ok (sv_check S) (b_ws b)" using assms(1) by (simp add: analysis_inv_def core_ok_def)
  have "core_ok S Ws K (b_docs b) (b_ws ?b') (phases b)"
  proof (cases got)
    case True
    with assms c ok show ?thesis
      by (auto simp: analysis_inv_def analysis_free_phases intro: core_ok_settles)
  next
    case False
    with assms c show ?thesis by (simp add: analysis_inv_def)
  qed
  from core_ok_sleeping [OF this c(6)] c show ?thesis by (simp add: analysis_inv_def)
qed

lemma inv_read:
  assumes "analysis_inv S Ws K b" "got \<longrightarrow> analysis_free b"
  shows "analysis_inv S Ws K (snd (read_request S got p b))"
proof (cases "\<not> got \<or> b_pending b \<noteq> 0")
  case False
  obtain source ws where c: "choose_read_source (sv_check S) p (b_ws b) = (source, ws)" by fastforce
  have "workspace_ok (sv_check S) ws" "ws_settles (b_ws b) ws"
    using c workspace_ok_choose [of "sv_check S" "b_ws b" p] ws_settles_choose [of "b_ws b" "sv_check S" p]
      assms(1) by (simp_all add: analysis_inv_def core_ok_def)
  with False assms c show ?thesis
    by (auto simp: read_request_def analysis_inv_def analysis_free_phases intro: core_ok_settles)
qed (use assms in \<open>simp add: read_request_def\<close>)

text \<open>Task steps replace or remove one phase.\<close>

lemma phases_goes: "i < length (b_tasks b) \<Longrightarrow> phases (task_goes i ph b) = (phases b)[i := ph]"
  by (simp add: task_goes_def map_update)

lemma phases_ends: "phases (task_ends i b) = take i (phases b) @ drop (Suc i) (phases b)"
  by (simp add: task_ends_def take_map drop_map)

lemma task_frame [simp]:
  "b_docs (task_ends i b) = b_docs b" "b_ws (task_ends i b) = b_ws b"
  "b_docs (task_goes i ph b) = b_docs b" "b_ws (task_goes i ph b) = b_ws b"
  "b_tracker (task_ends i b) = b_tracker b" "b_tracker (task_goes i ph b) = b_tracker b"
  "b_published (task_ends i b) = b_published b" "b_published (task_goes i ph b) = b_published b"
  by (simp_all add: task_ends_def task_goes_def)

lemma core_ok_remove:
  assumes "core_ok S Ws K docs ws phs"
  shows "core_ok S Ws K docs ws (take i phs @ drop (Suc i) phs)"
proof -
  have "length (filter running (take i phs @ drop (Suc i) phs)) \<le> length (filter running phs)"
  proof (cases "i < length phs")
    case True
    then have "filter running phs = filter running (take i phs @ phs ! i # drop (Suc i) phs)"
      by (simp add: id_take_nth_drop [symmetric])
    then show ?thesis by simp
  qed simp
  with assms show ?thesis
    by (auto simp: core_ok_def dest: in_set_takeD in_set_dropD)
qed

lemma core_ok_replace:
  assumes "core_ok S Ws K docs ws phs" "i < length phs" "phase_ok S Ws K docs ws ph"
    "running ph \<longrightarrow> running (phs ! i) \<or> \<not> list_ex running phs"
  shows "core_ok S Ws K docs ws (phs[i := ph])"
proof -
  have split: "phs = take i phs @ phs ! i # drop (Suc i) phs" using assms(2) by (rule id_take_nth_drop)
  have upd: "phs[i := ph] = take i phs @ ph # drop (Suc i) phs" using assms(2) by (rule upd_conv_take_nth_drop)
  have "length (filter running (phs[i := ph])) \<le> 1"
  proof (cases "running ph \<and> \<not> running (phs ! i)")
    case True
    with assms(4) have "filter running phs = []" by (auto simp: filter_empty_conv list_ex_iff)
    then have "filter running (take i phs) = []" "filter running (drop (Suc i) phs) = []"
      by (auto simp: filter_empty_conv dest: in_set_takeD in_set_dropD)
    then show ?thesis by (simp add: upd)
  next
    case False
    have "length (filter running (phs[i := ph])) \<le> length (filter running phs)"
      by (subst (2) split) (use False in \<open>auto simp: upd\<close>)
    with assms(1) show ?thesis by (simp add: core_ok_def)
  qed
  moreover have "set (phs[i := ph]) \<subseteq> insert ph (set phs)" by (rule set_update_subset_insert)
  ultimately show ?thesis using assms(1,3) by (auto simp: core_ok_def)
qed

lemma others_not_running:
  assumes "core_ok S Ws K docs ws phs" "i < length phs" "running (phs ! i)"
    "ph \<in> set (take i phs @ drop (Suc i) phs)"
  shows "\<not> running ph"
proof -
  have "length (filter running (take i phs @ phs ! i # drop (Suc i) phs)) \<le> 1"
    using assms(1,2) by (simp add: core_ok_def id_take_nth_drop [symmetric])
  with assms(3) have "filter running (take i phs @ drop (Suc i) phs) = []" by simp
  with assms(4) show ?thesis by (meson filter_empty_conv)
qed

lemma core_ok_goes:
  assumes "analysis_inv S Ws K b" "at_phase i old b" "phase_ok S Ws K (b_docs b) (b_ws b) ph"
    "running ph \<longrightarrow> running old \<or> idle b"
  shows "analysis_inv S Ws K (task_goes i ph b)"
proof -
  have i: "i < length (b_tasks b)" and "phases b ! i = old" using assms(2) by (simp_all add: at_phase_def)
  with assms core_ok_replace [of S Ws K "b_docs b" "b_ws b" "phases b" i ph] show ?thesis
    by (simp add: analysis_inv_def phases_goes idle_phases)
qed

lemma inv_ends: "analysis_inv S Ws K b \<Longrightarrow> analysis_inv S Ws K (task_ends i b)"
  by (simp add: analysis_inv_def phases_ends core_ok_remove)

lemma phase_at:
  assumes "analysis_inv S Ws K b" "at_phase i ph b"
  shows "phase_ok S Ws K (b_docs b) (b_ws b) ph"
  using assms by (auto simp: analysis_inv_def core_ok_def at_phase_def)

text \<open>Once the only running task has left the list, the workspace may settle.\<close>

lemma inv_ends_settles:
  assumes "analysis_inv S Ws K b" "at_phase i ph b" "running ph" "ws_settles (b_ws b) ws"
    "workspace_ok (sv_check S) ws"
  shows "core_ok S Ws K (b_docs b) ws (take i (phases b) @ drop (Suc i) (phases b))"
proof -
  have core: "core_ok S Ws K (b_docs b) (b_ws b) (phases b)" using assms(1) by (simp add: analysis_inv_def)
  have "\<not> running p" if "p \<in> set (take i (phases b) @ drop (Suc i) (phases b))" for p
    using others_not_running [OF core _ _ that] assms(2,3) by (simp add: at_phase_def)
  then have "\<not> list_ex committed_phase (take i (phases b) @ drop (Suc i) (phases b))"
    unfolding list_ex_iff by (metis committed_phase.elims(2) running.simps(3))
  with core_ok_settles [OF core_ok_remove [OF core] assms(4,5)] show ?thesis by blast
qed

lemma swap_pending_frame [simp]:
  "b_docs (swap_pending S b) = b_docs b" "b_tasks (swap_pending S b) = b_tasks b"
  "b_tracker (swap_pending S b) = b_tracker b" "b_published (swap_pending S b) = b_published b"
  "b_ws (swap_pending S b) = apply_pending_workspace_invalidation (sv_check S) (b_pending b) (b_ws b)"
  by (simp_all add: swap_pending_def)

lemma inv_workspace_ok: "analysis_inv S Ws K b \<Longrightarrow> workspace_ok (sv_check S) (b_ws b)"
  by (simp add: analysis_inv_def core_ok_def)

lemma inv_swap_ends:
  assumes "analysis_inv S Ws K b" "at_phase i ph b" "running ph"
  shows "analysis_inv S Ws K (task_ends i (swap_pending S b))"
  using inv_ends_settles [OF assms ws_settles_pending workspace_ok_pending [OF inv_workspace_ok [OF assms(1)]]]
  by (simp add: analysis_inv_def phases_ends)

lemma inv_prepare:
  assumes "analysis_inv S Ws K b" "at_phase i (Captured docs) b" "idle b" "w \<in> Ws" "reachable_server S Ws b"
  shows "analysis_inv S Ws K (task_after i (prepare_task S w (b_tasks b ! i) docs b))"
proof -
  let ?ws1 = "apply_pending_workspace_invalidation (sv_check S) (b_pending b) (b_ws b)"
  obtain r ws2 where prep: "prepare_recompute (sv_check S) w (rt_file (b_tasks b ! i)) docs
      (rt_scope (b_tasks b ! i)) ?ws1 = (r, ws2)" by fastforce
  define b2 where "b2 = (swap_pending S b)\<lparr>b_ws := ws2\<rparr>"
  have "ws_moves ?ws1 ws2"
    using prep by (cases rule: prepare_cases) (simp_all add: ws_moves_def)
  then have "ws_moves (b_ws b) ws2"
    using ws_settles_pending [of "b_ws b" "sv_check S" "b_pending b"]
    by (auto simp: ws_settles_def ws_moves_def)
  moreover have "workspace_ok (sv_check S) ws2"
    using workspace_ok_prepare [OF workspace_ok_pending [OF inv_workspace_ok [OF assms(1)]]] prep
    by (metis snd_conv)
  ultimately have b2: "analysis_inv S Ws K b2"
    using assms(1,3) core_ok_moves_idle
    by (auto simp: analysis_inv_def b2_def idle_phases)
  have at: "at_phase i (Captured docs) b2" "idle b2"
    using assms(2,3) by (simp_all add: b2_def at_phase_def idle_def)
  show ?thesis
  proof (cases r)
    case (Inl e)
    with prep inv_ends [OF b2, of i] show ?thesis
      by (simp add: prepare_task_def task_after_def Let_def b2_def)
  next
    case (Inr p)
    have "docs_ok K (sv_docs S) (b_docs b2) docs" using phase_at [OF b2 at(1)] by simp
    moreover have "pp_epoch p = ws_epoch ws2 \<and> project_is ws2 p"
      using prep Inr by (cases rule: prepare_cases) (auto simp: project_is_def)
    moreover have "prepared_in S Ws docs p"
      unfolding prepared_in_def
      using assms(4,5) prep Inr
      by (intro bexI [of _ w] exI [of _ b] exI [of _ "rt_file (b_tasks b ! i)"]
          exI [of _ "rt_scope (b_tasks b ! i)"]) simp_all
    ultimately have "phase_ok S Ws K (b_docs b2) (b_ws b2) (Prepared docs p)"
      by (simp add: b2_def)
    from core_ok_goes [OF b2 at(1) this] at(2) have "analysis_inv S Ws K (task_goes i (Prepared docs p) b2)"
      by simp
    with prep Inr show ?thesis
      by (simp add: prepare_task_def task_after_def Let_def b2_def)
  qed
qed

lemma inv_analyze:
  assumes "analysis_inv S Ws K b" "at_phase i (Prepared docs p) b" "w \<in> Ws"
  shows "analysis_inv S Ws K (task_after i (analyze_task w docs p, b))"
proof (cases "analyze w p")
  case (Inr s)
  then have "phase_ok S Ws K (b_docs b) (b_ws b) (Analyzed docs p s)"
    using phase_at [OF assms(1,2)] assms(3) by (auto simp: analyzed_in_def)
  from core_ok_goes [OF assms(1,2) this] Inr show ?thesis by (simp add: analyze_task_def task_after_def)
qed (use assms inv_ends in \<open>simp add: analyze_task_def task_after_def\<close>)

lemma commit_installs:
  assumes "commit_recompute M generation epoch s ws = (ok, ws')"
  shows "ok \<longrightarrow> ws_epoch ws = epoch \<and> (\<exists>pr. ws_project ws = Some pr \<and> ws' = install M pr generation s ws)"
    and "\<not> ok \<longrightarrow> ws' = ws"
  using assms by (auto simp: commit_recompute_def split: option.splits if_splits)

lemma inv_commit:
  assumes "analysis_inv S Ws K b" "at_phase i (Analyzed docs p s) b"
  shows "analysis_inv S Ws K (task_after i (commit_task S docs p s b))"
proof (cases "b_pending b = 0")
  case False
  with inv_swap_ends [OF assms] show ?thesis by (simp add: commit_task_def task_after_def)
next
  case True
  obtain ok ws where c: "commit_recompute (sv_check S) (pp_generation p) (pp_epoch p) s (b_ws b)
      = (ok, ws)" by fastforce
  show ?thesis
  proof (cases ok)
    case False
    with c commit_installs(2) [OF c] True inv_ends [OF assms(1), of i] show ?thesis
      by (simp add: commit_task_def task_after_def)
  next
    case ok: True
    with commit_installs(1) [OF c] obtain pr where e: "pp_epoch p = ws_epoch (b_ws b)"
      "ws_project (b_ws b) = Some pr" "ws = install (sv_check S) pr (pp_generation p) s (b_ws b)" by auto
    have ph: "docs_ok K (sv_docs S) (b_docs b) docs" "prepared_in S Ws docs p" "project_is (b_ws b) p"
      "analyzed_in Ws p s" using phase_at [OF assms] e(1) by auto
    have core: "core_ok S Ws K (b_docs b) (b_ws b) (phases b)" using assms(1) by (simp add: analysis_inv_def)
    have i: "i < length (phases b)" "phases b ! i = Analyzed docs p s"
      using assms(2) by (simp_all add: at_phase_def)
    have "phase_ok S Ws K (b_docs b) ws (Committed docs p)"
      using ph e prepared_in_fields(2) [OF ph(2)] by (auto simp: project_is_def)
    moreover have "phase_ok S Ws K (b_docs b) ws x \<and> \<not> running x"
      if "x \<in> set (take i (phases b) @ drop (Suc i) (phases b))" for x
    proof -
      have "\<not> running x" using others_not_running [OF core i(1) _ that] i(2) by simp
      moreover have "phase_ok S Ws K (b_docs b) (b_ws b) x"
      proof -
        have "x \<in> set (phases b)" using that by (auto dest: in_set_takeD in_set_dropD)
        with core show ?thesis by (simp only: core_ok_def)
      qed
      ultimately show ?thesis using phase_ok_not_running by blast
    qed
    moreover have "(phases b)[i := Committed docs p]
        = take i (phases b) @ Committed docs p # drop (Suc i) (phases b)"
      using i(1) by (rule upd_conv_take_nth_drop)
    moreover have "filter running (take i (phases b) @ drop (Suc i) (phases b)) = []"
      using calculation(2) by (meson filter_empty_conv)
    moreover have "workspace_ok (sv_check S) ws"
      using workspace_ok_install [OF inv_workspace_ok [OF assms(1)] e(2)] e(3) by simp
    moreover have "fresh_ok S Ws K (b_docs b) ws"
      using ph e(3) prepared_in_fields(2) [OF ph(2)] by (fastforce simp: fresh_ok_def)
    moreover have "\<forall>k\<in>K. docs_ok K (sv_docs S) (b_docs b) k" using core by (simp add: core_ok_def)
    ultimately have "core_ok S Ws K (b_docs b) ws ((phases b)[i := Committed docs p])"
      by (auto simp: core_ok_def)
    with True c ok i(1) show ?thesis
      by (simp add: commit_task_def task_after_def analysis_inv_def phases_goes)
  qed
qed

lemma publish_frame_task:
  assumes "publish_task S w task docs p b = Some b'"
  shows "b_docs b' = b_docs b" "b_tasks b' = b_tasks b"
    "b_ws b' = (if b_pending b \<noteq> 0 then b_ws (swap_pending S b) else b_ws b)"
  using assms by (auto simp: publish_task_def Let_def split: option.splits prod.splits bool.splits if_splits)

lemma inv_publish:
  assumes "analysis_inv S Ws K b" "at_phase i (Committed docs p) b"
    "publish_task S w (b_tasks b ! i) docs p b = Some b'"
  shows "analysis_inv S Ws K (task_ends i b')"
proof -
  note f = publish_frame_task [OF assms(3)]
  have "ws_settles (b_ws b) (b_ws b')" "workspace_ok (sv_check S) (b_ws b')"
    using f(3) inv_workspace_ok [OF assms(1)] by (simp_all add: keeps)
  from inv_ends_settles [OF assms(1,2) _ this] f(1,2) show ?thesis
    by (simp add: analysis_inv_def phases_ends)
qed

lemma inv_step:
  assumes "backend_step S Ws b b'" "analysis_inv S Ws K b" "reachable_server S Ws b"
  shows "analysis_inv S Ws K b'"
  using assms(1)
proof cases
  case (opens got u s v)
  then show ?thesis using inv_notification [OF assms(2)] did_open_core by metis
next
  case (changes got u cs v)
  then show ?thesis using inv_notification [OF assms(2)] did_change_core by metis
next
  case (closes got u)
  then show ?thesis using inv_notification [OF assms(2)] did_close_core by metis
next
  case (watches got w events)
  with inv_watched [OF assms(2)] show ?thesis by simp
next
  case (reads got p)
  with inv_read [OF assms(2)] show ?thesis by simp
next
  case indexes
  with core_ok_settles [of S Ws K "b_docs b" "b_ws b" "phases b" "binding_index (sv_check S) (b_ws b)"]
    assms(2) workspace_ok_index [OF inv_workspace_ok [OF assms(2)]] show ?thesis
    by (simp add: analysis_inv_def analysis_free_phases)
next
  case (stores u data)
  with assms(2) show ?thesis by (simp add: analysis_inv_def)
next
  case (wakes i)
  with core_ok_goes [OF assms(2) wakes(2), of Checked] inv_ends [OF assms(2)] show ?thesis by simp
next
  case (captures i)
  have "docs_ok K (sv_docs S) (b_docs b) (analysis_snapshot (sv_docs S) (b_docs b))"
    using assms(2) by (auto simp: analysis_inv_def core_ok_def docs_ok_def analysis_snapshot_def)
  with core_ok_goes [OF assms(2) captures(2), of "Captured (analysis_snapshot (sv_docs S) (b_docs b))"]
    captures show ?thesis by simp
next
  case (prepares i docs w)
  with inv_prepare [OF assms(2) _ _ _ assms(3)] show ?thesis by simp
next
  case (analyzes i docs p w)
  with inv_analyze [OF assms(2)] show ?thesis by simp
next
  case (commits i docs p s)
  with inv_commit [OF assms(2)] show ?thesis by simp
next
  case (publishes i docs p w b2)
  with inv_publish [OF assms(2)] show ?thesis by simp
qed

interpretation analysis_side: invariant_system "\<lambda>b. b = new_backend" "backend_step S Ws"
  "\<lambda>b. reachable_server S Ws b \<and> analysis_inv S Ws {} b" for S Ws
proof unfold_locales
  fix b b' :: "('a, 'b, 'c, 'd, 'e) backend"
  show "b = new_backend \<Longrightarrow> reachable_server S Ws b \<and> analysis_inv S Ws {} b"
    by (simp add: analysis_inv_def new_backend_def core_ok_new reachable.start)
  show "reachable_server S Ws b \<and> analysis_inv S Ws {} b \<Longrightarrow> backend_step S Ws b b'
      \<Longrightarrow> reachable_server S Ws b' \<and> analysis_inv S Ws {} b'"
    using inv_step by (blast intro: reachable.further)
qed

text \<open>From a state on, with a snapshot of it kept in mind.\<close>

interpretation analysis_since: invariant_system
  "\<lambda>b. reachable_server S Ws b \<and> b_docs b = docs \<and> K = {analysis_snapshot (sv_docs S) docs}"
  "backend_step S Ws" "\<lambda>b. reachable_server S Ws b \<and> analysis_inv S Ws K b" for S Ws docs K
proof unfold_locales
  fix b b' :: "('a, 'b, 'c, 'd, 'e) backend"
  show "reachable_server S Ws b \<and> b_docs b = docs \<and> K = {analysis_snapshot (sv_docs S) docs}
      \<Longrightarrow> reachable_server S Ws b \<and> analysis_inv S Ws K b"
    using analysis_side.always [of S Ws b] by (auto simp: analysis_inv_def core_ok_remember)
  show "reachable_server S Ws b \<and> analysis_inv S Ws K b \<Longrightarrow> backend_step S Ws b b'
      \<Longrightarrow> reachable_server S Ws b' \<and> analysis_inv S Ws K b'"
    using inv_step by (blast intro: reachable.further)
qed

lemmas server_inv = analysis_side.always [THEN conjunct2]

text \<open>An analysis that passes for the buffers of an earlier moment was made of them.\<close>

lemma fresh_analysis_is_of:
  assumes "reachable_server S Ws b0" "(backend_step S Ws)\<^sup>*\<^sup>* b0 b"
    "fresh_latest (b_ws b) (analysis_snapshot (sv_docs S) (b_docs b0)) = Some s"
  shows "\<exists>p. prepared_in S Ws (analysis_snapshot (sv_docs S) (b_docs b0)) p \<and> analyzed_in Ws p s"
proof -
  let ?d = "analysis_snapshot (sv_docs S) (b_docs b0)"
  have "analysis_inv S Ws {?d} b0"
    using server_inv [OF assms(1)] by (simp add: analysis_inv_def core_ok_remember)
  with analysis_since.onwards [OF assms(2)] assms(1) have "analysis_inv S Ws {?d} b" by blast
  then have fresh: "fresh_ok S Ws {?d} (b_docs b) (b_ws b)" by (simp add: analysis_inv_def core_ok_def)
  have "ws_latest_generation (b_ws b) = Some (ad_generation ?d)" "ws_latest (b_ws b) = Some s"
    using assms(3) by (auto simp: fresh_latest_def latest_matches_def split: if_splits)
  with fresh obtain d p where "ad_generation d = ad_generation ?d" "docs_ok {?d} (sv_docs S) (b_docs b) d"
    "prepared_in S Ws d p" "analyzed_in Ws p s" unfolding fresh_ok_def by blast
  then show ?thesis by (auto simp: docs_ok_def)
qed

end
