(* ===== verification/Lsp_Tracker_Laws.thy ===== *)
theory Lsp_Tracker_Laws
  imports Lsp_Backend_Laws
begin

text \<open>
  The diagnostics side of the server: epochs only grow, scheduled tasks never carry an epoch
  from the future, and whatever problems the client shows are tracked for some root, so that
  they can be taken back.
\<close>

section \<open>Watched batches\<close>

definition effects_sound ::
  "(url \<times> int option) list \<Rightarrow> watch_effects \<times> tracker \<Rightarrow> watch_effects \<times> tracker \<Rightarrow> bool" where
  "effects_sound versions st st' \<longleftrightarrow>
     (\<forall>r. rd_epoch (root_entry r (snd st)) \<le> rd_epoch (root_entry r (snd st')))
     \<and> (\<forall>u\<in>tracked (snd st). u \<in> tracked (snd st') \<or> clear_publish u versions \<in> set (we_clears (fst st')))
     \<and> effects_grow st st'
     \<and> (\<forall>s\<in>set (we_schedules (fst st')) - set (we_schedules (fst st)). \<exists>r k.
          sr_root_epoch s = Some (r, k) \<and> k \<le> rd_epoch (root_entry r (snd st')))"

lemma effects_sound_refl [simp]: "effects_sound versions st st"
  by (auto simp: effects_sound_def)

lemma effects_sound_trans [trans]:
  assumes "effects_sound versions st1 st2" "effects_sound versions st2 st3"
  shows "effects_sound versions st1 st3"
proof -
  have "\<exists>r k. sr_root_epoch s = Some (r, k) \<and> k \<le> rd_epoch (root_entry r (snd st3))"
    if s: "s \<in> set (we_schedules (fst st3)) - set (we_schedules (fst st1))" for s
  proof (cases "s \<in> set (we_schedules (fst st2))")
    case True
    with s assms(1) have "\<exists>r k. sr_root_epoch s = Some (r, k) \<and> k \<le> rd_epoch (root_entry r (snd st2))"
      unfolding effects_sound_def by blast
    then obtain r k where "sr_root_epoch s = Some (r, k)" "k \<le> rd_epoch (root_entry r (snd st2))"
      by blast
    moreover have "rd_epoch (root_entry r (snd st2)) \<le> rd_epoch (root_entry r (snd st3))"
      using assms(2) by (simp add: effects_sound_def)
    ultimately show ?thesis by (blast intro: order_trans)
  next
    case False
    with s assms(2) show ?thesis by (auto simp: effects_sound_def)
  qed
  moreover have "rd_epoch (root_entry r (snd st1)) \<le> rd_epoch (root_entry r (snd st3))" for r
    using assms order_trans unfolding effects_sound_def by blast
  moreover have "u \<in> tracked (snd st3) \<or> clear_publish u versions \<in> set (we_clears (fst st3))"
    if "u \<in> tracked (snd st1)" for u
    using that assms unfolding effects_sound_def effects_grow_def by blast
  moreover have "effects_grow st1 st3"
    using assms effects_grow_trans unfolding effects_sound_def by blast
  ultimately show ?thesis unfolding effects_sound_def by blast
qed

lemma tracked_iff: "u \<in> tracked t \<longleftrightarrow> (\<exists>r. u \<in> set (rd_urls (root_entry r t)))"
  by (simp add: tracked_def)

lemma effects_step_sound:
  "effects_sound versions (e, t) (effects_step versions current_root drain (root, p) (e, t))"
proof -
  obtain e' t' where st': "effects_step versions current_root drain (root, p) (e, t) = (e', t')"
    by fastforce
  have grow: "effects_grow (e, t) (e', t')"
    and other: "\<And>r. r \<noteq> root \<Longrightarrow> root_entry r t' = root_entry r t"
    using effects_step_grow [of e t versions current_root drain root p] st' by auto
  have own: "rd_epoch (root_entry root t) \<le> rd_epoch (root_entry root t')
      \<and> (\<forall>u\<in>set (rd_urls (root_entry root t)). u \<in> set (rd_urls (root_entry root t'))
          \<or> clear_publish u versions \<in> set (we_clears e'))
      \<and> (\<forall>s\<in>set (we_schedules e') - set (we_schedules e).
          sr_root_epoch s = Some (root, rd_epoch (root_entry root t')))"
  proof (cases "pw_clear_root p")
    case True
    obtain epoch t1 where b: "bump_root_epoch root t = (epoch, t1)" by fastforce
    obtain urls t2 where c: "clear_root root t1 = (urls, t2)" by fastforce
    have t1: "root_entry root t1 = (root_entry root t)\<lparr>rd_epoch := Suc (rd_epoch (root_entry root t))\<rparr>"
      "epoch = Suc (rd_epoch (root_entry root t))"
      using root_entry_bump [of root root t] bump_fst [of root t] b by simp_all
    have t2: "root_entry root t2 = (root_entry root t1)\<lparr>rd_urls := []\<rparr>"
      "set urls = set (rd_urls (root_entry root t1))"
      using root_entry_clear [of root root t1] clear_root_urls [of root t1] c by simp_all
    show ?thesis
      using True b c t1 t2 st'
      by (cases drain; cases "pw_recompute_path p") (auto simp: effects_step_def Let_def)
  next
    case False
    let ?st = "fold (clear_deleted versions root) (sort_urls (pw_deleted_urls p)) (we_clears e, t)"
    obtain clears t1 where f: "?st = (clears, t1)" by fastforce
    have t1: "clears_to versions (we_clears e, t) (clears, t1)"
      using clear_deleted_fold [of versions "(we_clears e, t)" root] f by metis
    obtain epoch t2 where b: "bump_root_epoch root t1 = (epoch, t2)" by fastforce
    have t2: "root_entry root t2 = (root_entry root t1)\<lparr>rd_epoch := Suc (rd_epoch (root_entry root t1))\<rparr>"
      "epoch = Suc (rd_epoch (root_entry root t1))"
      using root_entry_bump [of root root t1] bump_fst [of root t1] b by simp_all
    have keep: "\<forall>u\<in>set (rd_urls (root_entry root t)). u \<in> set (rd_urls (root_entry root t1))
        \<or> clear_publish u versions \<in> set clears"
      and same: "rd_epoch (root_entry root t1) = rd_epoch (root_entry root t)"
      using t1 by (auto simp: clears_to_def)
    show ?thesis
      using False f b keep same t2 st'
      by (cases "pw_recompute_path p") (auto simp: effects_step_def Let_def)
  qed
  have "rd_epoch (root_entry r t) \<le> rd_epoch (root_entry r t')" for r
    using own other by (cases "r = root") auto
  moreover have "u \<in> tracked t' \<or> clear_publish u versions \<in> set (we_clears e')" if "u \<in> tracked t" for u
  proof -
    from that obtain r where "u \<in> set (rd_urls (root_entry r t))" by (auto simp: tracked_iff)
    then show ?thesis using own other [of r]
      by (cases "r = root") (auto simp: tracked_iff intro: exI [of _ r])
  qed
  ultimately show ?thesis unfolding st' effects_sound_def using grow own by auto
qed

lemma effects_fold_sound:
  "effects_sound versions st (fold (effects_step versions current_root drain) pending st)"
proof (induction pending arbitrary: st)
  case (Cons x pending)
  obtain root p e t where "x = (root, p)" "st = (e, t)" by (metis surj_pair)
  then have "effects_sound versions st (effects_step versions current_root drain x st)"
    using effects_step_sound by simp
  from effects_sound_trans [OF this Cons.IH] show ?case by simp
qed simp

lemma watched_effects_sound:
  assumes "watched_root_effects t versions pending current_root drain = (e, t')"
  shows "rd_epoch (root_entry r t) \<le> rd_epoch (root_entry r t')"
    and "u \<in> tracked t \<Longrightarrow> u \<in> tracked t' \<or> clear_publish u versions \<in> set (we_clears e)"
    and "p \<in> set (we_clears e) \<Longrightarrow> pb_diagnostics p = []"
    and "s \<in> set (we_schedules e) \<Longrightarrow> sr_root_epoch s = Some (r', k)
      \<Longrightarrow> k \<le> rd_epoch (root_entry r' t')"
proof -
  have sound: "effects_sound versions (no_effects, t) (e, t')"
    using effects_fold_sound [of versions "(no_effects, t)" current_root drain pending] assms
    by (simp add: watched_root_effects_def)
  then show "rd_epoch (root_entry r t) \<le> rd_epoch (root_entry r t')"
    and "u \<in> tracked t \<Longrightarrow> u \<in> tracked t' \<or> clear_publish u versions \<in> set (we_clears e)"
    by (simp_all add: effects_sound_def)
  show "p \<in> set (we_clears e) \<Longrightarrow> pb_diagnostics p = []"
    using sound by (simp add: effects_sound_def effects_grow_def no_effects_def)
  assume "s \<in> set (we_schedules e)" "sr_root_epoch s = Some (r', k)"
  then show "k \<le> rd_epoch (root_entry r' t')"
    using sound by (fastforce simp: effects_sound_def no_effects_def)
qed

section \<open>What the client shows\<close>

definition shown :: "('lex, 'parse, 'c, 'cat, 'ix) backend \<Rightarrow> url \<Rightarrow> lsp_diagnostic list" where
  "shown b = fold show_published (b_published b) (\<lambda>_. [])"

lemma fold_show_empty:
  "\<forall>p\<in>set ps. pb_diagnostics p = [] \<Longrightarrow>
   fold show_published ps f u = (if u \<in> pb_url ` set ps then [] else f u)"
  by (induction ps arbitrary: f) (auto simp: show_published_def)

lemma fold_show_map:
  assumes "distinct (map fst m)"
  shows "fold show_published (map (\<lambda>(u, ds). \<lparr>pb_url = u, pb_diagnostics = ds, pb_version = v u\<rparr>) m) f u
    = (case map_of m u of Some ds \<Rightarrow> ds | None \<Rightarrow> f u)"
  using assms
proof (induction m arbitrary: f)
  case (Cons x m)
  obtain w ds where x: "x = (w, ds)" by fastforce
  with Cons.prems have "map_of m w = None" by (simp add: map_of_eq_None_iff)
  with Cons x show ?case by (auto simp: show_published_def split: option.split)
qed simp

lemma shown_more:
  "b_published b' = b_published b @ ps \<Longrightarrow> shown b' = fold show_published ps (shown b)"
  by (simp add: shown_def)

definition tracker_inv :: "('lex, 'parse, 'c, 'cat, 'ix) backend \<Rightarrow> bool" where
  "tracker_inv b \<longleftrightarrow>
     (\<forall>t\<in>set (b_tasks b). \<forall>r e. rt_root_epoch t = Some (r, e) \<longrightarrow> e \<le> rd_epoch (root_entry r (b_tracker b)))
     \<and> (\<forall>u. shown b u \<noteq> [] \<longrightarrow> u \<in> tracked (b_tracker b))"

text \<open>How one step may change tracker, tasks and publishes.\<close>

definition tracker_moves ::
  "('lex, 'parse, 'c, 'cat, 'ix) backend \<Rightarrow> ('lex, 'parse, 'c, 'cat, 'ix) backend \<Rightarrow> bool" where
  "tracker_moves b b' \<longleftrightarrow>
     (\<forall>r. rd_epoch (root_entry r (b_tracker b)) \<le> rd_epoch (root_entry r (b_tracker b')))
     \<and> (\<forall>t\<in>set (b_tasks b'). (\<exists>t0\<in>set (b_tasks b). rt_root_epoch t = rt_root_epoch t0)
          \<or> (\<forall>r e. rt_root_epoch t = Some (r, e) \<longrightarrow> e \<le> rd_epoch (root_entry r (b_tracker b'))))
     \<and> ((\<forall>u. shown b u \<noteq> [] \<longrightarrow> u \<in> tracked (b_tracker b)) \<longrightarrow>
        (\<forall>u. shown b' u \<noteq> [] \<longrightarrow> u \<in> tracked (b_tracker b')))"

lemma tracker_inv_moves: "tracker_inv b \<Longrightarrow> tracker_moves b b' \<Longrightarrow> tracker_inv b'"
proof -
  assume inv: "tracker_inv b" and moves: "tracker_moves b b'"
  have "e \<le> rd_epoch (root_entry r (b_tracker b'))"
    if t: "t \<in> set (b_tasks b')" "rt_root_epoch t = Some (r, e)" for t r e
  proof (cases "\<exists>t0\<in>set (b_tasks b). rt_root_epoch t = rt_root_epoch t0")
    case True
    then have "e \<le> rd_epoch (root_entry r (b_tracker b))"
      using inv t(2) by (auto simp: tracker_inv_def)
    then show ?thesis using moves order_trans by (auto simp: tracker_moves_def)
  next
    case False
    with moves t show ?thesis unfolding tracker_moves_def by blast
  qed
  then show ?thesis using inv moves by (simp add: tracker_inv_def tracker_moves_def)
qed

lemma tracker_moves_same:
  assumes "b_tracker b' = b_tracker b" "b_published b' = b_published b"
    "\<forall>t\<in>set (b_tasks b'). \<exists>t0\<in>set (b_tasks b). rt_root_epoch t = rt_root_epoch t0"
  shows "tracker_moves b b'"
  using assms by (auto simp: tracker_moves_def shown_def)

lemma schedule_tasks:
  "\<exists>t. b_tasks (schedule_recompute p root_epoch sc b) = b_tasks b @ [t]
    \<and> rt_root_epoch t = root_epoch \<and> rt_scope t = sc \<and> rt_phase t = Sleeping"
  by (simp add: schedule_recompute_def Let_def)

lemma tracker_moves_schedule:
  assumes "tracker_moves b b'"
    "\<forall>r e. root_epoch = Some (r, e) \<longrightarrow> e \<le> rd_epoch (root_entry r (b_tracker b'))"
  shows "tracker_moves b (schedule_recompute p root_epoch sc b')"
proof -
  obtain t where t: "b_tasks (schedule_recompute p root_epoch sc b') = b_tasks b' @ [t]"
    "rt_root_epoch t = root_epoch" using schedule_tasks by blast
  have "shown (schedule_recompute p root_epoch sc b') = shown b'" by (simp add: shown_def)
  with assms t show ?thesis unfolding tracker_moves_def by simp
qed

lemma tracker_moves_schedule_all:
  assumes "tracker_moves b b'" "\<forall>s\<in>set ss. \<forall>r e. sr_root_epoch s = Some (r, e)
      \<longrightarrow> e \<le> rd_epoch (root_entry r (b_tracker b'))"
  shows "tracker_moves b (schedule_all ss b')"
  using assms
proof (induction ss arbitrary: b')
  case (Cons s ss)
  have "schedule_all (s # ss) b'
      = schedule_all ss (schedule_recompute (sr_path s) (sr_root_epoch s) Full b')"
    by (simp add: schedule_all_def)
  moreover have "tracker_moves b (schedule_recompute (sr_path s) (sr_root_epoch s) Full b')"
    using Cons.prems by (intro tracker_moves_schedule) simp_all
  ultimately show ?case using Cons by simp
qed (simp add: schedule_all_def)

lemma bump_moves:
  assumes "bump_known_root got p b = (root_epoch, b')"
  shows "tracker_moves b b' \<and>
    (\<forall>r e. root_epoch = Some (r, e) \<longrightarrow> e \<le> rd_epoch (root_entry r (b_tracker b')))"
proof (cases "known_root_for_path (if got then Some (b_ws b) else None) (b_tracker b) p")
  case (Some root)
  obtain epoch t where bump: "bump_root_epoch root (b_tracker b) = (epoch, t)" by fastforce
  have "b' = b\<lparr>b_tracker := t\<rparr>" "root_epoch = Some (root, epoch)"
    using assms Some bump by (simp_all add: bump_known_root_def)
  then show ?thesis
    using root_entry_bump [of _ root "b_tracker b"] bump_fst [of root "b_tracker b"]
      tracked_bump [of root "b_tracker b"] bump
    by (auto simp: tracker_moves_def shown_def)
qed (use assms in \<open>auto simp: bump_known_root_def tracker_moves_def\<close>)

lemma tracker_moves_docs:
  "tracker_moves (b\<lparr>b_docs := d\<rparr>) b' \<longleftrightarrow> tracker_moves b b'"
  by (simp add: tracker_moves_def shown_def)

lemma did_open_moves: "tracker_moves b (did_open S got u s v b)"
proof (cases "to_file_path (sv_docs S) u")
  case (Some p)
  let ?b1 = "b\<lparr>b_docs := open_with_version (sv_docs S) u s (Some v) (b_docs b)\<rparr>"
  obtain root_epoch b2 where bump: "bump_known_root got p ?b1 = (root_epoch, b2)" by fastforce
  from tracker_moves_schedule [OF bump_moves [OF bump, THEN conjunct1] bump_moves [OF bump, THEN conjunct2]] show ?thesis
    using Some bump by (simp add: did_open_def Let_def tracker_moves_docs)
qed (auto simp: did_open_def Let_def tracker_moves_def shown_def)

lemma did_change_moves: "tracker_moves b (did_change S got u cs v b)"
proof (cases "cs = [] \<or> to_file_path (sv_docs S) u = None")
  case True
  then show ?thesis by (auto simp: did_change_def Let_def tracker_moves_def shown_def)
next
  case False
  then obtain p where p: "to_file_path (sv_docs S) u = Some p" by auto
  let ?b1 = "b\<lparr>b_docs := change_with_version (sv_docs S) u (last cs) (Some v) (b_docs b)\<rparr>"
  obtain root_epoch b2 where bump: "bump_known_root got p ?b1 = (root_epoch, b2)" by fastforce
  from tracker_moves_schedule [OF bump_moves [OF bump, THEN conjunct1] bump_moves [OF bump, THEN conjunct2]] show ?thesis
    using False p bump by (simp add: did_change_def Let_def tracker_moves_docs)
qed

lemma did_close_moves: "tracker_moves b (did_close S got u b)"
proof -
  let ?p = "to_file_path (sv_docs S) u"
  define b1 where "b1 = b\<lparr>b_docs := close_document u (b_docs b), b_tokens := forget_tokens u (b_tokens b)\<rparr>"
  define root where "root = (case ?p of None \<Rightarrow> None | Some p \<Rightarrow>
    known_root_for_path (if got then Some (b_ws b1) else None) (b_tracker b1) p)"
  define t where "t = (case root of None \<Rightarrow> b_tracker b
    | Some r \<Rightarrow> snd (bump_root_epoch r (snd (clear_url r u (b_tracker b)))))"
  define re where "re = map_option (\<lambda>r. (r, rd_epoch (root_entry r t))) root"
  define b3 where "b3 = publish [\<lparr>pb_url = u, pb_diagnostics = [], pb_version = None\<rparr>] (b1\<lparr>b_tracker := t\<rparr>)"
  have entry: "root_entry r t = (if root = Some r then (root_entry r (b_tracker b))\<lparr>
      rd_epoch := Suc (rd_epoch (root_entry r (b_tracker b))),
      rd_urls := removeAll u (rd_urls (root_entry r (b_tracker b)))\<rparr> else root_entry r (b_tracker b))" for r
    by (cases root) (auto simp: t_def)
  have "did_close S got u b = (case ?p of None \<Rightarrow> b3 | Some p \<Rightarrow> schedule_recompute p re Full b3)"
  proof (cases root)
    case None
    then show ?thesis
      unfolding did_close_def Let_def b1_def [symmetric] root_def [symmetric]
      by (simp add: b3_def re_def t_def b1_def split: option.split)
  next
    case (Some r)
    obtain epoch t' where bump: "bump_root_epoch r (snd (clear_url r u (b_tracker b1))) = (epoch, t')"
      by fastforce
    then have "t = t'" "epoch = rd_epoch (root_entry r t)"
      using bump_fst [of r "snd (clear_url r u (b_tracker b1))"]
        root_entry_bump [of r r "snd (clear_url r u (b_tracker b1))"]
      by (simp_all add: t_def Some b1_def)
    with Some bump show ?thesis
      unfolding did_close_def Let_def b1_def [symmetric] root_def [symmetric]
      by (simp add: b3_def re_def split: option.split)
  qed
  moreover have b3: "tracker_moves b b3"
  proof -
    have "shown b3 = (shown b)(u := [])"
      by (simp add: b3_def b1_def shown_def show_published_def)
    moreover have "v \<in> tracked t" if "v \<in> tracked (b_tracker b)" "v \<noteq> u" for v
      using that by (auto simp: tracked_iff entry)
    moreover have "rd_epoch (root_entry r (b_tracker b)) \<le> rd_epoch (root_entry r t)" for r
      by (simp add: entry)
    ultimately show ?thesis by (auto simp: tracker_moves_def b3_def b1_def)
  qed
  moreover have "tracker_moves b (schedule_recompute p re Full b3)" for p
    by (rule tracker_moves_schedule [OF b3]) (auto simp: re_def b3_def)
  ultimately show ?thesis by (simp split: option.split)
qed

lemma effects_moves:
  assumes "watched_root_effects (b_tracker b) versions pending current_root drain = (e, t)"
    and "b_tracker b1 = t" "b_tasks b1 = b_tasks b" "b_published b1 = b_published b"
  shows "tracker_moves b (schedule_all (we_schedules e) (publish (we_clears e) b1))"
proof (rule tracker_moves_schedule_all)
  note sound = watched_effects_sound [OF assms(1)]
  have "shown (publish (we_clears e) b1) v \<noteq> [] \<Longrightarrow> shown b v \<noteq> [] \<and>
      v \<notin> pb_url ` set (we_clears e)" for v
    using fold_show_empty [of "we_clears e" "shown b" v] sound(3)
    by (auto simp: shown_def assms(4) split: if_splits)
  moreover have "v \<in> tracked t" if "v \<in> tracked (b_tracker b)" "v \<notin> pb_url ` set (we_clears e)" for v
    using sound(2) [OF that(1)] that(2) by (force simp: clear_publish_def)
  ultimately show "tracker_moves b (publish (we_clears e) b1)"
    using sound(1) assms by (auto simp: tracker_moves_def)
  show "\<forall>s\<in>set (we_schedules e). \<forall>r k. sr_root_epoch s = Some (r, k)
      \<longrightarrow> k \<le> rd_epoch (root_entry r (b_tracker (publish (we_clears e) b1)))"
    using sound(4) assms(2) by simp
qed

lemma watched_moves: "tracker_moves b (did_change_watched_files S w got events b)"
proof -
  have same: "b_tracker b1 = b_tracker b \<Longrightarrow> b_tasks b1 = b_tasks b \<Longrightarrow> b_published b1 = b_published b
      \<Longrightarrow> tracker_moves b b1" for b1
    by (rule tracker_moves_same) auto
  have busy: "tracker_moves b (watched_busy w vs cs b)" for vs cs
    unfolding watched_busy_def Let_def
    by (split prod.split, intro allI impI, rule effects_moves) auto
  have idle: "tracker_moves b (watched_idle S vs cs b)" for vs cs
  proof -
    define ws where "ws = apply_pending_workspace_invalidation (sv_check S) (b_pending b) (b_ws b)"
    define evs where "evs = watched_project_changes (sv_check S) ws cs
      @ watched_tracked_diagnostic_changes (b_tracker b) cs"
    obtain e t where eff: "watched_root_effects (b_tracker b) vs (pending_watched_roots evs)
        (map_option pr_root (ws_project ws)) Skip = (e, t)" by fastforce
    have unfold: "watched_idle S vs cs b = (if evs = [] then b\<lparr>b_pending := 0, b_ws := ws\<rparr>
        else case watched_root_effects (b_tracker b) vs (pending_watched_roots evs)
            (map_option pr_root (ws_project ws)) Skip of (e, t) \<Rightarrow>
          schedule_all (we_schedules e) (publish (we_clears e)
            (b\<lparr>b_pending := 0, b_tracker := t, b_ws := if we_project e then invalidate_project ws
             else if we_analysis e then invalidate_analysis (sv_check S) ws else ws\<rparr>)))"
      unfolding watched_idle_def Let_def evs_def ws_def by (simp split: prod.split)
    show ?thesis
    proof (cases "evs = []")
      case True
      then show ?thesis by (intro same) (simp_all add: unfold)
    next
      case False
      then have "watched_idle S vs cs b = schedule_all (we_schedules e) (publish (we_clears e)
          (b\<lparr>b_pending := 0, b_tracker := t, b_ws := if we_project e then invalidate_project ws
             else if we_analysis e then invalidate_analysis (sv_check S) ws else ws\<rparr>))"
        using eff by (simp add: unfold)
      then show ?thesis using effects_moves [OF eff] by simp
    qed
  qed
  show ?thesis
    using busy idle same [of b] by (auto simp: did_change_watched_files_def Let_def)
qed

lemma tracker_moves_ends: "tracker_moves b (task_ends i b)"
  by (rule tracker_moves_same) (auto simp: task_ends_def dest: in_set_takeD in_set_dropD)

lemma tracker_moves_goes:
  assumes "i < length (b_tasks b)"
  shows "tracker_moves b (task_goes i ph b)"
proof (rule tracker_moves_same)
  show "\<forall>t\<in>set (b_tasks (task_goes i ph b)). \<exists>t0\<in>set (b_tasks b). rt_root_epoch t = rt_root_epoch t0"
    using assms set_update_subset_insert [of "b_tasks b" i "(b_tasks b ! i)\<lparr>rt_phase := ph\<rparr>"]
    by (fastforce simp: task_goes_def)
qed simp_all

end
