(* ===== verification/Lsp_Publish_Laws.thy ===== *)
theory Lsp_Publish_Laws
  imports Lsp_Tracker_Laws
begin

text \<open>
  What a committed task publishes, and the invariant of tracker, tasks and publishes over every
  step of the server.
\<close>

section \<open>Publishing\<close>

lemma push_entry_distinct: "distinct (map fst m) \<Longrightarrow> distinct (map fst (push_entry u x m))"
  by (simp add: push_entry_def distinct_update)

lemma report_distinct:
  "distinct (map fst (fst st)) \<Longrightarrow> distinct (map fst (fst (report_step P R I d st)))"
  by (cases st) (auto simp: report_step_def Let_def push_entry_distinct split: option.split prod.split)

lemma snapshot_to_diagnostics_distinct:
  "distinct (map fst (snapshot_to_diagnostics P R s us I))"
proof -
  have start: "distinct (map fst m) \<Longrightarrow> distinct (map fst (fold (\<lambda>u m. AList.update u [] m) us m))"
    for m :: url_diagnostics
    by (induction us arbitrary: m) (simp_all add: distinct_update)
  have "distinct (map fst (fst st)) \<Longrightarrow>
      distinct (map fst (fst (fold (report_step P R I) ds st)))" for ds st
    by (induction ds arbitrary: st) (simp_all add: report_distinct)
  then show ?thesis using start [of "[]"] by (simp add: snapshot_to_diagnostics_def)
qed

text \<open>The ways a committed task ends.\<close>

lemma publish_task_cases:
  assumes "publish_task S w task docs p b = Some b'"
  obtains (invalidated) "b_pending b \<noteq> 0" "b' = swap_pending S b"
  | (edited) "\<not> matches_generation (b_docs b) docs" "b' = b"
  | (stale) "b' = b"
  | (published) pr s m t where "b_pending b = 0" "matches_generation (b_docs b) docs"
      "ws_project (b_ws b) = Some pr" "ws_latest (b_ws b) = Some s"
      "reconcile_success (pr_root pr) (publish_epoch task (pr_root pr) (b_tracker b))
        (if pp_source_only p then scope_source_only (sv_path_to_url S) s else Whole)
        (diagnostics_of S w docs pr s) (b_tracker b) = (True, m, t)"
      "b' = publish (map (\<lambda>(u, ds). \<lparr>pb_url = u, pb_diagnostics = ds,
        pb_version = version_for (open_document_versions docs) u\<rparr>) m) (b\<lparr>b_tracker := t\<rparr>)"
proof (cases "b_pending b = 0 \<and> matches_generation (b_docs b) docs")
  case True
  with assms obtain pr s where ps: "ws_project (b_ws b) = Some pr" "ws_latest (b_ws b) = Some s"
    by (auto simp: publish_task_def split: option.splits)
  obtain ok m t where r: "reconcile_success (pr_root pr) (publish_epoch task (pr_root pr) (b_tracker b))
      (if pp_source_only p then scope_source_only (sv_path_to_url S) s else Whole)
      (diagnostics_of S w docs pr s) (b_tracker b) = (ok, m, t)" by (rule prod_cases3)
  show thesis
  proof (cases ok)
    case ok: True
    with assms True ps r have "b' = publish (map (\<lambda>(u, ds). \<lparr>pb_url = u, pb_diagnostics = ds,
        pb_version = version_for (open_document_versions docs) u\<rparr>) m) (b\<lparr>b_tracker := t\<rparr>)"
      by (simp add: publish_task_def Let_def)
    with True ps r ok show thesis by (intro published [of pr s m t]) simp_all
  next
    case False
    with r have "t = b_tracker b" using reconcile_entry(4) [OF r] by simp
    with assms True ps r False have "b' = b" by (simp add: publish_task_def Let_def)
    with stale show thesis by blast
  qed
next
  case False
  with assms show thesis
    by (cases "b_pending b = 0") (auto simp: publish_task_def intro: invalidated edited)
qed

lemma publish_task_never_panics:
  assumes "ws_project (b_ws b) = Some pr" "ws_latest (b_ws b) = Some s"
  shows "\<exists>b'. publish_task S w task docs p b = Some b'"
  by (simp add: assms publish_task_def Let_def split: prod.split bool.split)

text \<open>Exactly when it publishes, and what.\<close>

lemma publish_task_outcome:
  assumes "publish_task S w task docs p b = Some b'" "ws_project (b_ws b) = Some pr"
    "ws_latest (b_ws b) = Some s"
  shows "if b_pending b = 0 \<and> matches_generation (b_docs b) docs
      \<and> tracker_epoch (b_tracker b) (pr_root pr) = publish_epoch task (pr_root pr) (b_tracker b)
    then \<exists>ps. b_published b' = b_published b @ ps \<and> distinct (map pb_url ps)
      \<and> (\<forall>u. u \<in> pb_url ` set ps \<longleftrightarrow> u \<in> fst ` set (diagnostics_of S w docs pr s)
           \<or> u \<in> set (rd_urls (root_entry (pr_root pr) (b_tracker b)))
             \<and> covers (if pp_source_only p then scope_source_only (sv_path_to_url S) s else Whole) u)
      \<and> (\<forall>x\<in>set ps. pb_version x = version_for (open_document_versions docs) (pb_url x)
           \<and> pb_diagnostics x = (case map_of (diagnostics_of S w docs pr s) (pb_url x) of
               Some ds \<Rightarrow> ds | None \<Rightarrow> []))
    else b_published b' = b_published b"
proof -
  let ?root = "pr_root pr" and ?D = "diagnostics_of S w docs pr s"
  let ?scope = "if pp_source_only p then scope_source_only (sv_path_to_url S) s else Whole"
  let ?epoch = "publish_epoch task ?root (b_tracker b)"
  obtain ok m t where r: "reconcile_success ?root ?epoch ?scope ?D (b_tracker b) = (ok, m, t)"
    by (rule prod_cases3)
  have d: "distinct (map fst ?D)" by (simp add: diagnostics_of_def snapshot_to_diagnostics_distinct)
  note exact = reconcile_exact [OF r d]
  show ?thesis
  proof (cases "b_pending b = 0 \<and> matches_generation (b_docs b) docs
      \<and> tracker_epoch (b_tracker b) ?root = ?epoch")
    case True
    then have ok: ok using exact by simp
    let ?ps = "map (\<lambda>(u, ds). \<lparr>pb_url = u, pb_diagnostics = ds,
      pb_version = version_for (open_document_versions docs) u\<rparr>) m"
    have "b' = publish ?ps (b\<lparr>b_tracker := t\<rparr>)"
      using assms True r ok by (simp add: publish_task_def Let_def)
    then have pub: "b_published b' = b_published b @ ?ps" by simp
    have md: "distinct (map fst m)"
      using reconcile_entry(3) [OF r ok] fold_or_default_distinct [OF d] by simp
    have urls: "map pb_url ?ps = map fst m" by (simp add: case_prod_beta comp_def)
    have look: "map_of m u = (case map_of ?D u of Some ds \<Rightarrow> Some ds
        | None \<Rightarrow> if u \<in> set (rd_urls (root_entry ?root (b_tracker b))) \<and> covers ?scope u
          then Some [] else None)" for u using exact ok by simp
    have covered: "u \<in> pb_url ` set ?ps \<longleftrightarrow> u \<in> fst ` set ?D
        \<or> u \<in> set (rd_urls (root_entry ?root (b_tracker b))) \<and> covers ?scope u" for u
    proof -
      have "u \<in> pb_url ` set ?ps \<longleftrightarrow> map_of m u \<noteq> None"
        using urls by (metis list.set_map map_of_eq_None_iff)
      moreover have "u \<in> fst ` set ?D \<longleftrightarrow> map_of ?D u \<noteq> None" by (simp add: map_of_eq_None_iff)
      ultimately show ?thesis using look [of u] by (simp split: option.split)
    qed
    have named: "pb_version x = version_for (open_document_versions docs) (pb_url x)
        \<and> pb_diagnostics x = (case map_of ?D (pb_url x) of Some ds \<Rightarrow> ds | None \<Rightarrow> [])"
      if x: "x \<in> set ?ps" for x
    proof -
      from x obtain u ds where u: "(u, ds) \<in> set m" "x = \<lparr>pb_url = u, pb_diagnostics = ds,
        pb_version = version_for (open_document_versions docs) u\<rparr>" by auto
      have "map_of m u = Some ds" using map_of_is_SomeI [OF md u(1)] .
      with u(2) look [of u] show ?thesis by (auto split: option.splits if_splits)
    qed
    have "distinct (map pb_url ?ps)" using md by (simp only: urls)
    with pub covered named show ?thesis unfolding if_P [OF True] by (intro exI [of _ ?ps]) blast
  next
    case False
    from assms(1) have "b_published b' = b_published b"
    proof (cases rule: publish_task_cases)
      case (published pr' s' m' t')
      have "pr' = pr" "s' = s" using published(3,4) assms(2,3) by simp_all
      from published(5) [unfolded this] r have ok by simp
      with exact have "tracker_epoch (b_tracker b) ?root = ?epoch" by simp
      with published False show ?thesis by simp
    qed simp_all
    with False show ?thesis by (simp only: if_False)
  qed
qed

lemma publish_moves:
  assumes "publish_task S w task docs p b = Some b'"
  shows "tracker_moves b b'"
  using assms
proof (cases rule: publish_task_cases)
  case (published pr s m t)
  let ?root = "pr_root pr" and ?D = "diagnostics_of S w docs pr s"
  have d: "distinct (map fst ?D)" by (simp add: diagnostics_of_def snapshot_to_diagnostics_distinct)
  from reconcile_exact [OF published(5) d]
  have lookup: "map_of m u = (case map_of ?D u of Some ds \<Rightarrow> Some ds
      | None \<Rightarrow> if u \<in> set (rd_urls (root_entry ?root (b_tracker b)))
          \<and> covers (if pp_source_only p then scope_source_only (sv_path_to_url S) s else Whole) u
        then Some [] else None)"
    and urls: "u \<in> set (rd_urls (root_entry ?root t)) \<longleftrightarrow>
      (case map_of m u of Some ds \<Rightarrow> ds \<noteq> [] | None \<Rightarrow> False)
      \<or> u \<in> set (rd_urls (root_entry ?root (b_tracker b)))
        \<and> \<not> covers (if pp_source_only p then scope_source_only (sv_path_to_url S) s else Whole) u"
    and others: "r \<noteq> ?root \<Longrightarrow> root_entry r t = root_entry r (b_tracker b)" for u r
    by simp_all
  have m: "distinct (map fst m)"
    using reconcile_entry(3) [OF published(5)] fold_or_default_distinct [OF d] by simp
  have shown: "shown b' u = (case map_of m u of Some ds \<Rightarrow> ds | None \<Rightarrow> shown b u)" for u
  proof -
    have "shown b' = fold show_published (map (\<lambda>(u, ds). \<lparr>pb_url = u, pb_diagnostics = ds,
        pb_version = version_for (open_document_versions docs) u\<rparr>) m) (shown b)"
      by (rule shown_more) (simp add: published(6))
    then show ?thesis by (simp add: fold_show_map [OF m])
  qed
  have "u \<in> tracked t" if "shown b' u \<noteq> []" "\<forall>u. shown b u \<noteq> [] \<longrightarrow> u \<in> tracked (b_tracker b)" for u
  proof (cases "map_of m u")
    case (Some ds)
    with that(1) shown have "ds \<noteq> []" by simp
    with urls Some have "u \<in> set (rd_urls (root_entry ?root t))" by simp
    then show ?thesis by (auto simp: tracked_iff)
  next
    case None
    with that shown have "u \<in> tracked (b_tracker b)" by simp
    then obtain r where r: "u \<in> set (rd_urls (root_entry r (b_tracker b)))" by (auto simp: tracked_iff)
    show ?thesis
    proof (cases "r = ?root")
      case True
      with lookup [of u] r None have "\<not> covers (if pp_source_only p
          then scope_source_only (sv_path_to_url S) s else Whole) u"
        by (simp split: option.splits if_splits)
      with urls [of u] r True have "u \<in> set (rd_urls (root_entry ?root t))" by simp
      then show ?thesis by (auto simp: tracked_iff)
    next
      case False
      with others r show ?thesis by (auto simp: tracked_iff intro: exI [of _ r])
    qed
  qed
  moreover have "rd_epoch (root_entry r t) = rd_epoch (root_entry r (b_tracker b))" for r
    by (simp add: reconcile_entry(1) [OF published(5)])
  ultimately show ?thesis using published(6) by (auto simp: tracker_moves_def)
qed (simp_all, (rule tracker_moves_same; auto)+)

lemma tracker_step:
  assumes "backend_step S Ws b b'"
  shows "tracker_moves b b'"
  using assms
proof cases
  case (reads got p)
  have "tracker_moves b (b\<lparr>b_ws := ws\<rparr>)" "tracker_moves b b" for ws
    by (rule tracker_moves_same; auto)+
  with reads show ?thesis by (simp add: read_request_def split: prod.split)
next
  case indexes
  then show ?thesis by (simp add: tracker_moves_def shown_def) blast
next
  case (stores u data)
  then show ?thesis by (simp add: tracker_moves_def shown_def) blast
next
  case (wakes i)
  then show ?thesis by (simp add: tracker_moves_ends tracker_moves_goes at_phase_def)
next
  case (captures i)
  then show ?thesis by (simp add: tracker_moves_goes at_phase_def)
next
  case (prepares i docs w)
  obtain r b2 where p: "prepare_task S w (b_tasks b ! i) docs b = (r, b2)" by fastforce
  then have f: "b_tracker b2 = b_tracker b" "b_tasks b2 = b_tasks b" "b_published b2 = b_published b"
    by (auto simp: prepare_task_def Let_def split: prod.splits sum.splits)
  with prepares p tracker_moves_ends [of b2 i] tracker_moves_goes [of i b2] show ?thesis
    by (cases r) (auto simp: task_after_def at_phase_def tracker_moves_def shown_def)
next
  case (analyzes i docs p w)
  then show ?thesis
    by (cases "analyze_task w docs p")
      (simp_all add: task_after_def at_phase_def tracker_moves_ends tracker_moves_goes)
next
  case (commits i docs p s)
  obtain r b2 where c: "commit_task S docs p s b = (r, b2)" by fastforce
  then have f: "b_tracker b2 = b_tracker b" "b_tasks b2 = b_tasks b" "b_published b2 = b_published b"
    by (auto simp: commit_task_def split: prod.splits if_splits bool.splits)
  with commits c tracker_moves_ends [of b2 i] tracker_moves_goes [of i b2] show ?thesis
    by (cases r) (auto simp: task_after_def at_phase_def tracker_moves_def shown_def)
next
  case (publishes i docs p w b2)
  then have m: "tracker_moves b b2" and t: "b_tasks b2 = b_tasks b"
    using publish_moves publish_frame_task(2) by blast+
  with publishes show ?thesis
    by (auto simp: tracker_moves_def shown_def task_ends_def dest: in_set_takeD in_set_dropD)
qed (simp_all add: did_open_moves did_change_moves did_close_moves watched_moves)

interpretation tracker_side: invariant_system "\<lambda>b. b = new_backend" "backend_step S Ws" tracker_inv for S Ws
proof unfold_locales
  fix b b' :: "('a, 'b, 'c, 'd, 'e) backend"
  show "b = new_backend \<Longrightarrow> tracker_inv b"
    by (simp add: tracker_inv_def new_backend_def shown_def)
  show "tracker_inv b \<Longrightarrow> backend_step S Ws b b' \<Longrightarrow> tracker_inv b'"
    using tracker_inv_moves tracker_step by blast
qed

end
