(* ===== verification/Lsp_Liveness.thy ===== *)
theory Lsp_Liveness
  imports Lsp_Publish_Laws
begin

text \<open>
  The run of one recompute task that nothing disturbs, from its debounce to its publish, and a
  small server run built from it.
\<close>

section \<open>A task on its own\<close>

lemma task_goes_tasks [simp]:
  "b_tasks (task_goes i ph b) = (b_tasks b)[i := (b_tasks b ! i)\<lparr>rt_phase := ph\<rparr>]"
  "b_pending (task_goes i ph b) = b_pending b" "b_pending (task_ends i b) = b_pending b"
  "b_tasks (task_ends i b) = take i (b_tasks b) @ drop (Suc i) (b_tasks b)"
  by (simp_all add: task_goes_def task_ends_def)

lemma at_phase_goes: "i < length (b_tasks b) \<Longrightarrow> at_phase i ph (task_goes i ph b)"
  by (simp add: at_phase_def)

text \<open>The captured snapshot cannot be older than the installed one.\<close>

lemma commit_accepts:
  assumes "fresh_ok S Ws K docs ws" "ws_project ws = Some pr"
    "ws_latest ws = None \<longrightarrow> ws_latest_generation ws = None"
  shows "commit_recompute M (docs_generation docs) (ws_epoch ws) s ws
    = (True, install M pr (docs_generation docs) s ws)"
proof -
  have "g \<le> docs_generation docs" if "ws_latest_generation ws = Some g" for g
    using assms(1,3) that unfolding fresh_ok_def docs_ok_def by (cases "ws_latest ws") auto
  with assms(2) show ?thesis
    by (auto simp: commit_recompute_def not_less split: option.split)
qed

lemma idle_goes: "idle b \<Longrightarrow> \<not> running ph \<Longrightarrow> idle (task_goes i ph b)"
  using set_update_subset_insert [of "b_tasks b" i "(b_tasks b ! i)\<lparr>rt_phase := ph\<rparr>"]
  by (auto simp: idle_def list_ex_iff)

lemma lone_run_prepares:
  assumes "idle b" "at_phase i Sleeping b" "\<not> superseded (b_tasks b ! i) b"
    "docs = analysis_snapshot (sv_docs S) (b_docs b)"
    "prepare_recompute (sv_check S) w (rt_file (b_tasks b ! i)) docs (rt_scope (b_tasks b ! i))
       (b_ws (swap_pending S b)) = (Inr p, ws)"
    "w \<in> Ws" "analyze w p = Inr s"
  shows "(backend_step S Ws)\<^sup>*\<^sup>* b (b\<lparr>b_tasks := (b_tasks b)[i := (b_tasks b ! i)
      \<lparr>rt_phase := Analyzed docs p s\<rparr>], b_pending := 0, b_ws := ws\<rparr>)"
proof -
  have i: "i < length (b_tasks b)" using assms(2) by (simp add: at_phase_def)
  define b1 where "b1 = task_goes i Checked b"
  define b2 where "b2 = task_goes i (Captured docs) b1"
  define b3 where "b3 = task_goes i (Prepared docs p) ((swap_pending S b2)\<lparr>b_ws := ws\<rparr>)"
  define b4 where "b4 = task_goes i (Analyzed docs p s) b3"
  have "backend_step S Ws b b1"
    using backend_step.wakes [OF assms(2), of S Ws] assms(3) by (simp add: b1_def)
  moreover have "backend_step S Ws b1 b2"
    using backend_step.captures [of i b1 S Ws] i assms(4) by (simp add: b1_def b2_def at_phase_goes)
  moreover have "backend_step S Ws b2 b3"
  proof -
    have "prepare_task S w (b_tasks b2 ! i) docs b2
        = (Some (Prepared docs p), (swap_pending S b2)\<lparr>b_ws := ws\<rparr>)"
      using assms(5) i by (simp add: prepare_task_def Let_def b2_def b1_def)
    moreover have "at_phase i (Captured docs) b2" "idle b2"
      using i assms(1) by (simp_all add: b2_def b1_def at_phase_goes idle_goes)
    ultimately show ?thesis
      using backend_step.prepares [of i docs b2 w Ws S] assms(6) by (simp add: b3_def task_after_def)
  qed
  moreover have "backend_step S Ws b3 b4"
    using backend_step.analyzes [of i docs p b3 w Ws S] assms(6,7) i
    by (simp add: b4_def b3_def b2_def b1_def analyze_task_def task_after_def at_phase_goes)
  ultimately have "(backend_step S Ws)\<^sup>*\<^sup>* b b4" by (meson rtranclp.intros)
  moreover have "b4 = b\<lparr>b_tasks := (b_tasks b)[i := (b_tasks b ! i)
      \<lparr>rt_phase := Analyzed docs p s\<rparr>], b_pending := 0, b_ws := ws\<rparr>"
    using i by (simp add: b4_def b3_def b2_def b1_def task_goes_def swap_pending_def)
  ultimately show ?thesis by simp
qed

lemma lone_run_commits:
  fixes b :: "('lex, 'parse, 'c, 'cat, 'ix) backend"
  assumes "reachable_server S Ws b" "idle b" "at_phase i Sleeping b" "\<not> superseded (b_tasks b ! i) b"
    "docs = analysis_snapshot (sv_docs S) (b_docs b)"
    "fst (prepare_recompute (sv_check S) w (rt_file (b_tasks b ! i)) docs (rt_scope (b_tasks b ! i))
       (b_ws (swap_pending S b))) = Inr p"
    "w \<in> Ws" "analyze w p = Inr s"
  obtains b1 pr where "(backend_step S Ws)\<^sup>*\<^sup>* b b1" "at_phase i (Committed docs p) b1"
    "b_tasks b1 = (b_tasks b)[i := (b_tasks b ! i)\<lparr>rt_phase := Committed docs p\<rparr>]"
    "b_docs b1 = b_docs b" "b_tracker b1 = b_tracker b" "b_published b1 = b_published b"
    "b_pending b1 = 0" "ws_latest (b_ws b1) = Some s"
    "ws_latest_generation (b_ws b1) = Some (ad_generation docs)"
    "ws_project (b_ws b1) = Some pr" "pr_root pr = pp_root p"
proof -
  have i: "i < length (b_tasks b)" using assms(3) by (simp add: at_phase_def)
  obtain ws where prep: "prepare_recompute (sv_check S) w (rt_file (b_tasks b ! i)) docs
      (rt_scope (b_tasks b ! i)) (b_ws (swap_pending S b)) = (Inr p, ws)"
    using assms(6) by (metis prod.collapse)
  define b4 where "b4 = b\<lparr>b_tasks := (b_tasks b)[i := (b_tasks b ! i)
      \<lparr>rt_phase := Analyzed docs p s\<rparr>], b_pending := 0, b_ws := ws\<rparr>"
  have run: "(backend_step S Ws)\<^sup>*\<^sup>* b b4"
    unfolding b4_def using assms(2-5) prep assms(7,8) by (rule lone_run_prepares)
  have at: "at_phase i (Analyzed docs p s) b4" using i by (simp add: at_phase_def b4_def)
  have inv: "analysis_inv S Ws {} b4" using server_inv [OF analysis_side.stays_reachable [OF assms(1) run]] .
  obtain pr where p: "ws_project ws = Some pr" "pr_root pr = pp_root p" "pp_epoch p = ws_epoch ws"
    "pp_generation p = ad_generation docs"
    using prep by (cases rule: prepare_cases) auto
  have gen: "ad_generation docs = docs_generation (b_docs b)"
    by (simp add: assms(5) analysis_snapshot_def)
  have "commit_recompute (sv_check S) (pp_generation p) (pp_epoch p) s ws
      = (True, install (sv_check S) pr (pp_generation p) s ws)"
  proof -
    have "fresh_ok S Ws {} (b_docs b) ws" "workspace_ok (sv_check S) ws"
      using inv by (simp_all add: b4_def analysis_inv_def core_ok_def)
    then show ?thesis
      using commit_accepts [of S Ws "{}" "b_docs b" ws pr "sv_check S" s] p gen
      by (simp add: workspace_ok_def split: option.splits)
  qed
  then have commit: "commit_task S docs p s b4 = (Some (Committed docs p),
      b4\<lparr>b_ws := install (sv_check S) pr (pp_generation p) s ws, b_file_count := length (an_files s)\<rparr>)"
    by (simp add: commit_task_def b4_def)
  define b5 where "b5 = task_goes i (Committed docs p) (b4\<lparr>b_ws := install (sv_check S) pr
    (pp_generation p) s ws, b_file_count := length (an_files s)\<rparr>)"
  have "backend_step S Ws b4 b5"
    using backend_step.commits [OF at, of S Ws] by (simp add: commit task_after_def b5_def)
  with run have "(backend_step S Ws)\<^sup>*\<^sup>* b b5" by (rule rtranclp.rtrancl_into_rtrancl)
  then show thesis
    using i p by (intro that [of b5 pr]) (simp_all add: b5_def b4_def at_phase_def task_goes_def)
qed

text \<open>The publish that follows.\<close>

lemma lone_run_publishes:
  assumes "reachable_server S Ws b" "idle b" "at_phase i Sleeping b" "\<not> superseded (b_tasks b ! i) b"
    "docs = analysis_snapshot (sv_docs S) (b_docs b)"
    "fst (prepare_recompute (sv_check S) w (rt_file (b_tasks b ! i)) docs (rt_scope (b_tasks b ! i))
       (b_ws (swap_pending S b))) = Inr p"
    "w \<in> Ws" "analyze w p = Inr s"
  obtains b' pr where "(backend_step S Ws)\<^sup>*\<^sup>* b b'"
    "b_tasks b' = take i (b_tasks b) @ drop (Suc i) (b_tasks b)" "b_docs b' = b_docs b"
    "fresh_latest (b_ws b') docs = Some s" "ws_project (b_ws b') = Some pr" "pr_root pr = pp_root p"
    "b_pending b' = 0"
    "\<And>u. shown b' u = (case map_of (diagnostics_of S w docs pr s) u of Some ds \<Rightarrow> ds
       | None \<Rightarrow> if u \<in> set (rd_urls (root_entry (pp_root p) (b_tracker b)))
           \<and> covers (if pp_source_only p then scope_source_only (sv_path_to_url S) s else Whole) u
         then [] else shown b u)"
proof -
  obtain b1 pr where c: "(backend_step S Ws)\<^sup>*\<^sup>* b b1" "at_phase i (Committed docs p) b1"
    "b_tasks b1 = (b_tasks b)[i := (b_tasks b ! i)\<lparr>rt_phase := Committed docs p\<rparr>]"
    "b_docs b1 = b_docs b" "b_tracker b1 = b_tracker b" "b_published b1 = b_published b"
    "b_pending b1 = 0" "ws_latest (b_ws b1) = Some s"
    "ws_latest_generation (b_ws b1) = Some (ad_generation docs)"
    "ws_project (b_ws b1) = Some pr" "pr_root pr = pp_root p"
    using lone_run_commits [OF assms] by blast
  have i: "i < length (b_tasks b)" using assms(3) by (simp add: at_phase_def)
  let ?t = "b_tasks b1 ! i" and ?root = "pr_root pr" and ?D = "diagnostics_of S w docs pr s"
  let ?scope = "if pp_source_only p then scope_source_only (sv_path_to_url S) s else Whole"
  obtain ok m t where r: "reconcile_success ?root (publish_epoch ?t ?root (b_tracker b1)) ?scope ?D
      (b_tracker b1) = (ok, m, t)" by (metis prod_cases3)
  have d: "distinct (map fst ?D)" by (simp add: diagnostics_of_def snapshot_to_diagnostics_distinct)
  have "tracker_epoch (b_tracker b1) ?root = publish_epoch ?t ?root (b_tracker b1)"
    using assms(4) i c(3,5)
    by (auto simp: publish_epoch_def superseded_def is_stale_def split: option.split)
  with reconcile_exact [OF r d] have ok by simp
  note exact = reconcile_exact [OF r d, THEN conjunct2, THEN conjunct2, rule_format, OF this]
  have md: "distinct (map fst m)"
    using reconcile_entry(3) [OF r \<open>ok\<close>] fold_or_default_distinct [OF d] by simp
  define b2 where "b2 = publish (map (\<lambda>(u, ds). \<lparr>pb_url = u, pb_diagnostics = ds,
    pb_version = version_for (open_document_versions docs) u\<rparr>) m) (b1\<lparr>b_tracker := t\<rparr>)"
  have "matches_generation (b_docs b1) docs"
    by (simp add: matches_generation_def c(4) assms(5) analysis_snapshot_def)
  then have "publish_task S w ?t docs p b1 = Some b2"
    using c r \<open>ok\<close> by (simp add: publish_task_def Let_def b2_def)
  with c(2) assms(7) have "backend_step S Ws b1 (task_ends i b2)" by (rule backend_step.publishes)
  with c(1) have run: "(backend_step S Ws)\<^sup>*\<^sup>* b (task_ends i b2)" by (rule rtranclp.rtrancl_into_rtrancl)
  have pub: "b_published b2 = b_published b @ map (\<lambda>(u, ds). \<lparr>pb_url = u, pb_diagnostics = ds,
    pb_version = version_for (open_document_versions docs) u\<rparr>) m"
    by (simp add: b2_def c(6))
  have "shown (task_ends i b2) u = (case map_of m u of Some ds \<Rightarrow> ds | None \<Rightarrow> shown b u)" for u
    using fold_show_map [OF md, of _ "shown b" u] shown_more [OF pub] by (simp add: shown_def)
  then have sh: "shown (task_ends i b2) u = (case map_of ?D u of Some ds \<Rightarrow> ds
      | None \<Rightarrow> if u \<in> set (rd_urls (root_entry ?root (b_tracker b1))) \<and> covers ?scope u
        then [] else shown b u)" for u
    using exact by (auto split: option.split)
  show thesis
  proof (rule that [of "task_ends i b2" pr])
    show "b_tasks (task_ends i b2) = take i (b_tasks b) @ drop (Suc i) (b_tasks b)"
      by (simp add: b2_def c(3))
    show "fresh_latest (b_ws (task_ends i b2)) docs = Some s"
      by (simp add: b2_def fresh_latest_def latest_matches_def c)
    show "shown (task_ends i b2) u = (case map_of ?D u of Some ds \<Rightarrow> ds
        | None \<Rightarrow> if u \<in> set (rd_urls (root_entry (pp_root p) (b_tracker b))) \<and> covers ?scope u
          then [] else shown b u)" for u
      using sh [of u] by (simp only: c(5,11))
  qed (use run c in \<open>simp_all add: b2_def\<close>)
qed

end
