(* ===== verification/Lsp_Server_Demo.thy ===== *)
theory Lsp_Server_Demo
  imports Lsp_Liveness
begin

text \<open>
  A run of the server for the witnesses: one document of one project is opened, checked and
  published, with one problem in it.
\<close>

definition demo_path :: path where
  "demo_path = [''/'', ''p'', ''a.mw'']"

definition demo_server :: "(unit, unit, unit, nat) server_api" where
  "demo_server = \<lparr>sv_docs = \<lparr>lex_source = (\<lambda>_. ()), parse_source = (\<lambda>_. ()),
       to_file_path = (\<lambda>u. if u = ''u'' then Some demo_path else None)\<rparr>,
     sv_check = demo_api, sv_path_to_url = (\<lambda>p. if p = demo_path then Some ''u'' else None)\<rparr>"

definition demo_problem :: check_diagnostic where
  "demo_problem = \<lparr>cd_file = demo_path, cd_code = ''E1'', cd_severity = SevError, cd_start = 0,
     cd_end = 1, cd_message = ''no''\<rparr>"

definition demo_found :: analysis where
  "demo_found = (demo_analysis [] False)\<lparr>an_report := [demo_problem]\<rparr>"

definition demo_found_fs :: "(unit, nat) fs_world" where
  "demo_found_fs = demo_fs\<lparr>fw_analyze := \<lambda>_ _ _ _ _. Inr demo_found\<rparr>"

definition demo_opened :: "(unit, unit, unit, nat, nat) backend" where
  "demo_opened = did_open demo_server False ''u'' ''x'' 1 new_backend"

lemmas demo_server_eval = demo_server_def demo_opened_def did_open_def new_backend_def
  bump_known_root_def known_root_for_path_def tracked_root_for_path_def schedule_recompute_def
  new_documents_def open_with_version_def

lemma demo_opened_fields:
  "b_docs demo_opened = open_with_version (sv_docs demo_server) ''u'' ''x'' (Some 1) new_documents"
  "b_ws demo_opened = new_workspace" "b_pending demo_opened = 0" "b_tracker demo_opened = []"
  "b_edit_seq demo_opened = 1" "b_published demo_opened = []"
  "b_tasks demo_opened = [\<lparr>rt_file = demo_path, rt_root_epoch = None, rt_seq = Some 1,
     rt_scope = Full, rt_debounce = 150, rt_phase = Sleeping\<rparr>]"
  by (simp_all add: demo_server_eval new_workspace_def adaptive_debounce_def debounce_min_def
      small_project_file_limit_def)

definition demo_snapshot :: analysis_docs where
  "demo_snapshot = \<lparr>ad_generation = 1, ad_open = [\<lparr>od_url = ''u'', od_path = demo_path,
     od_text = ''x'', od_version = Some 1, od_index = new_line_index ''x''\<rparr>]\<rparr>"

lemma demo_snapshot_taken: "analysis_snapshot (sv_docs demo_server) (b_docs demo_opened) = demo_snapshot"
  by (simp add: demo_opened_fields analysis_snapshot_def demo_server_eval demo_snapshot_def
      List.map_filter_def new_document_def)

definition demo_task_prepared :: "(unit, nat) prepared" where
  "demo_task_prepared = \<lparr>pp_root = [''/'', ''p''],
     pp_config = \<lparr>pc_source_roots = [[]], pc_tests = [], pc_other = ()\<rparr>,
     pp_sources = [(demo_path, ''x'')], pp_accepted = None, pp_lock = None, pp_generation = 1,
     pp_epoch = 0, pp_source_only = False\<rparr>"

lemma demo_prepares:
  "fst (prepare_recompute (sv_check demo_server) demo_found_fs demo_path demo_snapshot Full
     (b_ws (swap_pending demo_server demo_opened))) = Inr demo_task_prepared"
  by (simp add: demo_opened_fields demo_server_def demo_found_fs_def demo_snapshot_def demo_path_def
      demo_task_prepared_def demo_workspace_eval apply_pending_workspace_invalidation_def)

lemma demo_opened_reachable: "reachable_server demo_server {demo_found_fs} demo_opened"
  unfolding demo_opened_def
  by (rule reachable.further [where s = new_backend])
    (auto intro: reachable.start backend_step.opens simp: analysis_free_def new_backend_def)

lemma demo_opened_ready:
  "idle demo_opened" "at_phase 0 Sleeping demo_opened" "\<not> superseded (b_tasks demo_opened ! 0) demo_opened"
  "demo_snapshot = analysis_snapshot (sv_docs demo_server) (b_docs demo_opened)"
  "fst (prepare_recompute (sv_check demo_server) demo_found_fs (rt_file (b_tasks demo_opened ! 0))
     demo_snapshot (rt_scope (b_tasks demo_opened ! 0)) (b_ws (swap_pending demo_server demo_opened)))
   = Inr demo_task_prepared"
  "analyze demo_found_fs demo_task_prepared = Inr demo_found"
  using demo_prepares demo_snapshot_taken
  by (simp_all add: demo_opened_fields idle_def at_phase_def superseded_def analyze_def demo_found_fs_def)

definition demo_shown :: "lsp_diagnostic list" where
  "demo_shown = [check_diagnostic_to_lsp demo_problem (new_line_index ''x'')]"

lemma demo_diagnostics:
  "map_of (diagnostics_of demo_server w demo_snapshot pr demo_found) ''u'' = Some demo_shown"
  by (simp add: diagnostics_of_def snapshot_to_diagnostics_def open_analysis_document_urls_def
      demo_snapshot_def demo_found_def demo_problem_def report_step_def push_entry_def demo_server_def
      sort_urls_def ad_get_def demo_shown_def)

lemma demo_published:
  obtains b pr where "reachable_server demo_server {demo_found_fs} (b :: (unit, unit, unit, nat, nat) backend)"
    "b_tasks b = []" "b_docs b = b_docs demo_opened" "fresh_latest (b_ws b) demo_snapshot = Some demo_found"
    "ws_project (b_ws b) = Some pr" "pr_root pr = [''/'', ''p'']" "b_pending b = 0" "shown b ''u'' = demo_shown"
proof (rule lone_run_publishes [OF demo_opened_reachable demo_opened_ready(1-5) _ demo_opened_ready(6)])
  fix b pr
  assume b: "(backend_step demo_server {demo_found_fs})\<^sup>*\<^sup>* demo_opened b"
    "b_tasks b = take 0 (b_tasks demo_opened) @ drop (Suc 0) (b_tasks demo_opened)"
    "b_docs b = b_docs demo_opened" "fresh_latest (b_ws b) demo_snapshot = Some demo_found"
    "ws_project (b_ws b) = Some pr" "pr_root pr = pp_root demo_task_prepared"
    "b_pending b = 0"
    and sh: "\<And>u. shown b u = (case map_of (diagnostics_of demo_server demo_found_fs demo_snapshot pr
         demo_found) u of Some ds \<Rightarrow> ds
       | None \<Rightarrow> if u \<in> set (rd_urls (root_entry (pp_root demo_task_prepared) (b_tracker demo_opened)))
           \<and> covers (if pp_source_only demo_task_prepared
               then scope_source_only (sv_path_to_url demo_server) demo_found else Whole) u
         then [] else shown demo_opened u)"
  have "reachable_server demo_server {demo_found_fs} b"
    using analysis_side.stays_reachable [OF demo_opened_reachable b(1)] .
  then show thesis
    using b sh [of "''u''"]
    by (intro that [of b pr]) (simp_all add: demo_opened_fields demo_task_prepared_def demo_diagnostics)
qed simp

lemma demo_committed:
  obtains b where "reachable_server demo_server {demo_found_fs} (b :: (unit, unit, unit, nat, nat) backend)"
    "at_phase 0 (Committed demo_snapshot demo_task_prepared) b" "b_pending b = 0"
    "rt_root_epoch (b_tasks b ! 0) = None" "b_docs b = b_docs demo_opened"
    "ws_latest (b_ws b) = Some demo_found"
proof (rule lone_run_commits [OF demo_opened_reachable demo_opened_ready(1-5) _ demo_opened_ready(6)])
  fix b pr
  assume b: "(backend_step demo_server {demo_found_fs})\<^sup>*\<^sup>* demo_opened b"
    "at_phase 0 (Committed demo_snapshot demo_task_prepared) b"
    "b_tasks b = (b_tasks demo_opened)[0 := (b_tasks demo_opened ! 0)
       \<lparr>rt_phase := Committed demo_snapshot demo_task_prepared\<rparr>]"
    "b_docs b = b_docs demo_opened" "b_pending b = 0" "ws_latest (b_ws b) = Some demo_found"
  have "reachable_server demo_server {demo_found_fs} b"
    using analysis_side.stays_reachable [OF demo_opened_reachable b(1)] .
  with b show thesis by (intro that [of b]) (simp_all add: demo_opened_fields)
qed simp

end
