(* ===== verification/Lsp_Server_Laws.thy ===== *)
theory Lsp_Server_Laws
  imports Lsp_Server_Demo
begin

text \<open>
  The properties of the language server as a whole: what it publishes, what it shows, which
  facts it serves, and which recomputes it runs.
\<close>

section \<open>Recomputes that run\<close>

text \<open>An event on a file leaves a task that nothing has superseded.\<close>

lemma scheduled_not_superseded:
  assumes "root_epoch = None \<or> (\<exists>r. root_epoch = Some (r, rd_epoch (root_entry r (b_tracker b))))"
  shows "\<not> superseded (last (b_tasks (schedule_recompute p root_epoch sc b)))
    (schedule_recompute p root_epoch sc b)"
  using assms by (auto simp: superseded_def schedule_recompute_def Let_def is_stale_def epoch_root_entry)

lemma bump_current:
  assumes "bump_known_root got p b = (root_epoch, b')"
  shows "root_epoch = None \<or> (\<exists>r. root_epoch = Some (r, rd_epoch (root_entry r (b_tracker b'))))"
proof (cases "known_root_for_path (if got then Some (b_ws b) else None) (b_tracker b) p")
  case (Some root)
  obtain epoch t where bump: "bump_root_epoch root (b_tracker b) = (epoch, t)" by fastforce
  have "root_epoch = Some (root, epoch)" "b_tracker b' = t"
    using assms Some bump by (auto simp: bump_known_root_def)
  then show ?thesis
    using bump_fst [of root "b_tracker b"] root_entry_bump [of root root "b_tracker b"] bump by simp
qed (use assms in \<open>simp add: bump_known_root_def\<close>)

text \<open>
  An edit takes over its project: once a change to a file of a known root has been handled,
  the task it scheduled will run, and every other waiting task of that root is superseded and
  will be dropped, whatever its scope was.
\<close>

theorem edit_supersedes_waiting_tasks:
  assumes "reachable_server S Ws b" "cs \<noteq> []" "to_file_path (sv_docs S) u = Some p"
    "known_root_for_path (if got then Some (b_ws b) else None) (b_tracker b) p = Some root"
  shows "let b' = did_change S got u cs v b; t = last (b_tasks b') in
    rt_phase t = Sleeping \<and> rt_scope t = Interactive \<and> \<not> superseded t b'
    \<and> b_tasks b' = b_tasks b @ [t]
    \<and> (\<forall>t'\<in>set (b_tasks b). \<forall>e. rt_root_epoch t' = Some (root, e) \<longrightarrow> superseded t' b')"
proof -
  have inv: "tracker_inv b" using assms(1) by (rule tracker_side.always)
  let ?b1 = "b\<lparr>b_docs := change_with_version (sv_docs S) u (last cs) (Some v) (b_docs b)\<rparr>"
  obtain root_epoch b2 where bump: "bump_known_root got p ?b1 = (root_epoch, b2)" by fastforce
  note f = bump_frame [OF bump]
  have tr: "b_tracker b2 = snd (bump_root_epoch root (b_tracker b))"
    using bump assms(4) by (cases got) (auto simp: bump_known_root_def split: prod.splits)
  let ?b' = "schedule_recompute p root_epoch Interactive b2"
  have b': "did_change S got u cs v b = ?b'"
    using assms(2,3) bump by (simp add: did_change_def Let_def)
  obtain t where t: "b_tasks ?b' = b_tasks b2 @ [t]" "rt_scope t = Interactive" "rt_phase t = Sleeping"
    using schedule_tasks [of p root_epoch Interactive b2] by blast
  have live: "\<not> superseded t ?b'"
    using scheduled_not_superseded [OF bump_current [OF bump], of p Interactive] t(1) by simp
  have "superseded t' ?b'" if "t' \<in> set (b_tasks b)" "rt_root_epoch t' = Some (root, e)" for t' e
  proof -
    have "e \<le> rd_epoch (root_entry root (b_tracker b))"
      using inv that by (auto simp: tracker_inv_def)
    then show ?thesis
      using that(2) tr by (simp add: superseded_def is_stale_def epoch_root_entry)
  qed
  then show ?thesis unfolding b' using t live f by (auto simp: Let_def)
qed

theorem edit_supersedes_waiting_tasks_witness:
  "\<exists>b :: (unit, unit, unit, nat, nat) backend. reachable_server demo_server {demo_found_fs} b
    \<and> (let b' = did_change demo_server True ''u'' [''y''] 2 b in
         rt_scope (last (b_tasks b')) = Interactive \<and> \<not> superseded (last (b_tasks b')) b')"
proof (rule demo_published)
  fix b :: "(unit, unit, unit, nat, nat) backend" and pr
  assume b: "reachable_server demo_server {demo_found_fs} b" "ws_project (b_ws b) = Some pr"
    "pr_root pr = [''/'', ''p'']"
  have "to_file_path (sv_docs demo_server) ''u'' = Some demo_path"
    "known_root_for_path (if True then Some (b_ws b) else None) (b_tracker b) demo_path = Some [''/'', ''p'']"
    using b by (simp_all add: demo_server_def known_root_for_path_def demo_path_def)
  from edit_supersedes_waiting_tasks [OF b(1) _ this, of "[''y'']" 2] b(1) show ?thesis
    by (auto simp: Let_def)
qed

text \<open>
  C16. What the client shows can be taken back: in every state the server can reach, each URL
  the client shows problems for is tracked under some project root, so the next run, close or
  watched deletion that concerns it publishes it again.
\<close>

theorem shown_problems_are_tracked:
  assumes "reachable_server S Ws b" "shown b u \<noteq> []"
  shows "\<exists>root. u \<in> set (rd_urls (root_entry root (b_tracker b)))"
  using tracker_side.always [OF assms(1)] assms(2) by (auto simp: tracker_inv_def tracked_iff)

theorem shown_problems_are_tracked_witness:
  "\<exists>(b :: (unit, unit, unit, nat, nat) backend) root. reachable_server demo_server {demo_found_fs} b
    \<and> ''u'' \<in> set (rd_urls (root_entry root (b_tracker b)))"
proof (rule demo_published)
  fix b :: "(unit, unit, unit, nat, nat) backend"
  assume b: "reachable_server demo_server {demo_found_fs} b" "shown b ''u'' = demo_shown"
  then have "shown b ''u'' \<noteq> []" by (simp add: demo_shown_def)
  from shown_problems_are_tracked [OF b(1) this] b(1) show ?thesis by blast
qed

section \<open>Facts and publishes are current\<close>

text \<open>
  C17. Fresh facts are facts about the current buffers: whenever the freshness check lets a
  request use the latest analysis, that analysis is the checker's answer, in one of the worlds of
  the run, to what a recompute of the server prepared, in one of them, from exactly the open
  buffers as they are now, however recomputes, edits and invalidations interleaved.
\<close>

theorem fresh_facts_are_current:
  assumes "reachable_server S Ws b"
    "fresh_latest (b_ws b) (analysis_snapshot (sv_docs S) (b_docs b)) = Some s"
  shows "\<exists>w1\<in>Ws. \<exists>w2\<in>Ws. \<exists>b0 file scope p. reachable_server S Ws b0
    \<and> fst (prepare_recompute (sv_check S) w1 file (analysis_snapshot (sv_docs S) (b_docs b)) scope
        (b_ws (swap_pending S b0))) = Inr p
    \<and> pp_sources p = overlay_snapshot (pp_root p) (analysis_snapshot (sv_docs S) (b_docs b))
    \<and> analyze w2 p = Inr s"
proof -
  from fresh_analysis_is_of [OF assms(1) rtranclp.rtrancl_refl assms(2)] obtain p where
    p: "prepared_in S Ws (analysis_snapshot (sv_docs S) (b_docs b)) p" "analyzed_in Ws p s" by blast
  note fields = prepared_in_fields [OF p(1)]
  from p fields show ?thesis unfolding prepared_in_def analyzed_in_def by meson
qed

theorem fresh_facts_are_current_witness:
  "\<exists>p. analyze demo_found_fs p = Inr demo_found
    \<and> pp_sources p = overlay_snapshot (pp_root p) demo_snapshot"
proof (rule demo_published)
  fix b :: "(unit, unit, unit, nat, nat) backend"
  assume b: "reachable_server demo_server {demo_found_fs} b" "b_docs b = b_docs demo_opened"
    "fresh_latest (b_ws b) demo_snapshot = Some demo_found"
  then show ?thesis
    using fresh_facts_are_current [OF b(1), of demo_found] by (auto simp: demo_snapshot_taken)
qed

text \<open>
  C3. Nothing outdated is published: a committed task never panics. It publishes only while no
  change of the workspace is pending, the buffers are those it was given and the epoch of its
  root is the one it was scheduled with; and then exactly once each URL with problems in the
  installed analysis, with those problems, and each tracked URL in its scope without, with none,
  all with the version the buffer has. That analysis is the checker's answer, in one of the
  worlds of the run, to what the server prepared from those buffers.
\<close>

theorem published_is_current:
  assumes "reachable_server S Ws b" "at_phase i (Committed docs p) b"
  shows "\<exists>b' pr s. publish_task S w (b_tasks b ! i) docs p b = Some b'
    \<and> ws_project (b_ws b) = Some pr \<and> pr_root pr = pp_root p \<and> ws_latest (b_ws b) = Some s
    \<and> (\<exists>w1\<in>Ws. \<exists>w2\<in>Ws. \<exists>b0 file scope. reachable_server S Ws b0
         \<and> fst (prepare_recompute (sv_check S) w1 file docs scope (b_ws (swap_pending S b0))) = Inr p
         \<and> analyze w2 p = Inr s)
    \<and> (if b_pending b = 0 \<and> docs = analysis_snapshot (sv_docs S) (b_docs b)
          \<and> tracker_epoch (b_tracker b) (pr_root pr)
             = publish_epoch (b_tasks b ! i) (pr_root pr) (b_tracker b)
       then \<exists>ps. b_published b' = b_published b @ ps \<and> distinct (map pb_url ps)
         \<and> (\<forall>u. u \<in> pb_url ` set ps \<longleftrightarrow> u \<in> fst ` set (diagnostics_of S w docs pr s)
              \<or> u \<in> set (rd_urls (root_entry (pr_root pr) (b_tracker b)))
                \<and> covers (if pp_source_only p then scope_source_only (sv_path_to_url S) s else Whole) u)
         \<and> (\<forall>x\<in>set ps. pb_version x = version_for (open_document_versions docs) (pb_url x)
              \<and> pb_diagnostics x = (case map_of (diagnostics_of S w docs pr s) (pb_url x) of
                  Some ds \<Rightarrow> ds | None \<Rightarrow> []))
       else b_published b' = b_published b)"
proof -
  from phase_at [OF server_inv [OF assms(1)] assms(2)] obtain pr s where
    ph: "docs_ok {} (sv_docs S) (b_docs b) docs" "prepared_in S Ws docs p"
      "ws_project (b_ws b) = Some pr" "pr_root pr = pp_root p" "ws_latest (b_ws b) = Some s"
      "analyzed_in Ws p s" by (auto simp: project_is_def)
  have current: "matches_generation (b_docs b) docs \<longleftrightarrow> docs = analysis_snapshot (sv_docs S) (b_docs b)"
    using ph(1) by (auto simp: docs_ok_def matches_generation_def analysis_snapshot_def)
  have made: "\<exists>w1\<in>Ws. \<exists>w2\<in>Ws. \<exists>b0 file scope. reachable_server S Ws b0
      \<and> fst (prepare_recompute (sv_check S) w1 file docs scope (b_ws (swap_pending S b0))) = Inr p
      \<and> analyze w2 p = Inr s"
    using ph(2,6) unfolding prepared_in_def analyzed_in_def by meson
  obtain b' where b': "publish_task S w (b_tasks b ! i) docs p b = Some b'"
    using publish_task_never_panics [OF ph(3,5)] by blast
  note outcome = publish_task_outcome [OF b' ph(3,5), folded current]
  show ?thesis
    by (intro exI [of _ b'] exI [of _ pr] exI [of _ s] conjI)
      (use b' ph(3-5) made outcome in \<open>simp_all only: current\<close>)
qed

theorem published_is_current_witness:
  "\<exists>b b' :: (unit, unit, unit, nat, nat) backend. reachable_server demo_server {demo_found_fs} b
    \<and> publish_task demo_server demo_found_fs (b_tasks b ! 0) demo_snapshot demo_task_prepared b = Some b'
    \<and> (\<exists>x ps. b_published b' = b_published b @ ps \<and> x \<in> set ps \<and> pb_url x = ''u''
         \<and> pb_version x = Some 1 \<and> pb_diagnostics x = demo_shown)"
proof (rule demo_committed)
  fix b :: "(unit, unit, unit, nat, nat) backend"
  assume b: "reachable_server demo_server {demo_found_fs} b" "at_phase 0 (Committed demo_snapshot demo_task_prepared) b"
    "b_pending b = 0" "rt_root_epoch (b_tasks b ! 0) = None" "b_docs b = b_docs demo_opened"
    "ws_latest (b_ws b) = Some demo_found"
  have now: "demo_snapshot = analysis_snapshot (sv_docs demo_server) (b_docs b)"
    by (simp add: b(5) demo_snapshot_taken)
  have u: "''u'' \<in> fst ` set (diagnostics_of demo_server demo_found_fs demo_snapshot pr demo_found)" for pr
    using map_of_SomeD [OF demo_diagnostics] by force
  from published_is_current [OF b(1,2), of demo_found_fs] obtain b' pr ps where
    h: "publish_task demo_server demo_found_fs (b_tasks b ! 0) demo_snapshot demo_task_prepared b = Some b'"
      "b_published b' = b_published b @ ps"
      "\<forall>u. u \<in> pb_url ` set ps \<longleftrightarrow> u \<in> fst ` set (diagnostics_of demo_server demo_found_fs demo_snapshot pr demo_found)
         \<or> u \<in> set (rd_urls (root_entry (pr_root pr) (b_tracker b)))
           \<and> covers (if pp_source_only demo_task_prepared
                then scope_source_only (sv_path_to_url demo_server) demo_found else Whole) u"
      "\<forall>x\<in>set ps. pb_version x = version_for (open_document_versions demo_snapshot) (pb_url x)
         \<and> pb_diagnostics x = (case map_of (diagnostics_of demo_server demo_found_fs demo_snapshot pr demo_found)
              (pb_url x) of Some ds \<Rightarrow> ds | None \<Rightarrow> [])"
    using b(3,4,6) now by (auto simp: publish_epoch_def)
  from h(3) u [of pr] obtain x where x: "x \<in> set ps" "pb_url x = ''u''" by force
  have "version_for (open_document_versions demo_snapshot) ''u'' = Some 1"
    by (simp add: demo_snapshot_def version_for_def open_document_versions_def)
  with h(4) x have "pb_version x = Some 1" "pb_diagnostics x = demo_shown"
    by (simp_all add: demo_diagnostics)
  with b(1) h(1,2) x show ?thesis by blast
qed

section \<open>Progress\<close>

text \<open>
  C4. An edit's diagnostics arrive: from every state the server can reach in which no recompute
  is running, a waiting task that nothing has superseded, left alone, runs to its end if the
  project resolves and the check succeeds; it leaves the list, its analysis is installed as the
  fresh one for the buffers, and the client then shows exactly the problems found, none for the
  URLs of the project in its scope without problems, and what it showed before elsewhere.
\<close>

theorem lone_recompute_publishes:
  assumes "reachable_server S Ws b" "idle b" "at_phase i Sleeping b" "\<not> superseded (b_tasks b ! i) b"
    "fst (prepare_recompute (sv_check S) w (rt_file (b_tasks b ! i))
       (analysis_snapshot (sv_docs S) (b_docs b)) (rt_scope (b_tasks b ! i))
       (b_ws (swap_pending S b))) = Inr p"
    "w \<in> Ws" "analyze w p = Inr s"
  shows "\<exists>b' pr. (backend_step S Ws)\<^sup>*\<^sup>* b b'
    \<and> b_tasks b' = take i (b_tasks b) @ drop (Suc i) (b_tasks b)
    \<and> fresh_latest (b_ws b') (analysis_snapshot (sv_docs S) (b_docs b')) = Some s
    \<and> ws_project (b_ws b') = Some pr \<and> pr_root pr = pp_root p
    \<and> (\<forall>u. shown b' u =
         (case map_of (diagnostics_of S w (analysis_snapshot (sv_docs S) (b_docs b)) pr s) u of
            Some ds \<Rightarrow> ds
          | None \<Rightarrow> if u \<in> set (rd_urls (root_entry (pp_root p) (b_tracker b)))
              \<and> covers (if pp_source_only p then scope_source_only (sv_path_to_url S) s else Whole) u
            then [] else shown b u))"
proof (rule lone_run_publishes [OF assms(1-4) refl assms(5-7)])
  fix b' pr
  assume "(backend_step S Ws)\<^sup>*\<^sup>* b b'"
    "b_tasks b' = take i (b_tasks b) @ drop (Suc i) (b_tasks b)" "b_docs b' = b_docs b"
    "fresh_latest (b_ws b') (analysis_snapshot (sv_docs S) (b_docs b)) = Some s"
    "ws_project (b_ws b') = Some pr" "pr_root pr = pp_root p" "b_pending b' = 0"
    "\<And>u. shown b' u = (case map_of (diagnostics_of S w (analysis_snapshot (sv_docs S) (b_docs b)) pr s) u of
        Some ds \<Rightarrow> ds
      | None \<Rightarrow> if u \<in> set (rd_urls (root_entry (pp_root p) (b_tracker b)))
          \<and> covers (if pp_source_only p then scope_source_only (sv_path_to_url S) s else Whole) u
        then [] else shown b u)"
  then show ?thesis by (intro exI [of _ b'] exI [of _ pr]) simp
qed

theorem lone_recompute_publishes_witness:
  "\<exists>b'. (backend_step demo_server {demo_found_fs})\<^sup>*\<^sup>* demo_opened b' \<and> b_tasks b' = [] \<and> shown b' ''u'' = demo_shown"
proof -
  note ready = demo_opened_ready [unfolded demo_opened_ready(4)]
  from lone_recompute_publishes [OF demo_opened_reachable ready(1-3) ready(5) _ ready(6)]
  show ?thesis
    unfolding demo_snapshot_taken by (auto simp: demo_diagnostics demo_opened_fields(7))
qed

end
