(* ===== verification/Lsp_Navigation.thy ===== *)
theory Lsp_Navigation
  imports Lsp_Workspace Lsp_Editing
begin

text \<open>
  \<open>crates/marrow-lsp-core/src/navigation/\<close>, \<open>symbols.rs\<close> and \<open>completion.rs\<close>: what the server
  makes of the locations, symbols and completions that Marrow's tooling finds. The queries of
  the tooling are the record \<open>tooling\<close>; \<open>to_url\<close> is \<open>Url::from_file_path\<close>.
\<close>

section \<open>Marrow's facts\<close>

record source_span =
  span_start :: nat
  span_end :: nat

record symbol_ref =
  sy_file :: path
  sy_span :: source_span

record rename_edit =
  re_file :: path
  re_span :: source_span
  re_replacement :: string

datatype source_rename_error =
    SourceNoSymbol
  | SourceNotRenameable
  | SourceInvalidName
  | SourceSavedDataBacked

datatype document_symbol_kind =
    DskConstant | DskFunction | DskEnum | DskEnumMember | DskResource | DskResourceField
  | DskResourceGroup | DskStore | DskStoreIndex | DskSurface | DskEvolve | DskEvolveStep

datatype marrow_symbol =
  MarrowSymbol (ms_name: string) (ms_detail: "string option") (ms_kind: document_symbol_kind)
    (ms_span: source_span) (ms_selection: source_span) (ms_children: "marrow_symbol list")

datatype source_symbol_kind =
    SskConstant | SskFunction | SskResource | SskStore | SskStoreIndex | SskResourceMember
  | SskEnum | SskEnumMember

record source_symbol =
  ss_name :: string
  ss_kind :: source_symbol_kind
  ss_file :: path
  ss_span :: source_span
  ss_container :: "string option"

datatype source_completion_kind =
    SckKeyword | SckLocal | SckFunction | SckResource | SckSavedRoot | SckField | SckLayer
  | SckEnum | SckEnumMember | SckModule | SckStoreIdentity

record source_completion =
  sc_label :: string
  sc_kind :: source_completion_kind
  sc_detail :: "string option"
  sc_docs :: "string list"

record ('lex, 'parse, 'ix) tooling =
  catalog_definition_at :: "analysis \<Rightarrow> path \<Rightarrow> nat \<Rightarrow> symbol_ref option"
  catalog_references_at :: "analysis \<Rightarrow> path \<Rightarrow> nat \<Rightarrow> bool \<Rightarrow> symbol_ref list option"
  saved_root_cursor_at :: "analysis \<Rightarrow> path \<Rightarrow> nat \<Rightarrow> bool"
  binding_definition :: "'ix \<Rightarrow> path \<Rightarrow> nat \<Rightarrow> symbol_ref option"
  binding_references :: "'ix \<Rightarrow> symbol_ref \<Rightarrow> symbol_ref list"
  module_path_definition_at :: "analysis \<Rightarrow> 'ix \<Rightarrow> path \<Rightarrow> nat \<Rightarrow> symbol_ref option"
  rename_occurrence_at :: "'ix \<Rightarrow> path \<Rightarrow> nat \<Rightarrow> source_rename_error + symbol_ref"
  rename_action_at :: "'ix \<Rightarrow> path \<Rightarrow> nat \<Rightarrow> string \<Rightarrow> source_rename_error + rename_edit list"
  marrow_document_symbols :: "'parse \<Rightarrow> string \<Rightarrow> marrow_symbol list"
  symbols_matching :: "analysis \<Rightarrow> string \<Rightarrow> source_symbol list"
  completion_fact :: "checked_program \<Rightarrow> path \<Rightarrow> string \<Rightarrow> 'parse \<Rightarrow> 'lex \<Rightarrow> nat
    \<Rightarrow> source_completion list"

section \<open>The indices of a request\<close>

record snapshot_indices =
  si_open :: "(path \<times> line_index) list"
  si_closed :: "(path \<times> line_index) list"

text \<open>\<open>SnapshotIndices::new\<close>: each analyzed file under the open buffer's index, or under one
  built from the analyzed source.\<close>

definition add_index ::
  "(path \<Rightarrow> line_index option) \<Rightarrow> path \<times> string \<Rightarrow> snapshot_indices \<Rightarrow> snapshot_indices" where
  "add_index opened f si =
     (case opened (fst f) of
        Some idx \<Rightarrow> si\<lparr>si_open := AList.update (fst f) idx (si_open si)\<rparr>
      | None \<Rightarrow> si\<lparr>si_closed := AList.update (fst f) (new_line_index (snd f)) (si_closed si)\<rparr>)"

definition new_indices ::
  "(path \<times> string) list \<Rightarrow> (path \<Rightarrow> line_index option) \<Rightarrow> snapshot_indices" where
  "new_indices files opened = fold (add_index opened) files \<lparr>si_open = [], si_closed = []\<rparr>"

definition index_for :: "snapshot_indices \<Rightarrow> path \<Rightarrow> line_index option" where
  "index_for si file =
     (case map_of (si_open si) file of Some idx \<Rightarrow> Some idx | None \<Rightarrow> map_of (si_closed si) file)"

text \<open>\<open>snapshot_indices\<close> of \<open>backend.rs\<close>.\<close>

definition indices_of :: "analysis \<Rightarrow> analysis_docs \<Rightarrow> snapshot_indices" where
  "indices_of s docs =
     new_indices (map (\<lambda>f. (af_path f, af_source f)) (an_files s)) (line_index_for_path docs)"

section \<open>Definition and references\<close>

record location =
  loc_uri :: url
  loc_range :: lsp_range

definition symbol_location ::
  "(path \<Rightarrow> url option) \<Rightarrow> snapshot_indices \<Rightarrow> symbol_ref \<Rightarrow> location option" where
  "symbol_location to_url si r =
     (case index_for si (sy_file r) of None \<Rightarrow> None
      | Some idx \<Rightarrow> (case to_url (sy_file r) of None \<Rightarrow> None
        | Some u \<Rightarrow> Some \<lparr>loc_uri = u,
            loc_range = range_of idx (span_start (sy_span r)) (span_end (sy_span r))\<rparr>))"

definition catalog_definition ::
  "('lex, 'parse, 'ix) tooling \<Rightarrow> (path \<Rightarrow> url option) \<Rightarrow> analysis \<Rightarrow> snapshot_indices \<Rightarrow> path \<Rightarrow> nat
   \<Rightarrow> location option" where
  "catalog_definition T to_url s si file byte_offset =
     Option.bind (catalog_definition_at T s file byte_offset) (symbol_location to_url si)"

definition catalog_references ::
  "('lex, 'parse, 'ix) tooling \<Rightarrow> (path \<Rightarrow> url option) \<Rightarrow> analysis \<Rightarrow> snapshot_indices \<Rightarrow> path \<Rightarrow> nat
   \<Rightarrow> bool \<Rightarrow> location list option" where
  "catalog_references T to_url s si file byte_offset declaration =
     map_option (List.map_filter (symbol_location to_url si))
       (catalog_references_at T s file byte_offset declaration)"

definition module_path_location ::
  "('lex, 'parse, 'ix) tooling \<Rightarrow> (path \<Rightarrow> url option) \<Rightarrow> analysis \<Rightarrow> 'ix \<Rightarrow> snapshot_indices \<Rightarrow> path
   \<Rightarrow> nat \<Rightarrow> location option" where
  "module_path_location T to_url s ix si file byte_offset =
     (case module_path_definition_at T s ix file byte_offset of None \<Rightarrow> None
      | Some fct \<Rightarrow> (case index_for si (sy_file fct) of None \<Rightarrow> None
        | Some idx \<Rightarrow> (case to_url (sy_file fct) of None \<Rightarrow> None
          | Some u \<Rightarrow> Some \<lparr>loc_uri = u,
              loc_range = range_of idx (span_start (sy_span fct)) (span_end (sy_span fct))\<rparr>)))"

definition definition_at ::
  "('lex, 'parse, 'ix) tooling \<Rightarrow> (path \<Rightarrow> url option) \<Rightarrow> analysis \<Rightarrow> 'ix \<Rightarrow> snapshot_indices \<Rightarrow> path
   \<Rightarrow> nat \<Rightarrow> location option" where
  "definition_at T to_url s ix si file byte_offset =
     (case catalog_definition T to_url s si file byte_offset of
        Some l \<Rightarrow> Some l
      | None \<Rightarrow>
          if saved_root_cursor_at T s file byte_offset then None
          else (case binding_definition T ix file byte_offset of
             Some r \<Rightarrow> symbol_location to_url si r
           | None \<Rightarrow> module_path_location T to_url s ix si file byte_offset))"

definition references_at ::
  "('lex, 'parse, 'ix) tooling \<Rightarrow> (path \<Rightarrow> url option) \<Rightarrow> analysis \<Rightarrow> 'ix \<Rightarrow> snapshot_indices \<Rightarrow> path
   \<Rightarrow> nat \<Rightarrow> bool \<Rightarrow> location list option" where
  "references_at T to_url s ix si file byte_offset declaration =
     (case catalog_references T to_url s si file byte_offset declaration of
        Some ls \<Rightarrow> Some ls
      | None \<Rightarrow> (case binding_definition T ix file byte_offset of None \<Rightarrow> None
        | Some d \<Rightarrow> Some (List.map_filter (symbol_location to_url si)
            (filter (\<lambda>r. declaration \<or> r \<noteq> d) (binding_references T ix d)))))"

section \<open>Rename\<close>

datatype rename_error = RnNoSymbol | RnNotRenameable | RnInvalidName | RnSavedDataBacked

definition rename_error_message :: "rename_error \<Rightarrow> string" where
  "rename_error_message e = (case e of
     RnNoSymbol \<Rightarrow> ''no renameable symbol at this position''
   | RnNotRenameable \<Rightarrow> ''this symbol cannot be renamed from the editor''
   | RnInvalidName \<Rightarrow> ''new name must be a valid Marrow identifier''
   | RnSavedDataBacked \<Rightarrow> ''cannot rename: this names saved data, so renaming it in ''
       @ ''source would orphan the stored records on disk'')"

definition from_source_error :: "source_rename_error \<Rightarrow> rename_error" where
  "from_source_error e = (case e of
     SourceNoSymbol \<Rightarrow> RnNoSymbol | SourceNotRenameable \<Rightarrow> RnNotRenameable
   | SourceInvalidName \<Rightarrow> RnInvalidName | SourceSavedDataBacked \<Rightarrow> RnSavedDataBacked)"

definition prepare_rename ::
  "('lex, 'parse, 'ix) tooling \<Rightarrow> 'ix \<Rightarrow> snapshot_indices \<Rightarrow> path \<Rightarrow> nat \<Rightarrow> lsp_range option" where
  "prepare_rename T ix si file byte_offset =
     (case rename_occurrence_at T ix file byte_offset of Inl e \<Rightarrow> None
      | Inr r \<Rightarrow> map_option (\<lambda>idx. range_of idx (span_start (sy_span r)) (span_end (sy_span r)))
          (index_for si (sy_file r)))"

type_synonym workspace_edit = "(url \<times> text_edit list) list"

definition edits_for :: "workspace_edit \<Rightarrow> url \<Rightarrow> text_edit list" where
  "edits_for we u = (case map_of we u of None \<Rightarrow> [] | Some es \<Rightarrow> es)"

definition add_edit ::
  "(path \<Rightarrow> url option) \<Rightarrow> snapshot_indices \<Rightarrow> rename_edit \<Rightarrow> workspace_edit \<Rightarrow> workspace_edit" where
  "add_edit to_url si e we =
     (case index_for si (re_file e) of None \<Rightarrow> we
      | Some idx \<Rightarrow> (case to_url (re_file e) of None \<Rightarrow> we
        | Some u \<Rightarrow> AList.update u (edits_for we u @
            [\<lparr>te_range = range_of idx (span_start (re_span e)) (span_end (re_span e)),
              te_new_text = re_replacement e\<rparr>]) we))"

definition rename ::
  "('lex, 'parse, 'ix) tooling \<Rightarrow> (path \<Rightarrow> url option) \<Rightarrow> 'ix \<Rightarrow> snapshot_indices \<Rightarrow> path \<Rightarrow> nat
   \<Rightarrow> string \<Rightarrow> rename_error + workspace_edit" where
  "rename T to_url ix si file byte_offset new_name =
     bind_result (map_err from_source_error (rename_action_at T ix file byte_offset new_name))
       (\<lambda>edits. Inr (fold (add_edit to_url si) edits []))"

section \<open>Symbols\<close>

datatype symbol_kind =
    SkConstant | SkFunction | SkEnum | SkEnumMember | SkStruct | SkField | SkObject | SkKey
  | SkInterface | SkNamespace | SkEvent

definition document_symbol_kind_of :: "document_symbol_kind \<Rightarrow> symbol_kind" where
  "document_symbol_kind_of k = (case k of
     DskConstant \<Rightarrow> SkConstant | DskFunction \<Rightarrow> SkFunction | DskEnum \<Rightarrow> SkEnum
   | DskEnumMember \<Rightarrow> SkEnumMember | DskResource \<Rightarrow> SkStruct | DskResourceField \<Rightarrow> SkField
   | DskResourceGroup \<Rightarrow> SkObject | DskStore \<Rightarrow> SkObject | DskStoreIndex \<Rightarrow> SkKey
   | DskSurface \<Rightarrow> SkInterface | DskEvolve \<Rightarrow> SkNamespace | DskEvolveStep \<Rightarrow> SkEvent)"

definition source_symbol_kind_of :: "source_symbol_kind \<Rightarrow> symbol_kind" where
  "source_symbol_kind_of k = (case k of
     SskConstant \<Rightarrow> SkConstant | SskFunction \<Rightarrow> SkFunction | SskResource \<Rightarrow> SkStruct
   | SskStore \<Rightarrow> SkObject | SskStoreIndex \<Rightarrow> SkKey | SskResourceMember \<Rightarrow> SkField
   | SskEnum \<Rightarrow> SkEnum | SskEnumMember \<Rightarrow> SkEnumMember)"

datatype document_symbol =
  DocumentSymbol (ds_name: string) (ds_detail: "string option") (ds_kind: symbol_kind)
    (ds_range: lsp_range) (ds_selection_range: lsp_range)
    (ds_children: "document_symbol list option")

fun document_symbol_from_fact :: "line_index \<Rightarrow> marrow_symbol \<Rightarrow> document_symbol option" where
  "document_symbol_from_fact idx (MarrowSymbol name detail kind sp sel children) =
     (if name = [] then None
      else let cs = List.concat (map (\<lambda>c. case document_symbol_from_fact idx c of
                 None \<Rightarrow> [] | Some d \<Rightarrow> [d]) children)
           in Some (DocumentSymbol name detail (document_symbol_kind_of kind)
                (range_of idx (span_start sp) (span_end sp))
                (range_of idx (span_start sel) (span_end sel))
                (if cs = [] then None else Some cs)))"

definition document_symbols ::
  "('lex, 'parse, 'ix) tooling \<Rightarrow> 'parse \<Rightarrow> line_index \<Rightarrow> document_symbol list" where
  "document_symbols T parsed idx =
     List.map_filter (document_symbol_from_fact idx) (marrow_document_symbols T parsed (li_text idx))"

record workspace_source =
  wsrc_url :: url
  wsrc_index :: line_index

record symbol_information =
  sif_name :: string
  sif_kind :: symbol_kind
  sif_location :: location
  sif_container :: "string option"

definition sources_for_files ::
  "(path \<Rightarrow> url option) \<Rightarrow> analysis \<Rightarrow> path list \<Rightarrow> (path \<times> workspace_source) list" where
  "sources_for_files to_url s wanted =
     fold (\<lambda>(p, x) m. AList.update p x m)
       (List.map_filter (\<lambda>f. map_option (\<lambda>u. (af_path f,
            \<lparr>wsrc_url = u, wsrc_index = new_line_index (af_source f)\<rparr>)) (to_url (af_path f)))
          (filter (\<lambda>f. af_path f \<in> set wanted) (an_files s))) []"

definition flat_symbol ::
  "string \<Rightarrow> symbol_kind \<Rightarrow> workspace_source \<Rightarrow> source_span \<Rightarrow> string option \<Rightarrow> symbol_information"
  where
  "flat_symbol name kind source sp container =
     \<lparr>sif_name = name, sif_kind = kind,
      sif_location = \<lparr>loc_uri = wsrc_url source,
        loc_range = range_of (wsrc_index source) (span_start sp) (span_end sp)\<rparr>,
      sif_container = container\<rparr>"

definition workspace_symbols ::
  "('lex, 'parse, 'ix) tooling \<Rightarrow> (path \<Rightarrow> url option) \<Rightarrow> analysis \<Rightarrow> string
   \<Rightarrow> symbol_information list" where
  "workspace_symbols T to_url s query =
     (let matches = symbols_matching T s query;
          sources = sources_for_files to_url s (map ss_file matches)
      in List.map_filter (\<lambda>m. map_option (\<lambda>source. flat_symbol (ss_name m)
           (source_symbol_kind_of (ss_kind m)) source (ss_span m) (ss_container m))
           (map_of sources (ss_file m))) matches)"

section \<open>Completion\<close>

datatype completion_kind =
    CkKeyword | CkVariable | CkFunction | CkStruct | CkField | CkEnum | CkEnumMember | CkModule
  | CkClass

record completion_item =
  ci_label :: string
  ci_kind :: completion_kind
  ci_detail :: "string option"
  ci_documentation :: "string option"

definition completion_item_kind :: "source_completion_kind \<Rightarrow> completion_kind" where
  "completion_item_kind k = (case k of
     SckKeyword \<Rightarrow> CkKeyword | SckLocal \<Rightarrow> CkVariable | SckFunction \<Rightarrow> CkFunction
   | SckResource \<Rightarrow> CkStruct | SckSavedRoot \<Rightarrow> CkStruct | SckField \<Rightarrow> CkField | SckLayer \<Rightarrow> CkStruct
   | SckEnum \<Rightarrow> CkEnum | SckEnumMember \<Rightarrow> CkEnumMember | SckModule \<Rightarrow> CkModule
   | SckStoreIdentity \<Rightarrow> CkClass)"

definition completion_documentation :: "string list \<Rightarrow> string option" where
  "completion_documentation docs =
     (if docs = [] then None else Some (join_with [CHR 0x0A] docs))"

definition completion_item_of :: "source_completion \<Rightarrow> completion_item" where
  "completion_item_of item =
     \<lparr>ci_label = sc_label item, ci_kind = completion_item_kind (sc_kind item),
      ci_detail = sc_detail item, ci_documentation = completion_documentation (sc_docs item)\<rparr>"

definition completion ::
  "('lex, 'parse, 'ix) tooling \<Rightarrow> checked_program \<Rightarrow> path \<Rightarrow> string \<Rightarrow> 'parse \<Rightarrow> 'lex \<Rightarrow> nat
   \<Rightarrow> completion_item list" where
  "completion T program file source parsed lexed byte_offset =
     map completion_item_of (completion_fact T program file source parsed lexed byte_offset)"

section \<open>Which index a file gets\<close>

lemma index_for_add:
  "index_for (add_index opened f si) file =
     (if file = fst f \<and> opened file \<noteq> None then opened file
      else if file = fst f \<and> map_of (si_open si) file = None then Some (new_line_index (snd f))
      else index_for si file)"
  by (cases "opened (fst f)") (auto simp: add_index_def index_for_def update_conv' split: option.split)

lemma index_for_empty [simp]: "index_for \<lparr>si_open = [], si_closed = []\<rparr> file = None"
  by (simp add: index_for_def)

text \<open>A file gets an index if and only if it was analyzed: the open buffer's index, or that of its
  analyzed source.\<close>

lemma index_for_new:
  assumes "distinct (map fst files)"
  shows "index_for (new_indices files opened) file =
    (case map_of files file of None \<Rightarrow> None
     | Some source \<Rightarrow> (case opened file of Some idx \<Rightarrow> Some idx
         | None \<Rightarrow> Some (new_line_index source)))"
proof -
  have "index_for (fold (add_index opened) files si) file =
      (case map_of files file of None \<Rightarrow> index_for si file
       | Some source \<Rightarrow> (case opened file of Some idx \<Rightarrow> Some idx
           | None \<Rightarrow> Some (new_line_index source)))"
    if "map_of files file \<noteq> None \<Longrightarrow> opened file = None \<Longrightarrow> map_of (si_open si) file = None" for si
    using assms that
  proof (induction files arbitrary: si)
    case (Cons f fs)
    have other: "map_of (si_open (add_index opened f si)) file = map_of (si_open si) file"
      if "file \<noteq> fst f \<or> opened file = None"
      using that by (auto simp: add_index_def update_conv' split: option.split)
    show ?case
    proof (cases "file = fst f")
      case True
      with Cons.prems(1) have "map_of fs file = None" by (auto simp: map_of_eq_None_iff)
      then have "index_for (fold (add_index opened) fs (add_index opened f si)) file
          = index_for (add_index opened f si) file"
        using Cons.IH [of "add_index opened f si"] Cons.prems(1) by simp
      with Cons.prems(2) True show ?thesis
        by (cases f) (auto simp: index_for_add split: option.split)
    next
      case False
      with Cons other show ?thesis
        by (cases f) (auto simp: index_for_add split: option.split)
    qed
  qed simp
  from this [of "\<lparr>si_open = [], si_closed = []\<rparr>"] show ?thesis
    by (cases "map_of files file") (simp_all add: new_indices_def)
qed

lemma index_for_analyzed:
  assumes "distinct (map af_path (an_files s))" "f \<in> set (an_files s)"
    "line_index_for_path docs (af_path f) \<in> {None, Some (new_line_index (af_source f))}"
  shows "index_for (indices_of s docs) (af_path f) = Some (new_line_index (af_source f))"
proof -
  let ?files = "map (\<lambda>f. (af_path f, af_source f)) (an_files s)"
  have d: "distinct (map fst ?files)" using assms(1) by (simp add: comp_def)
  moreover have "map_of ?files (af_path f) = Some (af_source f)"
    using d assms(2) by (intro map_of_is_SomeI) auto
  ultimately show ?thesis using assms(3) by (auto simp: indices_of_def index_for_new)
qed

section \<open>Renaming\<close>

lemma edits_for_update [simp]:
  "edits_for (AList.update u es we) v = (if v = u then es else edits_for we v)"
  by (simp add: edits_for_def update_conv')

text \<open>The edits of a file, in the order Marrow gives them.\<close>

lemma edits_for_fold:
  assumes "\<And>e. e \<in> set edits \<Longrightarrow> index_for si (re_file e) = Some (idx e)"
  shows "edits_for (fold (add_edit to_url si) edits we) u = edits_for we u
    @ map (\<lambda>e. \<lparr>te_range = range_of (idx e) (span_start (re_span e)) (span_end (re_span e)),
        te_new_text = re_replacement e\<rparr>) (filter (\<lambda>e. to_url (re_file e) = Some u) edits)"
  using assms
proof (induction edits arbitrary: we)
  case (Cons e es)
  then have "index_for si (re_file e) = Some (idx e)" by simp
  with Cons show ?case by (auto simp: add_edit_def split: option.split)
qed simp

text \<open>
  C39. A rename from fresh facts changes exactly the symbol: when the open buffers are the texts
  that were analyzed, the answer holds for each URL the edits Marrow gives for its file, in that
  order, with their replacements, and a client that resolves an edit's range in its own text
  finds the bytes of Marrow's span.
\<close>

theorem rename_edits_name_their_spans:
  assumes "rename_action_at T ix file byte_offset new_name = Inr edits"
    "distinct (map af_path (an_files s))"
    "\<And>f. f \<in> set (an_files s) \<Longrightarrow>
       line_index_for_path docs (af_path f) \<in> {None, Some (new_line_index (af_source f))}"
    "\<And>e. e \<in> set edits \<Longrightarrow> \<exists>f\<in>set (an_files s). af_path f = re_file e \<and> utf8_valid (af_source f)
       \<and> length (af_source f) < 2 ^ 32
       \<and> (\<forall>b\<in>{span_start (re_span e), span_end (re_span e)}.
            is_char_boundary (af_source f) b \<and> b \<le> length (af_source f))"
  shows "\<exists>we. rename T to_url ix (indices_of s docs) file byte_offset new_name = Inr we
    \<and> (\<forall>u. list_all2 (\<lambda>e te. te_new_text te = re_replacement e
         \<and> (\<exists>f\<in>set (an_files s). af_path f = re_file e
              \<and> offset (new_line_index (af_source f)) (range_start (te_range te)) = span_start (re_span e)
              \<and> offset (new_line_index (af_source f)) (range_end (te_range te)) = span_end (re_span e)))
       (filter (\<lambda>e. to_url (re_file e) = Some u) edits) (edits_for we u))"
proof -
  define file_of :: "rename_edit \<Rightarrow> analyzed_file" where "file_of e = (SOME f. f \<in> set (an_files s) \<and> af_path f = re_file e
    \<and> utf8_valid (af_source f) \<and> length (af_source f) < 2 ^ 32
    \<and> (\<forall>b\<in>{span_start (re_span e), span_end (re_span e)}.
         is_char_boundary (af_source f) b \<and> b \<le> length (af_source f)))" for e
  have file_of: "file_of e \<in> set (an_files s)" "af_path (file_of e) = re_file e"
    "utf8_valid (af_source (file_of e))" "length (af_source (file_of e)) < 2 ^ 32"
    "\<forall>b\<in>{span_start (re_span e), span_end (re_span e)}.
         is_char_boundary (af_source (file_of e)) b \<and> b \<le> length (af_source (file_of e))"
    if "e \<in> set edits" for e
    using someI_ex [OF assms(4) [OF that, unfolded Bex_def]] unfolding file_of_def by blast+
  have idx: "index_for (indices_of s docs) (re_file e) = Some (new_line_index (af_source (file_of e)))"
    if "e \<in> set edits" for e
    using index_for_analyzed [OF assms(2) file_of(1) [OF that] assms(3) [OF file_of(1) [OF that]]]
      file_of(2) [OF that] by simp
  let ?we = "fold (add_edit to_url (indices_of s docs)) edits []"
  have edits: "edits_for ?we u = map (\<lambda>e. \<lparr>te_range = range_of (new_line_index (af_source (file_of e)))
      (span_start (re_span e)) (span_end (re_span e)), te_new_text = re_replacement e\<rparr>)
    (filter (\<lambda>e. to_url (re_file e) = Some u) edits)" for u
    by (subst edits_for_fold [OF idx]) (simp_all add: edits_for_def)
  have ends: "offset (new_line_index (af_source (file_of e))) (position (new_line_index
      (af_source (file_of e))) b) = b"
    if "e \<in> set edits" "b \<in> {span_start (re_span e), span_end (re_span e)}" for e b
    using file_of [OF that(1)] that(2) by (intro offset_position_boundary) auto
  have "rename T to_url ix (indices_of s docs) file byte_offset new_name = Inr ?we"
    by (simp add: rename_def assms(1))
  then show ?thesis
    using file_of ends
    by (intro exI [of _ ?we]) (auto simp: edits list_all2_map2 range_of_def list_all2_same
      intro!: bexI [of _ "file_of _"])
qed

definition demo_tooling :: "(unit, unit, nat) tooling" where
  "demo_tooling = \<lparr>catalog_definition_at = (\<lambda>_ _ _. None), catalog_references_at = (\<lambda>_ _ _ _. None),
     saved_root_cursor_at = (\<lambda>_ _ _. False), binding_definition = (\<lambda>_ _ _. None),
     binding_references = (\<lambda>_ _. []), module_path_definition_at = (\<lambda>_ _ _ _. None),
     rename_occurrence_at = (\<lambda>_ _ _. Inl SourceNoSymbol),
     rename_action_at = (\<lambda>_ file _ new_name. Inr [\<lparr>re_file = file,
       re_span = \<lparr>span_start = 3, span_end = 4\<rparr>, re_replacement = new_name\<rparr>]),
     marrow_document_symbols = (\<lambda>_ _. [MarrowSymbol ''f'' None DskFunction
       \<lparr>span_start = 0, span_end = 6\<rparr> \<lparr>span_start = 3, span_end = 4\<rparr> []]),
     symbols_matching = (\<lambda>_ _. []), completion_fact = (\<lambda>_ _ _ _ _ _. [])\<rparr>"

definition demo_renamed :: analysis where
  "demo_renamed = \<lparr>an_generation = 0, an_program = demo_program,
     an_files = [\<lparr>af_path = [''/'', ''a.mw''], af_source = ''fn f()'', af_has_errors = False\<rparr>],
     an_report = []\<rparr>"

theorem rename_edits_name_their_spans_witness:
  "\<exists>we. rename demo_tooling (\<lambda>p. Some (concat p)) 0 (indices_of demo_renamed
       \<lparr>ad_generation = 1, ad_open = []\<rparr>) [''/'', ''a.mw''] 3 ''g'' = Inr we
     \<and> length (edits_for we ''/a.mw'') = 1"
proof -
  have action: "rename_action_at demo_tooling 0 [''/'', ''a.mw''] 3 ''g''
    = Inr [\<lparr>re_file = [''/'', ''a.mw''], re_span = \<lparr>span_start = 3, span_end = 4\<rparr>,
        re_replacement = ''g''\<rparr>]" by (simp add: demo_tooling_def)
  have boundary: "is_char_boundary ''fn f()'' 3" "is_char_boundary ''fn f()'' 4"
    by (simp_all add: is_char_boundary_def is_cont_def in_bytes_def eval_nat_numeral)
  obtain we where we: "rename demo_tooling (\<lambda>p. Some (concat p)) 0 (indices_of demo_renamed
      \<lparr>ad_generation = 1, ad_open = []\<rparr>) [''/'', ''a.mw''] 3 ''g'' = Inr we"
    "\<forall>u. list_all2 (\<lambda>e te. te_new_text te = re_replacement e
         \<and> (\<exists>f\<in>set (an_files demo_renamed). af_path f = re_file e
              \<and> offset (new_line_index (af_source f)) (range_start (te_range te)) = span_start (re_span e)
              \<and> offset (new_line_index (af_source f)) (range_end (te_range te)) = span_end (re_span e)))
       (filter (\<lambda>e. Some (concat (re_file e)) = Some u) [\<lparr>re_file = [''/'', ''a.mw''],
          re_span = \<lparr>span_start = 3, span_end = 4\<rparr>, re_replacement = ''g''\<rparr>]) (edits_for we u)"
    using rename_edits_name_their_spans [where to_url = "\<lambda>p. Some (concat p)" and
        s = demo_renamed and docs = "\<lparr>ad_generation = 1, ad_open = []\<rparr>", OF action] boundary
    by (auto simp: demo_renamed_def line_index_for_path_def)
  from we(2) [rule_format, of "''/a.mw''"] have "length (edits_for we ''/a.mw'') = 1"
    by (auto dest: list_all2_lengthD)
  with we(1) show ?thesis by blast
qed

section \<open>The outline\<close>

lemma li_text_new [simp]: "li_text (new_line_index t) = t"
  by (simp add: new_line_index_def)

text \<open>A fact is well formed when each name lies in its declaration, and so do its children.\<close>

fun fact_ok :: "marrow_symbol \<Rightarrow> bool" where
  "fact_ok (MarrowSymbol name detail kind sp sel children) \<longleftrightarrow>
     span_start sp \<le> span_start sel \<and> span_start sel \<le> span_end sel \<and> span_end sel \<le> span_end sp
     \<and> list_all fact_ok children"

definition range_within :: "lsp_range \<Rightarrow> lsp_range \<Rightarrow> bool" where
  "range_within r outer \<longleftrightarrow> position_le (range_start outer) (range_start r)
     \<and> position_le (range_start r) (range_end r) \<and> position_le (range_end r) (range_end outer)"

fun symbol_ok :: "document_symbol \<Rightarrow> bool" where
  "symbol_ok (DocumentSymbol name detail kind rng sel children) \<longleftrightarrow>
     name \<noteq> [] \<and> range_within sel rng
     \<and> (case children of None \<Rightarrow> True | Some cs \<Rightarrow> cs \<noteq> [] \<and> list_all symbol_ok cs)"

lemma symbol_from_fact_ok:
  assumes "addressable t" "fact_ok f" "document_symbol_from_fact (new_line_index t) f = Some d"
  shows "symbol_ok d"
  using assms(2,3)
proof (induction f arbitrary: d)
  case (MarrowSymbol name detail kind sp sel children)
  let ?cs = "List.concat (map (\<lambda>c. case document_symbol_from_fact (new_line_index t) c of
    None \<Rightarrow> [] | Some d \<Rightarrow> [d]) children)"
  have "list_all symbol_ok ?cs"
    using MarrowSymbol by (auto simp: list_all_iff split: option.splits)
  moreover have "range_within (range_of (new_line_index t) (span_start sel) (span_end sel))
      (range_of (new_line_index t) (span_start sp) (span_end sp))"
    using MarrowSymbol.prems(1) by (simp add: range_within_def range_of_def position_mono assms(1))
  ultimately show ?case
    using MarrowSymbol.prems(2) by (auto simp: Let_def split: if_splits)
qed

text \<open>
  The outline is well formed: if each of Marrow's symbols has its name inside its
  declaration, then every symbol of the outline, at every depth, has a name and a selection
  range inside its range, both ordered, as the protocol requires, and no empty child list.
\<close>

theorem outline_is_well_formed:
  assumes "utf8_valid t" "length t < 2 ^ 32" "list_all fact_ok (marrow_document_symbols T parsed t)"
  shows "list_all symbol_ok (document_symbols T parsed (new_line_index t))"
  using assms symbol_from_fact_ok [of t]
  by (auto simp: document_symbols_def list_all_iff List.map_filter_def addressable_def li_text_new)

theorem outline_is_well_formed_witness:
  "list_all symbol_ok (document_symbols demo_tooling () (new_line_index ''fn f()''))"
  by (rule outline_is_well_formed) (simp_all add: demo_tooling_def)

end
