(* ===== verification/Lsp_Hover.thy ===== *)
theory Lsp_Hover
  imports Lsp_Workspace
begin

text \<open>
  \<open>crates/marrow-lsp-core/src/hover.rs\<close> and \<open>hover/render.rs\<close>: the markdown of a hover.
  The facts Marrow's tooling finds under the cursor are the datatypes below, with the fields
  the renderer reads; finding them and naming types and callables is Marrow's part, the record
  \<open>hover_api\<close>.
\<close>

abbreviation newline_text :: string where
  "newline_text \<equiv> [CHR 0x0A]"

abbreviation blank_line :: string where
  "blank_line \<equiv> [CHR 0x0A, CHR 0x0A]"

section \<open>Marrow's facts\<close>

datatype signature_kind =
    SigBuiltin
  | SigScalarConversion
  | SigErrorConstructor
  | SigIdentityConstructor
  | SigStandardLibrary

record callable_signature =
  sg_name :: string
  sg_kind :: signature_kind
  sg_docs :: "string list"

record saved_effect =
  se_resource :: nat
  se_members :: "nat list"

datatype std_capability = CapClock | CapContext | CapEnvironment | CapLog | CapFilesystem

datatype host_effect = HostOutput | HostCapability std_capability

record direct_effects =
  de_saved_reads :: "saved_effect list"
  de_saved_writes :: "saved_effect list"
  de_transactions :: bool
  de_host_calls :: "host_effect list"
  de_throws :: bool

text \<open>Of the checked facts, the resources and their members: an identifier and a name each.\<close>

record checked_facts =
  cf_resources :: "(nat \<times> string) list"
  cf_resource_members :: "(nat \<times> string) list"

record 'ty param_fact =
  pf_name :: string
  pf_ty :: 'ty
  pf_docs :: "string list"

record 'ty function_fact =
  ff_name :: string
  ff_params :: "'ty param_fact list"
  ff_return :: "'ty option"
  ff_docs :: "string list"
  ff_effects :: "direct_effects option"

datatype 'ty callable_fact =
    FactIntrinsic callable_signature
  | FactFunction "'ty function_fact"
  | FactParameter "'ty param_fact"
  | FactModuleConst string "'ty option" "string list"

datatype module_path_fact =
    StdNamespace "string list"
  | StdModule string "(string \<times> std_capability option) list"
  | ProjectModule string

record key_param =
  kp_name :: string
  kp_ty :: string

record path_segment =
  ps_name :: string
  ps_keys :: "key_param list"

datatype store_member =
    StoreField "path_segment list" bool string
  | StoreLayer "path_segment list"
  | StoreIndexMember string "string list" bool

record store_root_fact =
  sf_root :: string
  sf_identity_keys :: "key_param list"
  sf_resource :: string
  sf_docs :: "string list"
  sf_members :: "store_member list"

datatype resource_member =
    ResourceField "path_segment list" bool string
  | ResourceLayer "path_segment list"

datatype enum_status = EnumSelectable | EnumCategory | EnumGroup

datatype schema_fact =
    SchemaResource string "string list" "resource_member list"
  | SchemaEnum string "string list" "(string list \<times> enum_status) list"
  | SchemaEnumMember string "string list" "string list" enum_status

datatype saved_place_fact =
    PlaceField string "key_param list" string bool "string list"
  | PlaceLayer string "key_param list" "string list"
  | PlaceIndex string "string list" bool "string list"

datatype 'ty hover_fact =
    HoverCallable "'ty callable_fact"
  | HoverModulePath module_path_fact
  | HoverOperator string string
  | HoverStoreRoot store_root_fact
  | HoverSchema schema_fact
  | HoverSavedPlace saved_place_fact
  | HoverType 'ty "string list"

record ('ty, 'ix) hover_api =
  source_hover_fact_at :: "analysis \<Rightarrow> 'ix \<Rightarrow> path \<Rightarrow> nat \<Rightarrow> 'ty hover_fact option"
  source_symbol_docs_at :: "analysis \<Rightarrow> 'ix \<Rightarrow> path \<Rightarrow> nat \<Rightarrow> string list option"
  render_type :: "checked_program \<Rightarrow> 'ty \<Rightarrow> string"
  render_callable_signature :: "checked_program \<Rightarrow> callable_signature \<Rightarrow> string"
  program_facts :: "checked_program \<Rightarrow> checked_facts"

section \<open>Pieces\<close>

definition append_docs :: "string option \<Rightarrow> string \<Rightarrow> string" where
  "append_docs docs s = (case docs of None \<Rightarrow> s | Some d \<Rightarrow> s @ blank_line @ d)"

definition append_section :: "string option \<Rightarrow> string \<Rightarrow> string" where
  "append_section sec s = (case sec of None \<Rightarrow> s | Some d \<Rightarrow> s @ blank_line @ d)"

definition join_docs :: "string list \<Rightarrow> string option" where
  "join_docs lines =
     (let joined = trim (join_with '' '' (map trim lines))
      in if joined = [] then None else Some joined)"

definition marrow_code_block :: "string \<Rightarrow> string" where
  "marrow_code_block code = ''```marrow'' @ newline_text @ code @ newline_text @ ''```''"

definition summary_limit :: nat where
  "summary_limit = 5"

definition bounded_summary :: "string \<Rightarrow> string list \<Rightarrow> string option" where
  "bounded_summary label lines =
     (if lines = [] then None
      else let total = length lines;
               shown = map (\<lambda>l. ''- `'' @ l @ ''`'') (take summary_limit lines);
               shown = (if summary_limit < total
                 then shown @ [''- ... '' @ show_nat (total - summary_limit) @ '' more''] else shown)
           in Some (''**'' @ label @ ''**'' @ newline_text @ join_with newline_text shown))"

definition hover_key_params :: "key_param list \<Rightarrow> string" where
  "hover_key_params keys =
     (if keys = [] then []
      else ''('' @ join_with '', '' (map (\<lambda>k. kp_name k @ '': '' @ kp_ty k) keys) @ '')'')"

definition member_path :: "path_segment list \<Rightarrow> string" where
  "member_path p = join_with ''.'' (map (\<lambda>s. ps_name s @ hover_key_params (ps_keys s)) p)"

definition capability_label :: "std_capability \<Rightarrow> string" where
  "capability_label c = (case c of CapClock \<Rightarrow> ''clock'' | CapContext \<Rightarrow> ''context''
     | CapEnvironment \<Rightarrow> ''environment'' | CapLog \<Rightarrow> ''log'' | CapFilesystem \<Rightarrow> ''filesystem'')"

definition callable_context :: "signature_kind \<Rightarrow> string" where
  "callable_context k = (case k of
     SigBuiltin \<Rightarrow> ''default library builtin.''
   | SigScalarConversion \<Rightarrow> ''default library scalar conversion.''
   | SigErrorConstructor \<Rightarrow> ''default library Error constructor.''
   | SigIdentityConstructor \<Rightarrow> ''default library Id constructor.''
   | SigStandardLibrary \<Rightarrow> ''default library std operation.'')"

definition enum_member_status :: "enum_status \<Rightarrow> string" where
  "enum_member_status s = (case s of EnumSelectable \<Rightarrow> ''selectable''
     | EnumCategory \<Rightarrow> ''category'' | EnumGroup \<Rightarrow> ''group'')"

section \<open>Direct effects\<close>

definition max_effect_items :: nat where
  "max_effect_items = 8"

text \<open>\<open>sort\<close> and \<open>dedup\<close>, then at most eight items and how many more there are.\<close>

definition effect_items :: "string list \<Rightarrow> string list" where
  "effect_items items =
     (let sorted = remdups_adj (sort items);
          extra = length sorted - max_effect_items;
          shown = take max_effect_items sorted
      in if 0 < extra then shown @ [''+'' @ show_nat extra @ '' more''] else shown)"

definition named_by :: "(nat \<times> string) list \<Rightarrow> nat \<Rightarrow> string option" where
  "named_by xs i = map_option snd (find (\<lambda>x. fst x = i) xs)"

definition saved_place_display :: "checked_facts \<Rightarrow> saved_effect \<Rightarrow> string option" where
  "saved_place_display fs place =
     (case named_by (cf_resources fs) (se_resource place) of None \<Rightarrow> None
      | Some resource \<Rightarrow>
          (let members = map (named_by (cf_resource_members fs)) (se_members place)
           in if None \<in> set members then None
              else Some (join_with ''.'' (resource # map the members))))"

definition saved_effects_line :: "checked_facts \<Rightarrow> string \<Rightarrow> saved_effect list \<Rightarrow> string option" where
  "saved_effects_line fs label places =
     (let items = effect_items (List.map_filter (saved_place_display fs) places)
      in if items = [] then None else Some (''- '' @ label @ '': '' @ join_with '', '' items))"

definition host_effects_line :: "host_effect list \<Rightarrow> string option" where
  "host_effects_line effects =
     (let items = effect_items (map (\<lambda>e. case e of HostOutput \<Rightarrow> ''output''
            | HostCapability c \<Rightarrow> capability_label c) effects)
      in if items = [] then None else Some (''- host: '' @ join_with '', '' items))"

definition option_list :: "'a option \<Rightarrow> 'a list" where
  "option_list x = (case x of None \<Rightarrow> [] | Some a \<Rightarrow> [a])"

definition direct_effects_markdown :: "checked_facts \<Rightarrow> direct_effects \<Rightarrow> string option" where
  "direct_effects_markdown fs e =
     (let lines = option_list (saved_effects_line fs ''saved reads'' (de_saved_reads e))
            @ option_list (saved_effects_line fs ''saved writes'' (de_saved_writes e))
            @ (if de_transactions e then [''- transaction''] else [])
            @ option_list (host_effects_line (de_host_calls e))
            @ (if de_throws e then [''- throws''] else [])
      in if lines = [] then None
         else Some (''**Direct effects**'' @ newline_text @ join_with newline_text lines))"

section \<open>Callables\<close>

definition parameter_signature ::
  "('ty, 'ix) hover_api \<Rightarrow> checked_program \<Rightarrow> 'ty param_fact \<Rightarrow> string" where
  "parameter_signature H program p = pf_name p @ '': '' @ render_type H program (pf_ty p)"

definition function_signature ::
  "('ty, 'ix) hover_api \<Rightarrow> checked_program \<Rightarrow> 'ty function_fact \<Rightarrow> string" where
  "function_signature H program f =
     (let params = join_with '', '' (map (\<lambda>p. pf_name p @ '': '' @ render_type H program (pf_ty p))
            (ff_params f))
      in case ff_return f of
           Some ty \<Rightarrow> ''fn '' @ ff_name f @ ''('' @ params @ ''): '' @ render_type H program ty
         | None \<Rightarrow> ''fn '' @ ff_name f @ ''('' @ params @ '')'')"

definition module_const_signature ::
  "('ty, 'ix) hover_api \<Rightarrow> checked_program \<Rightarrow> string \<Rightarrow> 'ty option \<Rightarrow> string" where
  "module_const_signature H program name ty =
     (case ty of Some t \<Rightarrow> ''const '' @ name @ '': '' @ render_type H program t
      | None \<Rightarrow> ''const '' @ name)"

definition parameter_docs :: "'ty param_fact list \<Rightarrow> string option" where
  "parameter_docs params =
     (let docs = List.map_filter (\<lambda>p. map_option (\<lambda>d. ''- `'' @ pf_name p @ ''`: '' @ d)
            (join_docs (pf_docs p))) params
      in if docs = [] then None
         else Some (''**Parameters**'' @ newline_text @ join_with newline_text docs))"

definition intrinsic_hover ::
  "('ty, 'ix) hover_api \<Rightarrow> checked_program \<Rightarrow> callable_signature \<Rightarrow> string" where
  "intrinsic_hover H program sg =
     append_docs (join_docs (sg_docs sg)) (append_docs (Some (callable_context (sg_kind sg)))
       (marrow_code_block (render_callable_signature H program sg)))"

definition function_hover ::
  "('ty, 'ix) hover_api \<Rightarrow> checked_program \<Rightarrow> 'ty function_fact \<Rightarrow> string" where
  "function_hover H program f =
     (let s = append_docs (parameter_docs (ff_params f)) (append_docs (join_docs (ff_docs f))
            (marrow_code_block (function_signature H program f)))
      in case Option.bind (ff_effects f) (direct_effects_markdown (program_facts H program)) of
           None \<Rightarrow> s | Some markdown \<Rightarrow> append_docs (Some markdown) s)"

definition parameter_hover ::
  "('ty, 'ix) hover_api \<Rightarrow> checked_program \<Rightarrow> 'ty param_fact \<Rightarrow> string" where
  "parameter_hover H program p =
     (let s = marrow_code_block (parameter_signature H program p)
      in case join_docs (pf_docs p) of None \<Rightarrow> s
         | Some d \<Rightarrow> s @ blank_line @ ''**Parameter**'' @ newline_text @ d)"

definition module_const_hover ::
  "('ty, 'ix) hover_api \<Rightarrow> checked_program \<Rightarrow> string \<Rightarrow> 'ty option \<Rightarrow> string list \<Rightarrow> string" where
  "module_const_hover H program name ty docs =
     append_docs (join_docs docs) (marrow_code_block (module_const_signature H program name ty))"

definition callable_hover ::
  "('ty, 'ix) hover_api \<Rightarrow> checked_program \<Rightarrow> 'ty callable_fact \<Rightarrow> string" where
  "callable_hover H program c = (case c of
     FactIntrinsic sg \<Rightarrow> intrinsic_hover H program sg
   | FactFunction f \<Rightarrow> function_hover H program f
   | FactParameter p \<Rightarrow> parameter_hover H program p
   | FactModuleConst name ty docs \<Rightarrow> module_const_hover H program name ty docs)"

section \<open>Modules, operators and types\<close>

definition module_path_hover :: "module_path_fact \<Rightarrow> string" where
  "module_path_hover m = (case m of
     StdNamespace modules \<Rightarrow> append_section
       (Some (''default library namespace.'' @ blank_line @ ''Modules: '' @ join_with '', '' modules))
       (marrow_code_block ''std'')
   | StdModule name operations \<Rightarrow> append_section
       (Some (''default library module.'' @ blank_line @ ''Operations: '' @
          join_with '', '' (map (\<lambda>(n, c). n @ '' ('' @
            (case c of None \<Rightarrow> ''pure'' | Some c \<Rightarrow> capability_label c) @ '')'') operations)))
       (marrow_code_block (''std::'' @ name))
   | ProjectModule name \<Rightarrow> append_section (Some ''project source module.'')
       (marrow_code_block (''module '' @ name)))"

definition operator_hover :: "string \<Rightarrow> string \<Rightarrow> string" where
  "operator_hover spelling description =
     append_docs (Some description) (append_docs (Some ''language operator.'')
       (marrow_code_block (''operator '' @ spelling)))"

definition type_hover ::
  "('ty, 'ix) hover_api \<Rightarrow> checked_program \<Rightarrow> 'ty \<Rightarrow> string list \<Rightarrow> string" where
  "type_hover H program ty docs =
     append_docs (join_docs docs) (marrow_code_block (render_type H program ty))"

section \<open>Stores and schemas\<close>

definition store_signature :: "store_root_fact \<Rightarrow> string" where
  "store_signature f = ''store ^'' @ sf_root f @ hover_key_params (sf_identity_keys f) @ '': ''
     @ sf_resource f"

definition identity_summary :: "store_root_fact \<Rightarrow> string option" where
  "identity_summary f =
     (if sf_identity_keys f = []
      then Some (''**Identity**'' @ newline_text
        @ ''- keyless singleton; no generated identity type'')
      else Some (''**Identity**'' @ newline_text @ join_with newline_text
        ((''- generated identity type: `Id(^'' @ sf_root f @ '')`'')
         # map (\<lambda>k. ''- `'' @ kp_name k @ '': '' @ kp_ty k @ ''`'') (sf_identity_keys f))))"

definition required_text :: "bool \<Rightarrow> string" where
  "required_text required = (if required then ''required '' else [])"

definition unique_text :: "bool \<Rightarrow> string" where
  "unique_text unique = (if unique then '' unique'' else [])"

definition store_member_line :: "store_member \<Rightarrow> string" where
  "store_member_line m = (case m of
     StoreField p required ty \<Rightarrow> required_text required @ member_path p @ '': '' @ ty
   | StoreLayer p \<Rightarrow> member_path p
   | StoreIndexMember name args unique \<Rightarrow>
       ''index '' @ name @ ''('' @ join_with '', '' args @ '')'' @ unique_text unique)"

definition resource_member_line :: "resource_member \<Rightarrow> string" where
  "resource_member_line m = (case m of
     ResourceField p required ty \<Rightarrow> required_text required @ member_path p @ '': '' @ ty
   | ResourceLayer p \<Rightarrow> member_path p)"

definition store_hover :: "store_root_fact \<Rightarrow> string" where
  "store_hover f =
     append_section (bounded_summary ''Members'' (map store_member_line (sf_members f)))
       (append_section (identity_summary f) (append_docs (join_docs (sf_docs f))
         (marrow_code_block (store_signature f))))"

definition schema_hover :: "schema_fact \<Rightarrow> string" where
  "schema_hover s = (case s of
     SchemaResource name docs members \<Rightarrow>
       append_section (bounded_summary ''Members'' (map resource_member_line members))
         (append_docs (join_docs docs) (marrow_code_block (''resource '' @ name)))
   | SchemaEnum name docs members \<Rightarrow>
       append_section (bounded_summary ''Members''
           (map (\<lambda>(p, st). join_with ''::'' p @ '' '' @ enum_member_status st) members))
         (append_docs (join_docs docs) (marrow_code_block (''enum '' @ name)))
   | SchemaEnumMember enum_name p docs st \<Rightarrow>
       append_docs (join_docs docs) (marrow_code_block (enum_name @ ''::'' @ join_with ''::'' p))
         @ blank_line @ ''**Facts**'' @ newline_text @ ''- enum '' @ enum_name @ newline_text
         @ ''- '' @ enum_member_status st)"

definition saved_place_signature_and_docs :: "saved_place_fact \<Rightarrow> string \<times> string list" where
  "saved_place_signature_and_docs f = (case f of
     PlaceField name keys ty required docs \<Rightarrow>
       (required_text required @ name @ hover_key_params keys @ '': '' @ ty, docs)
   | PlaceLayer name keys docs \<Rightarrow> (name @ hover_key_params keys, docs)
   | PlaceIndex name args unique docs \<Rightarrow>
       (''index '' @ name @ ''('' @ join_with '', '' args @ '')'' @ unique_text unique, docs))"

definition saved_place_hover :: "saved_place_fact \<Rightarrow> string" where
  "saved_place_hover f =
     (case saved_place_signature_and_docs f of (signature, docs) \<Rightarrow>
        append_docs (join_docs docs) (marrow_code_block signature))"

section \<open>The hover\<close>

definition render_hover ::
  "('ty, 'ix) hover_api \<Rightarrow> checked_program \<Rightarrow> 'ty hover_fact \<Rightarrow> string" where
  "render_hover H program fct = (case fct of
     HoverCallable c \<Rightarrow> callable_hover H program c
   | HoverModulePath m \<Rightarrow> module_path_hover m
   | HoverOperator spelling description \<Rightarrow> operator_hover spelling description
   | HoverStoreRoot f \<Rightarrow> store_hover f
   | HoverSchema s \<Rightarrow> schema_hover s
   | HoverSavedPlace f \<Rightarrow> saved_place_hover f
   | HoverType ty docs \<Rightarrow> type_hover H program ty docs)"

definition hover_with_index ::
  "('ty, 'ix) hover_api \<Rightarrow> analysis \<Rightarrow> 'ix \<Rightarrow> path \<Rightarrow> nat \<Rightarrow> string option" where
  "hover_with_index H s ix file byte_offset =
     map_option (render_hover H (an_program s)) (source_hover_fact_at H s ix file byte_offset)"

definition symbol_docs ::
  "('ty, 'ix) hover_api \<Rightarrow> analysis \<Rightarrow> 'ix \<Rightarrow> path \<Rightarrow> nat \<Rightarrow> string option" where
  "symbol_docs H s ix file byte_offset =
     Option.bind (source_symbol_docs_at H s ix file byte_offset) join_docs"

section \<open>Bounded lists\<close>

lemma remdups_adj_distinct: "sorted xs \<Longrightarrow> distinct (remdups_adj xs)"
  for xs :: "'a::linorder list"
  by (induction xs rule: remdups_adj.induct) (auto simp: less_le)

lemma dedup_sorted: "remdups_adj (sort xs) = sorted_list_of_set (set xs)"
  for xs :: "'a::linorder list"
  by (rule sorted_distinct_set_unique)
    (simp_all add: remdups_adj_distinct sorted_remdups_adj)

text \<open>
  The effect lists of a hover are bounded and honest: they show the different effects in
  order, each once, all of them if there are at most eight, and otherwise the first eight and
  how many more there are.
\<close>

theorem effect_items_are_bounded:
  "effect_items items = (let shown = sorted_list_of_set (set items); n = card (set items) in
     if n \<le> 8 then shown else take 8 shown @ [''+'' @ show_nat (n - 8) @ '' more''])
   \<and> length (effect_items items) \<le> 9"
  by (simp add: effect_items_def max_effect_items_def dedup_sorted Let_def)

end
