(* ===== verification/Lsp_Signature.thy ===== *)
theory Lsp_Signature
  imports Lsp_Hover
begin

text \<open>
  \<open>crates/marrow-lsp-core/src/signature_help.rs\<close> and \<open>signature_help/render.rs\<close>: the label of
  the callable at the cursor, its parameters and the active one. Marrow finds the callable and
  names types and value shapes: the record \<open>signature_api\<close>.
\<close>

section \<open>Marrow's facts\<close>

datatype 'sh value_shape = ShapeSavedRoot | ShapeOther 'sh

datatype argument_style = Positional | NamedFields

record ('ty, 'sh) source_parameter =
  sp_name :: "string option"
  sp_label :: string
  sp_shape :: "'sh value_shape option"
  sp_ty :: "'ty option"
  sp_repeat :: bool
  sp_docs :: "string list"

datatype ('ty, 'sh) source_callable =
    CallIntrinsic "string list" argument_style "string list" "('ty, 'sh) source_parameter list"
      "'sh value_shape option"
  | CallConstructor string "string list" "('ty, 'sh) source_parameter list" 'ty
  | CallFunction string "string list" "('ty, 'sh) source_parameter list" "'ty option"

record ('ty, 'sh) signature_fact =
  sx_callable :: "('ty, 'sh) source_callable"
  sx_active_argument :: nat
  sx_named_argument :: "string option"

record ('lex, 'ty, 'sh) signature_api =
  signature_fact_at :: "checked_program \<Rightarrow> analysis option \<Rightarrow> path \<Rightarrow> string \<Rightarrow> 'lex \<Rightarrow> nat
    \<Rightarrow> ('ty, 'sh) signature_fact option"
  sa_render_type :: "checked_program \<Rightarrow> 'ty \<Rightarrow> string"
  render_callable_shape :: "checked_program \<Rightarrow> 'sh value_shape \<Rightarrow> string"

section \<open>Rendering\<close>

record parameter =
  par_name :: "string option"
  par_label :: string
  par_documentation :: "string option"

record signature =
  sig_label :: string
  sig_documentation :: "string option"
  sig_params :: "parameter list"

record signature_help =
  sh_label :: string
  sh_documentation :: "string option"
  sh_parameters :: "(string \<times> string option) list"
  sh_active_parameter :: "nat option"

definition joined_param_labels :: "parameter list \<Rightarrow> string" where
  "joined_param_labels params = join_with '', '' (map par_label params)"

definition render_typed_parameter ::
  "('lex, 'ty, 'sh) signature_api \<Rightarrow> checked_program \<Rightarrow> ('ty, 'sh) source_parameter \<Rightarrow> parameter"
  where
  "render_typed_parameter A program p =
     \<lparr>par_name = sp_name p,
      par_label = (case sp_ty p of Some ty \<Rightarrow> sp_label p @ '': '' @ sa_render_type A program ty
                   | None \<Rightarrow> sp_label p),
      par_documentation = join_docs (sp_docs p)\<rparr>"

definition render_intrinsic_parameter ::
  "('lex, 'ty, 'sh) signature_api \<Rightarrow> checked_program \<Rightarrow> argument_style
   \<Rightarrow> ('ty, 'sh) source_parameter \<Rightarrow> parameter" where
  "render_intrinsic_parameter A program style p =
     \<lparr>par_name = sp_name p,
      par_label = (case style of
          Positional \<Rightarrow>
            (let label = (case sp_shape p of
                   Some ShapeSavedRoot \<Rightarrow> if sp_label p = ''root'' then ''^root'' else sp_label p
                 | _ \<Rightarrow> sp_label p)
             in if sp_repeat p then label @ ''...'' else label)
        | NamedFields \<Rightarrow> sp_label p @ '': '' @
            (case sp_shape p of Some shape \<Rightarrow> render_callable_shape A program shape
             | None \<Rightarrow> ''unknown'')),
      par_documentation = join_docs (sp_docs p)\<rparr>"

definition render_intrinsic ::
  "('lex, 'ty, 'sh) signature_api \<Rightarrow> checked_program \<Rightarrow> string list \<Rightarrow> argument_style \<Rightarrow> string list
   \<Rightarrow> ('ty, 'sh) source_parameter list \<Rightarrow> 'sh value_shape option \<Rightarrow> signature" where
  "render_intrinsic A program names style docs params return_shape =
     (let params = map (render_intrinsic_parameter A program style) params;
          p = join_with ''::'' names
      in \<lparr>sig_label = (case map_option (render_callable_shape A program) return_shape of
             Some r \<Rightarrow> p @ ''('' @ joined_param_labels params @ ''): '' @ r
           | None \<Rightarrow> p @ ''('' @ joined_param_labels params @ '')''),
          sig_documentation = join_docs docs, sig_params = params\<rparr>)"

definition render_signature ::
  "('lex, 'ty, 'sh) signature_api \<Rightarrow> checked_program \<Rightarrow> ('ty, 'sh) source_callable \<Rightarrow> signature"
  where
  "render_signature A program callable = (case callable of
     CallIntrinsic names style docs params return_shape \<Rightarrow>
       render_intrinsic A program names style docs params return_shape
   | CallConstructor name docs params return_type \<Rightarrow>
       (let params = map (render_typed_parameter A program) params
        in \<lparr>sig_label = name @ ''('' @ joined_param_labels params @ ''): ''
              @ sa_render_type A program return_type,
            sig_documentation = join_docs docs, sig_params = params\<rparr>)
   | CallFunction name docs params return_type \<Rightarrow>
       (let params = map (render_typed_parameter A program) params;
            params_label = joined_param_labels params
        in \<lparr>sig_label = (case return_type of
               Some ty \<Rightarrow> name @ ''('' @ params_label @ ''): '' @ sa_render_type A program ty
             | None \<Rightarrow> name @ ''('' @ params_label @ '')''),
            sig_documentation = join_docs docs, sig_params = params\<rparr>))"

definition index_where :: "('a \<Rightarrow> bool) \<Rightarrow> 'a list \<Rightarrow> nat option" where
  "index_where P xs = (let n = length (takeWhile (\<lambda>x. \<not> P x) xs)
     in if n < length xs then Some n else None)"

definition active_parameter :: "parameter list \<Rightarrow> nat \<Rightarrow> string option \<Rightarrow> nat option" where
  "active_parameter params comma_index named_argument =
     (if params = [] then None
      else case Option.bind named_argument
             (\<lambda>name. index_where (\<lambda>p. par_name p = Some name) params) of
        Some i \<Rightarrow> Some (as_u32 i)
      | None \<Rightarrow> Some (as_u32 (min comma_index (length params - 1))))"

definition signature_of ::
  "('lex, 'ty, 'sh) signature_api \<Rightarrow> checked_program \<Rightarrow> ('ty, 'sh) signature_fact \<Rightarrow> signature_help"
  where
  "signature_of A program fct =
     (let sg = render_signature A program (sx_callable fct)
      in \<lparr>sh_label = sig_label sg, sh_documentation = sig_documentation sg,
          sh_parameters = map (\<lambda>p. (par_label p, par_documentation p)) (sig_params sg),
          sh_active_parameter =
            active_parameter (sig_params sg) (sx_active_argument fct) (sx_named_argument fct)\<rparr>)"

definition signature_help_at ::
  "('lex, 'ty, 'sh) signature_api \<Rightarrow> checked_program \<Rightarrow> analysis option \<Rightarrow> path \<Rightarrow> string \<Rightarrow> 'lex
   \<Rightarrow> nat \<Rightarrow> signature_help option" where
  "signature_help_at A program s file source lexed byte_offset =
     map_option (signature_of A program) (signature_fact_at A program s file source lexed byte_offset)"

section \<open>What a client relies on\<close>

lemma index_where_Some:
  assumes "index_where P xs = Some n"
  shows "n < length xs \<and> P (xs ! n)"
  using assms nth_length_takeWhile [of "\<lambda>x. \<not> P x" xs]
  by (auto simp: index_where_def Let_def split: if_splits)

lemma join_with_part: "x \<in> set xs \<Longrightarrow> \<exists>a b. join_with sep xs = a @ x @ b"
proof (induction sep xs rule: join_with.induct)
  case (2 sep y)
  then show ?case by (auto intro: exI [of _ "[]"])
next
  case (3 sep y z zs)
  show ?case
  proof (cases "x = y")
    case True
    then show ?thesis by (auto intro: exI [of _ "[]"])
  next
    case False
    with 3 obtain a b where "join_with sep (z # zs) = a @ x @ b" by auto
    then show ?thesis by (intro exI [of _ "y @ sep @ a"] exI [of _ b]) simp
  qed
qed simp

lemma label_of_params:
  "\<exists>a b. sig_label (render_signature A program c)
     = a @ joined_param_labels (sig_params (render_signature A program c)) @ b"
proof -
  have piece: "\<exists>a b. n @ ''('' @ l @ r = a @ l @ b" for n l r :: string
    by (intro exI [of _ "n @ ''(''"] exI [of _ r]) simp
  show ?thesis
    by (cases c) (auto simp: render_signature_def render_intrinsic_def Let_def
        intro: piece [simplified] split: option.split)
qed

text \<open>
  C38. Signature help is well formed: every parameter label is a substring of the signature's
  label, as the protocol requires for the client to highlight it, and the active parameter is
  one of the parameters, absent only when there are none.
\<close>

theorem signature_help_is_well_formed:
  assumes "signature_help_at A program s file source lexed byte_offset = Some h"
    "length (sh_parameters h) \<le> u32_max"
  shows "(\<forall>(label, docs)\<in>set (sh_parameters h). \<exists>a b. sh_label h = a @ label @ b)
    \<and> (sh_active_parameter h = None \<longleftrightarrow> sh_parameters h = [])
    \<and> (\<forall>i. sh_active_parameter h = Some i \<longrightarrow> i < length (sh_parameters h))"
proof -
  from assms(1) obtain fct where fct: "h = signature_of A program fct"
    by (auto simp: signature_help_at_def)
  let ?sg = "render_signature A program (sx_callable fct)"
  have labels: "\<exists>a b. sh_label h = a @ label @ b" if "(label, docs) \<in> set (sh_parameters h)" for label docs
  proof -
    have "label \<in> set (map par_label (sig_params ?sg))"
      using that by (auto simp: fct signature_of_def Let_def)
    from join_with_part [OF this] obtain a b where
      j: "joined_param_labels (sig_params ?sg) = a @ label @ b"
      unfolding joined_param_labels_def by blast
    obtain a' b' where "sig_label ?sg = a' @ joined_param_labels (sig_params ?sg) @ b'"
      using label_of_params by blast
    with j show ?thesis
      by (intro exI [of _ "a' @ a"] exI [of _ "b @ b'"]) (simp add: fct signature_of_def Let_def)
  qed
  have small: "as_u32 i = i" if "i < length (sig_params ?sg)" for i
    using that assms(2) by (simp add: fct signature_of_def Let_def as_u32_def u32_max_def)
  have active: "active_parameter (sig_params ?sg) c n = None \<longleftrightarrow> sig_params ?sg = []" for c n
    by (simp add: active_parameter_def split: option.split)
  have bound: "i < length (sig_params ?sg)"
    if "active_parameter (sig_params ?sg) c n = Some i" for c n i
  proof (cases "Option.bind n (\<lambda>name. index_where (\<lambda>p. par_name p = Some name) (sig_params ?sg))")
    case None
    moreover have "sig_params ?sg \<noteq> []"
      using that by (auto simp: active_parameter_def)
    then have "min c (length (sig_params ?sg) - 1) < length (sig_params ?sg)"
      by (cases "sig_params ?sg") auto
    ultimately show ?thesis
      using that small by (simp add: active_parameter_def split: if_splits)
  next
    case (Some k)
    then have "k < length (sig_params ?sg)"
      using index_where_Some by (cases n) fastforce+
    with Some that small show ?thesis by (simp add: active_parameter_def split: if_splits)
  qed
  have fields: "sh_active_parameter h = active_parameter (sig_params ?sg) (sx_active_argument fct)
      (sx_named_argument fct)" "length (sh_parameters h) = length (sig_params ?sg)"
    "sh_parameters h = [] \<longleftrightarrow> sig_params ?sg = []"
    by (simp_all add: fct signature_of_def Let_def)
  have "\<forall>(label, docs)\<in>set (sh_parameters h). \<exists>a b. sh_label h = a @ label @ b"
    using labels by blast
  with active bound show ?thesis by (simp add: fields)
qed

definition demo_signature_api :: "(unit, unit, unit) signature_api" where
  "demo_signature_api =
     \<lparr>signature_fact_at = (\<lambda>_ _ _ _ _ _. Some \<lparr>sx_callable = CallFunction ''f'' []
         [\<lparr>sp_name = Some ''a'', sp_label = ''a'', sp_shape = None, sp_ty = Some (),
           sp_repeat = False, sp_docs = []\<rparr>,
          \<lparr>sp_name = Some ''b'', sp_label = ''b'', sp_shape = None, sp_ty = None,
           sp_repeat = False, sp_docs = []\<rparr>] None,
         sx_active_argument = 7, sx_named_argument = Some ''c''\<rparr>),
      sa_render_type = (\<lambda>_ _. ''int''), render_callable_shape = (\<lambda>_ _. ''any'')\<rparr>"

definition demo_help :: signature_help where
  "demo_help = \<lparr>sh_label = ''f(a: int, b)'', sh_documentation = None,
     sh_parameters = [(''a: int'', None), (''b'', None)], sh_active_parameter = Some 1\<rparr>"

theorem signature_help_is_well_formed_witness:
  "sh_active_parameter demo_help = Some 1 \<and> 1 < length (sh_parameters demo_help)"
proof -
  have "signature_help_at demo_signature_api demo_program None [] [] () 0 = Some demo_help"
    by (simp add: signature_help_at_def demo_signature_api_def signature_of_def render_signature_def
        render_typed_parameter_def joined_param_labels_def active_parameter_def index_where_def
        demo_help_def as_u32_def join_docs_def trim_def)
  then show ?thesis
    by (rule signature_help_is_well_formed [THEN conjunct2, THEN conjunct2, THEN spec, THEN mp,
          THEN conjI [rotated]]) (simp_all add: demo_help_def u32_max_def)
qed

end
