(* ===== verification/Lsp_Requests.thy ===== *)
theory Lsp_Requests
  imports Lsp_Backend Lsp_Navigation Lsp_Signature
begin

text \<open>
  The read requests of \<open>crates/marrow-lsp/src/backend.rs\<close>. A request about a cursor first
  captures the document and the generation of all buffers, and answers in a second step, after
  other handlers may have run; \<open>got\<close> is whether its \<open>try_lock\<close> of the analysis succeeds. The
  answers are those of \<open>Lsp_Hover\<close>, \<open>Lsp_Navigation\<close>, \<open>Lsp_Signature\<close>, \<open>Lsp_SemTokens\<close> and
  \<open>Lsp_Editing\<close>; Marrow's part of them is the record \<open>features\<close>.
\<close>

record ('lex, 'parse, 'ix, 'ty, 'sh) features =
  ft_tools :: "('lex, 'parse, 'ix) tooling"
  ft_hover :: "('ty, 'ix) hover_api"
  ft_signature :: "('lex, 'ty, 'sh) signature_api"
  ft_token_facts :: "string \<Rightarrow> 'lex \<Rightarrow> 'parse \<Rightarrow> token_fact list"
  ft_token_facts_for_file :: "analysis \<Rightarrow> 'ix \<Rightarrow> path \<Rightarrow> token_fact list option"
  ft_empty_program :: checked_program
  ft_lex_tokens :: "'lex \<Rightarrow> lex_token list"
  ft_has_errors :: "'parse \<Rightarrow> bool"
  ft_format_source :: "string \<Rightarrow> string"

datatype rpc_error = ContentModified | InternalError string | InvalidParams string

section \<open>Common steps\<close>

definition to_core_position :: "position \<Rightarrow> position" where
  "to_core_position p = \<lparr>pos_line = pos_line p, pos_character = pos_character p\<rparr>"

definition workspace_invalidation_pending :: "('lex, 'parse, 'c, 'cat, 'ix) backend \<Rightarrow> bool" where
  "workspace_invalidation_pending b \<longleftrightarrow> b_pending b \<noteq> 0"

text \<open>\<open>snapshot_document_and_analysis\<close>, after the path of the URL.\<close>

definition capture ::
  "('lex, 'parse, 'c, 'ix) server_api \<Rightarrow> url \<Rightarrow> ('lex, 'parse, 'c, 'cat, 'ix) backend
   \<Rightarrow> (path \<times> ('lex, 'parse) document \<times> analysis_docs) option" where
  "capture S u b =
     (case to_file_path (sv_docs S) u of None \<Rightarrow> None
      | Some p \<Rightarrow> (case snapshot_of u (b_docs b) of None \<Rightarrow> None
        | Some d \<Rightarrow> Some (p, d, analysis_snapshot (sv_docs S) (b_docs b))))"

definition request_superseded :: "analysis_docs \<Rightarrow> ('lex, 'parse, 'c, 'cat, 'ix) backend \<Rightarrow> bool" where
  "request_superseded entry b \<longleftrightarrow> \<not> matches_generation (b_docs b) entry"

text \<open>\<open>guard_read\<close>: a panic (\<open>None\<close>) becomes an internal error that names the handler.\<close>

definition handler_panicked :: "string \<Rightarrow> rpc_error" where
  "handler_panicked handler = InternalError (''the '' @ handler @ '' request failed'')"

definition guard_read :: "string \<Rightarrow> (rpc_error + 'a) option \<Rightarrow> rpc_error + 'a" where
  "guard_read handler r = (case r of Some x \<Rightarrow> x | None \<Rightarrow> Inl (handler_panicked handler))"

text \<open>
  The shape of the five requests that read the chosen facts at a cursor: \<open>f\<close> computes the
  answer from the facts, the path and the byte offset of the cursor.
\<close>

definition fact_request ::
  "('lex, 'parse, 'c, 'ix) server_api \<Rightarrow> bool \<Rightarrow> string \<Rightarrow> position
   \<Rightarrow> (path \<times> ('lex, 'parse) document \<times> analysis_docs) option
   \<Rightarrow> (analysis \<Rightarrow> 'ix \<Rightarrow> analysis_docs \<Rightarrow> path \<Rightarrow> nat \<Rightarrow> rpc_error + 'a option)
   \<Rightarrow> ('lex, 'parse, 'c, 'cat, 'ix) backend
   \<Rightarrow> (rpc_error + 'a option) \<times> ('lex, 'parse, 'c, 'cat, 'ix) backend" where
  "fact_request S got handler cursor captured f b =
     (case captured of None \<Rightarrow> (Inr None, b)
      | Some (p, document, entry) \<Rightarrow>
          let byte_offset = offset (doc_index document) (to_core_position cursor)
          in if request_superseded entry b then (Inl ContentModified, b)
             else (case read_request S got p b of
                 (None, b') \<Rightarrow> (Inr None, b')
               | (Some source, b') \<Rightarrow>
                   (guard_read handler (map_option (\<lambda>(s, ix). f s ix entry p byte_offset)
                      (read_facts (b_ws b') source)), b')))"

section \<open>Hover and navigation\<close>

definition hover_request ::
  "('lex, 'parse, 'ix, 'ty, 'sh) features \<Rightarrow> ('lex, 'parse, 'c, 'ix) server_api \<Rightarrow> bool \<Rightarrow> position
   \<Rightarrow> (path \<times> ('lex, 'parse) document \<times> analysis_docs) option
   \<Rightarrow> ('lex, 'parse, 'c, 'cat, 'ix) backend
   \<Rightarrow> (rpc_error + string option) \<times> ('lex, 'parse, 'c, 'cat, 'ix) backend" where
  "hover_request F S got cursor captured b = fact_request S got ''hover'' cursor captured
     (\<lambda>s ix docs p byte_offset. Inr (hover_with_index (ft_hover F) s ix p byte_offset)) b"

definition goto_definition ::
  "('lex, 'parse, 'ix, 'ty, 'sh) features \<Rightarrow> ('lex, 'parse, 'c, 'ix) server_api \<Rightarrow> bool \<Rightarrow> position
   \<Rightarrow> (path \<times> ('lex, 'parse) document \<times> analysis_docs) option
   \<Rightarrow> ('lex, 'parse, 'c, 'cat, 'ix) backend
   \<Rightarrow> (rpc_error + location option) \<times> ('lex, 'parse, 'c, 'cat, 'ix) backend" where
  "goto_definition F S got cursor captured b = fact_request S got ''goto_definition'' cursor captured
     (\<lambda>s ix docs p byte_offset. Inr (definition_at (ft_tools F) (sv_path_to_url S) s ix
        (indices_of s docs) p byte_offset)) b"

definition references_request ::
  "('lex, 'parse, 'ix, 'ty, 'sh) features \<Rightarrow> ('lex, 'parse, 'c, 'ix) server_api \<Rightarrow> bool \<Rightarrow> position
   \<Rightarrow> bool \<Rightarrow> (path \<times> ('lex, 'parse) document \<times> analysis_docs) option
   \<Rightarrow> ('lex, 'parse, 'c, 'cat, 'ix) backend
   \<Rightarrow> (rpc_error + location list option) \<times> ('lex, 'parse, 'c, 'cat, 'ix) backend" where
  "references_request F S got cursor declaration captured b =
     fact_request S got ''references'' cursor captured
     (\<lambda>s ix docs p byte_offset. Inr (references_at (ft_tools F) (sv_path_to_url S) s ix
        (indices_of s docs) p byte_offset declaration)) b"

definition prepare_rename_request ::
  "('lex, 'parse, 'ix, 'ty, 'sh) features \<Rightarrow> ('lex, 'parse, 'c, 'ix) server_api \<Rightarrow> bool \<Rightarrow> position
   \<Rightarrow> (path \<times> ('lex, 'parse) document \<times> analysis_docs) option
   \<Rightarrow> ('lex, 'parse, 'c, 'cat, 'ix) backend
   \<Rightarrow> (rpc_error + lsp_range option) \<times> ('lex, 'parse, 'c, 'cat, 'ix) backend" where
  "prepare_rename_request F S got cursor captured b =
     fact_request S got ''prepare_rename'' cursor captured
     (\<lambda>s ix docs p byte_offset. Inr (prepare_rename (ft_tools F) ix (indices_of s docs) p byte_offset)) b"

definition rename_request ::
  "('lex, 'parse, 'ix, 'ty, 'sh) features \<Rightarrow> ('lex, 'parse, 'c, 'ix) server_api \<Rightarrow> bool \<Rightarrow> position
   \<Rightarrow> string \<Rightarrow> (path \<times> ('lex, 'parse) document \<times> analysis_docs) option
   \<Rightarrow> ('lex, 'parse, 'c, 'cat, 'ix) backend
   \<Rightarrow> (rpc_error + workspace_edit option) \<times> ('lex, 'parse, 'c, 'cat, 'ix) backend" where
  "rename_request F S got cursor new_name captured b = fact_request S got ''rename'' cursor captured
     (\<lambda>s ix docs p byte_offset.
        case rename (ft_tools F) (sv_path_to_url S) ix (indices_of s docs) p byte_offset new_name of
          Inr edit \<Rightarrow> Inr (Some edit)
        | Inl RnNoSymbol \<Rightarrow> Inr None
        | Inl e \<Rightarrow> Inl (InvalidParams (rename_error_message e))) b"

section \<open>Requests about a document\<close>

definition document_symbol_request ::
  "('lex, 'parse, 'ix, 'ty, 'sh) features \<Rightarrow> url \<Rightarrow> ('lex, 'parse, 'c, 'cat, 'ix) backend
   \<Rightarrow> rpc_error + document_symbol list option" where
  "document_symbol_request F u b =
     (case snapshot_of u (b_docs b) of None \<Rightarrow> Inr None
      | Some d \<Rightarrow> guard_read ''document_symbol''
          (Some (Inr (Some (document_symbols (ft_tools F) (doc_parsed d) (doc_index d))))))"

definition formatting_request ::
  "('lex, 'parse, 'ix, 'ty, 'sh) features \<Rightarrow> url \<Rightarrow> ('lex, 'parse, 'c, 'cat, 'ix) backend
   \<Rightarrow> rpc_error + text_edit list option" where
  "formatting_request F u b =
     (case snapshot_of u (b_docs b) of None \<Rightarrow> Inr None
      | Some d \<Rightarrow> guard_read ''formatting'' (Some (Inr (formatting (ft_format_source F) (doc_text d)
          (ft_has_errors F (doc_parsed d)) (doc_index d)))))"

definition on_type_formatting ::
  "('lex, 'parse, 'ix, 'ty, 'sh) features \<Rightarrow> url \<Rightarrow> string \<Rightarrow> position \<Rightarrow> formatting_options
   \<Rightarrow> ('lex, 'parse, 'c, 'cat, 'ix) backend \<Rightarrow> rpc_error + text_edit list option" where
  "on_type_formatting F u ch cursor options b =
     (if ch \<noteq> [CHR 0x0A] then Inr None
      else case snapshot_of u (b_docs b) of None \<Rightarrow> Inr None
      | Some d \<Rightarrow> guard_read ''on_type_formatting'' (Some (Inr
          (newline_indentation (doc_text d) (ft_lex_tokens F (doc_lexed d)) cursor options))))"

section \<open>Requests that need a fresh analysis\<close>

definition symbol_request ::
  "('lex, 'parse, 'ix, 'ty, 'sh) features \<Rightarrow> ('lex, 'parse, 'c, 'ix) server_api \<Rightarrow> bool \<Rightarrow> string
   \<Rightarrow> analysis_docs \<Rightarrow> ('lex, 'parse, 'c, 'cat, 'ix) backend
   \<Rightarrow> rpc_error + symbol_information list option" where
  "symbol_request F S got query docs b = guard_read ''symbol'' (Some (Inr
     (if \<not> got \<or> workspace_invalidation_pending b then None
      else map_option (\<lambda>s. workspace_symbols (ft_tools F) (sv_path_to_url S) s query)
        (fresh_latest (b_ws b) docs))))"

definition completion_request ::
  "('lex, 'parse, 'ix, 'ty, 'sh) features \<Rightarrow> bool \<Rightarrow> position
   \<Rightarrow> (path \<times> ('lex, 'parse) document \<times> analysis_docs) option
   \<Rightarrow> ('lex, 'parse, 'c, 'cat, 'ix) backend \<Rightarrow> rpc_error + completion_item list option" where
  "completion_request F got cursor captured b =
     (case captured of None \<Rightarrow> Inr None
      | Some (p, d, docs) \<Rightarrow>
          let byte_offset = offset (doc_index d) (to_core_position cursor)
          in if request_superseded docs b then Inl ContentModified
             else guard_read ''completion'' (Some (
               let program = (if \<not> workspace_invalidation_pending b \<and> got
                     then (case fresh_program_or_empty (b_ws b) docs of
                         Some program \<Rightarrow> program | None \<Rightarrow> ft_empty_program F)
                     else ft_empty_program F)
               in Inr (Some (completion (ft_tools F) program p (doc_text d) (doc_parsed d)
                    (doc_lexed d) byte_offset)))))"

definition signature_help_request ::
  "('lex, 'parse, 'ix, 'ty, 'sh) features \<Rightarrow> bool \<Rightarrow> position
   \<Rightarrow> (path \<times> ('lex, 'parse) document \<times> analysis_docs) option
   \<Rightarrow> ('lex, 'parse, 'c, 'cat, 'ix) backend \<Rightarrow> rpc_error + signature_help option" where
  "signature_help_request F got cursor captured b =
     (case captured of None \<Rightarrow> Inr None
      | Some (p, d, docs) \<Rightarrow>
          let byte_offset = offset (doc_index d) (to_core_position cursor)
          in if request_superseded docs b then Inl ContentModified
             else guard_read ''signature_help'' (Some (Inr
               (if \<not> got \<or> workspace_invalidation_pending b then None
                else case fresh_latest (b_ws b) docs of None \<Rightarrow> None
                | Some s \<Rightarrow> let program = an_program s
                    in if cp_modules program = [] then None
                       else signature_help_at (ft_signature F) program (Some s) p (doc_text d)
                         (doc_lexed d) byte_offset))))"

section \<open>Semantic tokens\<close>

definition snapshot_has_document_text :: "analysis option \<Rightarrow> path \<Rightarrow> string \<Rightarrow> bool" where
  "snapshot_has_document_text s file text \<longleftrightarrow>
     (case s of None \<Rightarrow> False
      | Some s \<Rightarrow> (case find (\<lambda>f. af_path f = file) (an_files s) of None \<Rightarrow> False
        | Some f \<Rightarrow> af_source f = text))"

definition semantic_tokens ::
  "('lex, 'parse, 'ix, 'ty, 'sh) features \<Rightarrow> ('lex, 'parse) document \<Rightarrow> semantic_token list" where
  "semantic_tokens F d =
     encode_facts (ft_token_facts F (li_text (doc_index d)) (doc_lexed d) (doc_parsed d)) (doc_index d)"

definition semantic_tokens_for_file ::
  "('lex, 'parse, 'ix, 'ty, 'sh) features \<Rightarrow> analysis \<Rightarrow> 'ix \<Rightarrow> path \<Rightarrow> line_index
   \<Rightarrow> semantic_token list option" where
  "semantic_tokens_for_file F s ix p idx =
     map_option (\<lambda>facts. encode_facts facts idx) (ft_token_facts_for_file F s ix p)"

definition compute_semantic_tokens ::
  "('lex, 'parse, 'ix, 'ty, 'sh) features \<Rightarrow> ('lex, 'parse, 'c, 'ix) server_api \<Rightarrow> bool
   \<Rightarrow> path \<times> ('lex, 'parse) document \<times> analysis_docs \<Rightarrow> ('lex, 'parse, 'c, 'cat, 'ix) backend
   \<Rightarrow> semantic_token list \<times> ('lex, 'parse, 'c, 'cat, 'ix) backend" where
  "compute_semantic_tokens F S got captured b =
     (case captured of (p, d, docs) \<Rightarrow>
        let parse_only = semantic_tokens F d
        in if workspace_invalidation_pending b \<or> \<not> got then (parse_only, b)
           else if snapshot_has_document_text (ws_latest (b_ws b)) p (doc_text d)
             \<and> latest_matches (b_ws b) docs then
             let b' = b\<lparr>b_ws := binding_index (sv_check S) (b_ws b)\<rparr>
             in case (ws_latest (b_ws b'), ws_index (b_ws b')) of
                  (Some s, Some ix) \<Rightarrow>
                    (case semantic_tokens_for_file F s ix p (doc_index d) of
                       Some semantic \<Rightarrow> (semantic, b') | None \<Rightarrow> (parse_only, b'))
                | _ \<Rightarrow> (parse_only, b')
           else (parse_only, b))"

definition semantic_tokens_full ::
  "('lex, 'parse, 'ix, 'ty, 'sh) features \<Rightarrow> ('lex, 'parse, 'c, 'ix) server_api \<Rightarrow> bool \<Rightarrow> url
   \<Rightarrow> (path \<times> ('lex, 'parse) document \<times> analysis_docs) option
   \<Rightarrow> ('lex, 'parse, 'c, 'cat, 'ix) backend
   \<Rightarrow> tokens_answer option \<times> ('lex, 'parse, 'c, 'cat, 'ix) backend" where
  "semantic_tokens_full F S got u captured b =
     (case captured of None \<Rightarrow> (None, b)
      | Some cap \<Rightarrow> (case compute_semantic_tokens F S got cap b of (data, b1) \<Rightarrow>
          (case full_answer u data (b_tokens b1) of (answer, cache) \<Rightarrow>
             (Some answer, b1\<lparr>b_tokens := cache\<rparr>))))"

definition semantic_tokens_full_delta ::
  "('lex, 'parse, 'ix, 'ty, 'sh) features \<Rightarrow> ('lex, 'parse, 'c, 'ix) server_api \<Rightarrow> bool \<Rightarrow> url
   \<Rightarrow> string \<Rightarrow> (path \<times> ('lex, 'parse) document \<times> analysis_docs) option
   \<Rightarrow> ('lex, 'parse, 'c, 'cat, 'ix) backend
   \<Rightarrow> tokens_answer option \<times> ('lex, 'parse, 'c, 'cat, 'ix) backend" where
  "semantic_tokens_full_delta F S got u previous_result_id captured b =
     (case captured of None \<Rightarrow> (None, b)
      | Some cap \<Rightarrow> (case compute_semantic_tokens F S got cap b of (data, b1) \<Rightarrow>
          (case delta_answer u previous_result_id data (b_tokens b1) of (answer, cache) \<Rightarrow>
             (Some answer, b1\<lparr>b_tokens := cache\<rparr>))))"

end
