(* ===== verification/Lsp_Request_Laws.thy ===== *)
theory Lsp_Request_Laws
  imports Lsp_Requests Lsp_Server_Demo
begin

text \<open>
  The read requests over every interleaving: they answer for the buffers they were asked about
  or not at all, from coherent facts, and never by a panic.
\<close>

section \<open>Requests are steps\<close>

lemma fact_request_step:
  assumes "got \<longrightarrow> analysis_free b"
  shows "(backend_step S Ws)\<^sup>*\<^sup>* b (snd (fact_request S got handler cursor captured f b))"
proof -
  have "backend_step S Ws b (snd (read_request S got p b))" for p
    using assms by (rule backend_step.reads)
  moreover have "snd (fact_request S got handler cursor captured f b) = b
      \<or> (\<exists>p. snd (fact_request S got handler cursor captured f b) = snd (read_request S got p b))"
  proof (cases captured)
    case (Some c)
    obtain p d entry where c: "c = (p, d, entry)" by (metis prod_cases3)
    obtain source b' where "read_request S got p b = (source, b')" by fastforce
    with Some c show ?thesis
      by (cases source) (auto simp: fact_request_def Let_def intro!: exI [of _ p])
  qed (simp add: fact_request_def)
  ultimately show ?thesis by (metis r_into_rtranclp rtranclp.rtrancl_refl)
qed

lemma tokens_step:
  assumes "got \<longrightarrow> analysis_free b"
  shows "(backend_step S Ws)\<^sup>*\<^sup>* b (snd (compute_semantic_tokens F S got captured b))"
proof -
  have "got \<Longrightarrow> backend_step S Ws b (b\<lparr>b_ws := binding_index (sv_check S) (b_ws b)\<rparr>)"
    using assms by (simp add: backend_step.indexes)
  moreover have "snd (compute_semantic_tokens F S got captured b) = b
      \<or> got \<and> snd (compute_semantic_tokens F S got captured b)
        = b\<lparr>b_ws := binding_index (sv_check S) (b_ws b)\<rparr>"
    by (cases captured) (auto simp: compute_semantic_tokens_def Let_def split: option.split)
  ultimately show ?thesis by auto
qed

section \<open>Buffers over time\<close>

lemma prepare_docs: "b_docs (snd (prepare_task S w t docs b)) = b_docs b"
  by (auto simp: prepare_task_def Let_def split: prod.splits sum.splits)

lemma commit_docs: "b_docs (snd (commit_task S docs p s b)) = b_docs b"
  by (auto simp: commit_task_def split: prod.splits bool.splits)

lemma task_after_docs: "b_docs (task_after i r) = b_docs (snd r)"
  by (cases r) (auto simp: task_after_def split: option.split)

lemma step_documents:
  assumes "backend_step S Ws b b'"
  shows "b_docs b' = b_docs b \<or> (\<exists>n. b_docs b' = documents_step (sv_docs S) n (b_docs b))"
  using assms
proof cases
  case (opens got u s v)
  then show ?thesis using did_open_core [of S got u s v b] by blast
next
  case (changes got u cs v)
  then show ?thesis using did_change_core [of S got u cs v b] by blast
next
  case (closes got u)
  then show ?thesis using did_close_core [of S got u b] by blast
next
  case (watches got w events)
  then show ?thesis using watched_core [of S w got events b] by blast
next
  case (reads got p)
  then show ?thesis by (auto simp: read_request_def split: prod.split)
next
  case (publishes i docs p w b2)
  then show ?thesis using publish_frame_task(1) [OF publishes(4)] by simp
qed (simp_all add: task_after_docs prepare_docs commit_docs)

text \<open>A generation names the documents: along a run it never decreases, and while it stays they do.\<close>

lemma same_generation_along:
  assumes "(backend_step S Ws)\<^sup>*\<^sup>* b b'"
  shows "docs_generation (b_docs b) \<le> docs_generation (b_docs b')
    \<and> (docs_generation (b_docs b') = docs_generation (b_docs b) \<longrightarrow> b_docs b' = b_docs b)"
  using assms
proof (induction rule: rtranclp_induct)
  case (step b1 b2)
  have "docs_generation (b_docs b1) \<le> docs_generation (b_docs b2)
      \<and> (docs_generation (b_docs b2) = docs_generation (b_docs b1) \<longrightarrow> b_docs b2 = b_docs b1)"
    using step_documents [OF step.hyps(2)] ineffective_step
    by (auto simp: generation_step split: if_splits)
  with step.IH show ?case by auto
qed simp

lemma not_superseded_captured:
  assumes "(backend_step S Ws)\<^sup>*\<^sup>* b0 b" "capture S u b0 = Some (p, d, entry)" "\<not> request_superseded entry b"
  shows "capture S u b = Some (p, d, entry)"
proof -
  have "entry = analysis_snapshot (sv_docs S) (b_docs b0)"
    using assms(2) by (auto simp: capture_def split: option.splits)
  then have "docs_generation (b_docs b) = docs_generation (b_docs b0)"
    using assms(3) by (simp add: request_superseded_def matches_generation_def analysis_snapshot_def)
  with same_generation_along [OF assms(1)] have same: "b_docs b = b_docs b0" by simp
  show ?thesis using assms(2) unfolding capture_def same .
qed

section \<open>Cursor requests\<close>

lemma read_request_facts:
  assumes "workspace_ok (sv_check S) (b_ws b)" "read_request S got p b = (Some source, b')"
  shows "\<exists>s ix. read_facts (b_ws b') source = Some (s, ix) \<and> snapshot_is_good s
    \<and> snapshot_contains_file s p \<and> index_of (sv_check S) s ix"
proof -
  obtain ws where "choose_read_source (sv_check S) p (b_ws b) = (Some source, ws)" "b_ws b' = ws"
    using assms(2) by (auto simp: read_request_def split: if_splits prod.splits)
  with chosen_facts [OF assms(1)] show ?thesis by simp
qed

lemma fact_request_answers:
  assumes "workspace_ok (sv_check S) (b_ws b)"
    "fst (fact_request S got handler cursor captured f b) = r"
  obtains (silent) "r = Inr None" | (superseded) "r = Inl ContentModified"
  | (answered) p d entry s ix where "captured = Some (p, d, entry)" "\<not> request_superseded entry b"
      "snapshot_is_good s" "snapshot_contains_file s p" "index_of (sv_check S) s ix"
      "r = f s ix entry p (offset (doc_index d) (to_core_position cursor))"
proof (cases captured)
  case None
  with assms(2) silent show thesis by (simp add: fact_request_def)
next
  case (Some c)
  obtain p d entry where c: "c = (p, d, entry)" by (metis prod_cases3)
  obtain source b' where rr: "read_request S got p b = (source, b')" by fastforce
  show thesis
  proof (cases "request_superseded entry b")
    case True
    with assms(2) Some c superseded show thesis by (simp add: fact_request_def Let_def)
  next
    case False
    show thesis
    proof (cases source)
      case None
      with assms(2) Some c rr False silent show thesis by (simp add: fact_request_def Let_def)
    next
      case src: (Some src)
      with rr read_request_facts [OF assms(1)] obtain s ix where
        f: "read_facts (b_ws b') src = Some (s, ix)" "snapshot_is_good s" "snapshot_contains_file s p"
          "index_of (sv_check S) s ix" by blast
      with assms(2) Some c rr src False
      have "r = f s ix entry p (offset (doc_index d) (to_core_position cursor))"
        by (simp add: fact_request_def Let_def guard_read_def)
      with f Some c False show thesis by (intro answered) simp_all
    qed
  qed
qed

text \<open>
  C24. A cursor request answers for the buffer it was asked about: captured in one reachable state
  and answered in a later one, whatever happened in between, it is dropped as modified, stays
  silent, or answers while the document and all buffers are the captured ones, from a parse-clean
  analysis of that very file with an index built for it. In particular it never panics.
\<close>

theorem cursor_requests_are_sound:
  assumes "reachable_server S Ws b0" "(backend_step S Ws)\<^sup>*\<^sup>* b0 b"
    "fst (fact_request S got handler cursor (capture S u b0) f b) = r"
  shows "r = Inr None \<or> r = Inl ContentModified
    \<or> (\<exists>p d entry s ix. capture S u b = Some (p, d, entry)
         \<and> snapshot_is_good s \<and> snapshot_contains_file s p
         \<and> (\<exists>s'. an_generation s' = an_generation s \<and> ix = build_binding_index (sv_check S) s')
         \<and> r = f s ix entry p (offset (doc_index d) (to_core_position cursor)))"
proof -
  have "workspace_ok (sv_check S) (b_ws b)"
    using server_inv [OF analysis_side.stays_reachable [OF assms(1,2)]]
    by (rule inv_workspace_ok)
  from this assms(3) show ?thesis
  proof (cases rule: fact_request_answers)
    case (answered p d entry s ix)
    with not_superseded_captured [OF assms(2)] show ?thesis
      by (intro disjI2 exI [of _ p] exI [of _ d] exI [of _ entry] exI [of _ s] exI [of _ ix])
        (simp add: index_of_def)
  qed simp_all
qed

theorem cursor_requests_are_sound_witness:
  "\<exists>b :: (unit, unit, unit, nat, nat) backend. reachable_server demo_server {demo_found_fs} b
    \<and> fst (fact_request demo_server True ''hover'' \<lparr>pos_line = 0, pos_character = 1\<rparr> (capture demo_server ''u'' b)
        (\<lambda>_ _ _ _ n. Inr (Some n)) b) \<noteq> Inl (InternalError ''the hover request failed'')"
proof (rule demo_published)
  fix b :: "(unit, unit, unit, nat, nat) backend"
  assume b: "reachable_server demo_server {demo_found_fs} b"
  from cursor_requests_are_sound [OF b rtranclp.rtrancl_refl refl, of True "''hover''" "\<lparr>pos_line = 0, pos_character = 1\<rparr>" "''u''"
      "\<lambda>_ _ _ _ n. Inr (Some n)"] b
  show ?thesis by auto
qed

section \<open>Semantic tokens\<close>

interpretation documents_side: invariant_system "\<lambda>b. b = new_backend" "backend_step S Ws"
  "\<lambda>b. documents_ok (sv_docs S) (b_docs b)" for S Ws
proof unfold_locales
  fix b b' :: "('a, 'b, 'c, 'd, 'e) backend"
  show "b = new_backend \<Longrightarrow> documents_ok (sv_docs S) (b_docs b)"
    by (simp add: new_backend_def documents_ok_new)
  show "documents_ok (sv_docs S) (b_docs b) \<Longrightarrow> backend_step S Ws b b'
      \<Longrightarrow> documents_ok (sv_docs S) (b_docs b')"
    using step_documents documents_ok_step by metis
qed

lemma captured_index:
  assumes "reachable_server S Ws b" "capture S u b = Some (p, d, entry)"
  shows "doc_index d = new_line_index (doc_text d)"
proof -
  obtain x where x: "(u, x) \<in> set (docs_map (b_docs b))" "doc_index d = doc_index x" "doc_text d = doc_text x"
    using assms(2) by (auto simp: capture_def snapshot_of_def split: option.splits dest!: map_of_SomeD)
  have "documents_ok (sv_docs S) (b_docs b)" using documents_side.always [OF assms(1)] .
  with x(1) have "x = new_document (sv_docs S) (doc_text x) (doc_version x)"
    by (auto simp: documents_ok_def)
  then have "doc_index x = new_line_index (doc_text x)" by (metis new_document_fields(3))
  with x show ?thesis by simp
qed

lemma find_Some_set: "find P xs = Some x \<Longrightarrow> x \<in> set xs \<and> P x"
  by (induction xs) (auto split: if_splits)

text \<open>
  Semantic tokens fit the text they are for: the answer encodes either the tokens of the
  document's own parse, or the checked facts of an analysis whose source of that file is the
  document's text byte for byte, over the line index of that source and with an index built for
  that analysis.
\<close>

theorem tokens_are_of_the_text:
  assumes "reachable_server S Ws b0" "(backend_step S Ws)\<^sup>*\<^sup>* b0 b" "capture S u b0 = Some (p, d, entry)"
    "compute_semantic_tokens F S got (p, d, entry) b = (data, b')"
  shows "data = semantic_tokens F d
    \<or> (\<exists>s ix f facts. f \<in> set (an_files s) \<and> af_path f = p \<and> af_source f = doc_text d
         \<and> (\<exists>s'. an_generation s' = an_generation s \<and> ix = build_binding_index (sv_check S) s')
         \<and> ft_token_facts_for_file F s ix p = Some facts
         \<and> data = encode_facts facts (new_line_index (af_source f)))"
proof (cases "data = semantic_tokens F d")
  case False
  let ?ws = "binding_index (sv_check S) (b_ws b)"
  from False assms(4) obtain s ix where si: "ws_latest ?ws = Some s" "ws_index ?ws = Some ix"
    "semantic_tokens_for_file F s ix p (doc_index d) = Some data"
    "snapshot_has_document_text (ws_latest (b_ws b)) p (doc_text d)"
    by (auto simp: compute_semantic_tokens_def Let_def split: if_splits option.splits)
  have "workspace_ok (sv_check S) ?ws"
    using server_inv [OF analysis_side.stays_reachable [OF assms(1,2)]]
    by (intro workspace_ok_index inv_workspace_ok)
  with si(1,2) have "index_of (sv_check S) s ix" by (simp add: workspace_ok_def)
  moreover have "ws_latest (b_ws b) = Some s"
    using si(1) by (auto simp: binding_index_def split: option.splits if_splits)
  with si(4) obtain f where "f \<in> set (an_files s)" "af_path f = p" "af_source f = doc_text d"
    by (auto simp: snapshot_has_document_text_def split: option.splits dest!: find_Some_set)
  moreover obtain facts where "ft_token_facts_for_file F s ix p = Some facts"
    "data = encode_facts facts (doc_index d)" using si(3) by (auto simp: semantic_tokens_for_file_def)
  ultimately show ?thesis
    using captured_index [OF assms(1,3)] by (force simp: index_of_def)
qed simp

section \<open>A rename from outdated facts\<close>

definition demo_features :: "(unit, unit, nat, unit, unit) features" where
  "demo_features = \<lparr>ft_tools = demo_tooling\<lparr>rename_action_at := (\<lambda>_ file n new_name.
       if n \<le> 1 then Inr [\<lparr>re_file = file, re_span = \<lparr>span_start = 0, span_end = 1\<rparr>,
         re_replacement = new_name\<rparr>] else Inl SourceNoSymbol)\<rparr>,
     ft_hover = \<lparr>source_hover_fact_at = (\<lambda>_ _ _ _. None), source_symbol_docs_at = (\<lambda>_ _ _ _. None),
       render_type = (\<lambda>_ _. []), render_callable_signature = (\<lambda>_ _. []),
       program_facts = (\<lambda>_. \<lparr>cf_resources = [], cf_resource_members = []\<rparr>)\<rparr>,
     ft_signature = demo_signature_api, ft_token_facts = (\<lambda>_ _ _. []),
     ft_token_facts_for_file = (\<lambda>_ _ _. Some [demo_fact 0]), ft_empty_program = demo_program,
     ft_lex_tokens = (\<lambda>_. []), ft_has_errors = (\<lambda>_. False), ft_format_source = id\<rparr>"

lemma demo_captured:
  assumes "b_docs b = b_docs demo_opened"
  shows "capture demo_server ''u'' b = Some (demo_path,
    new_document (sv_docs demo_server) ''x'' (Some 1), demo_snapshot)"
proof -
  have "snapshot_of ''u'' (b_docs b) = Some (new_document (sv_docs demo_server) ''x'' (Some 1))"
    by (simp add: assms demo_opened_fields snapshot_of_def open_with_version_def new_documents_def)
  moreover have "analysis_snapshot (sv_docs demo_server) (b_docs b) = demo_snapshot"
    by (simp add: assms demo_snapshot_taken)
  moreover have "to_file_path (sv_docs demo_server) ''u'' = Some demo_path"
    by (simp add: demo_server_def)
  ultimately show ?thesis unfolding capture_def by simp
qed

theorem tokens_are_of_the_text_witness:
  "\<exists>b :: (unit, unit, unit, nat, nat) backend. reachable_server demo_server {demo_found_fs} b
    \<and> (\<exists>facts. fst (compute_semantic_tokens demo_features demo_server True (demo_path,
          new_document (sv_docs demo_server) ''x'' (Some 1), demo_snapshot) b)
        = encode_facts facts (new_line_index ''x''))"
proof (rule demo_published)
  fix b :: "(unit, unit, unit, nat, nat) backend"
  assume b: "reachable_server demo_server {demo_found_fs} b" "b_docs b = b_docs demo_opened"
  obtain data b' where c: "compute_semantic_tokens demo_features demo_server True (demo_path,
      new_document (sv_docs demo_server) ''x'' (Some 1), demo_snapshot) b = (data, b')" by fastforce
  from tokens_are_of_the_text [OF b(1) rtranclp.rtrancl_refl demo_captured [OF b(2)] c]
  have "\<exists>facts. data = encode_facts facts (new_line_index ''x'')"
    by (auto simp: semantic_tokens_def)
  with b(1) c show ?thesis by (intro exI [of _ b]) simp
qed

text \<open>
  Rename trusts facts that may be older than the buffer: right after an edit, before its
  recompute, a rename is not dropped as modified, and it answers with spans of the old text
  resolved in the new one. Here the buffer changed from \<open>x\<close> to \<open>yx\<close>; renaming the symbol \<open>x\<close> to
  \<open>z\<close> gives the edit that turns the buffer into \<open>zx\<close> instead of \<open>yz\<close>.
\<close>

theorem stale_rename_rewrites_other_text:
  "\<exists>(b :: (unit, unit, unit, nat, nat) backend) te. reachable_server demo_server {demo_found_fs} b
    \<and> map_option doc_text (get_document ''u'' (b_docs b)) = Some ''yx''
    \<and> fst (rename_request demo_features demo_server True \<lparr>pos_line = 0, pos_character = 1\<rparr> ''z''
        (capture demo_server ''u'' b) b) = Inr (Some [(''u'', [te])])
    \<and> apply_text_edit ''yx'' te = ''zx''"
proof (rule demo_published)
  fix b0 :: "(unit, unit, unit, nat, nat) backend" and pr
  assume b0: "reachable_server demo_server {demo_found_fs} b0" "b_tasks b0 = []" "b_docs b0 = b_docs demo_opened"
    "fresh_latest (b_ws b0) demo_snapshot = Some demo_found" "b_pending b0 = 0"
  define b where "b = did_change demo_server True ''u'' [''yx''] 2 b0"
  have reach: "reachable_server demo_server {demo_found_fs} b"
    unfolding b_def by (rule reachable.further [OF b0(1)])
      (auto intro: backend_step.changes simp: analysis_free_def b0(2))
  have docs: "b_docs b = change_with_version (sv_docs demo_server) ''u'' ''yx'' (Some 2) (b_docs b0)"
    and ws: "b_ws b = b_ws b0" and pending: "b_pending b = b_pending b0"
    by (auto simp: b_def did_change_def Let_def bump_known_root_def schedule_recompute_def
        split: option.split prod.split)
  let ?d = "new_document (sv_docs demo_server) ''yx'' (Some 2)"
  let ?entry = "\<lparr>ad_generation = 2, ad_open = [\<lparr>od_url = ''u'', od_path = demo_path,
    od_text = ''yx'', od_version = Some 2, od_index = new_line_index ''yx''\<rparr>]\<rparr>"
  have map: "docs_map (b_docs b) = [(''u'', ?d)]" "docs_generation (b_docs b) = 2"
    by (simp_all add: docs b0(3) demo_opened_fields change_with_version_def open_with_version_def
        new_documents_def)
  have cap: "capture demo_server ''u'' b = Some (demo_path, ?d, ?entry)"
  proof -
    have "snapshot_of ''u'' (b_docs b) = Some ?d" by (simp add: snapshot_of_def map)
    moreover have "analysis_snapshot (sv_docs demo_server) (b_docs b) = ?entry"
      by (simp add: analysis_snapshot_def map demo_server_def List.map_filter_def)
    moreover have "to_file_path (sv_docs demo_server) ''u'' = Some demo_path"
      by (simp add: demo_server_def)
    ultimately show ?thesis unfolding capture_def by simp
  qed
  have latest: "ws_latest (b_ws b) = Some demo_found"
    using b0(4) by (simp add: ws fresh_latest_def split: if_splits)
  have good: "snapshot_is_good demo_found" "snapshot_contains_file demo_found demo_path"
    using demo_good(1) [of "[]"] demo_good(2) [of "[]" False]
    by (simp_all add: demo_found_def snapshot_is_good_def snapshot_contains_file_def demo_path_def)
  obtain source b' where rr: "read_request demo_server True demo_path b = (source, b')" by fastforce
  have source: "source = Some Latest" "b' = b\<lparr>b_ws := binding_index (sv_check demo_server) (b_ws b)\<rparr>"
    using rr pending b0(5) latest good
    by (simp_all add: read_request_def choose_read_source_def)
  have "workspace_ok (sv_check demo_server) (b_ws b)"
    using inv_workspace_ok [OF server_inv [OF reach]] .
  from read_request_facts [OF this rr [unfolded source(1)]] obtain s ix where
    facts: "read_facts (b_ws b') Latest = Some (s, ix)" by blast
  then have "s = demo_found"
    using latest by (auto simp: source(2) read_facts_def binding_index_def split: option.splits if_splits)
  define te where "te = \<lparr>te_range = range_of (new_line_index ''yx'') 0 1, te_new_text = ''z''\<rparr>"
  have files: "an_files demo_found = [\<lparr>af_path = demo_path, af_source = ''x'', af_has_errors = False\<rparr>]"
    by (simp add: demo_found_def demo_analysis_def demo_path_def)
  define n :: nat where "n = 1"
  define cur where "cur = \<lparr>pos_line = 0, pos_character = 1 :: nat\<rparr>"
  have "index_for (indices_of demo_found ?entry) demo_path = Some (new_line_index ''yx'')"
    by (simp add: indices_of_def files new_indices_def add_index_def line_index_for_path_def index_for_def)
  then have ren: "rename (ft_tools demo_features) (sv_path_to_url demo_server) ix
      (indices_of demo_found ?entry) demo_path n ''z'' = Inr [(''u'', [te])]"
    by (simp add: n_def rename_def demo_features_def add_edit_def edits_for_def te_def demo_server_def)
  have at1: "offset (new_line_index ''yx'') cur = n" "to_core_position cur = cur"
    by (simp_all add: cur_def n_def to_core_position_def offset_def new_line_index_def byte_slice_def chars.simps char_len_def as_u32_def
        len_utf16_def)
  have "fst (rename_request demo_features demo_server True cur ''z''
      (capture demo_server ''u'' b) b) = Inr (Some [(''u'', [te])])"
    by (simp add: rename_request_def fact_request_def cap Let_def at1 map
        request_superseded_def matches_generation_def rr source(1) facts \<open>s = demo_found\<close>
        guard_read_def ren)
  moreover have "apply_text_edit ''yx'' te = ''zx''"
    using offset_position_boundary [of "''yx''" 0] offset_position_boundary [of "''yx''" 1]
    by (simp add: apply_text_edit_def te_def range_of_def is_char_boundary_def is_cont_def in_bytes_def)
  moreover have "map_option doc_text (get_document ''u'' (b_docs b)) = Some ''yx''"
    by (simp add: get_document_def map)
  ultimately show ?thesis using reach unfolding cur_def by blast
qed

end
