(* ===== verification/Data_Explorer.thy ===== *)
theory Data_Explorer
  imports Json Lsp_Session_Cache
begin

text \<open>
  \<open>crates/marrow-lsp-core/src/data_explorer.rs\<close>: the requests of the saved-data explorer, their
  validation, and what both transports answer from a read session. A session and the typed DTOs
  of \<open>marrow_json\<close> are Marrow's: the record \<open>data_api\<close> holds the calls on a session, and a DTO
  that is only handed on is its JSON value.
\<close>

section \<open>Requests and results\<close>

record data_children_request =
  dc_segments :: "json list"
  dc_limit :: nat
  dc_cursor :: "json option"

record data_read_request =
  dr_segments :: "json list"
  dr_preview_limit :: "nat option"

datatype data_validation_error = EmptySegments | ZeroLimit | ZeroPreviewLimit

definition validation_message :: "data_validation_error \<Rightarrow> string" where
  "validation_message e = (case e of
     EmptySegments \<Rightarrow> ''`segments` must not be empty''
   | ZeroLimit \<Rightarrow> ''`limit` must be at least 1''
   | ZeroPreviewLimit \<Rightarrow> ''`preview_limit` must be at least 1'')"

datatype data_error = PathError json | StoreFault json

record saved_roots_result =
  rr_available :: bool
  rr_roots :: "json list"
  rr_store_snapshot :: "json option"
  rr_boundary :: "json option"

record data_page =
  dp_children :: "json list"
  dp_truncated :: bool
  dp_cursor :: "json option"
  dp_store_snapshot :: "json option"
  dp_boundary :: "json option"

datatype data_presence = PresenceAbsent | PresenceOther string

record data_value =
  dv_presence :: data_presence
  dv_text :: "string option"
  dv_truncated :: bool
  dv_store_snapshot :: "json option"
  dv_boundary :: "json option"

record 'sess data_api =
  da_roots :: "'sess \<Rightarrow> (json list \<times> json) option"
  da_children :: "'sess \<Rightarrow> json list \<Rightarrow> nat \<Rightarrow> json option \<Rightarrow> data_error + data_page"
  da_preview :: "'sess \<Rightarrow> json list \<Rightarrow> nat \<Rightarrow> data_error + data_value option"
  da_boundary :: "'sess \<Rightarrow> json"
  da_preview_limit :: "nat option \<Rightarrow> nat"

section \<open>Operations\<close>

definition data_children_page_limit :: nat where
  "data_children_page_limit = 200"

definition validate_data_children_request ::
  "data_children_request \<Rightarrow> data_validation_error + data_children_request" where
  "validate_data_children_request r =
     (if dc_segments r = [] then Inl EmptySegments
      else if dc_limit r = 0 then Inl ZeroLimit else Inr r)"

definition validate_data_read_request ::
  "data_read_request \<Rightarrow> data_validation_error + data_read_request" where
  "validate_data_read_request r =
     (if dr_segments r = [] then Inl EmptySegments
      else if dr_preview_limit r = Some 0 then Inl ZeroPreviewLimit else Inr r)"

definition unavailable_roots :: saved_roots_result where
  "unavailable_roots =
     \<lparr>rr_available = False, rr_roots = [], rr_store_snapshot = None, rr_boundary = None\<rparr>"

definition saved_roots :: "'sess data_api \<Rightarrow> 'sess option \<Rightarrow> saved_roots_result" where
  "saved_roots D session =
     (case session of None \<Rightarrow> unavailable_roots
      | Some s \<Rightarrow> (case da_roots D s of
          Some (roots, stamp) \<Rightarrow> \<lparr>rr_available = True, rr_roots = roots,
            rr_store_snapshot = Some stamp, rr_boundary = Some (da_boundary D s)\<rparr>
        | None \<Rightarrow> unavailable_roots))"

definition session_data_child_views_page ::
  "'sess data_api \<Rightarrow> 'sess \<Rightarrow> data_children_request \<Rightarrow> data_error + data_page" where
  "session_data_child_views_page D s r =
     bind_result (da_children D s (dc_segments r) (min (dc_limit r) data_children_page_limit)
         (dc_cursor r))
       (\<lambda>page. Inr (page\<lparr>dp_boundary := Some (da_boundary D s)\<rparr>))"

definition session_data_read ::
  "'sess data_api \<Rightarrow> 'sess \<Rightarrow> data_read_request \<Rightarrow> data_error + data_value" where
  "session_data_read D s r =
     bind_result (da_preview D s (dr_segments r) (da_preview_limit D (dr_preview_limit r)))
       (\<lambda>stamped. Inr (case stamped of
          None \<Rightarrow> \<lparr>dv_presence = PresenceAbsent, dv_text = None, dv_truncated = False,
            dv_store_snapshot = None, dv_boundary = Some (da_boundary D s)\<rparr>
        | Some v \<Rightarrow> v\<lparr>dv_boundary := Some (da_boundary D s)\<rparr>))"

section \<open>Serialization\<close>

text \<open>\<open>serde\<close> of an optional field: \<open>null\<close> when absent.\<close>

definition json_or_null :: "json option \<Rightarrow> json" where
  "json_or_null x = (case x of None \<Rightarrow> JNull | Some j \<Rightarrow> j)"

definition data_error_json :: "data_error \<Rightarrow> json" where
  "data_error_json e = (case e of
     PathError j \<Rightarrow> JObj [(''kind'', JStr ''path''), (''value'', j)]
   | StoreFault j \<Rightarrow> JObj [(''kind'', JStr ''store''), (''value'', j)])"

definition saved_roots_json :: "saved_roots_result \<Rightarrow> json" where
  "saved_roots_json r = JObj ([(''available'', JBool (rr_available r)),
     (''roots'', JArr (rr_roots r)), (''store_snapshot'', json_or_null (rr_store_snapshot r))]
     @ opt_field ''data_view_boundary'' id (rr_boundary r))"

end
