(* ===== verification/Lsp_Data_Requests.thy ===== *)
theory Lsp_Data_Requests
  imports Lsp_Requests Data_Explorer Lsp_Server_Laws
begin

text \<open>
  The saved-data requests of \<open>crates/marrow-lsp/src/backend.rs\<close> with the start and the end of a
  session: \<open>initialize\<close>, which the live-data gate is set by, and \<open>shutdown\<close>. A request first
  takes a snapshot of the buffers and then answers, \<open>got\<close> being whether its \<open>try_lock\<close> of the
  analysis succeeds; the cache of the data view is that of \<open>Lsp_Session_Cache\<close>.
\<close>

section \<open>The session\<close>

record ('snap, 'roots) client_session =
  cl_live_data :: bool
  cl_dynamic_watch :: bool
  cl_shutdown_seen :: bool
  cl_data_cache :: "('snap, 'roots) session_cache"

definition new_session :: "('snap, 'roots) client_session" where
  "new_session = \<lparr>cl_live_data = False, cl_dynamic_watch = False, cl_shutdown_seen = False,
     cl_data_cache = None\<rparr>"

definition client_supports_dynamic_watch_registration :: "json \<Rightarrow> bool" where
  "client_supports_dynamic_watch_registration capabilities \<longleftrightarrow>
     Option.bind (Option.bind (Option.bind (jget capabilities ''workspace'')
       (\<lambda>w. jget w ''didChangeWatchedFiles'')) (\<lambda>d. jget d ''dynamicRegistration'')) as_bool = Some True"

text \<open>The effect of \<open>initialize\<close>: its options and capabilities as JSON.\<close>

definition initialize :: "json option \<Rightarrow> json \<Rightarrow> ('snap, 'roots) client_session
    \<Rightarrow> ('snap, 'roots) client_session" where
  "initialize options capabilities cl =
     cl\<lparr>cl_live_data := cl_live_data cl
          \<or> Option.bind (Option.bind options (\<lambda>j. jget j ''marrow.liveData'')) as_bool = Some True,
        cl_dynamic_watch := cl_dynamic_watch cl
          \<or> client_supports_dynamic_watch_registration capabilities\<rparr>"

text \<open>What \<open>initialize\<close> answers: the providers the code names, all others absent.\<close>

datatype text_sync = NoSync | FullSync | IncrementalSync

record server_capabilities =
  sc_text_document_sync :: text_sync
  sc_hover :: bool
  sc_definition :: bool
  sc_references :: bool
  sc_rename_prepare :: bool
  sc_document_symbol :: bool
  sc_workspace_symbol :: bool
  sc_completion_triggers :: "string list"
  sc_signature_triggers :: "string list"
  sc_token_types :: "string list"
  sc_token_modifiers :: "string list"
  sc_token_delta :: bool
  sc_formatting :: bool
  sc_on_type_first :: string
  sc_on_type_more :: "string list option"

definition capabilities :: server_capabilities where
  "capabilities = \<lparr>sc_text_document_sync = FullSync, sc_hover = True, sc_definition = True,
     sc_references = True, sc_rename_prepare = True, sc_document_symbol = True,
     sc_workspace_symbol = True, sc_completion_triggers = [''^'', ''.'', '':'', ''(''],
     sc_signature_triggers = [''('', '',''], sc_token_types = fst legend,
     sc_token_modifiers = snd legend, sc_token_delta = True, sc_formatting = True,
     sc_on_type_first = [CHR 0x0A], sc_on_type_more = None\<rparr>"

definition shutdown :: "('snap, 'roots) client_session \<Rightarrow> ('snap, 'roots) client_session" where
  "shutdown cl = cl\<lparr>cl_shutdown_seen := True\<rparr>"

definition watched_globs :: "string list" where
  "watched_globs = [''**/marrow.json'', ''**/*.mw'', ''**/'' @ committed_lock_file,
     ''**/'' @ native_store_file_name]"

definition watched_files_registrations :: "json list" where
  "watched_files_registrations = [JObj [(''id'', JStr ''marrow-watched-files''),
     (''method'', JStr ''workspace/didChangeWatchedFiles''), (''registerOptions'', JObj [(''watchers'',
       JArr (map (\<lambda>glob. JObj [(''globPattern'', JStr glob)]) watched_globs))])]]"

text \<open>What \<open>initialized\<close> asks the client to register.\<close>

definition initialized :: "('snap, 'roots) client_session \<Rightarrow> json list" where
  "initialized cl = (if cl_dynamic_watch cl then watched_files_registrations else [])"

section \<open>Sessions for the data view\<close>

definition saved_data_roots where
  "saved_data_roots D W live_data invalidation_pending docs ws cache =
     (if \<not> live_data \<or> invalidation_pending then (saved_roots D None, cache)
      else (case fresh_program ws docs of
          None \<Rightarrow> (saved_roots D None, cache)
        | Some program \<Rightarrow>
            (case ws_project ws of
               None \<Rightarrow> (saved_roots D None, cache)
             | Some pr \<Rightarrow> cached_saved_roots W pr program cache)))"

definition data_read_session where
  "data_read_session W live_data invalidation_pending docs ws cache =
     (if \<not> live_data \<or> invalidation_pending then (None, cache)
      else (case fresh_program ws docs of
          None \<Rightarrow> (None, cache)
        | Some program \<Rightarrow>
            (case ws_project ws of None \<Rightarrow> (None, cache)
             | Some pr \<Rightarrow> read_session W pr program cache)))"

section \<open>Answers\<close>

record children_answer =
  ca_available :: bool
  ca_children :: "json list"
  ca_truncated :: bool
  ca_cursor :: "json option"
  ca_store_snapshot :: "json option"
  ca_boundary :: "json option"
  ca_error :: "data_error option"

record read_answer =
  ra_available :: bool
  ra_presence :: data_presence
  ra_value :: "string option"
  ra_truncated :: bool
  ra_store_snapshot :: "json option"
  ra_boundary :: "json option"
  ra_error :: "data_error option"

definition unavailable_data_children :: children_answer where
  "unavailable_data_children = \<lparr>ca_available = False, ca_children = [], ca_truncated = False,
     ca_cursor = None, ca_store_snapshot = None, ca_boundary = None, ca_error = None\<rparr>"

definition data_children_error :: "data_error \<Rightarrow> children_answer" where
  "data_children_error e = \<lparr>ca_available = True, ca_children = [], ca_truncated = False,
     ca_cursor = None, ca_store_snapshot = None, ca_boundary = None, ca_error = Some e\<rparr>"

definition unavailable_data_read :: read_answer where
  "unavailable_data_read = \<lparr>ra_available = False, ra_presence = PresenceAbsent, ra_value = None,
     ra_truncated = False, ra_store_snapshot = None, ra_boundary = None, ra_error = None\<rparr>"

definition data_read_error :: "data_error \<Rightarrow> read_answer" where
  "data_read_error e = \<lparr>ra_available = True, ra_presence = PresenceAbsent, ra_value = None,
     ra_truncated = False, ra_store_snapshot = None, ra_boundary = None, ra_error = Some e\<rparr>"

definition invalid_request :: "string \<Rightarrow> data_validation_error \<Rightarrow> rpc_error" where
  "invalid_request meth e =
     InvalidParams (''invalid '' @ meth @ '' params: '' @ validation_message e)"

section \<open>Requests\<close>

text \<open>
  The second step of each request, \<open>docs\<close> being the snapshot of its first step; a request that
  fails its validation does not get there.
\<close>

definition saved_roots_request where
  "saved_roots_request D W got docs b cl =
     (if \<not> got then (saved_roots D None, cl)
      else (case saved_data_roots D W (cl_live_data cl) (workspace_invalidation_pending b) docs (b_ws b)
              (cl_data_cache cl) of
          (roots, cache) \<Rightarrow> (roots, cl\<lparr>cl_data_cache := cache\<rparr>)))"

definition data_children_request_step where
  "data_children_request_step D W got docs request b cl =
     (if \<not> got then (unavailable_data_children, cl)
      else (case data_read_session W (cl_live_data cl) (workspace_invalidation_pending b) docs (b_ws b)
              (cl_data_cache cl) of
          (None, cache) \<Rightarrow> (unavailable_data_children, cl\<lparr>cl_data_cache := cache\<rparr>)
        | (Some session, cache) \<Rightarrow>
            ((case session_data_child_views_page D session request of
                Inr page \<Rightarrow> \<lparr>ca_available = True, ca_children = dp_children page,
                  ca_truncated = dp_truncated page, ca_cursor = dp_cursor page,
                  ca_store_snapshot = dp_store_snapshot page, ca_boundary = dp_boundary page,
                  ca_error = None\<rparr>
              | Inl e \<Rightarrow> data_children_error e), cl\<lparr>cl_data_cache := cache\<rparr>)))"

definition data_children where
  "data_children D W got docs request b cl =
     (case validate_data_children_request request of
        Inl e \<Rightarrow> (Inl (invalid_request ''marrow/dataChildren'' e), cl)
      | Inr request \<Rightarrow> (case data_children_request_step D W got docs request b cl of
          (answer, cl') \<Rightarrow> (Inr answer, cl')))"

definition data_read_request_step where
  "data_read_request_step D W got docs request b cl =
     (if \<not> got then (unavailable_data_read, cl)
      else (case data_read_session W (cl_live_data cl) (workspace_invalidation_pending b) docs (b_ws b)
              (cl_data_cache cl) of
          (None, cache) \<Rightarrow> (unavailable_data_read, cl\<lparr>cl_data_cache := cache\<rparr>)
        | (Some session, cache) \<Rightarrow>
            ((case session_data_read D session request of
                Inr found \<Rightarrow> \<lparr>ra_available = True, ra_presence = dv_presence found,
                  ra_value = dv_text found, ra_truncated = dv_truncated found,
                  ra_store_snapshot = dv_store_snapshot found, ra_boundary = dv_boundary found,
                  ra_error = None\<rparr>
              | Inl e \<Rightarrow> data_read_error e), cl\<lparr>cl_data_cache := cache\<rparr>)))"

definition data_read where
  "data_read D W got docs request b cl =
     (case validate_data_read_request request of
        Inl e \<Rightarrow> (Inl (invalid_request ''marrow/dataRead'' e), cl)
      | Inr request \<Rightarrow> (case data_read_request_step D W got docs request b cl of
          (answer, cl') \<Rightarrow> (Inr answer, cl')))"

text \<open>\<open>data_view_watch_targets\<close> of Marrow is the argument \<open>targets\<close>.\<close>

definition saved_data_watch_targets ::
  "(path \<Rightarrow> 'c project_config \<Rightarrow> string + path list) \<Rightarrow> 'c project option \<Rightarrow> bool
   \<Rightarrow> string + path list" where
  "saved_data_watch_targets targets project live_data =
     (case (if live_data then project else None) of None \<Rightarrow> Inr []
      | Some pr \<Rightarrow> targets (pr_root pr) (pr_config pr))"

definition data_watch_targets where
  "data_watch_targets targets got b cl =
     (if \<not> got then Inr []
      else if workspace_invalidation_pending b then Inr []
      else map_err (\<lambda>e. InvalidParams (''invalid project store config: '' @ e))
        (saved_data_watch_targets targets (ws_project (b_ws b)) (cl_live_data cl)))"

section \<open>The gate\<close>

text \<open>
  What an answer with data rests on: the client asked for live data, no change of the workspace
  is pending, there is a project to read, and the fresh program is that of the checker's answer,
  in one of the worlds of the run, to what the server prepared from the buffers \<open>docs\<close>.
\<close>

definition data_gate ::
  "('lex, 'parse, 'c, 'ix) server_api \<Rightarrow> ('c, 'cat) fs_world set \<Rightarrow> analysis_docs
   \<Rightarrow> ('lex, 'parse, 'c, 'cat, 'ix) backend \<Rightarrow> ('snap, 'roots) client_session \<Rightarrow> bool" where
  "data_gate S Ws docs b cl \<longleftrightarrow> cl_live_data cl \<and> b_pending b = 0 \<and> ws_project (b_ws b) \<noteq> None
     \<and> (\<exists>p s. prepared_in S Ws docs p \<and> analyzed_in Ws p s
          \<and> pp_sources p = overlay_snapshot (pp_root p) docs
          \<and> fresh_program (b_ws b) docs = Some (an_program s))"

lemma gate_opens:
  assumes "reachable_server S Ws b0" "(backend_step S Ws)\<^sup>*\<^sup>* b0 b"
    "docs = analysis_snapshot (sv_docs S) (b_docs b0)"
    "cl_live_data cl" "\<not> workspace_invalidation_pending b"
    "fresh_program (b_ws b) docs = Some program" "ws_project (b_ws b) = Some pr"
  shows "data_gate S Ws docs b cl"
proof -
  obtain s where s: "fresh_latest (b_ws b) docs = Some s" "an_program s = program"
    using assms(6) by (auto simp: fresh_program_def split: option.splits if_splits)
  from fresh_analysis_is_of [OF assms(1,2) s(1) [unfolded assms(3)]] obtain p where
    p: "prepared_in S Ws docs p" "analyzed_in Ws p s" unfolding assms(3) by blast
  with prepared_in_fields(1) [OF p(1)] s(2) assms(4-7) show ?thesis
    by (auto simp: data_gate_def workspace_invalidation_pending_def)
qed

lemma session_behind_gate:
  assumes "reachable_server S Ws b0" "(backend_step S Ws)\<^sup>*\<^sup>* b0 b"
    "docs = analysis_snapshot (sv_docs S) (b_docs b0)"
    "data_read_session W (cl_live_data cl) (workspace_invalidation_pending b) docs (b_ws b)
       (cl_data_cache cl) = (Some session, cache)"
  shows "data_gate S Ws docs b cl"
  using assms(4) gate_opens [OF assms(1-3)]
  by (auto simp: data_read_session_def split: if_splits option.splits)

lemma roots_behind_gate:
  assumes "reachable_server S Ws b0" "(backend_step S Ws)\<^sup>*\<^sup>* b0 b"
    "docs = analysis_snapshot (sv_docs S) (b_docs b0)"
    "saved_data_roots D W (cl_live_data cl) (workspace_invalidation_pending b) docs (b_ws b)
       (cl_data_cache cl) = (roots, cache)"
    "rr_available roots"
  shows "data_gate S Ws docs b cl"
  using assms(4,5) gate_opens [OF assms(1-3)]
  by (auto simp: saved_data_roots_def saved_roots_def unavailable_roots_def
      split: if_splits option.splits)

lemma children_need_session:
  assumes "data_children D W got docs request b cl = (Inr a, cl')" "ca_available a"
  shows "\<exists>session cache. data_read_session W (cl_live_data cl) (workspace_invalidation_pending b) docs
    (b_ws b) (cl_data_cache cl) = (Some session, cache)"
proof (cases "validate_data_children_request request")
  case (Inr request')
  obtain session cache where "data_read_session W (cl_live_data cl) (workspace_invalidation_pending b)
      docs (b_ws b) (cl_data_cache cl) = (session, cache)" by fastforce
  with assms Inr show ?thesis
    by (cases session) (auto simp: data_children_def data_children_request_step_def
        unavailable_data_children_def split: if_splits)
qed (use assms in \<open>simp add: data_children_def\<close>)

lemma read_needs_session:
  assumes "data_read D W got docs request b cl = (Inr a, cl')" "ra_available a"
  shows "\<exists>session cache. data_read_session W (cl_live_data cl) (workspace_invalidation_pending b) docs
    (b_ws b) (cl_data_cache cl) = (Some session, cache)"
proof (cases "validate_data_read_request request")
  case (Inr request')
  obtain session cache where "data_read_session W (cl_live_data cl) (workspace_invalidation_pending b)
      docs (b_ws b) (cl_data_cache cl) = (session, cache)" by fastforce
  with assms Inr show ?thesis
    by (cases session) (auto simp: data_read_def data_read_request_step_def
        unavailable_data_read_def split: if_splits)
qed (use assms in \<open>simp add: data_read_def\<close>)

text \<open>
  C20. Saved data is shown only behind the gate: a request takes its buffers in one state the
  server can reach and is answered in a later one, whatever happened in between. When the answer
  says data is available, live data was asked for at initialization, no change of the workspace
  was pending, and it was given for the program of the checker's answer, in one of the worlds of
  the run, to what the server prepared from exactly the buffers the request took; with live data
  off, every answer is empty and nothing is opened.
\<close>

theorem live_data_is_gated:
  assumes "reachable_server S Ws b0" "(backend_step S Ws)\<^sup>*\<^sup>* b0 b"
    "docs = analysis_snapshot (sv_docs S) (b_docs b0)"
  shows "(\<forall>r cl'. saved_roots_request D W got docs b cl = (r, cl') \<and> rr_available r
         \<longrightarrow> data_gate S Ws docs b cl)
    \<and> (\<forall>request a cl'. data_children D W got docs request b cl = (Inr a, cl') \<and> ca_available a
         \<longrightarrow> data_gate S Ws docs b cl)
    \<and> (\<forall>request a cl'. data_read D W got docs request b cl = (Inr a, cl') \<and> ra_available a
         \<longrightarrow> data_gate S Ws docs b cl)
    \<and> (\<not> cl_live_data cl \<longrightarrow> saved_roots_request D W got docs b cl = (unavailable_roots, cl)
         \<and> (\<forall>request a cl'. data_children D W got docs request b cl = (Inr a, cl')
              \<longrightarrow> a = unavailable_data_children \<and> cl' = cl)
         \<and> (\<forall>request a cl'. data_read D W got docs request b cl = (Inr a, cl')
              \<longrightarrow> a = unavailable_data_read \<and> cl' = cl))"
proof (intro conjI impI)
  show "\<forall>r cl'. saved_roots_request D W got docs b cl = (r, cl') \<and> rr_available r
      \<longrightarrow> data_gate S Ws docs b cl"
    using roots_behind_gate [OF assms, of D W cl]
    by (auto simp: saved_roots_request_def saved_roots_def unavailable_roots_def
        split: if_splits prod.splits)
  show "\<forall>request a cl'. data_children D W got docs request b cl = (Inr a, cl') \<and> ca_available a
      \<longrightarrow> data_gate S Ws docs b cl"
    using children_need_session session_behind_gate [OF assms] by metis
  show "\<forall>request a cl'. data_read D W got docs request b cl = (Inr a, cl') \<and> ra_available a
      \<longrightarrow> data_gate S Ws docs b cl"
    using read_needs_session session_behind_gate [OF assms] by metis
  assume "\<not> cl_live_data cl"
  then show "saved_roots_request D W got docs b cl = (unavailable_roots, cl)"
    and "\<forall>request a cl'. data_children D W got docs request b cl = (Inr a, cl')
      \<longrightarrow> a = unavailable_data_children \<and> cl' = cl"
    and "\<forall>request a cl'. data_read D W got docs request b cl = (Inr a, cl')
      \<longrightarrow> a = unavailable_data_read \<and> cl' = cl"
    by (auto simp: saved_roots_request_def saved_data_roots_def saved_roots_def data_children_def
        data_children_request_step_def data_read_def data_read_request_step_def
        data_read_session_def split: sum.splits)
qed

definition demo_views :: "nat data_api" where
  "demo_views = \<lparr>da_roots = (\<lambda>s. Some ([JStr ''books''], JNull)), da_children = (\<lambda>s p n c. Inl (StoreFault JNull)),
     da_preview = (\<lambda>s p n. Inr None), da_boundary = (\<lambda>s. JNull), da_preview_limit = (\<lambda>l. 1)\<rparr>"

definition demo_view_world :: "(unit project, nat, nat, saved_roots_result) data_world" where
  "demo_view_world = \<lparr>dw_native_path = (\<lambda>_. None), dw_stat = (\<lambda>_. None), dw_unavailable = (\<lambda>_. Inr None),
     dw_open_snapshot = (\<lambda>_. Some 1), dw_open_session = Some, dw_admits = (\<lambda>_ _. True),
     dw_roots = saved_roots demo_views\<rparr>"

definition demo_client :: "(nat, saved_roots_result) client_session" where
  "demo_client = initialize (Some (JObj [(''marrow.liveData'', JBool True)])) (JObj []) new_session"

theorem live_data_is_gated_witness:
  "\<exists>b. reachable_server demo_server {demo_found_fs} (b :: (unit, unit, unit, nat, nat) backend)
     \<and> rr_available (fst (saved_roots_request demo_views demo_view_world True
          (analysis_snapshot (sv_docs demo_server) (b_docs b)) b demo_client))
     \<and> data_gate demo_server {demo_found_fs} (analysis_snapshot (sv_docs demo_server) (b_docs b)) b demo_client"
proof (rule demo_published)
  fix b :: "(unit, unit, unit, nat, nat) backend" and pr
  assume b: "reachable_server demo_server {demo_found_fs} b" "b_docs b = b_docs demo_opened"
    "fresh_latest (b_ws b) demo_snapshot = Some demo_found" "ws_project (b_ws b) = Some pr"
    "b_pending b = 0"
  obtain r cl' where r: "saved_roots_request demo_views demo_view_world True
      (analysis_snapshot (sv_docs demo_server) (b_docs b)) b demo_client = (r, cl')" by fastforce
  have "fresh_program (b_ws b) (analysis_snapshot (sv_docs demo_server) (b_docs b))
      = Some (an_program demo_found)"
    using b(2,3) by (simp add: fresh_program_def demo_snapshot_taken demo_found_def demo_analysis_def
        demo_program_def)
  with r b(4,5) have available: "rr_available r"
    by (auto simp: saved_roots_request_def saved_data_roots_def demo_client_def initialize_def
        new_session_def workspace_invalidation_pending_def cached_saved_roots_def is_current_def
        native_store_stat_def refresh_session_def open_saved_data_snapshot_def session_matching_def
        demo_view_world_def saved_roots_def demo_views_def Let_def)
  with live_data_is_gated [OF b(1) rtranclp.rtrancl_refl refl, of demo_views demo_view_world True
      demo_client] r
  have "data_gate demo_server {demo_found_fs} (analysis_snapshot (sv_docs demo_server) (b_docs b)) b demo_client"
    by blast
  with b(1) r available show ?thesis by auto
qed

end
