(* ===== verification/Lsp_Exit_Watcher.thy ===== *)
theory Lsp_Exit_Watcher
  imports Json
begin

text \<open>
  The watcher on the standard input of \<open>crates/marrow-lsp/src/main.rs\<close>, which ends the process
  when a complete \<open>exit\<close> notification has passed. A read is the bytes it delivered with the value
  of the shutdown flag at that moment; a process that has ended delivers nothing more. The JSON
  parser is the argument \<open>from_slice\<close>.
\<close>

section \<open>Frames\<close>

fun find_subslice :: "string \<Rightarrow> string \<Rightarrow> nat option" where
  "find_subslice needle [] = (if needle = [] then Some 0 else None)"
| "find_subslice needle (c # s) =
     (if take (length needle) (c # s) = needle then Some 0
      else map_option Suc (find_subslice needle s))"

text \<open>\<open>Iterator::find_map\<close>.\<close>

fun find_map :: "('a \<Rightarrow> 'b option) \<Rightarrow> 'a list \<Rightarrow> 'b option" where
  "find_map f [] = None"
| "find_map f (x # xs) = (case f x of Some y \<Rightarrow> Some y | None \<Rightarrow> find_map f xs)"

definition blank_line :: string where
  "blank_line = [CHR 0x0D, CHR 0x0A, CHR 0x0D, CHR 0x0A]"

definition parse_header :: "string \<Rightarrow> (nat \<times> nat) option" where
  "parse_header buffer =
     (case find_subslice blank_line buffer of
        None \<Rightarrow> None
      | Some i \<Rightarrow>
          let header_end = i + 4; header = take header_end buffer
          in if \<not> utf8_valid header then None
             else (case find_map (strip_prefix ''Content-Length:'') (input_lines header) of
                 None \<Rightarrow> None
               | Some v \<Rightarrow> map_option (Pair header_end) (parse_unsigned u64_max (trim v))))"

definition is_exit_candidate :: "string \<Rightarrow> bool" where
  "is_exit_candidate body \<longleftrightarrow> find_subslice ''exit'' body \<noteq> None"

definition is_exit_notification :: "(string \<Rightarrow> json option) \<Rightarrow> string \<Rightarrow> bool" where
  "is_exit_notification from_slice body \<longleftrightarrow> is_exit_candidate body
     \<and> (case from_slice body of None \<Rightarrow> False
        | Some v \<Rightarrow> Option.bind (jget v ''method'') as_str = Some ''exit'' \<and> jget v ''id'' = None)"

section \<open>Scanning\<close>

text \<open>
  The loop of \<open>scan\<close>: it returns to wait with the bytes it keeps, it comes to an \<open>exit\<close>, or it
  panics. The sum of the two lengths wraps at 64 bits, and slicing a frame that ends before its
  body starts panics (with overflow checks the sum itself does).
\<close>

datatype scan_end = Waiting string | ExitSeen | ScanPanicked

function scan :: "(string \<Rightarrow> json option) \<Rightarrow> string \<Rightarrow> scan_end" where
  "scan from_slice buffer =
     (case parse_header buffer of
        None \<Rightarrow> Waiting buffer
      | Some (header_len, body_len) \<Rightarrow>
          let frame_len = (header_len + body_len) mod 2 ^ 64
          in if length buffer < frame_len then Waiting buffer
             else if frame_len < header_len then ScanPanicked
             else if is_exit_notification from_slice (drop header_len (take frame_len buffer))
             then ExitSeen
             else scan from_slice (drop frame_len buffer))"
  by pat_completeness auto
termination
proof (relation "measure (\<lambda>(from_slice, buffer). length buffer)", goal_cases)
  case (2 from_slice buffer len header_len body_len frame_len)
  then have "4 \<le> header_len"
    by (auto simp: parse_header_def Let_def split: option.splits if_splits)
  with 2 show ?case by auto
qed simp

declare scan.simps [simp del]

section \<open>The watcher\<close>

record exit_watcher =
  ew_buffer :: string

definition new_watcher :: exit_watcher where
  "new_watcher = \<lparr>ew_buffer = []\<rparr>"

datatype watched = Forwarded exit_watcher | Exited nat | WatcherPanicked

definition exit_now :: "bool \<Rightarrow> watched" where
  "exit_now shutdown_seen = Exited (if shutdown_seen then 0 else 1)"

text \<open>A read that \<open>poll_read\<close> completes: its bytes reach the service only if it returns.\<close>

definition poll_read :: "(string \<Rightarrow> json option) \<Rightarrow> bool \<Rightarrow> string \<Rightarrow> exit_watcher \<Rightarrow> watched" where
  "poll_read from_slice shutdown_seen chunk w =
     (if chunk = [] then Forwarded w
      else (case scan from_slice (ew_buffer w @ chunk) of
          Waiting buffer \<Rightarrow> Forwarded (w\<lparr>ew_buffer := buffer\<rparr>)
        | ExitSeen \<Rightarrow> exit_now shutdown_seen
        | ScanPanicked \<Rightarrow> WatcherPanicked))"

text \<open>The reads of a session, each with the flag: what reached the service, and the end.\<close>

fun watch :: "(string \<Rightarrow> json option) \<Rightarrow> (string \<times> bool) list \<Rightarrow> exit_watcher \<Rightarrow> string \<times> watched" where
  "watch from_slice [] w = ([], Forwarded w)"
| "watch from_slice ((chunk, shutdown_seen) # reads) w =
     (case poll_read from_slice shutdown_seen chunk w of
        Forwarded w' \<Rightarrow> (case watch from_slice reads w' of (out, r) \<Rightarrow> (chunk @ out, r))
      | stopped \<Rightarrow> ([], stopped))"

section \<open>Reading on\<close>

lemma find_subslice_Some:
  "find_subslice needle s = Some i \<Longrightarrow> i + length needle \<le> length s"
proof (induction s arbitrary: i)
  case (Cons c s)
  show ?case
  proof (cases "take (length needle) (c # s) = needle")
    case True
    then have "length needle \<le> length (c # s)" by (metis length_take min.cobounded1)
    with Cons.prems True show ?thesis by simp
  next
    case False
    with Cons.prems obtain j where "find_subslice needle s = Some j" "i = Suc j" by auto
    with Cons.IH [of j] show ?thesis by simp
  qed
qed (simp split: if_splits)

lemma take_front: "length needle \<le> length s \<Longrightarrow> take (length needle) (s @ t) = take (length needle) s"
  by simp

lemma find_subslice_append:
  "find_subslice needle s = Some i \<Longrightarrow> find_subslice needle (s @ t) = Some i"
proof (induction s arbitrary: i)
  case Nil
  then show ?case by (cases t) (simp_all split: if_splits)
next
  case (Cons c s)
  have "length needle \<le> length (c # s)" using find_subslice_Some [OF Cons.prems] by linarith
  note front = take_front [OF this, of t, unfolded append_Cons]
  show ?case
  proof (cases "take (length needle) (c # s) = needle")
    case True
    with Cons.prems front show ?thesis by simp
  next
    case False
    with Cons.prems obtain j where j: "find_subslice needle s = Some j" "i = Suc j" by auto
    with Cons.IH [OF j(1)] False front show ?thesis by simp
  qed
qed

lemma find_subslice_at:
  assumes "x \<notin> set s"
  shows "find_subslice (x # xs) (s @ x # xs @ t) = Some (length s)"
  using assms by (induction s) auto

lemma parse_header_append:
  assumes "parse_header s = Some (h, b)"
  shows "parse_header (s @ t) = Some (h, b)" "h \<le> length s" "4 \<le> h" "b \<le> u64_max"
proof -
  from assms obtain i where i: "find_subslice blank_line s = Some i"
    by (auto simp: parse_header_def split: option.splits)
  then have len: "i + 4 \<le> length s"
    using find_subslice_Some [OF i] by (simp add: blank_line_def)
  with assms i find_subslice_append [OF i, of t] show "parse_header (s @ t) = Some (h, b)"
    by (simp add: parse_header_def)
  from assms i len show "h \<le> length s" "4 \<le> h" "b \<le> u64_max"
    by (auto simp: parse_header_def Let_def dest: parse_unsigned_bound split: if_splits option.splits)
qed

text \<open>Scanning more bytes goes on from where it waited, so the cut into reads is of no account.\<close>

lemma scan_append:
  "scan fs (s @ t) = (case scan fs s of Waiting r \<Rightarrow> scan fs (r @ t) | e \<Rightarrow> e)"
proof (induction fs s rule: scan.induct)
  case (1 fs s)
  show ?case
  proof (cases "parse_header s")
    case None
    then show ?thesis by (simp add: scan.simps [of fs s])
  next
    case (Some hb)
    then obtain h b where hb: "parse_header s = Some (h, b)" by (cases hb) auto
    note whole = parse_header_append [OF hb]
    define n where "n = (h + b) mod 2 ^ 64"
    consider "length s < n" | "n \<le> length s" "n < h" | "n \<le> length s" "h \<le> n" by linarith
    then show ?thesis
    proof cases
      case 1
      then show ?thesis by (simp add: scan.simps [of fs s] hb Let_def n_def)
    next
      case 2
      then show ?thesis using whole(1) [of t]
        by (simp add: scan.simps [of fs s] scan.simps [of fs "s @ t"] hb Let_def n_def)
    next
      case 3
      show ?thesis
      proof (cases "is_exit_notification fs (drop h (take n s))")
        case True
        with 3 whole(1) [of t] show ?thesis
          by (simp add: scan.simps [of fs s] scan.simps [of fs "s @ t"] hb Let_def n_def)
      next
        case False
        have "scan fs (drop n s @ t) = (case scan fs (drop n s) of Waiting r \<Rightarrow> scan fs (r @ t) | e \<Rightarrow> e)"
          by (rule "1.IH" [OF hb refl]) (use 3 False in \<open>simp_all add: n_def\<close>)
        with 3 False whole(1) [of t] show ?thesis
          by (simp add: scan.simps [of fs s] scan.simps [of fs "s @ t"] hb Let_def n_def)
      qed
    qed
  qed
qed

section \<open>Framed streams\<close>

definition frame :: "string \<Rightarrow> string" where
  "frame body = ''Content-Length: '' @ show_nat (length body) @ blank_line @ body"

definition frames :: "string list \<Rightarrow> string" where
  "frames bodies = concat (map frame bodies)"

lemma frames_simps [simp]: "frames [] = []" "frames (b # bs) = frame b @ frames bs"
  "frames (bs @ cs) = frames bs @ frames cs"
  by (simp_all add: frames_def)

definition fits :: "string \<Rightarrow> bool" where
  "fits body \<longleftrightarrow> length (frame body) \<le> u64_max"

definition header_of :: "string \<Rightarrow> string" where
  "header_of body = ''Content-Length: '' @ show_nat (length body)"

lemma frame_header: "frame body = header_of body @ blank_line @ body"
  by (simp add: frame_def header_of_def)

lemma header_clean: "CHR 0x0D \<notin> set (header_of body)" "CHR 0x0A \<notin> set (header_of body)"
  "ascii (header_of body)" "header_of body \<noteq> []"
proof -
  have "CHR 0x0D \<notin> set (show_nat (length body))" "CHR 0x0A \<notin> set (show_nat (length body))"
    using show_nat_digits [of "length body"] by (auto simp: list_all_iff is_digit_def)
  then show "CHR 0x0D \<notin> set (header_of body)" "CHR 0x0A \<notin> set (header_of body)"
    "ascii (header_of body)" "header_of body \<noteq> []"
    using show_nat_ascii [of "length body"] by (simp_all add: header_of_def ascii_def)
qed

lemma parse_frame:
  assumes "fits body"
  shows "parse_header (frame body @ t) = Some (length (header_of body) + 4, length body)"
proof -
  have "find_subslice blank_line (frame body @ t) = Some (length (header_of body))"
    using find_subslice_at [OF header_clean(1), of "[CHR 0x0A, CHR 0x0D, CHR 0x0A]" body "body @ t"]
    by (simp add: frame_header blank_line_def)
  moreover have "take (length (header_of body) + 4) (frame body @ t) = header_of body @ blank_line"
    by (simp add: frame_header blank_line_def)
  moreover have "utf8_valid (header_of body @ blank_line)"
    using header_clean(3) [of body] by (simp add: blank_line_def ascii_def)
  moreover have "input_lines (header_of body @ blank_line) = [header_of body, []]"
  proof -
    have "CHR 0x0A \<notin> set (header_of body @ [CHR 0x0D])" using header_clean(2) by simp
    from input_lines_Cons [OF this, of "[CHR 0x0D, CHR 0x0A]"]
      input_lines_Cons [of "[CHR 0x0D]" "[]"] show ?thesis
      by (simp add: blank_line_def chomp_def)
  qed
  moreover have "strip_prefix ''Content-Length:'' (header_of body) = Some (CHR '' '' # show_nat (length body))"
    by (simp add: header_of_def)
  moreover have "length body \<le> u64_max"
    using assms by (simp add: fits_def frame_header)
  ultimately show ?thesis
    by (simp add: parse_header_def trim_digits show_nat_digits)
qed

lemma scan_frame:
  assumes "fits body"
  shows "scan fs (frame body @ t) = (if is_exit_notification fs body then ExitSeen else scan fs t)"
proof -
  have "length (header_of body) + 4 + length body = length (frame body)"
    by (simp add: frame_header blank_line_def)
  moreover from this assms have "(length (header_of body) + 4 + length body) mod 2 ^ 64 = length (frame body)"
    by (simp add: fits_def u64_max_def)
  moreover have "drop (length (header_of body) + 4) (frame body) = body"
    by (simp add: frame_header blank_line_def)
  ultimately show ?thesis
    using parse_frame [OF assms, of t]
    by (subst scan.simps) (simp add: Let_def)
qed

lemma scan_part:
  assumes "fits body" "p @ q = frame body" "q \<noteq> []"
  shows "scan fs p = Waiting p"
proof (cases "parse_header p")
  case (Some hb)
  then obtain h b where hb: "parse_header p = Some (h, b)" by (cases hb) auto
  from parse_header_append(1) [OF hb, of q] assms(2) parse_frame [OF assms(1), of "[]"]
  have "h + b = length (frame body)" by (simp add: frame_header blank_line_def)
  moreover have "length p < length (frame body)"
    using assms(2,3) by (metis length_append length_greater_0_conv less_add_same_cancel1)
  moreover have "length (frame body) < 2 ^ 64" using assms(1) by (simp add: fits_def u64_max_def)
  ultimately show ?thesis using hb by (subst scan.simps) (simp add: Let_def)
qed (subst scan.simps, simp)

lemma scan_frames:
  assumes "list_all fits bodies" "list_all (\<lambda>b. \<not> is_exit_notification fs b) bodies"
  shows "scan fs (frames bodies @ t) = scan fs t"
  using assms by (induction bodies) (simp_all add: scan_frame)

lemma append_past:
  assumes "x @ y = a @ b" "\<not> length x < length a"
  shows "\<exists>z. x = a @ z \<and> z @ y = b"
proof -
  from assms(1) obtain us where "x = a @ us \<and> us @ y = b \<or> x @ us = a \<and> y = us @ b"
    unfolding append_eq_append_conv2 by blast
  moreover have "us = []" if "x @ us = a" using that assms(2) by auto
  ultimately show ?thesis by auto
qed

lemma append_short:
  assumes "x @ y = a @ b" "length x < length a"
  shows "\<exists>z. x @ z = a \<and> z \<noteq> []"
proof -
  from assms(1) obtain us where "x = a @ us \<and> us @ y = b \<or> x @ us = a \<and> y = us @ b"
    unfolding append_eq_append_conv2 by blast
  with assms(2) show ?thesis by (intro exI [of _ us]) auto
qed

lemma scan_before:
  assumes "list_all fits bodies" "list_all (\<lambda>b. \<not> is_exit_notification fs b) (butlast bodies)"
    "p @ q = frames bodies" "q \<noteq> []"
  shows "\<exists>r. scan fs p = Waiting r"
  using assms
proof (induction bodies arbitrary: p)
  case (Cons b bs)
  show ?case
  proof (cases "length p < length (frame b)")
    case True
    from Cons.prems(3) have "p @ q = frame b @ frames bs" by simp
    from append_short [OF this True] obtain us where "p @ us = frame b" "us \<noteq> []" by blast
    then show ?thesis using scan_part Cons.prems(1) by auto
  next
    case False
    from append_past [OF _ False] Cons.prems(3) obtain p' where
      p: "p = frame b @ p'" "p' @ q = frames bs" by auto
    with Cons.prems(4) have "bs \<noteq> []" by auto
    with Cons.prems(1,2) Cons.IH [of p'] p Cons.prems(4) show ?thesis
      by (auto simp: scan_frame)
  qed
qed simp

section \<open>The end of a session\<close>

text \<open>Where the first \<open>exit\<close> of a stream ends.\<close>

definition quiet :: "(string \<Rightarrow> json option) \<Rightarrow> string list \<Rightarrow> string list" where
  "quiet fs bodies = takeWhile (\<lambda>b. \<not> is_exit_notification fs b) bodies"

definition exit_end :: "(string \<Rightarrow> json option) \<Rightarrow> string list \<Rightarrow> nat option" where
  "exit_end fs bodies =
     (if quiet fs bodies = bodies then None
      else Some (length (frames (take (Suc (length (quiet fs bodies))) bodies))))"

definition received :: "(string \<times> bool) list \<Rightarrow> string" where
  "received reads = concat (map fst reads)"

lemma received_simps [simp]: "received [] = []" "received ((chunk, seen) # reads) = chunk @ received reads"
  by (simp_all add: received_def)

lemma poll_waits:
  assumes "scan fs got = Waiting (ew_buffer w)" "scan fs (got @ chunk) = Waiting r"
  shows "poll_read fs seen chunk w = Forwarded (w\<lparr>ew_buffer := r\<rparr>)"
  using assms scan_append [of fs got chunk] by (auto simp: poll_read_def)

lemma watch_waits:
  assumes "scan fs got = Waiting (ew_buffer w)"
    and "\<And>p q. p @ q = got @ received reads \<Longrightarrow> \<exists>r. scan fs p = Waiting r"
  shows "\<exists>w'. watch fs reads w = (received reads, Forwarded w')"
  using assms
proof (induction reads arbitrary: got w)
  case (Cons entry reads)
  obtain chunk seen where entry: "entry = (chunk, seen)" by fastforce
  obtain r where r: "scan fs (got @ chunk) = Waiting r"
    using Cons.prems(2) [of "got @ chunk" "received reads"] entry by auto
  obtain w' where "watch fs reads (w\<lparr>ew_buffer := r\<rparr>) = (received reads, Forwarded w')"
    using Cons.IH [of "got @ chunk" "w\<lparr>ew_buffer := r\<rparr>"] r Cons.prems(2) entry by auto
  with poll_waits [OF Cons.prems(1) r] entry show ?case by simp
qed simp

lemma watch_exits:
  assumes "scan fs got = Waiting (ew_buffer w)" "got @ received reads = frames (pre @ [e]) @ onward"
    and "list_all fits (pre @ [e])" "list_all (\<lambda>b. \<not> is_exit_notification fs b) pre"
      "is_exit_notification fs e"
  shows "\<exists>r1 chunk seen r2. reads = r1 @ (chunk, seen) # r2
    \<and> length (got @ received r1) < length (frames (pre @ [e]))
    \<and> length (frames (pre @ [e])) \<le> length (got @ received r1 @ chunk)
    \<and> watch fs reads w = (received r1, exit_now seen)"
  using assms(1,2)
proof (induction reads arbitrary: got w)
  case Nil
  then have "scan fs got = ExitSeen" using assms(3-5) scan_frames scan_frame by auto
  with Nil show ?case by simp
next
  case (Cons entry reads)
  let ?L = "length (frames (pre @ [e]))"
  obtain chunk seen where entry: "entry = (chunk, seen)" by fastforce
  have stream: "(got @ chunk) @ received reads = frames (pre @ [e]) @ onward"
    using Cons.prems(2) entry by simp
  show ?case
  proof (cases "length (got @ chunk) < ?L")
    case True
    from append_short [OF stream this] obtain us where
      "(got @ chunk) @ us = frames (pre @ [e])" "us \<noteq> []" by blast
    then obtain r where r: "scan fs (got @ chunk) = Waiting r"
      using scan_before [of "pre @ [e]" fs "got @ chunk" us] assms(3,4) by auto
    from Cons.IH [of "got @ chunk" "w\<lparr>ew_buffer := r\<rparr>"] r stream obtain r1 chunk' seen' r2 where
      ih: "reads = r1 @ (chunk', seen') # r2" "length ((got @ chunk) @ received r1) < ?L"
        "?L \<le> length ((got @ chunk) @ received r1 @ chunk')"
        "watch fs reads (w\<lparr>ew_buffer := r\<rparr>) = (received r1, exit_now seen')"
      by auto
    with poll_waits [OF Cons.prems(1) r] entry show ?thesis
      by (intro exI [of _ "(chunk, seen) # r1"] exI [of _ chunk'] exI [of _ seen'] exI [of _ r2]) auto
  next
    case False
    from append_past [OF stream this] obtain rest' where
      onward: "got @ chunk = frames (pre @ [e]) @ rest'" by blast
    have "scan fs (got @ chunk) = ExitSeen"
      unfolding onward using assms(3-5) by (simp add: scan_frames scan_frame)
    moreover from this Cons.prems(1) have "chunk \<noteq> []" by auto
    ultimately have "poll_read fs seen chunk w = exit_now seen"
      using Cons.prems(1) scan_append [of fs got chunk] by (simp add: poll_read_def)
    moreover have "length got < ?L"
    proof (rule ccontr)
      assume "\<not> length got < ?L"
      from append_past [OF Cons.prems(2) this] obtain us where "got = frames (pre @ [e]) @ us" by blast
      then have "scan fs got = ExitSeen" using assms(3-5) by (simp add: scan_frames scan_frame)
      with Cons.prems(1) show False by simp
    qed
    ultimately show ?thesis
      using entry False
      by (intro exI [of _ "[]"] exI [of _ chunk] exI [of _ seen] exI [of _ reads])
        (simp add: exit_now_def)
  qed
qed

lemma quiet_all: "quiet fs bodies = bodies \<Longrightarrow> list_all (\<lambda>b. \<not> is_exit_notification fs b) bodies"
  by (simp add: quiet_def takeWhile_eq_all_conv list_all_iff)

lemma first_exit:
  assumes "quiet fs bodies \<noteq> bodies"
  obtains e rest where "bodies = quiet fs bodies @ e # rest" "is_exit_notification fs e"
    "list_all (\<lambda>b. \<not> is_exit_notification fs b) (quiet fs bodies)"
    "take (Suc (length (quiet fs bodies))) bodies = quiet fs bodies @ [e]"
proof -
  let ?P = "\<lambda>b. \<not> is_exit_notification fs b"
  have "dropWhile ?P bodies \<noteq> []"
    using assms by (metis append.right_neutral quiet_def takeWhile_dropWhile_id)
  then obtain e rest where d: "dropWhile ?P bodies = e # rest" by (cases "dropWhile ?P bodies") auto
  then have "is_exit_notification fs e" by (metis hd_dropWhile list.sel(1) list.discI)
  moreover have bodies: "bodies = quiet fs bodies @ e # rest"
    unfolding quiet_def using takeWhile_dropWhile_id [of ?P bodies] d by simp
  moreover have "list_all ?P (quiet fs bodies)"
    unfolding quiet_def list_all_iff by (auto dest: set_takeWhileD)
  moreover have "take (Suc (length (quiet fs bodies))) bodies = quiet fs bodies @ [e]"
    by (subst bodies) simp
  ultimately show thesis using that by blast
qed

text \<open>
  C10. The exit is found however the reads cut the stream: while the frames a client sent contain
  no complete exit notification, every byte is handed to the service; the read that completes the
  first one ends the process, with code 0 just when the shutdown had been handled by then, and
  neither that read nor a later one reaches the service.
\<close>

theorem exit_ends_the_process:
  assumes "list_all fits bodies" "received reads @ unread = frames bodies"
  shows "((\<forall>n. exit_end fs bodies = Some n \<longrightarrow> length (received reads) < n)
      \<longrightarrow> (\<exists>w. watch fs reads new_watcher = (received reads, Forwarded w)))
    \<and> (\<forall>n. exit_end fs bodies = Some n \<longrightarrow> n \<le> length (received reads)
      \<longrightarrow> (\<exists>r1 chunk shutdown_seen r2. reads = r1 @ (chunk, shutdown_seen) # r2
           \<and> length (received r1) < n \<and> n \<le> length (received r1 @ chunk)
           \<and> watch fs reads new_watcher
             = (received r1, Exited (if shutdown_seen then 0 else 1))))"
proof (cases "quiet fs bodies = bodies")
  case True
  have "\<exists>r. scan fs p = Waiting r" if "p @ q = received reads" for p q
  proof (cases "q @ unread = []")
    case False
    from quiet_all [OF True] have "list_all (\<lambda>b. \<not> is_exit_notification fs b) (butlast bodies)"
      by (auto simp: list_all_iff dest: in_set_butlastD)
    moreover have "p @ (q @ unread) = frames bodies" using that assms(2) by (metis append.assoc)
    ultimately show ?thesis using scan_before [OF assms(1)] False by blast
  next
    case whole: True
    with that assms(2) have "p = frames bodies" by simp
    with scan_frames [OF assms(1) quiet_all [OF True], of "[]"] show ?thesis
      by (simp add: scan.simps [of fs "[]"] parse_header_def blank_line_def)
  qed
  then have "\<exists>w. watch fs reads new_watcher = (received reads, Forwarded w)"
    using watch_waits [of fs "[]" new_watcher reads]
    by (simp add: new_watcher_def scan.simps [of fs "[]"] parse_header_def blank_line_def)
  with True show ?thesis by (simp add: exit_end_def)
next
  case False
  then obtain e rest where e: "bodies = quiet fs bodies @ e # rest" "is_exit_notification fs e"
    "list_all (\<lambda>b. \<not> is_exit_notification fs b) (quiet fs bodies)"
    "take (Suc (length (quiet fs bodies))) bodies = quiet fs bodies @ [e]"
    by (rule first_exit)
  let ?first = "quiet fs bodies @ [e]"
  have n: "exit_end fs bodies = Some (length (frames ?first))" using False e(4) by (simp add: exit_end_def)
  have "list_all fits (quiet fs bodies @ e # rest)"
    using assms(1) by (subst e(1) [symmetric])
  then have fits: "list_all fits ?first" by simp
  have stream: "received reads @ unread = frames ?first @ frames rest"
    using assms(2) e(1) by (metis append.assoc append_Cons append_Nil frames_simps(3))
  have empty: "scan fs [] = Waiting (ew_buffer new_watcher)"
    by (simp add: new_watcher_def scan.simps [of fs "[]"] parse_header_def blank_line_def)
  show ?thesis
  proof (cases "length (received reads) < length (frames ?first)")
    case True
    from append_short [OF stream this] obtain us where us: "received reads @ us = frames ?first" "us \<noteq> []"
      by blast
    have "\<exists>r. scan fs p = Waiting r" if "p @ q = [] @ received reads" for p q
      using scan_before [OF fits, of fs p "q @ us"] e(3) us that by (metis append.assoc append_Nil append_is_Nil_conv butlast_snoc)
    from watch_waits [OF empty this] n True show ?thesis by auto
  next
    case past: False
    from append_past [OF stream this] obtain onward where "[] @ received reads = frames ?first @ onward"
      by auto
    from watch_exits [OF empty this fits e(3,2)] n past show ?thesis
      by (fastforce simp: exit_now_def)
  qed
qed

definition demo_slice :: "string \<Rightarrow> json option" where
  "demo_slice body = (if body = ''exit'' then Some (JObj [(''method'', JStr ''exit'')]) else None)"

theorem exit_ends_the_process_witness:
  "watch demo_slice [(''Content-Length: 1'' @ blank_line, False), (''xCont'', True),
     (''ent-Length: 4'' @ blank_line @ ''ex'', True), (''it'', True), (''Content-'', True)] new_watcher
   = (''Content-Length: 1'' @ blank_line @ ''xContent-Length: 4'' @ blank_line @ ''ex'', Exited 0)"
proof -
  let ?reads = "[(''Content-Length: 1'' @ blank_line, False), (''xCont'', True),
     (''ent-Length: 4'' @ blank_line @ ''ex'', True), (''it'', True), (''Content-'', True)]"
  have show_small: "show_nat (Suc 0) = ''1''" "show_nat (Suc (Suc (Suc (Suc 0)))) = ''4''"
    "show_nat (Suc (Suc 0)) = ''2''"
    by code_simp+
  have fit: "list_all fits [''x'', ''exit'', ''ok'']"
    by (simp add: fits_def frame_def show_small blank_line_def u64_max_def)
  have stream: "received ?reads @ ''Length: 2'' @ blank_line @ ''ok'' = frames [''x'', ''exit'', ''ok'']"
    by (simp add: frame_def show_small blank_line_def)
  have "quiet demo_slice [''x'', ''exit'', ''ok''] = [''x'']"
    by (simp add: quiet_def is_exit_notification_def is_exit_candidate_def demo_slice_def)
  then have n: "exit_end demo_slice [''x'', ''exit'', ''ok''] = Some 47"
    by (simp add: exit_end_def frame_def show_small blank_line_def)
  have enough: "47 \<le> length (received ?reads)" by (simp add: blank_line_def)
  obtain r1 chunk seen r2 where r: "?reads = r1 @ (chunk, seen) # r2" "length (received r1) < 47"
    "47 \<le> length (received r1 @ chunk)"
    "watch demo_slice ?reads new_watcher = (received r1, Exited (if seen then 0 else 1))"
    using conjunct2 [OF exit_ends_the_process [OF fit stream, of demo_slice]] n enough by blast
  have "r1 = take 3 ?reads \<and> seen"
    using r(1-3) by (auto simp: Cons_eq_append_conv blank_line_def)
  with r(4) show ?thesis by simp
qed

text \<open>
  A header that names no length blinds the watcher: once a complete header without a
  readable \<open>Content-Length\<close> stands at the front of its buffer, no later read ends the process,
  whatever it brings, an exit notification included, and every byte is kept.
\<close>

theorem bad_header_blinds_the_watcher:
  assumes "find_subslice blank_line (ew_buffer w) \<noteq> None" "parse_header (ew_buffer w) = None"
  shows "watch fs reads w = (received reads, Forwarded (w\<lparr>ew_buffer := ew_buffer w @ received reads\<rparr>))"
  using assms
proof (induction reads arbitrary: w)
  case (Cons entry reads)
  obtain chunk seen where entry: "entry = (chunk, seen)" by fastforce
  obtain i where i: "find_subslice blank_line (ew_buffer w) = Some i" using Cons.prems(1) by blast
  then have "i + 4 \<le> length (ew_buffer w)"
    using find_subslice_Some [OF i] by (simp add: blank_line_def)
  then have none: "parse_header (ew_buffer w @ chunk) = None"
    using Cons.prems(2) i find_subslice_append [OF i, of chunk] by (simp add: parse_header_def)
  then have "scan fs (ew_buffer w @ chunk) = Waiting (ew_buffer w @ chunk)"
    by (subst scan.simps) simp
  with Cons.IH [of "w\<lparr>ew_buffer := ew_buffer w @ chunk\<rparr>"] Cons.prems(1) none i
    find_subslice_append [OF i, of chunk] entry
  show ?case by (cases "chunk = []") (auto simp: poll_read_def)
qed simp

theorem bad_header_blinds_the_watcher_witness:
  "watch demo_slice [(frame ''exit'', True)] \<lparr>ew_buffer = ''content-length: 0'' @ blank_line\<rparr>
   = (frame ''exit'', Forwarded \<lparr>ew_buffer = ''content-length: 0'' @ blank_line @ frame ''exit''\<rparr>)"
proof -
  have lines: "input_lines (''content-length: 0'' @ blank_line) = [''content-length: 0'', []]"
    using input_lines_Cons [of "''content-length: 0'' @ [CHR 0x0D]" "[CHR 0x0D, CHR 0x0A]"]
      input_lines_Cons [of "[CHR 0x0D]" "[]"] by (simp add: blank_line_def chomp_def)
  have found: "find_subslice blank_line (''content-length: 0'' @ blank_line) = Some 17"
    by (simp add: blank_line_def)
  have "parse_header (''content-length: 0'' @ blank_line) = None"
    using lines by (simp add: parse_header_def found blank_line_def)
  with found bad_header_blinds_the_watcher [of "\<lparr>ew_buffer = ''content-length: 0'' @ blank_line\<rparr>"
      demo_slice "[(frame ''exit'', True)]"]
  show ?thesis by simp
qed

text \<open>A length that overflows with its header panics the transport in the read that brings it.\<close>

theorem huge_length_panics:
  assumes "parse_header buffer = Some (h, b)" "2 ^ 64 \<le> h + b" "buffer \<noteq> []"
  shows "poll_read fs shutdown_seen buffer new_watcher = WatcherPanicked"
proof -
  note parsed = parse_header_append [OF assms(1)]
  have "(h + b) mod 2 ^ 64 < h"
  proof (cases "h < 2 ^ 64")
    case True
    then have "(h + b) mod 2 ^ 64 = h + b - 2 ^ 64"
      using assms(2) parsed(4) by (simp add: u64_max_def mod_if)
    with True assms(2) parsed(4) show ?thesis by (simp add: u64_max_def)
  next
    case False
    have "(h + b) mod 2 ^ 64 < 2 ^ 64" by simp
    with False show ?thesis by linarith
  qed
  then show ?thesis
    using assms(1,3) parsed(2) by (simp add: poll_read_def new_watcher_def scan.simps [of fs buffer] Let_def)
qed

end
