(* ===== verification/Mcp_Confine.thy ===== *)
theory Mcp_Confine
  imports Lsp_Watch
begin

text \<open>
  The confinement of the MCP tools in \<open>crates/marrow-lsp-core/src/mcp.rs\<close>: which files a session
  that is confined to a directory may touch. \<open>std::fs::canonicalize\<close> at one moment is the
  argument \<open>canon\<close>, \<open>None\<close> when the path does not resolve.
\<close>

section \<open>Paths\<close>

text \<open>\<open>PathBuf::from\<close> and \<open>components\<close>: empty components and interior dots are dropped.\<close>

fun split_slash :: "string \<Rightarrow> string list" where
  "split_slash [] = [[]]"
| "split_slash (c # s) =
     (if c = CHR ''/'' then [] # split_slash s
      else (c # hd (split_slash s)) # tl (split_slash s))"

definition path_from :: "string \<Rightarrow> path" where
  "path_from s =
     (let names = split_slash s; rooted = (s \<noteq> [] \<and> hd s = CHR ''/'')
      in (if rooted then [''/''] else if hd names = ''.'' then [''.''] else [])
         @ filter (\<lambda>n. n \<noteq> [] \<and> n \<noteq> ''.'') names)"

text \<open>\<open>PathBuf::pop\<close> and \<open>PathBuf::push\<close> of a plain name.\<close>

definition path_pop :: "path \<Rightarrow> path" where
  "path_pop p = (case path_parent p of Some d \<Rightarrow> d | None \<Rightarrow> p)"

definition reattach :: "string \<Rightarrow> path \<Rightarrow> path" where
  "reattach name resolved =
     (if name = ''..'' then path_pop resolved
      else if name \<noteq> ''.'' then path_join resolved [name] else resolved)"

section \<open>The check\<close>

function existing_prefix :: "(path \<Rightarrow> path option) \<Rightarrow> path \<Rightarrow> string list \<Rightarrow> path option" where
  "existing_prefix canon probe trailing =
     (case canon probe of
        Some resolved \<Rightarrow> Some (fold reattach (rev trailing) resolved)
      | None \<Rightarrow>
          (case path_file_name probe of None \<Rightarrow> None
           | Some name \<Rightarrow>
               (case path_parent probe of None \<Rightarrow> None
                | Some d \<Rightarrow> existing_prefix canon d (trailing @ [name]))))"
  by pat_completeness auto
termination
  by (relation "measure (\<lambda>(canon, probe, trailing). length probe)") (auto dest: path_parent_Some)

declare existing_prefix.simps [simp del]

definition canonical_existing_prefix :: "(path \<Rightarrow> path option) \<Rightarrow> path \<Rightarrow> path option" where
  "canonical_existing_prefix canon p = existing_prefix canon p []"

fun is_within :: "path \<Rightarrow> path \<Rightarrow> bool" where
  "is_within [] target = True"
| "is_within (r # root) target =
     (case target of t # rest \<Rightarrow> if t = r then is_within root rest else False | [] \<Rightarrow> False)"

definition path_within :: "(path \<Rightarrow> path option) \<Rightarrow> path \<Rightarrow> path \<Rightarrow> bool" where
  "path_within canon root target =
     (case canonical_existing_prefix canon target of
        Some resolved \<Rightarrow> is_within root resolved
      | None \<Rightarrow> False)"

datatype access_error = OutOfRoot | LoadError string

definition confinement_check ::
  "(path \<Rightarrow> path option) \<Rightarrow> ('c, 'cat) fs_world \<Rightarrow> path option \<Rightarrow> path \<Rightarrow> access_error + unit"
  where
  "confinement_check canon w allowed file =
     (case allowed of None \<Rightarrow> Inr ()
      | Some root \<Rightarrow>
          (case canonical_existing_prefix canon root of None \<Rightarrow> Inl OutOfRoot
           | Some root \<Rightarrow>
               if \<not> path_within canon root file then Inl OutOfRoot
               else (case project_root_of w file of
                   Some project_root \<Rightarrow>
                     if \<not> path_within canon root project_root then Inl OutOfRoot else Inr ()
                 | None \<Rightarrow> Inr ())))"

section \<open>Facts\<close>

lemma is_within_prefix: "is_within root target \<longleftrightarrow> prefix root target"
  by (induction root target rule: is_within.induct) (auto split: list.splits)

text \<open>Names taken off a path are plain, so nothing is ever folded: they are put back as they were.\<close>

definition plain :: "string \<Rightarrow> bool" where
  "plain n \<longleftrightarrow> n \<notin> {''/'', ''.'', ''..''}"

lemma path_file_name_Some:
  assumes "path_file_name p = Some n"
  shows "plain n \<and> p = butlast p @ [n] \<and> path_parent p = Some (butlast p)"
proof -
  have p: "p \<noteq> []" "last p = n" "plain n"
    using assms by (auto simp: path_file_name_def plain_def split: if_splits)
  then have "p = butlast p @ [n]" by (metis append_butlast_last_id)
  moreover have "p \<noteq> [''/'']" using p by (auto simp: plain_def)
  ultimately show ?thesis using p by (simp add: path_parent_def)
qed

lemma reattach_plain: "list_all plain ns \<Longrightarrow> fold reattach ns d = d @ ns"
  by (induction ns arbitrary: d) (auto simp: reattach_def plain_def path_join_def)

lemma existing_prefix_Some:
  assumes "existing_prefix canon probe trailing = Some r" "list_all plain trailing"
  shows "\<exists>d ns c. probe = d @ ns \<and> list_all plain ns \<and> canon d = Some c
    \<and> r = c @ ns @ rev trailing \<and> (\<forall>m < length ns. canon (d @ take (Suc m) ns) = None)"
  using assms
proof (induction canon probe trailing arbitrary: r rule: existing_prefix.induct)
  case (1 canon probe trailing)
  show ?case
  proof (cases "canon probe")
    case (Some c)
    with "1.prems" have "r = c @ rev trailing"
      by (subst (asm) existing_prefix.simps) (simp add: reattach_plain)
    with Some show ?thesis by (intro exI [of _ probe] exI [of _ "[]"] exI [of _ c]) simp
  next
    case None
    then obtain n where n: "path_file_name probe = Some n"
      using "1.prems"(1) by (subst (asm) existing_prefix.simps) (auto split: option.splits)
    have pn: "plain n" "probe = butlast probe @ [n]" "path_parent probe = Some (butlast probe)"
      using path_file_name_Some [OF n] by blast+
    have "existing_prefix canon (butlast probe) (trailing @ [n]) = Some r"
      using "1.prems"(1) None n pn(3) by (subst (asm) existing_prefix.simps) simp
    from "1.IH" [OF None n pn(3) this] "1.prems"(2) pn(1) obtain d ns c where
      h: "butlast probe = d @ ns" "list_all plain ns" "canon d = Some c"
        "r = c @ ns @ rev (trailing @ [n])" "\<forall>m < length ns. canon (d @ take (Suc m) ns) = None"
      by auto
    have whole: "probe = d @ ns @ [n]" using pn(2) h(1) by simp
    have "canon (d @ take (Suc m) (ns @ [n])) = None" if "m < length (ns @ [n])" for m
      using that h(5) None whole by (cases "m < length ns") (auto simp: less_Suc_eq)
    with whole h(2,3,4) pn(1) show ?thesis
      by (intro exI [of _ d] exI [of _ "ns @ [n]"] exI [of _ c]) simp
  qed
qed

lemma canonical_existing_prefix_Some:
  assumes "canonical_existing_prefix canon p = Some r"
  obtains d ns c where "p = d @ ns" "list_all plain ns" "canon d = Some c" "r = c @ ns"
    "\<forall>m < length ns. canon (d @ take (Suc m) ns) = None"
  using existing_prefix_Some [of canon p "[]" r] assms
  by (auto simp: canonical_existing_prefix_def)

lemma canonical_of_existing: "canon p = Some c \<Longrightarrow> canonical_existing_prefix canon p = Some c"
  by (simp add: canonical_existing_prefix_def existing_prefix.simps)

lemma path_withinE:
  assumes "path_within canon root p"
  obtains d ns c where "p = d @ ns" "list_all plain ns" "canon d = Some c" "prefix root (c @ ns)"
    "\<forall>m < length ns. canon (d @ take (Suc m) ns) = None"
proof -
  obtain r where r: "canonical_existing_prefix canon p = Some r" "is_within root r"
    using assms by (auto simp: path_within_def split: option.splits)
  from canonical_existing_prefix_Some [OF r(1)] obtain d ns c where
    "p = d @ ns" "list_all plain ns" "canon d = Some c" "r = c @ ns"
    "\<forall>m < length ns. canon (d @ take (Suc m) ns) = None" by blast
  with r(2) that show thesis by (simp add: is_within_prefix)
qed

text \<open>What a tool may act on: a path whose real location lies in the allowed tree.\<close>

definition in_bounds :: "(path \<Rightarrow> path option) \<Rightarrow> path option \<Rightarrow> path \<Rightarrow> bool" where
  "in_bounds canon allowed p \<longleftrightarrow>
     (case allowed of None \<Rightarrow> True
      | Some root \<Rightarrow> (case canonical_existing_prefix canon root of None \<Rightarrow> False
        | Some real_root \<Rightarrow> path_within canon real_root p))"

lemma confinement_check_ok:
  "confinement_check canon w allowed file = Inr () \<longleftrightarrow>
     allowed = None \<or> in_bounds canon allowed file
       \<and> (\<forall>r. project_root_of w file = Some r \<longrightarrow> in_bounds canon allowed r)"
  by (auto simp: confinement_check_def in_bounds_def split: option.splits)

lemma in_bounds_exists:
  assumes "in_bounds canon (Some root) p" "canon p = Some real" "canon root = Some real_root"
  shows "prefix real_root real"
  using assms
  by (auto simp: in_bounds_def path_within_def canonical_of_existing is_within_prefix)

section \<open>The boundary\<close>

definition lies_within :: "(path \<Rightarrow> path option) \<Rightarrow> path \<Rightarrow> path \<Rightarrow> bool" where
  "lies_within canon root p \<longleftrightarrow>
     (\<exists>d ns c. p = d @ ns \<and> canon d = Some c \<and> ''..'' \<notin> set ns \<and> prefix root (c @ ns)
        \<and> (\<forall>m < length ns. canon (d @ take (Suc m) ns) = None))"

lemma path_within_lies: "path_within canon root p \<Longrightarrow> lies_within canon root p"
  by (erule path_withinE) (auto simp: lies_within_def plain_def list_all_iff)

text \<open>
  An admitted file is inside: when the check of a confined session lets a file pass, the
  allowed root resolves, and both the file and the project it belongs to lie in it. Each is an
  existing part, whose real location symbolic links and parent steps are resolved in, and names
  below it that do not exist yet, none of them a parent step, and together they extend the real
  location of the root component by component.
\<close>

theorem admitted_file_is_inside:
  assumes "confinement_check canon w (Some root) file = Inr ()"
  shows "\<exists>real_root. canonical_existing_prefix canon root = Some real_root
    \<and> lies_within canon real_root file
    \<and> (\<forall>p. project_root_of w file = Some p \<longrightarrow> lies_within canon real_root p)"
  using assms path_within_lies
  by (auto simp: confinement_check_ok in_bounds_def split: option.splits)

definition demo_canon :: "path \<Rightarrow> path option" where
  "demo_canon p =
     (if p \<in> {[''/'', ''w''], [''/'', ''link'']} then Some [''/'', ''w'']
      else if p = [''/'', ''link'', ''..''] then Some [''/''] else None)"

definition demo_config_fs :: "(unit, nat) fs_world" where
  "demo_config_fs = \<lparr>fw_is_file = (\<lambda>p. p = [''/'', ''link'', ''marrow.json'']),
     fw_read = (\<lambda>p. Inl []), fw_store = \<lparr>sw_native_path = (\<lambda>r c. Inr None), sw_exists = (\<lambda>p. False), sw_stat = (\<lambda>p. None),
       sw_open = (\<lambda>p. None), sw_committed_lock = (\<lambda>p. Inr None)\<rparr>, fw_analyze = (\<lambda>r c s a l. Inl [])\<rparr>"

theorem admitted_file_is_inside_witness:
  "lies_within demo_canon [''/'', ''w''] [''/'', ''link'', ''new'', ''a.mw'']
   \<and> lies_within demo_canon [''/'', ''w''] [''/'', ''link'']
   \<and> confinement_check demo_canon demo_config_fs (Some [''/'', ''w''])
       [''/'', ''link'', ''..'', ''a.mw''] = Inl OutOfRoot"
proof -
  have root: "project_root_of demo_config_fs [''/'', ''link'', ''new'', ''a.mw''] = Some [''/'', ''link'']"
    by (simp add: project_root_of_def demo_config_fs_def ancestors.simps path_parent_def
        ws_config_file_def)
  have "confinement_check demo_canon demo_config_fs (Some [''/'', ''w''])
      [''/'', ''link'', ''new'', ''a.mw''] = Inr ()"
    by (simp add: confinement_check_def root path_within_def canonical_existing_prefix_def
        existing_prefix.simps demo_canon_def path_file_name_def path_parent_def reattach_def
        path_join_def)
  from admitted_file_is_inside [OF this] root
  have "lies_within demo_canon [''/'', ''w''] [''/'', ''link'', ''new'', ''a.mw'']
      \<and> lies_within demo_canon [''/'', ''w''] [''/'', ''link'']"
    by (auto simp: canonical_existing_prefix_def existing_prefix.simps demo_canon_def)
  moreover have "confinement_check demo_canon demo_config_fs (Some [''/'', ''w''])
      [''/'', ''link'', ''..'', ''a.mw''] = Inl OutOfRoot"
    by (simp add: confinement_check_def path_within_def canonical_existing_prefix_def
        existing_prefix.simps demo_canon_def path_file_name_def path_parent_def reattach_def
        path_join_def)
  ultimately show ?thesis by blast
qed

text \<open>
  The check never folds a parent step by itself: a path that climbs out of a directory that
  does not exist is refused.
\<close>

lemma climbing_from_missing_refused:
  assumes "canon (d @ [''..'']) = None" "canon (d @ [''..'', n]) = None"
  shows "canonical_existing_prefix canon (d @ [''..'', n]) = None"
  using assms
  by (simp add: canonical_existing_prefix_def existing_prefix.simps [of canon]
      path_file_name_def path_parent_def butlast_append split: option.split)

end
