(* ===== verification/Mcp_Project.thy ===== *)
theory Mcp_Project
  imports Mcp_Confine Lsp_Backend
begin

text \<open>
  The project cache of \<open>crates/marrow-lsp-core/src/mcp.rs\<close>: the fingerprints of what was checked,
  when the cached analysis still answers, and loading the project of a tool call. The file
  system, Marrow's module discovery and \<open>canonicalize\<close> at the moment of one call are an
  \<open>mcp_world\<close>; the hasher of the standard library is part of the record \<open>mcp_api\<close>. What a call
  does to a project is appended to a log of acts, so that the boundary can be stated.
\<close>

section \<open>State\<close>

record ('lex, 'parse, 'c, 'ix) mcp_api = "('lex, 'parse, 'c, 'ix) server_api" +
  ma_hash_sources :: "(path \<times> string) list \<Rightarrow> nat"
  ma_hash_bytes :: "string \<Rightarrow> nat"

record ('c, 'cat) mcp_world =
  mw_fs :: "('c, 'cat) fs_world"
  mw_canonicalize :: "path \<Rightarrow> path option"
  mw_modules :: "path \<Rightarrow> 'c project_config \<Rightarrow> path list option"
  mw_test_modules :: "path \<Rightarrow> 'c project_config \<Rightarrow> path list option"
  mw_read_bytes :: "path \<Rightarrow> string option"

text \<open>
  Each act names the root of the project it is done to: opening its native store read-only to
  bind the accepted catalog, which every load of a project may do; checking it; opening its
  store to read data or to write; executing an operation on a writable session, appending a line
  to its audit trail or failing to; and running or testing it over a fresh store.
\<close>

datatype act =
    OpenedCatalog (act_root: path)
  | Checked (act_root: path)
  | OpenedRead (act_root: path)
  | OpenedWrite (act_root: path)
  | Executed (act_root: path)
  | Audited (act_root: path) string
  | AuditFailed (act_root: path) string
  | RanProject (act_root: path)

record ('c, 'cat, 'ix) cached_project =
  kc_workspace :: "('c, 'cat, 'ix) workspace"
  kc_source_fingerprint :: "nat option"
  kc_catalog_fingerprint :: "nat option"

record ('c, 'cat, 'ix) core =
  mc_cache :: "('c, 'cat, 'ix) cached_project"
  mc_acts :: "act list"

definition new_cache :: "('c, 'cat, 'ix) cached_project" where
  "new_cache = \<lparr>kc_workspace = new_workspace, kc_source_fingerprint = None,
     kc_catalog_fingerprint = None\<rparr>"

definition new_core :: "('c, 'cat, 'ix) core" where
  "new_core = \<lparr>mc_cache = new_cache, mc_acts = []\<rparr>"

section \<open>Fingerprints\<close>

text \<open>The path and text of every module, in the order they are hashed.\<close>

definition source_listing ::
  "('c, 'cat) mcp_world \<Rightarrow> 'c project \<Rightarrow> (path \<times> string) option \<Rightarrow> (path \<times> string) list option"
  where
  "source_listing w pr overlay =
     (case mw_modules w (pr_root pr) (pr_config pr) of None \<Rightarrow> None
      | Some modules \<Rightarrow>
          (case mw_test_modules w (pr_root pr) (pr_config pr) of None \<Rightarrow> None
           | Some tests \<Rightarrow>
               Some (map (\<lambda>p. (p, case overlay of
                   Some (overlay_path, source) \<Rightarrow>
                     if overlay_path = p then source else read_to_string (mw_fs w) p
                 | None \<Rightarrow> read_to_string (mw_fs w) p))
                 (remdups_adj (sort (modules @ tests))))))"

definition source_fingerprint ::
  "('lex, 'parse, 'c, 'ix) mcp_api \<Rightarrow> ('c, 'cat) mcp_world \<Rightarrow> 'c project
   \<Rightarrow> (path \<times> string) option \<Rightarrow> nat option" where
  "source_fingerprint A w pr overlay = map_option (ma_hash_sources A) (source_listing w pr overlay)"

definition catalog_fingerprint ::
  "('lex, 'parse, 'c, 'ix) mcp_api \<Rightarrow> ('c, 'cat) mcp_world \<Rightarrow> 'c project \<Rightarrow> nat option" where
  "catalog_fingerprint A w pr =
     map_option (ma_hash_bytes A) (mw_read_bytes w (pr_root pr @ [committed_lock_file]))"

definition is_fresh_for ::
  "('lex, 'parse, 'c, 'ix) mcp_api \<Rightarrow> ('c, 'cat) mcp_world \<Rightarrow> path \<Rightarrow> (path \<times> string) option
   \<Rightarrow> ('c, 'cat, 'ix) cached_project \<Rightarrow> bool" where
  "is_fresh_for A w file overlay k \<longleftrightarrow>
     (case ws_project (kc_workspace k) of None \<Rightarrow> False
      | Some pr \<Rightarrow> starts_with file (pr_root pr)
          \<and> source_fingerprint A w pr overlay = kc_source_fingerprint k
          \<and> catalog_fingerprint A w pr = kc_catalog_fingerprint k)"

section \<open>Loading a project\<close>

text \<open>The overlay as an open buffer; \<open>None\<close> when the path has no URL.\<close>

definition overlay_documents ::
  "('lex, 'parse, 'c, 'ix) mcp_api \<Rightarrow> path \<Rightarrow> string option \<Rightarrow> ('lex, 'parse) documents option"
  where
  "overlay_documents A file source =
     (case source of None \<Rightarrow> Some new_documents
      | Some s \<Rightarrow> map_option (\<lambda>u. open_with_version (sv_docs A) u s None new_documents)
          (sv_path_to_url A file))"

text \<open>
  The project and the binding cache a load binds the catalog with, and whether the probe of the
  store gets as far as opening it.
\<close>

definition bound_project ::
  "('c, 'ix) check_api \<Rightarrow> ('c, 'cat) fs_world \<Rightarrow> path \<Rightarrow> ('c, 'cat, 'ix) workspace
   \<Rightarrow> workspace_error + ('c project \<times> 'cat binding_cache)" where
  "bound_project M w file ws =
     (case ws_project ws of
        Some pr \<Rightarrow> if starts_with file (pr_root pr) then Inr (pr, ws_catalog ws)
          else map_sum id (\<lambda>pr. (pr, new_binding_cache)) (resolve_project M w file)
      | None \<Rightarrow> map_sum id (\<lambda>pr. (pr, new_binding_cache)) (resolve_project M w file))"

definition probe_opens ::
  "('cat, 'lock, 'conf, 'e) store_world \<Rightarrow> path \<Rightarrow> 'conf \<Rightarrow> 'cat binding_cache \<Rightarrow> bool" where
  "probe_opens w root config c \<longleftrightarrow>
     (case sw_native_path w root config of
        Inr (Some p) \<Rightarrow> sw_exists w p
          \<and> \<not> (bc_key c \<noteq> None \<and> sw_stat w p \<noteq> None \<and> sw_stat w p = bc_stat c)
      | _ \<Rightarrow> False)"

definition check_acts ::
  "('lex, 'parse, 'c, 'ix) mcp_api \<Rightarrow> ('c, 'cat) mcp_world \<Rightarrow> path \<Rightarrow> analysis_docs
   \<Rightarrow> ('c, 'cat, 'ix) workspace \<Rightarrow> act list" where
  "check_acts A w file docs ws =
     (case bound_project (sv_check A) (mw_fs w) file ws of
        Inl e \<Rightarrow> []
      | Inr (pr, c) \<Rightarrow>
          if probe_opens (fw_store (mw_fs w)) (pr_root pr) (pr_config pr) c
          then [OpenedCatalog (pr_root pr)] else [])
     @ (case fst (prepare_recompute (sv_check A) (mw_fs w) file docs Full ws) of
        Inr p \<Rightarrow> [Checked (pp_root p)] | Inl e \<Rightarrow> [])"

definition fingerprints ::
  "('lex, 'parse, 'c, 'ix) mcp_api \<Rightarrow> ('c, 'cat) mcp_world \<Rightarrow> (path \<times> string) option
   \<Rightarrow> ('c, 'cat, 'ix) workspace \<Rightarrow> ('c, 'cat, 'ix) cached_project" where
  "fingerprints A w overlay ws =
     (case ws_project ws of
        Some pr \<Rightarrow> \<lparr>kc_workspace = ws, kc_source_fingerprint = source_fingerprint A w pr overlay,
          kc_catalog_fingerprint = catalog_fingerprint A w pr\<rparr>
      | None \<Rightarrow> \<lparr>kc_workspace = ws, kc_source_fingerprint = None, kc_catalog_fingerprint = None\<rparr>)"

text \<open>The body of \<open>with_loaded_project\<close> before the call of \<open>f\<close>; \<open>None\<close> is a panic.\<close>

definition load_project ::
  "('lex, 'parse, 'c, 'ix) mcp_api \<Rightarrow> ('c, 'cat) mcp_world \<Rightarrow> path \<Rightarrow> string option
   \<Rightarrow> ('c, 'cat, 'ix) core \<Rightarrow> (access_error + unit) option \<times> ('c, 'cat, 'ix) core" where
  "load_project A w file source core =
     (let overlay = map_option (\<lambda>s. (file, s)) source; k = mc_cache core
      in if is_fresh_for A w file overlay k then (Some (Inr ()), core)
         else (case overlay_documents A file source of
             None \<Rightarrow> (Some (Inl (LoadError ''the file path is not absolute'')), core)
           | Some documents \<Rightarrow>
               let docs = analysis_snapshot (sv_docs A) documents;
                   acts = mc_acts core @ check_acts A w file docs (kc_workspace k)
               in (case recompute_from_snapshot (sv_check A) (mw_fs w) file docs (kc_workspace k) of
                   (None, ws) \<Rightarrow>
                     (None, \<lparr>mc_cache = k\<lparr>kc_workspace := ws\<rparr>, mc_acts = acts\<rparr>)
                 | (Some (Inl e), ws) \<Rightarrow> (Some (Inl (LoadError (workspace_error_text e))),
                     \<lparr>mc_cache = k\<lparr>kc_workspace := ws\<rparr>, mc_acts = acts\<rparr>)
                 | (Some (Inr s), ws) \<Rightarrow>
                     (Some (Inr ()), \<lparr>mc_cache = fingerprints A w overlay ws, mc_acts = acts\<rparr>))))"

text \<open>
  \<open>with_loaded_project\<close>: the confinement check, loading, and the body of the tool, which gives
  its result with the acts it did, or panics, and may change the workspace.
\<close>

type_synonym ('c, 'cat, 'ix, 'r) tool_body =
  "('c, 'cat, 'ix) workspace \<Rightarrow> path \<Rightarrow> ('r \<times> act list) option \<times> ('c, 'cat, 'ix) workspace"

definition with_loaded_project ::
  "('lex, 'parse, 'c, 'ix) mcp_api \<Rightarrow> ('c, 'cat) mcp_world \<Rightarrow> path option \<Rightarrow> path \<Rightarrow> string option
   \<Rightarrow> ('c, 'cat, 'ix, 'r) tool_body \<Rightarrow> ('c, 'cat, 'ix) core
   \<Rightarrow> (access_error + 'r) option \<times> ('c, 'cat, 'ix) core" where
  "with_loaded_project A w allowed file source f core =
     (case confinement_check (mw_canonicalize w) (mw_fs w) allowed file of
        Inl e \<Rightarrow> (Some (Inl e), core)
      | Inr _ \<Rightarrow>
          (case load_project A w file source core of
             (None, core1) \<Rightarrow> (None, core1)
           | (Some (Inl e), core1) \<Rightarrow> (Some (Inl e), core1)
           | (Some (Inr _), core1) \<Rightarrow>
               (case f (kc_workspace (mc_cache core1)) file of
                  (r, ws) \<Rightarrow>
                    (map_option (\<lambda>x. Inr (fst x)) r,
                     \<lparr>mc_cache = (mc_cache core1)\<lparr>kc_workspace := ws\<rparr>,
                      mc_acts = mc_acts core1 @ (case r of None \<Rightarrow> [] | Some (x, acts) \<Rightarrow> acts)\<rparr>))))"

end
