(* ===== verification/Mcp_Tools.thy ===== *)
theory Mcp_Tools
  imports Mcp_Project Data_Explorer Lsp_Navigation
begin

text \<open>
  The tools of \<open>crates/marrow-lsp-core/src/mcp.rs\<close> but for \<open>mw_run\<close>: one function per tool, with
  its contract, its error envelope and its data access gate. Marrow's checks and DTOs are the
  record \<open>mcp_marrow\<close>, the stores at the moment of a call the record \<open>store_calls\<close>. A tool gives
  its JSON result, \<open>None\<close> being a panic.
\<close>

section \<open>What the tools ask of Marrow\<close>

record snippet_diagnostic =
  sn_code :: string
  sn_severity :: severity
  sn_start :: nat
  sn_end :: nat
  sn_message :: string
  sn_help :: "string option"

record named_docs =
  nd_name :: string
  nd_docs :: "string list"

record 'ty namespace_param =
  np_name :: string
  np_type :: 'ty
  np_docs :: "string list"

record 'ty namespace_function =
  nf_name :: string
  nf_params :: "'ty namespace_param list"
  nf_return :: "'ty option"
  nf_docs :: "string list"

datatype enum_status = Selectable | Category | Group

record namespace_member =
  nm_name :: string
  nm_docs :: "string list"
  nm_status :: enum_status

datatype 'ty namespace_fact =
    ModuleFact string "named_docs list" "named_docs list" "'ty namespace_function list"
  | EnumFact string "namespace_member list"
  | StandardLibraryRoot
  | StandardLibraryModule

text \<open>A surface operation: the identity of a record is handed on as JSON.\<close>

datatype surface_body =
    SingletonRead | PointRead json | SurfacePage | UniqueLookup | SingletonUpdate
  | PointUpdate json | SingletonCreate | PointCreate json | SingletonDelete | PointDelete json
  | SurfaceAction | ComputedRead

record surface_request =
  sq_tag :: string
  sq_body :: surface_body

record ('ix, 'ty, 'route) mcp_marrow =
  mm_parse_diagnostics :: "string \<Rightarrow> snippet_diagnostic list"
  mm_type_hover :: "analysis \<Rightarrow> 'ix \<Rightarrow> path \<Rightarrow> nat \<Rightarrow> 'ty option"
  mm_render_type :: "checked_program \<Rightarrow> 'ty \<Rightarrow> string"
  mm_completion_version :: string
  mm_completion :: "analysis \<Rightarrow> path \<Rightarrow> string \<Rightarrow> nat \<Rightarrow> string \<times> source_completion list"
  mm_namespace :: "analysis \<Rightarrow> path \<Rightarrow> string list \<Rightarrow> 'ty namespace_fact option"
  mm_resource_version :: string
  mm_resource_schema :: "checked_program \<Rightarrow> string \<Rightarrow> json"
  mm_route_version :: string
  mm_operation_version :: string
  mm_routes :: "checked_program \<Rightarrow> 'route list"
  mm_route_is_read :: "'route \<Rightarrow> bool"
  mm_manifest_json :: "checked_program \<Rightarrow> 'route list \<Rightarrow> json"
  mm_surface_request :: "json \<Rightarrow> string + surface_request"
  mm_page_json :: "data_page \<Rightarrow> json"
  mm_value_json :: "data_value \<Rightarrow> json"
  mm_to_text :: "json \<Rightarrow> string"

record store_stamp =
  st_uid :: string
  st_epoch :: nat
  st_commit :: nat

record ('c, 'rs, 'ws, 'ds) store_calls =
  sx_open_read :: "path \<Rightarrow> string + 'rs"
  sx_read_stamp :: "'rs \<Rightarrow> string + store_stamp"
  sx_execute_read :: "'rs \<Rightarrow> surface_request \<Rightarrow> json + json"
  sx_open_write :: "path \<Rightarrow> string + 'ws"
  sx_stamp_before :: "'ws \<Rightarrow> store_stamp option"
  sx_execute :: "'ws \<Rightarrow> surface_request \<Rightarrow> json + json"
  sx_stamp_after :: "'ws \<Rightarrow> store_stamp option"
  sx_append_line :: "path \<Rightarrow> string \<Rightarrow> string option"
  sx_now_millis :: int
  sx_unavailable :: "'c project \<Rightarrow> string + string option"
  sx_open_data :: "path \<Rightarrow> string + 'ds"
  sx_data :: "'ds data_api"

section \<open>Envelopes\<close>

definition jstrs :: "string list \<Rightarrow> json" where
  "jstrs xs = JArr (map JStr xs)"

definition jopt :: "('a \<Rightarrow> json) \<Rightarrow> 'a option \<Rightarrow> json" where
  "jopt f x = (case x of None \<Rightarrow> JNull | Some y \<Rightarrow> f y)"

definition json_insert :: "string \<Rightarrow> json \<Rightarrow> json \<Rightarrow> json" where
  "json_insert k v j = (case as_object j of Some kvs \<Rightarrow> JObj (jset kvs k v) | None \<Rightarrow> j)"

definition with_profile_version :: "json \<Rightarrow> string \<Rightarrow> json" where
  "with_profile_version result version =
     (case as_object result of
        Some kvs \<Rightarrow> if map_of kvs ''profile_version'' = None
          then JObj (jset kvs ''profile_version'' (JStr version)) else result
      | None \<Rightarrow> result)"

definition with_contract :: "json \<Rightarrow> jobj \<Rightarrow> json" where
  "with_contract result contract = json_insert ''contract'' (JObj contract) result"

definition tool_error :: "json \<Rightarrow> json" where
  "tool_error result = json_insert ''tool_error'' (JBool True) result"

definition out_of_root_refusal :: json where
  "out_of_root_refusal = JObj [(''available'', JBool False), (''refusal'', JStr ''path.out_of_root''),
     (''message'', JStr ''the requested file resolves outside the marrow-mcp allowed root'')]"

definition render_access_error :: "access_error \<Rightarrow> (string \<Rightarrow> json) \<Rightarrow> json" where
  "render_access_error e load = (case e of OutOfRoot \<Rightarrow> out_of_root_refusal | LoadError m \<Rightarrow> load m)"

text \<open>The end of every tool: its result, or its error envelope.\<close>

definition tool_result_or ::
  "(string \<Rightarrow> json) \<Rightarrow> (access_error + json) option \<times> 's \<Rightarrow> json option \<times> 's" where
  "tool_result_or load r = (case r of (res, core) \<Rightarrow>
     (map_option (\<lambda>x. case x of Inr j \<Rightarrow> j | Inl e \<Rightarrow> render_access_error e load) res, core))"

definition contracted :: "jobj \<Rightarrow> json option \<times> 's \<Rightarrow> json option \<times> 's" where
  "contracted contract r = (case r of (res, core) \<Rightarrow> (map_option (\<lambda>j. with_contract j contract) res, core))"

section \<open>Contracts\<close>

definition production_contract :: "string \<Rightarrow> jobj" where
  "production_contract description =
     [(''status'', JStr ''ready''), (''stableProductionApi'', JBool True),
      (''description'', JStr description), (''missingFacts'', JArr [])]"

definition completion_contract :: jobj where
  "completion_contract = jset (production_contract ''source completion fact'')
     ''basis'' (JStr ''Marrow source completion fact'')"

definition namespace_completion_contract :: jobj where
  "namespace_completion_contract = jset (production_contract ''source namespace completion fact'')
     ''basis'' (JStr ''Marrow source namespace completion facts'')"

definition resource_schema_contract :: jobj where
  "resource_schema_contract = jset (production_contract ''resource schema DTO'')
     ''basis'' (JStr ''Marrow resource schema DTO'')"

datatype surface_route_scope = ReadOnly | AllRoutes

definition surface_routes_contract :: "surface_route_scope \<Rightarrow> jobj" where
  "surface_routes_contract scope =
     (let description = (case scope of ReadOnly \<Rightarrow> ''surface read route manifest''
            | AllRoutes \<Rightarrow> ''surface route manifest'');
          c1 = jset (production_contract description) ''basis''
            (JStr ''Marrow surface route manifest DTO'');
          c2 = jset c1 ''dataAccess'' (JStr ''not-required'')
      in jset c2 ''operations'' (case scope of ReadOnly \<Rightarrow> JStr ''read-only''
           | AllRoutes \<Rightarrow> JStr ''read/update/action''))"

definition surface_read_contract :: jobj where
  "surface_read_contract =
     (let c1 = jset (production_contract ''surface read operation'') ''basis''
            (JStr ''Marrow surface operation read-only executor'');
          c2 = jset c1 ''dataAccess'' (JStr ''gated'')
      in jset c2 ''operations'' (JStr ''read-only''))"

definition surface_write_contract :: jobj where
  "surface_write_contract =
     (let c1 = jset (production_contract ''surface write operation'') ''basis''
            (JStr ''Marrow surface operation writable executor'');
          c2 = jset c1 ''dataAccess'' (JStr ''gated'');
          c3 = jset c2 ''writeOptIn'' (JStr ''gated'')
      in jset c3 ''operations'' (JStr ''read/update/action''))"

definition saved_roots_contract :: jobj where
  "saved_roots_contract =
     (let c1 = jset (production_contract ''saved-root listing API'') ''basis''
            (JStr ''Marrow typed saved-root data-view facts'');
          c2 = jset c1 ''dataAccess'' (JStr ''gated'')
      in jset c2 ''pathSurface'' (JObj [(''rootOnly'', JBool True), (''childPaths'', JStr ''absent''),
           (''editorAuthoredSavedPath'', JStr ''blocked'')]))"

definition data_children_contract :: jobj where
  "data_children_contract =
     (let c1 = jset (production_contract ''bounded typed data children API'') ''basis''
            (JStr ''Marrow typed data children tooling'');
          c2 = jset c1 ''dataAccess'' (JStr ''gated'');
          c3 = jset c2 ''boundedness'' (JObj [(''page'', JStr ''limit-clamped''),
            (''unboundedWalk'', JBool False)])
      in jset c3 ''pathSurface'' (JObj [(''segments'', JStr ''typed-saved-data-path''),
           (''cursor'', JStr ''typed''), (''memberExpansion'', JStr ''Marrow-owned''),
           (''savedPathString'', JStr ''absent'')]))"

definition data_read_contract :: jobj where
  "data_read_contract =
     (let c1 = jset (production_contract ''bounded typed data read API'') ''basis''
            (JStr ''Marrow typed data read tooling'');
          c2 = jset c1 ''dataAccess'' (JStr ''gated'');
          c3 = jset c2 ''boundedness'' (JObj [(''valuePreview'', JStr ''limit-clamped'')]);
          c4 = jset c3 ''presenceDetection'' (JStr ''Marrow-owned bounded read presence'')
      in jset c4 ''pathSurface'' (JObj [(''segments'', JStr ''typed-saved-data-path''),
           (''savedPathString'', JStr ''absent'')]))"

section \<open>Checking\<close>

definition check_profile_version :: string where
  "check_profile_version = ''mcp.check.v1''"

definition type_at_profile_version :: string where
  "type_at_profile_version = ''mcp.type_at.v1''"

definition severity_name :: "nat \<Rightarrow> string" where
  "severity_name n = (if n = 1 then ''error'' else if n = 2 then ''warning''
     else if n = 3 then ''information'' else if n = 4 then ''hint'' else ''error'')"

definition diagnostic_json :: "lsp_diagnostic \<Rightarrow> json" where
  "diagnostic_json d = JObj [(''code'', JStr (dg_code d)),
     (''severity'', JStr (severity_name (dg_severity d))), (''message'', JStr (dg_message d)),
     (''line'', jnat (pos_line (range_start (dg_range d)))),
     (''character'', jnat (pos_character (range_start (dg_range d)))),
     (''endLine'', jnat (pos_line (range_end (dg_range d)))),
     (''endCharacter'', jnat (pos_character (range_end (dg_range d))))]"

definition check_snippet :: "('ix, 'ty, 'route) mcp_marrow \<Rightarrow> string \<Rightarrow> json" where
  "check_snippet K source = JObj [(''diagnostics'', JArr (map (\<lambda>d. diagnostic_json
     (diagnostic_to_lsp (sn_code d) (sn_severity d) (sn_start d, sn_end d) (sn_message d)
        (sn_help d) (new_line_index source))) (mm_parse_diagnostics K source)))]"

definition check_body ::
  "('c, 'cat) mcp_world \<Rightarrow> string option \<Rightarrow> ('c, 'cat, 'ix, json) tool_body" where
  "check_body w source ws file =
     ((case ws_latest ws of None \<Rightarrow> None
       | Some s \<Rightarrow> Some (JObj [(''diagnostics'', JArr (map (\<lambda>d. diagnostic_json
           (check_diagnostic_to_lsp d (new_line_index (case source of Some t \<Rightarrow> t
              | None \<Rightarrow> read_to_string (mw_fs w) (cd_file d)))))
           (filter (\<lambda>d. cd_file d = file) (an_report s))))], [])), ws)"

definition check_result ::
  "('lex, 'parse, 'c, 'ix) mcp_api \<Rightarrow> ('ix, 'ty, 'route) mcp_marrow \<Rightarrow> ('c, 'cat) mcp_world
   \<Rightarrow> path option \<Rightarrow> path option \<Rightarrow> string option \<Rightarrow> ('c, 'cat, 'ix) core
   \<Rightarrow> json option \<times> ('c, 'cat, 'ix) core" where
  "check_result A K w allowed file source core =
     (case file of
        Some f \<Rightarrow> tool_result_or
          (\<lambda>e. tool_error (JObj [(''diagnostics'', JArr []), (''error'', JStr e)]))
          (with_loaded_project A w allowed f source (check_body w source) core)
      | None \<Rightarrow> (Some (check_snippet K (case source of Some s \<Rightarrow> s | None \<Rightarrow> [])), core))"

definition check ::
  "('lex, 'parse, 'c, 'ix) mcp_api \<Rightarrow> ('ix, 'ty, 'route) mcp_marrow \<Rightarrow> ('c, 'cat) mcp_world
   \<Rightarrow> path option \<Rightarrow> path option \<Rightarrow> string option \<Rightarrow> ('c, 'cat, 'ix) core
   \<Rightarrow> json option \<times> ('c, 'cat, 'ix) core" where
  "check A K w allowed file source core =
     (case check_result A K w allowed file source core of (r, core') \<Rightarrow>
        (map_option (\<lambda>j. with_profile_version j check_profile_version) r, core'))"

section \<open>Types and completion\<close>

definition type_at_body ::
  "('lex, 'parse, 'c, 'ix) mcp_api \<Rightarrow> ('ix, 'ty, 'route) mcp_marrow \<Rightarrow> ('c, 'cat) mcp_world
   \<Rightarrow> position \<Rightarrow> ('c, 'cat, 'ix, json) tool_body" where
  "type_at_body A K w cursor ws0 file =
     (let ws = binding_index (sv_check A) ws0
      in (case ws_latest ws of None \<Rightarrow> None
          | Some s \<Rightarrow>
              if \<not> list_ex (\<lambda>f. af_path f = file) (an_files s)
              then Some (JObj [(''type'', JNull)], [])
              else (case ws_index ws of None \<Rightarrow> None
                | Some bindings \<Rightarrow>
                    let at = offset (new_line_index (read_to_string (mw_fs w) file)) cursor
                    in Some (JObj [(''type'', jopt (\<lambda>ty. JStr (mm_render_type K (an_program s) ty))
                         (mm_type_hover K s bindings file at))], [])), ws))"

definition type_at_position ::
  "('lex, 'parse, 'c, 'ix) mcp_api \<Rightarrow> ('ix, 'ty, 'route) mcp_marrow \<Rightarrow> ('c, 'cat) mcp_world
   \<Rightarrow> path option \<Rightarrow> path \<Rightarrow> nat \<Rightarrow> nat \<Rightarrow> ('c, 'cat, 'ix) core
   \<Rightarrow> json option \<times> ('c, 'cat, 'ix) core" where
  "type_at_position A K w allowed file line character core =
     (case tool_result_or (\<lambda>e. tool_error (JObj [(''type'', JNull), (''error'', JStr e)]))
         (with_loaded_project A w allowed file None
           (type_at_body A K w \<lparr>pos_line = line, pos_character = character\<rparr>) core) of
        (r, core') \<Rightarrow> (map_option (\<lambda>j. with_profile_version j type_at_profile_version) r, core'))"

definition completion_kind_name :: "source_completion_kind \<Rightarrow> string" where
  "completion_kind_name k = (case k of
     SckKeyword \<Rightarrow> ''keyword'' | SckLocal \<Rightarrow> ''variable'' | SckFunction \<Rightarrow> ''function''
   | SckResource \<Rightarrow> ''resource'' | SckSavedRoot \<Rightarrow> ''saved-root'' | SckField \<Rightarrow> ''field''
   | SckLayer \<Rightarrow> ''layer'' | SckEnum \<Rightarrow> ''enum'' | SckEnumMember \<Rightarrow> ''enum-member''
   | SckModule \<Rightarrow> ''module'' | SckStoreIdentity \<Rightarrow> ''store-identity'')"

definition with_error :: "string option \<Rightarrow> jobj \<Rightarrow> json" where
  "with_error e kvs = JObj (case e of None \<Rightarrow> kvs | Some m \<Rightarrow> jset kvs ''error'' (JStr m))"

definition empty_completion_result ::
  "('ix, 'ty, 'route) mcp_marrow \<Rightarrow> string option \<Rightarrow> json" where
  "empty_completion_result K e = with_error e
     [(''profile_version'', JStr (mm_completion_version K)), (''items'', JArr [])]"

definition complete_body ::
  "('ix, 'ty, 'route) mcp_marrow \<Rightarrow> ('c, 'cat) mcp_world \<Rightarrow> position
   \<Rightarrow> ('c, 'cat, 'ix, json) tool_body" where
  "complete_body K w cursor ws file =
     ((case ws_latest ws of None \<Rightarrow> None
       | Some s \<Rightarrow>
           if \<not> list_ex (\<lambda>f. af_path f = file) (an_files s)
           then Some (empty_completion_result K None, [])
           else let source = read_to_string (mw_fs w) file;
                    at = offset (new_line_index source) cursor
                in (case mm_completion K s file source at of (version, items) \<Rightarrow>
                     Some (JObj [(''profile_version'', JStr version), (''items'', JArr (map (\<lambda>i.
                       JObj [(''label'', JStr (sc_label i)),
                         (''kind'', JStr (completion_kind_name (sc_kind i))),
                         (''detail'', jopt JStr (sc_detail i)), (''docs'', jstrs (sc_docs i))])
                       items))], []))), ws)"

definition complete ::
  "('lex, 'parse, 'c, 'ix) mcp_api \<Rightarrow> ('ix, 'ty, 'route) mcp_marrow \<Rightarrow> ('c, 'cat) mcp_world
   \<Rightarrow> path option \<Rightarrow> path \<Rightarrow> nat \<Rightarrow> nat \<Rightarrow> ('c, 'cat, 'ix) core
   \<Rightarrow> json option \<times> ('c, 'cat, 'ix) core" where
  "complete A K w allowed file line character core = contracted completion_contract
     (tool_result_or (\<lambda>e. tool_error (empty_completion_result K (Some e)))
       (with_loaded_project A w allowed file None
         (complete_body K w \<lparr>pos_line = line, pos_character = character\<rparr>) core))"

section \<open>Namespaces\<close>

definition source_namespace_profile_version :: string where
  "source_namespace_profile_version = ''source.namespace.completion.v1''"

definition empty_namespace_completion_result :: "string option \<Rightarrow> json" where
  "empty_namespace_completion_result e = with_error e
     [(''profile_version'', JStr source_namespace_profile_version), (''kind'', JNull),
      (''module'', JNull), (''resources'', JArr []), (''enums'', JArr []), (''functions'', JArr []),
      (''enum_name'', JNull), (''members'', JArr [])]"

definition named_docs_json :: "named_docs \<Rightarrow> json" where
  "named_docs_json d = JObj [(''name'', JStr (nd_name d)), (''docs'', jstrs (nd_docs d))]"

definition namespace_function_json ::
  "('ix, 'ty, 'route) mcp_marrow \<Rightarrow> checked_program \<Rightarrow> 'ty namespace_function \<Rightarrow> json" where
  "namespace_function_json K program f = JObj [(''name'', JStr (nf_name f)),
     (''params'', JArr (map (\<lambda>p. JObj [(''name'', JStr (np_name p)),
        (''type'', JStr (mm_render_type K program (np_type p))), (''docs'', jstrs (np_docs p))])
        (nf_params f))),
     (''return_type'', jopt (\<lambda>ty. JStr (mm_render_type K program ty)) (nf_return f)),
     (''docs'', jstrs (nf_docs f))]"

definition module_namespace_fact_json ::
  "('ix, 'ty, 'route) mcp_marrow \<Rightarrow> checked_program \<Rightarrow> string \<Rightarrow> named_docs list \<Rightarrow> named_docs list
   \<Rightarrow> 'ty namespace_function list \<Rightarrow> json" where
  "module_namespace_fact_json K program module resources enums functions = JObj
     [(''profile_version'', JStr source_namespace_profile_version), (''kind'', JStr ''module''),
      (''module'', JStr module), (''resources'', JArr (map named_docs_json resources)),
      (''enums'', JArr (map named_docs_json enums)),
      (''functions'', JArr (map (namespace_function_json K program) functions)),
      (''enum_name'', JNull), (''members'', JArr [])]"

definition enum_member_status_json :: "enum_status \<Rightarrow> string" where
  "enum_member_status_json s = (case s of Selectable \<Rightarrow> ''selectable'' | Category \<Rightarrow> ''category''
     | Group \<Rightarrow> ''group'')"

definition enum_namespace_fact_json :: "string \<Rightarrow> namespace_member list \<Rightarrow> json" where
  "enum_namespace_fact_json enum_name members = JObj
     [(''profile_version'', JStr source_namespace_profile_version), (''kind'', JStr ''enum''),
      (''module'', JNull), (''resources'', JArr []), (''enums'', JArr []), (''functions'', JArr []),
      (''enum_name'', JStr enum_name), (''members'', JArr (map (\<lambda>m. JObj
        [(''name'', JStr (nm_name m)), (''docs'', jstrs (nm_docs m)),
         (''status'', JStr (enum_member_status_json (nm_status m)))]) members))]"

definition namespace_body ::
  "('ix, 'ty, 'route) mcp_marrow \<Rightarrow> string list \<Rightarrow> ('c, 'cat, 'ix, json) tool_body" where
  "namespace_body K qualifier ws file =
     ((case ws_latest ws of None \<Rightarrow> None
       | Some s \<Rightarrow> Some (
           (if \<not> list_ex (\<lambda>f. af_path f = file) (an_files s)
            then empty_namespace_completion_result None
            else (case mm_namespace K s file qualifier of
                Some (ModuleFact module resources enums functions) \<Rightarrow>
                  module_namespace_fact_json K (an_program s) module resources enums functions
              | Some (EnumFact enum_name members) \<Rightarrow> enum_namespace_fact_json enum_name members
              | Some StandardLibraryRoot \<Rightarrow> empty_namespace_completion_result None
              | Some StandardLibraryModule \<Rightarrow> empty_namespace_completion_result None
              | None \<Rightarrow> empty_namespace_completion_result None)), [])), ws)"

definition namespace_complete ::
  "('lex, 'parse, 'c, 'ix) mcp_api \<Rightarrow> ('ix, 'ty, 'route) mcp_marrow \<Rightarrow> ('c, 'cat) mcp_world
   \<Rightarrow> path option \<Rightarrow> path \<Rightarrow> string list \<Rightarrow> ('c, 'cat, 'ix) core
   \<Rightarrow> json option \<times> ('c, 'cat, 'ix) core" where
  "namespace_complete A K w allowed file qualifier core = contracted namespace_completion_contract
     (tool_result_or (\<lambda>e. tool_error (empty_namespace_completion_result (Some e)))
       (with_loaded_project A w allowed file None (namespace_body K qualifier) core))"

section \<open>Schemas and routes\<close>

definition resource_body ::
  "('ix, 'ty, 'route) mcp_marrow \<Rightarrow> string \<Rightarrow> ('c, 'cat, 'ix, json) tool_body" where
  "resource_body K name ws file =
     (Some ((case program_of ws of
        None \<Rightarrow> JObj [(''profile_version'', JStr (mm_resource_version K)), (''resources'', JArr []),
          (''diagnostics'', JArr [JObj [(''code'', JStr ''resource.schema.missing''), (''message'',
             JStr ''no checked program is available for resource schema lookup'')]])]
      | Some program \<Rightarrow> mm_resource_schema K program name), []), ws)"

definition resource_schema ::
  "('lex, 'parse, 'c, 'ix) mcp_api \<Rightarrow> ('ix, 'ty, 'route) mcp_marrow \<Rightarrow> ('c, 'cat) mcp_world
   \<Rightarrow> path option \<Rightarrow> path \<Rightarrow> string \<Rightarrow> ('c, 'cat, 'ix) core
   \<Rightarrow> json option \<times> ('c, 'cat, 'ix) core" where
  "resource_schema A K w allowed file name core = contracted resource_schema_contract
     (tool_result_or (\<lambda>e. tool_error (JObj [(''profile_version'', JStr (mm_resource_version K)),
         (''resources'', JArr []), (''diagnostics'', JArr []), (''error'', JStr e)]))
       (with_loaded_project A w allowed file None (resource_body K name) core))"

definition empty_surface_route_manifest ::
  "('ix, 'ty, 'route) mcp_marrow \<Rightarrow> string \<Rightarrow> json" where
  "empty_surface_route_manifest K e = JObj [(''profile_version'', JStr (mm_route_version K)),
     (''operation_profile_version'', JStr (mm_operation_version K)), (''routes'', JArr []),
     (''error'', JStr e)]"

definition routes_body ::
  "('ix, 'ty, 'route) mcp_marrow \<Rightarrow> surface_route_scope \<Rightarrow> ('c, 'cat, 'ix, json) tool_body" where
  "routes_body K scope ws file =
     (Some ((case program_of ws of
        None \<Rightarrow> empty_surface_route_manifest K ''no checked program''
      | Some program \<Rightarrow> mm_manifest_json K program
          (if scope = ReadOnly then filter (mm_route_is_read K) (mm_routes K program)
           else mm_routes K program)), []), ws)"

definition surface_routes ::
  "('lex, 'parse, 'c, 'ix) mcp_api \<Rightarrow> ('ix, 'ty, 'route) mcp_marrow \<Rightarrow> ('c, 'cat) mcp_world
   \<Rightarrow> path option \<Rightarrow> path \<Rightarrow> surface_route_scope \<Rightarrow> ('c, 'cat, 'ix) core
   \<Rightarrow> json option \<times> ('c, 'cat, 'ix) core" where
  "surface_routes A K w allowed file scope core = contracted (surface_routes_contract scope)
     (tool_result_or (\<lambda>e. tool_error (empty_surface_route_manifest K e))
       (with_loaded_project A w allowed file None (routes_body K scope) core))"

end
