(* ===== verification/Mcp_Data.thy ===== *)
theory Mcp_Data
  imports Mcp_Tools
begin

text \<open>
  The gated tools of \<open>crates/marrow-lsp-core/src/mcp.rs\<close>: surface reads and writes with their
  audit trail, and the saved-data explorer. \<open>ReadAccess\<close> and \<open>WriteAccess\<close> are two types with
  one value each, the grants; without the grant a tool refuses before it touches anything.
\<close>

section \<open>Grants and refusals\<close>

datatype read_access = ReadAccess

datatype write_access = WriteAccess

definition read_disabled :: "jobj \<Rightarrow> json" where
  "read_disabled contract = with_contract (JObj [(''available'', JBool False),
     (''dataAccess'', JStr ''disabled''), (''message'', JStr
       ''data access not enabled; relaunch marrow-mcp with MARROW_MCP_ALLOW_DATA=1 (or --allow-data) to read stored data'')])
     contract"

definition write_disabled :: "jobj \<Rightarrow> json" where
  "write_disabled contract = with_contract (JObj [(''available'', JBool False),
     (''dataAccess'', JStr ''disabled''), (''writeOptIn'', JStr ''disabled''), (''message'', JStr
       ''write access not enabled; relaunch marrow-mcp with MARROW_MCP_ALLOW_WRITE=1 (or --allow-write) to mutate stored data'')])
     contract"

definition unavailable_because :: "string \<Rightarrow> json" where
  "unavailable_because e = JObj [(''available'', JBool False), (''error'', JStr e)]"

definition store_stamp_json :: "store_stamp \<Rightarrow> json" where
  "store_stamp_json s = JObj [(''store_uid'', JStr (st_uid s)), (''catalog_epoch'', jnat (st_epoch s)),
     (''commit_id'', jnat (st_commit s))]"

section \<open>The audit trail\<close>

definition write_audit_file :: string where
  "write_audit_file = ''marrow-mcp-write-audit.jsonl''"

datatype write_outcome = WriteOk | WriteError

record audit_stamp =
  au_uid :: string
  au_commit :: nat

record write_audit_record =
  wa_timestamp_ms :: nat
  wa_operation_tag :: string
  wa_file :: path
  wa_request_kind :: string
  wa_target :: "json option"
  wa_outcome :: write_outcome
  wa_before :: "audit_stamp option"
  wa_after :: "audit_stamp option"

definition unix_millis :: "int \<Rightarrow> nat" where
  "unix_millis now = (if now < 0 then 0 else min (nat now) u64_max)"

definition audit_target :: "surface_body \<Rightarrow> json option" where
  "audit_target body = (case body of
     PointRead identity \<Rightarrow> Some identity
   | PointUpdate identity \<Rightarrow> Some identity
   | PointCreate identity \<Rightarrow> Some identity
   | PointDelete identity \<Rightarrow> Some identity
   | _ \<Rightarrow> None)"

definition request_kind_name :: "surface_body \<Rightarrow> string" where
  "request_kind_name body = (case body of
     SingletonRead \<Rightarrow> ''singleton_read'' | PointRead _ \<Rightarrow> ''point_read'' | SurfacePage \<Rightarrow> ''page''
   | UniqueLookup \<Rightarrow> ''unique_lookup'' | SingletonUpdate \<Rightarrow> ''singleton_update''
   | PointUpdate _ \<Rightarrow> ''point_update'' | SingletonCreate \<Rightarrow> ''singleton_create''
   | PointCreate _ \<Rightarrow> ''point_create'' | SingletonDelete \<Rightarrow> ''singleton_delete''
   | PointDelete _ \<Rightarrow> ''point_delete'' | SurfaceAction \<Rightarrow> ''action''
   | ComputedRead \<Rightarrow> ''computed_read'')"

definition audit_stamp_of :: "store_stamp \<Rightarrow> audit_stamp" where
  "audit_stamp_of s = \<lparr>au_uid = st_uid s, au_commit = st_commit s\<rparr>"

text \<open>The text of a path, as \<open>serde\<close> and \<open>display\<close> write it.\<close>

definition path_text :: "path \<Rightarrow> string" where
  "path_text p = (if p \<noteq> [] \<and> hd p = ''/'' then ''/'' @ join_with ''/'' (tl p) else join_with ''/'' p)"

definition audit_stamp_json :: "audit_stamp \<Rightarrow> json" where
  "audit_stamp_json s = JObj [(''store_uid'', JStr (au_uid s)), (''commit_id'', jnat (au_commit s))]"

definition write_audit_json :: "write_audit_record \<Rightarrow> json" where
  "write_audit_json r = JObj ([(''timestamp_ms'', jnat (wa_timestamp_ms r)),
     (''operation_tag'', JStr (wa_operation_tag r)), (''file'', JStr (path_text (wa_file r))),
     (''request_kind'', JStr (wa_request_kind r))] @ opt_field ''target'' id (wa_target r)
     @ [(''outcome'', JStr (case wa_outcome r of WriteOk \<Rightarrow> ''ok'' | WriteError \<Rightarrow> ''error'')),
      (''store_before'', jopt audit_stamp_json (wa_before r)),
      (''store_after'', jopt audit_stamp_json (wa_after r))])"

text \<open>Appending a line to the trail of a project: the line, and the error if it fails.\<close>

definition append_write_audit ::
  "('ix, 'ty, 'route) mcp_marrow \<Rightarrow> ('c, 'rs, 'ws, 'ds) store_calls \<Rightarrow> path \<Rightarrow> write_audit_record
   \<Rightarrow> string \<times> string option" where
  "append_write_audit K X root r =
     (let line = mm_to_text K (write_audit_json r) @ [CHR 0x0A]
      in (line, sx_append_line X (root @ [write_audit_file]) line))"

section \<open>Surface operations\<close>

definition surface_read_body ::
  "('c, 'rs, 'ws, 'ds) store_calls \<Rightarrow> surface_request \<Rightarrow> ('c, 'cat, 'ix, json) tool_body" where
  "surface_read_body X request ws file =
     (Some (case ws_project ws of
        None \<Rightarrow> (unavailable_because ''no project resolved for the file'', [])
      | Some pr \<Rightarrow>
          ((case sx_open_read X (pr_root pr) of
              Inl e \<Rightarrow> unavailable_because e
            | Inr session \<Rightarrow>
                (case sx_read_stamp X session of
                   Inl e \<Rightarrow> unavailable_because e
                 | Inr stamp \<Rightarrow>
                     (case sx_execute_read X session request of
                        Inr response \<Rightarrow> JObj [(''available'', JBool True),
                          (''store_stamp'', store_stamp_json stamp), (''response'', response)]
                      | Inl e \<Rightarrow> JObj [(''available'', JBool True),
                          (''store_stamp'', store_stamp_json stamp), (''error'', e)]))),
           [OpenedRead (pr_root pr)])), ws)"

definition surface_read ::
  "('lex, 'parse, 'c, 'ix) mcp_api \<Rightarrow> ('ix, 'ty, 'route) mcp_marrow \<Rightarrow> ('c, 'cat) mcp_world
   \<Rightarrow> ('c, 'rs, 'ws, 'ds) store_calls \<Rightarrow> path option \<Rightarrow> path \<Rightarrow> json \<Rightarrow> read_access option
   \<Rightarrow> ('c, 'cat, 'ix) core \<Rightarrow> (string + json) option \<times> ('c, 'cat, 'ix) core" where
  "surface_read A K w X allowed file operation access core =
     (if access = None then (Some (Inr (read_disabled surface_read_contract)), core)
      else (case mm_surface_request K operation of
          Inl e \<Rightarrow> (Some (Inl (''invalid mw_surface_read operation: '' @ e)), core)
        | Inr request \<Rightarrow>
            (case contracted surface_read_contract (tool_result_or
                (\<lambda>e. tool_error (unavailable_because e))
                (with_loaded_project A w allowed file None (surface_read_body X request) core)) of
               (r, core') \<Rightarrow> (map_option Inr r, core'))))"

text \<open>
  The body of a write: the operation runs, and then, whatever it answered, the record is
  appended to the trail before the answer is assembled. When the append fails the answer says so,
  and the write stands.
\<close>

definition write_audit_of ::
  "('c, 'rs, 'ws, 'ds) store_calls \<Rightarrow> surface_request \<Rightarrow> path \<Rightarrow> 'ws \<Rightarrow> write_audit_record" where
  "write_audit_of X request file session =
     \<lparr>wa_timestamp_ms = unix_millis (sx_now_millis X), wa_operation_tag = sq_tag request,
      wa_file = file, wa_request_kind = request_kind_name (sq_body request),
      wa_target = audit_target (sq_body request),
      wa_outcome = (case sx_execute X session request of Inr _ \<Rightarrow> WriteOk | Inl _ \<Rightarrow> WriteError),
      wa_before = map_option audit_stamp_of (sx_stamp_before X session),
      wa_after = map_option audit_stamp_of (sx_stamp_after X session)\<rparr>"

definition surface_write_body ::
  "('ix, 'ty, 'route) mcp_marrow \<Rightarrow> ('c, 'rs, 'ws, 'ds) store_calls \<Rightarrow> surface_request
   \<Rightarrow> ('c, 'cat, 'ix, json) tool_body" where
  "surface_write_body K X request ws file =
     (Some (case ws_project ws of
        None \<Rightarrow> (unavailable_because ''no project resolved for the file'', [])
      | Some pr \<Rightarrow>
          (case sx_open_write X (pr_root pr) of
             Inl e \<Rightarrow> (unavailable_because e, [OpenedWrite (pr_root pr)])
           | Inr session \<Rightarrow>
               let record = write_audit_of X request file session;
                   (line, audit_error) = append_write_audit K X (pr_root pr) record;
                   stamp = jopt store_stamp_json (sx_stamp_after X session);
                   v1 = (case sx_execute X session request of
                       Inr response \<Rightarrow> [(''available'', JBool True), (''store_stamp'', stamp),
                         (''response'', response)]
                     | Inl e \<Rightarrow> [(''available'', JBool True), (''store_stamp'', stamp), (''error'', e)]);
                   v2 = jset v1 ''audit'' (write_audit_json record);
                   v3 = (case audit_error of None \<Rightarrow> v2
                     | Some e \<Rightarrow> jset v2 ''audit_error'' (JStr e))
               in (JObj v3, [OpenedWrite (pr_root pr), Executed (pr_root pr),
                    (if audit_error = None then Audited else AuditFailed) (pr_root pr) line]))), ws)"

definition surface_write ::
  "('lex, 'parse, 'c, 'ix) mcp_api \<Rightarrow> ('ix, 'ty, 'route) mcp_marrow \<Rightarrow> ('c, 'cat) mcp_world
   \<Rightarrow> ('c, 'rs, 'ws, 'ds) store_calls \<Rightarrow> path option \<Rightarrow> path \<Rightarrow> json \<Rightarrow> write_access option
   \<Rightarrow> ('c, 'cat, 'ix) core \<Rightarrow> (string + json) option \<times> ('c, 'cat, 'ix) core" where
  "surface_write A K w X allowed file operation access core =
     (if access = None then (Some (Inr (write_disabled surface_write_contract)), core)
      else (case mm_surface_request K operation of
          Inl e \<Rightarrow> (Some (Inl (''invalid mw_surface_write operation: '' @ e)), core)
        | Inr request \<Rightarrow>
            (case contracted surface_write_contract (tool_result_or
                (\<lambda>e. tool_error (unavailable_because e))
                (with_loaded_project A w allowed file None (surface_write_body K X request) core)) of
               (r, core') \<Rightarrow> (map_option Inr r, core'))))"

section \<open>Saved data\<close>

definition open_saved_data_session ::
  "('c, 'rs, 'ws, 'ds) store_calls \<Rightarrow> 'c project \<Rightarrow> string + 'ds option" where
  "open_saved_data_session X pr =
     (case sx_unavailable X pr of
        Inl e \<Rightarrow> Inl e
      | Inr (Some reason) \<Rightarrow> Inr None
      | Inr None \<Rightarrow> map_sum id Some (sx_open_data X (pr_root pr)))"

text \<open>\<open>data_session\<close>, with what it opens.\<close>

definition data_session ::
  "('c, 'rs, 'ws, 'ds) store_calls \<Rightarrow> ('c, 'cat, 'ix) workspace
   \<Rightarrow> (string + 'ds option) \<times> act list" where
  "data_session X ws =
     (case ws_project ws of None \<Rightarrow> (Inl ''no project resolved for the file'', [])
      | Some pr \<Rightarrow> (open_saved_data_session X pr,
          if sx_unavailable X pr = Inr None then [OpenedRead (pr_root pr)] else []))"

definition saved_roots_body ::
  "('c, 'rs, 'ws, 'ds) store_calls \<Rightarrow> ('c, 'cat, 'ix, json) tool_body" where
  "saved_roots_body X ws file =
     (case data_session X ws of (session, acts) \<Rightarrow>
       (Some ((case session of
          Inl e \<Rightarrow> JObj [(''available'', JBool False), (''roots'', JArr []), (''error'', JStr e)]
        | Inr None \<Rightarrow> JObj [(''available'', JBool False), (''roots'', JArr [])]
        | Inr (Some s) \<Rightarrow> saved_roots_json (saved_roots (sx_data X) (Some s))), acts), ws))"

definition mcp_saved_roots ::
  "('lex, 'parse, 'c, 'ix) mcp_api \<Rightarrow> ('c, 'cat) mcp_world \<Rightarrow> ('c, 'rs, 'ws, 'ds) store_calls
   \<Rightarrow> path option \<Rightarrow> path \<Rightarrow> read_access option \<Rightarrow> ('c, 'cat, 'ix) core
   \<Rightarrow> json option \<times> ('c, 'cat, 'ix) core" where
  "mcp_saved_roots A w X allowed file access core =
     (if access = None then (Some (read_disabled saved_roots_contract), core)
      else contracted saved_roots_contract (tool_result_or
        (\<lambda>e. tool_error (JObj [(''available'', JBool False), (''roots'', JArr []), (''error'', JStr e)]))
        (with_loaded_project A w allowed file None (saved_roots_body X) core)))"

definition no_children :: "bool \<Rightarrow> jobj" where
  "no_children available = [(''available'', JBool available), (''children'', JArr []),
     (''truncated'', JBool False), (''cursor'', JNull), (''store_snapshot'', JNull)]"

definition data_children_body ::
  "('ix, 'ty, 'route) mcp_marrow \<Rightarrow> ('c, 'rs, 'ws, 'ds) store_calls \<Rightarrow> data_children_request
   \<Rightarrow> ('c, 'cat, 'ix, json) tool_body" where
  "data_children_body K X request ws file =
     (case data_session X ws of (session, acts) \<Rightarrow>
       (Some ((case session of
          Inl e \<Rightarrow> JObj (jset (no_children False) ''error'' (JStr e))
        | Inr None \<Rightarrow> JObj (no_children False)
        | Inr (Some s) \<Rightarrow>
            (case session_data_child_views_page (sx_data X) s request of
               Inr page \<Rightarrow> json_insert ''available'' (JBool True) (mm_page_json K page)
             | Inl e \<Rightarrow> JObj (no_children True @ [(''error'', data_error_json e)]))), acts), ws))"

definition mcp_data_children ::
  "('lex, 'parse, 'c, 'ix) mcp_api \<Rightarrow> ('ix, 'ty, 'route) mcp_marrow \<Rightarrow> ('c, 'cat) mcp_world
   \<Rightarrow> ('c, 'rs, 'ws, 'ds) store_calls \<Rightarrow> path option \<Rightarrow> path \<Rightarrow> data_children_request
   \<Rightarrow> read_access option \<Rightarrow> ('c, 'cat, 'ix) core \<Rightarrow> json option \<times> ('c, 'cat, 'ix) core" where
  "mcp_data_children A K w X allowed file request access core =
     (if access = None then (Some (read_disabled data_children_contract), core)
      else contracted data_children_contract (tool_result_or
        (\<lambda>e. tool_error (JObj (jset (no_children False) ''error'' (JStr e))))
        (with_loaded_project A w allowed file None (data_children_body K X request) core)))"

definition no_value :: "bool \<Rightarrow> jobj" where
  "no_value available = [(''available'', JBool available), (''presence'', JStr ''absent''),
     (''value'', JNull), (''value_truncated'', JBool False), (''store_snapshot'', JNull)]"

definition data_read_body ::
  "('ix, 'ty, 'route) mcp_marrow \<Rightarrow> ('c, 'rs, 'ws, 'ds) store_calls \<Rightarrow> data_read_request
   \<Rightarrow> ('c, 'cat, 'ix, json) tool_body" where
  "data_read_body K X request ws file =
     (case data_session X ws of (session, acts) \<Rightarrow>
       (Some ((case session of
          Inl e \<Rightarrow> JObj (jset (no_value False) ''error'' (JStr e))
        | Inr None \<Rightarrow> JObj (no_value False)
        | Inr (Some s) \<Rightarrow>
            (case session_data_read (sx_data X) s request of
               Inr found \<Rightarrow> json_insert ''available'' (JBool True) (mm_value_json K found)
             | Inl e \<Rightarrow> JObj (no_value True @ [(''error'', data_error_json e)]))), acts), ws))"

definition mcp_data_read ::
  "('lex, 'parse, 'c, 'ix) mcp_api \<Rightarrow> ('ix, 'ty, 'route) mcp_marrow \<Rightarrow> ('c, 'cat) mcp_world
   \<Rightarrow> ('c, 'rs, 'ws, 'ds) store_calls \<Rightarrow> path option \<Rightarrow> path \<Rightarrow> data_read_request
   \<Rightarrow> read_access option \<Rightarrow> ('c, 'cat, 'ix) core \<Rightarrow> json option \<times> ('c, 'cat, 'ix) core" where
  "mcp_data_read A K w X allowed file request access core =
     (if access = None then (Some (read_disabled data_read_contract), core)
      else contracted data_read_contract (tool_result_or
        (\<lambda>e. tool_error (JObj (jset (no_value False) ''error'' (JStr e))))
        (with_loaded_project A w allowed file None (data_read_body K X request) core)))"

end
