(* ===== verification/Mcp_Run.thy ===== *)
theory Mcp_Run
  imports Mcp_Data
begin

text \<open>
  \<open>mw_run\<close> of \<open>crates/marrow-lsp-core/src/mcp.rs\<close>: running an entry or the tests of a project on
  a watchdog thread, within a budget and with bounded output. Marrow's run sessions are the
  record \<open>run_calls\<close>; a run of the program is the texts it writes and its outcome. Whether the
  thread answers in time is the argument \<open>in_time\<close>.
\<close>

section \<open>Bounded output\<close>

definition output_cap :: nat where
  "output_cap = 64 * 1024"

record capped_output =
  co_text :: string
  co_truncated :: bool

definition new_capped_output :: capped_output where
  "new_capped_output = \<lparr>co_text = [], co_truncated = False\<rparr>"

text \<open>The loop that steps back to a character boundary.\<close>

fun back_to_boundary :: "string \<Rightarrow> nat \<Rightarrow> nat" where
  "back_to_boundary t 0 = 0"
| "back_to_boundary t (Suc n) = (if is_char_boundary t (Suc n) then Suc n else back_to_boundary t n)"

definition capped_write :: "string \<Rightarrow> capped_output \<Rightarrow> capped_output" where
  "capped_write t out =
     (if co_truncated out then out
      else let remaining = output_cap - length (co_text out) in
        if length t \<le> remaining then out\<lparr>co_text := co_text out @ t\<rparr>
        else \<lparr>co_text = co_text out @ take (back_to_boundary t remaining) t, co_truncated = True\<rparr>)"

section \<open>Run sessions\<close>

datatype test_outcome =
    TestPassed
  | TestRuntime string string nat nat
  | TestOther string string

record ('sess, 'arg, 'desc, 'res, 'e) run_calls =
  rc_arguments :: "json list \<Rightarrow> string + 'arg list"
  rc_open_run :: "path \<Rightarrow> string option \<Rightarrow> 'e + 'sess"
  rc_open_test :: "path \<Rightarrow> 'e + 'sess"
  rc_session_error_json :: "'e \<Rightarrow> string \<Rightarrow> json"
  rc_no_entry :: 'e
  rc_run_entry :: "'sess \<Rightarrow> string option"
  rc_resolve :: "'sess \<Rightarrow> string \<Rightarrow> 'desc option"
  rc_text_args :: "'sess \<Rightarrow> string \<Rightarrow> 'e option"
  rc_run_facts :: "'sess \<Rightarrow> json option"
  rc_invoke :: "'sess \<Rightarrow> 'desc \<Rightarrow> 'arg list \<Rightarrow> string list \<times> ('e + 'res)"
  rc_output_json :: "'res \<Rightarrow> string \<Rightarrow> 'e + json"
  rc_error_json :: "'sess \<Rightarrow> 'e \<Rightarrow> string \<Rightarrow> json"
  rc_boundary :: "'sess \<Rightarrow> json"
  rc_cases :: "'sess \<Rightarrow> (string \<times> path) list"
  rc_assert_code :: string
  rc_invoke_test :: "'sess \<Rightarrow> string \<Rightarrow> test_outcome"

section \<open>Results\<close>

definition run_profile_version :: string where
  "run_profile_version = ''mcp.run.v1''"

definition default_run_budget :: nat where
  "default_run_budget = 30"

datatype run_mode = RunEntry | RunTests

definition run_contract :: jobj where
  "run_contract =
     (let c1 = jset (production_contract ''sandboxed execution API'') ''basis''
            (JStr ''Marrow execution boundary and run DTOs'');
          c2 = jset c1 ''sandbox'' (JStr ''fresh-in-memory-store'');
          c3 = jset c2 ''host'' (JStr ''locked-down'');
          c4 = jset c3 ''realStore'' (JStr ''never-touched'')
      in jset c4 ''testBoundary'' (JStr ''Marrow test session execution boundary''))"

definition run_budget_exceeded :: "nat \<Rightarrow> json" where
  "run_budget_exceeded seconds = tool_error (JObj
     [(''diagnostics'', JArr [JObj [(''code'', JStr ''mcp.run.budget_exceeded''), (''message'', JStr
        (''run exceeded the '' @ show_nat seconds @ ''s wall-clock budget and was detached''))]]),
      (''output'', JStr []), (''budget_exceeded'', JBool True), (''budget_seconds'', jnat seconds)])"

definition run_thread_faulted :: json where
  "run_thread_faulted = tool_error (JObj
     [(''diagnostics'', JArr [JObj [(''code'', JStr ''mcp.run.thread_faulted''), (''message'', JStr
        ''the run thread ended without a result'')]]), (''output'', JStr [])])"

definition run_args_error :: "string \<Rightarrow> json" where
  "run_args_error message = JObj [(''diagnostics'', JArr [JObj [(''code'', JStr ''mcp.run.args''),
     (''message'', JStr message)]]), (''output'', JStr [])]"

definition flag_output_truncated :: "json \<Rightarrow> bool \<Rightarrow> json" where
  "flag_output_truncated result truncated =
     (if truncated then json_insert ''output_truncated'' (JBool True) result else result)"

definition with_run_facts :: "json \<Rightarrow> json option \<Rightarrow> json" where
  "with_run_facts result facts =
     (case facts of Some f \<Rightarrow> json_insert ''runFacts'' f result | None \<Rightarrow> result)"

definition merge_objects :: "json \<Rightarrow> json \<Rightarrow> json" where
  "merge_objects base extra =
     (case (as_object base, as_object extra) of
        (Some b, Some e) \<Rightarrow> JObj (fold (\<lambda>(k, v) kvs. jset kvs k v) e b)
      | _ \<Rightarrow> base)"

section \<open>Running\<close>

definition entry_descriptor_error_json ::
  "('sess, 'arg, 'desc, 'res, 'e) run_calls \<Rightarrow> 'sess \<Rightarrow> string \<Rightarrow> json" where
  "entry_descriptor_error_json R session entry =
     (case rc_text_args R session entry of
        Some e \<Rightarrow> rc_error_json R session e []
      | None \<Rightarrow> rc_session_error_json R (rc_no_entry R) [])"

definition run_entry ::
  "('sess, 'arg, 'desc, 'res, 'e) run_calls \<Rightarrow> path \<Rightarrow> string option \<Rightarrow> 'arg list \<Rightarrow> json" where
  "run_entry R root entry args =
     (case rc_open_run R root entry of
        Inl e \<Rightarrow> rc_session_error_json R e []
      | Inr session \<Rightarrow>
          (case rc_run_entry R session of
             None \<Rightarrow> rc_session_error_json R (rc_no_entry R) []
           | Some entry \<Rightarrow>
               (case rc_resolve R session entry of
                  None \<Rightarrow> entry_descriptor_error_json R session entry
                | Some descriptor \<Rightarrow>
                    (case rc_invoke R session descriptor args of (writes, invoke) \<Rightarrow>
                       let out = fold capped_write writes new_capped_output;
                           result = (case invoke of
                               Inr value \<Rightarrow> (case rc_output_json R value (co_text out) of
                                   Inr envelope \<Rightarrow> envelope
                                 | Inl e \<Rightarrow> rc_error_json R session e (co_text out))
                             | Inl e \<Rightarrow> rc_error_json R session e (co_text out))
                       in with_run_facts (flag_output_truncated result (co_truncated out))
                            (rc_run_facts R session)))))"

definition test_case_json ::
  "('sess, 'arg, 'desc, 'res, 'e) run_calls \<Rightarrow> string \<times> path \<Rightarrow> test_outcome \<Rightarrow> json" where
  "test_case_json R c outcome =
     (let entry = JObj [(''name'', JStr (fst c)), (''file'', JStr (path_text (snd c)))]
      in (case outcome of
          TestPassed \<Rightarrow> merge_objects entry (JObj [(''outcome'', JStr ''passed'')])
        | TestRuntime code message line column \<Rightarrow>
            (if code = rc_assert_code R then merge_objects entry (JObj [(''outcome'', JStr ''failed''),
               (''code'', JStr code), (''message'', JStr message), (''line'', jnat line),
               (''character'', jnat column)])
             else merge_objects entry (JObj [(''outcome'', JStr ''errored''), (''code'', JStr code),
               (''message'', JStr message), (''line'', jnat line), (''character'', jnat column)]))
        | TestOther code message \<Rightarrow> merge_objects entry (JObj [(''outcome'', JStr ''errored''),
            (''code'', JStr code), (''message'', JStr message)])))"

definition run_tests :: "('sess, 'arg, 'desc, 'res, 'e) run_calls \<Rightarrow> path \<Rightarrow> json" where
  "run_tests R root =
     (case rc_open_test R root of
        Inl e \<Rightarrow> merge_objects (rc_session_error_json R e []) (JObj [(''tests'', JArr [])])
      | Inr session \<Rightarrow> JObj [(''diagnostics'', JArr []), (''output'', JStr []),
          (''tests'', JArr (map (\<lambda>c. test_case_json R c (rc_invoke_test R session (fst c)))
             (rc_cases R session))),
          (''executionBoundary'', rc_boundary R session)])"

text \<open>The watchdog thread starts with a cache of its own.\<close>

definition load_project_for_run ::
  "('lex, 'parse, 'c, 'ix) mcp_api \<Rightarrow> ('c, 'cat) mcp_world \<Rightarrow> path option \<Rightarrow> path
   \<Rightarrow> (access_error + path) option \<times> act list" where
  "load_project_for_run A w allowed file =
     (case with_loaded_project A w allowed file None
         (\<lambda>ws f. (Some (map_option pr_root (ws_project ws), []), ws))
         (new_core :: ('c, 'cat, 'ix) core) of
        (r, core) \<Rightarrow>
          (map_option (\<lambda>x. bind_result x
             (\<lambda>root. ok_or root (LoadError ''no project resolved for the file''))) r,
           mc_acts core))"

definition run_result ::
  "('lex, 'parse, 'c, 'ix) mcp_api \<Rightarrow> ('sess, 'arg, 'desc, 'res, 'e) run_calls
   \<Rightarrow> ('c, 'cat) mcp_world \<Rightarrow> path option \<Rightarrow> path \<Rightarrow> string option \<Rightarrow> json list \<Rightarrow> run_mode
   \<Rightarrow> json option \<times> act list" where
  "run_result A R w allowed file entry args mode =
     (case rc_arguments R args of
        Inl message \<Rightarrow> (Some (run_args_error message), [])
      | Inr args \<Rightarrow>
          if mode = RunTests \<and> args \<noteq> []
          then (Some (run_args_error ''mw_run test mode does not accept entry args''), [])
          else (case load_project_for_run A w allowed file of
              (None, acts) \<Rightarrow> (None, acts)
            | (Some (Inl e), acts) \<Rightarrow>
                (Some (render_access_error e (\<lambda>m. tool_error (JObj
                   [(''diagnostics'', JArr [JObj [(''message'', JStr m)]]), (''output'', JStr [])]))),
                 acts)
            | (Some (Inr root), acts) \<Rightarrow>
                (Some (case mode of RunEntry \<Rightarrow> run_entry R root entry args
                   | RunTests \<Rightarrow> run_tests R root), acts @ [RanProject root])))"

definition run_within_budget ::
  "('lex, 'parse, 'c, 'ix) mcp_api \<Rightarrow> ('sess, 'arg, 'desc, 'res, 'e) run_calls
   \<Rightarrow> ('c, 'cat) mcp_world \<Rightarrow> bool \<Rightarrow> path option \<Rightarrow> path \<Rightarrow> string option \<Rightarrow> json list \<Rightarrow> run_mode
   \<Rightarrow> nat \<Rightarrow> json \<times> act list" where
  "run_within_budget A R w in_time allowed file entry args mode budget =
     (case run_result A R w allowed file entry args mode of (r, acts) \<Rightarrow>
        (if \<not> in_time then run_budget_exceeded budget
         else (case r of Some result \<Rightarrow> result | None \<Rightarrow> run_thread_faulted), acts))"

definition mcp_run ::
  "('lex, 'parse, 'c, 'ix) mcp_api \<Rightarrow> ('sess, 'arg, 'desc, 'res, 'e) run_calls
   \<Rightarrow> ('c, 'cat) mcp_world \<Rightarrow> bool \<Rightarrow> path option \<Rightarrow> path \<Rightarrow> string option \<Rightarrow> json list \<Rightarrow> run_mode
   \<Rightarrow> nat \<Rightarrow> ('c, 'cat, 'ix) core \<Rightarrow> json option \<times> ('c, 'cat, 'ix) core" where
  "mcp_run A R w in_time allowed file entry args mode budget core =
     (case run_within_budget A R w in_time allowed file entry args mode budget of (result, acts) \<Rightarrow>
        (Some (with_profile_version (with_contract result run_contract) run_profile_version),
         core\<lparr>mc_acts := mc_acts core @ acts\<rparr>))"

end
