(* ===== verification/Mcp_Catalog.thy ===== *)
theory Mcp_Catalog
  imports Mcp_Tools
begin

text \<open>
  The tool catalog of \<open>crates/marrow-mcp/src/server.rs\<close>: what \<open>tools/list\<close> shows an agent, with
  the JSON Schema of every tool's arguments. The schemas of typed run arguments, saved-data path
  segments and keys are Marrow's, the record \<open>mcp_schemas\<close>.
\<close>

record mcp_schemas =
  sm_entry_argument :: json
  sm_path_segment_schema :: json
  sm_key_schema :: "string \<Rightarrow> json"

section \<open>Properties and contracts\<close>

definition string_prop :: "string \<Rightarrow> json" where
  "string_prop description = JObj [(''type'', JStr ''string''), (''description'', JStr description)]"

definition int_prop :: "string \<Rightarrow> json" where
  "int_prop description = JObj [(''type'', JStr ''integer''), (''description'', JStr description)]"

definition namespace_qualifier_schema :: json where
  "namespace_qualifier_schema = JObj [(''type'', JStr ''array''), (''description'', JStr
     (''One or more namespace/name segments such as ['' @ [CHR 0x22] @ ''shelf'' @ [CHR 0x22]
      @ '', '' @ [CHR 0x22] @ ''books'' @ [CHR 0x22] @ ''] or ['' @ [CHR 0x22] @ ''books''
      @ [CHR 0x22] @ ''] for an imported module alias.'')),
     (''items'', JObj [(''type'', JStr ''string''), (''minLength'', jnat 1)]), (''minItems'', jnat 1)]"

text \<open>\<open>None\<close> is the panic when Marrow's argument schema has no definitions.\<close>

definition run_input_schema :: "mcp_schemas \<Rightarrow> json option" where
  "run_input_schema H =
     (case as_object (sm_entry_argument H) of None \<Rightarrow> None
      | Some kvs \<Rightarrow> (case map_of kvs ''$defs'' of None \<Rightarrow> None
        | Some defs \<Rightarrow> Some (JObj [(''type'', JStr ''object''), (''properties'', JObj
           [(''file'', string_prop ''Absolute path to any .mw file inside the project.''),
            (''entry'', string_prop ''Entry selector such as `module::fn` for run mode.''),
            (''args'', JObj [(''type'', JStr ''array''),
              (''items'', JObj (AList.delete ''$defs'' kvs)), (''description'', JStr
                ''Typed named arguments for run mode. Test mode does not accept args.'')]),
            (''mode'', JObj [(''type'', JStr ''string''), (''enum'', JArr [JStr ''run'', JStr ''test'']),
              (''description'', JStr (''`run` (default) executes `entry`; `test` runs the project''
                @ [CHR 0x27] @ ''s tests.''))])]),
           (''required'', JArr [JStr ''file'']), (''$defs'', defs)])))"

definition surface_operation_schema :: json where
  "surface_operation_schema = JObj [(''type'', JStr ''object''), (''description'', JStr
     (''Canonical marrow_json surface.operation.v1 request envelope. The body is decoded only by Marrow''
      @ [CHR 0x27] @ ''s SurfaceOperationRequestJson DTO and executed by Marrow'' @ [CHR 0x27]
      @ ''s surface executor.'')),
     (''properties'', JObj [(''profile_version'', JObj [(''const'', JStr ''surface.operation.v1'')]),
       (''operation_tag'', string_prop ''Stable operation tag from mw_surface_routes.''),
       (''request'', JObj [(''type'', JStr ''object''),
          (''description'', JStr ''Canonical surface operation request body.'')])]),
     (''required'', JArr [JStr ''profile_version'', JStr ''operation_tag'', JStr ''request''])]"

definition catalog_production_contract :: "string \<Rightarrow> jobj" where
  "catalog_production_contract description =
     [(''status'', JStr ''ready''), (''stableProductionApi'', JBool True),
      (''description'', JStr description), (''missingFacts'', JArr [])]"

definition catalog_namespace_completion_contract :: jobj where
  "catalog_namespace_completion_contract =
     jset (catalog_production_contract ''source namespace completion fact'')
       ''basis'' (JStr ''Marrow source namespace completion facts'')"

definition catalog_completion_contract :: jobj where
  "catalog_completion_contract = jset (catalog_production_contract ''source completion fact'')
     ''basis'' (JStr ''Marrow source completion fact'')"

definition boundary_statement :: json where
  "boundary_statement = JObj
     [(''reach'', JStr (''data, source, and run tools operate only on projects whose resolved root is under the operator''
        @ [CHR 0x27] @ ''s allowed root; a file outside it is refused before any store is opened'')),
      (''runSandbox'', JStr (''mw_run executes project source but only against a fresh in-memory store ''
        @ [CHR 0xE2, CHR 0x80, CHR 0x94] @ '' the project'' @ [CHR 0x27] @ ''s real store is never opened'')),
      (''writeGrant'', JStr (''the write grant is as strong as the project'' @ [CHR 0x27]
        @ ''s most destructive surface action; it is not scoped to individual records'')),
      (''auditTrail'', JStr
        ''the write-audit trail is an operational record of what an agent changed, not a tamper-evident log''),
      (''grants'', JStr
        ''read access, write access, and the allowed root come only from launch flags or environment variables, never from a tool call'')]"

definition marrow_meta :: "jobj \<Rightarrow> json" where
  "marrow_meta contract =
     JObj [(''marrow/contract'', JObj contract), (''marrow/boundary'', boundary_statement)]"

section \<open>The tools\<close>

definition mw_check_description :: string where
  "mw_check_description =
     ''Check Marrow source and return diagnostics. Pass `file` (a path inside a project) to type-check the whole project ''
      @ [CHR 0xE2, CHR 0x80, CHR 0x94] @ '' optionally with `source` to overlay an unsaved edit ''
      @ [CHR 0xE2, CHR 0x80, CHR 0x94] @
      '' or pass a bare `source` snippet for syntax-only checking. This is the primary compile-error feedback tool.''"

definition mw_check_schema :: json where
  "mw_check_schema =
     JObj [(''type'', JStr ''object''), (''properties'', JObj [(''file'',
      string_prop ''Absolute path to a .mw file inside a Marrow project.''), (''source'',
      string_prop ''The .mw source to check; overlays `file` when both are given, or is checked standalone (syntax only) when `file` is omitted.'')])]"

definition mw_check_tool :: json where
  "mw_check_tool =
     JObj [(''name'', JStr ''mw_check''), (''description'', JStr mw_check_description),
      (''_meta'', marrow_meta (catalog_production_contract ''compile feedback'')),
      (''inputSchema'', mw_check_schema)]"

definition mw_type_at_description :: string where
  "mw_type_at_description =
     ''Report the Marrow type of the expression at a zero-based UTF-16 line/character in `file`.''"

definition mw_type_at_schema :: json where
  "mw_type_at_schema =
     JObj [(''type'', JStr ''object''), (''properties'', JObj [(''file'',
      string_prop ''Absolute path to a .mw file inside a Marrow project.''), (''line'',
      int_prop ''Zero-based line.''), (''character'',
      int_prop ''Zero-based UTF-16 character offset on the line.'')]), (''required'', JArr
      [JStr ''file'', JStr ''line'', JStr ''character''])]"

definition mw_type_at_tool :: json where
  "mw_type_at_tool =
     JObj [(''name'', JStr ''mw_type_at''), (''description'', JStr mw_type_at_description),
      (''_meta'', marrow_meta [(''status'', JStr ''ready''), (''stableProductionApi'', JBool
      True), (''description'', JStr ''type inspection''), (''basis'',
      JStr ''Marrow checked type_at facts''), (''missingFacts'', JArr [])]), (''inputSchema'',
      mw_type_at_schema)]"

definition mw_complete_description :: string where
  "mw_complete_description =
     ''Return Marrow'' @ [CHR 0x27] @
      ''s source.completion.v1 fact at a position in `file`, including source completion items with stable semantic kinds, labels, detail text, and docs.''"

definition mw_complete_schema :: json where
  "mw_complete_schema =
     JObj [(''type'', JStr ''object''), (''properties'', JObj [(''file'',
      string_prop ''Absolute path to a .mw file inside a Marrow project.''), (''line'',
      int_prop ''Zero-based line.''), (''character'',
      int_prop ''Zero-based UTF-16 character offset on the line.'')]), (''required'', JArr
      [JStr ''file'', JStr ''line'', JStr ''character''])]"

definition mw_complete_tool :: json where
  "mw_complete_tool =
     JObj [(''name'', JStr ''mw_complete''), (''description'', JStr mw_complete_description),
      (''_meta'', marrow_meta catalog_completion_contract), (''inputSchema'', mw_complete_schema)]"

definition mw_namespace_complete_description :: string where
  "mw_namespace_complete_description =
     ''Return Marrow'' @ [CHR 0x27] @
      ''s source.namespace.completion.v1 fact for a concrete project module or enum qualifier. This production tool accepts only a file and namespace/name segments; broad editor completion remains mw_complete.''"

definition mw_namespace_complete_schema :: json where
  "mw_namespace_complete_schema =
     JObj [(''type'', JStr ''object''), (''properties'', JObj [(''file'',
      string_prop ''Absolute path to any .mw file inside the project.''), (''qualifier'',
      namespace_qualifier_schema)]), (''required'', JArr [JStr ''file'', JStr ''qualifier''])]"

definition mw_namespace_complete_tool :: json where
  "mw_namespace_complete_tool =
     JObj [(''name'', JStr ''mw_namespace_complete''), (''description'', JStr
      mw_namespace_complete_description), (''_meta'', marrow_meta
      catalog_namespace_completion_contract), (''inputSchema'', mw_namespace_complete_schema)]"

definition mw_resource_schema_description :: string where
  "mw_resource_schema_description =
     ''Return Marrow'' @ [CHR 0x27] @
      ''s canonical resource.schema.v1 JSON DTO for one named resource schema, including catalog-bound resource, store, index, and member identities. The resource `name` is required; all-resource listing is outside this named lookup surface.''"

definition mw_resource_schema_schema :: json where
  "mw_resource_schema_schema =
     JObj [(''type'', JStr ''object''), (''properties'', JObj [(''file'',
      string_prop ''Absolute path to any .mw file inside the project.''), (''name'',
      string_prop ''Resource name for the canonical resource.schema.v1 named lookup surface.'')]),
      (''required'', JArr [JStr ''file'', JStr ''name''])]"

definition mw_resource_schema_tool :: json where
  "mw_resource_schema_tool =
     JObj [(''name'', JStr ''mw_resource_schema''), (''description'', JStr
      mw_resource_schema_description), (''_meta'', marrow_meta [(''status'', JStr ''ready''),
      (''stableProductionApi'', JBool True), (''description'', JStr ''resource schema DTO''),
      (''basis'', JStr ''Marrow resource schema DTO''), (''missingFacts'', JArr []),
      (''boundedness'', JObj [(''requiresNamedResource'', JBool True), (''wholeCatalog'',
      JStr ''outside-surface'')])]), (''inputSchema'', mw_resource_schema_schema)]"

definition mw_surface_routes_description :: string where
  "mw_surface_routes_description =
     ''Return the Marrow-owned surface route manifest for the checked project using the canonical surface ABI and route DTOs. By default this returns read routes only; pass includeWrites true to explicitly include update/action routes. This opens no data store and needs no data-access opt-in.''"

definition mw_surface_routes_schema :: json where
  "mw_surface_routes_schema =
     JObj [(''type'', JStr ''object''), (''properties'', JObj [(''file'',
      string_prop ''Absolute path to any .mw file inside the project.''), (''includeWrites'',
      JObj [(''type'', JStr ''boolean''), (''description'',
      JStr ''When true, include canonical update/action routes as well as read routes. Defaults to false.'')])]),
      (''required'', JArr [JStr ''file''])]"

definition mw_surface_routes_tool :: json where
  "mw_surface_routes_tool =
     JObj [(''name'', JStr ''mw_surface_routes''), (''description'', JStr
      mw_surface_routes_description), (''_meta'', marrow_meta [(''status'', JStr ''ready''),
      (''stableProductionApi'', JBool True), (''description'', JStr ''surface route manifest''),
      (''basis'', JStr ''Marrow surface route manifest DTO''), (''missingFacts'', JArr []),
      (''dataAccess'', JStr ''not-required''), (''operations'',
      JStr ''read/update/action by explicit route scope'')]), (''inputSchema'',
      mw_surface_routes_schema)]"

definition mw_surface_read_description :: string where
  "mw_surface_read_description =
     ''Execute one canonical surface.operation.v1 read request against the project'' @ [CHR 0x27]
      @
      ''s Marrow surface read-only session. This is gated by data access, refuses before project/store opening when disabled, and returns canonical Marrow surface operation response or error envelopes.''"

definition mw_surface_read_schema :: json where
  "mw_surface_read_schema =
     JObj [(''type'', JStr ''object''), (''properties'', JObj [(''file'',
      string_prop ''Absolute path to any .mw file inside the project.''), (''operation'',
      surface_operation_schema)]), (''required'', JArr [JStr ''file'', JStr ''operation''])]"

definition mw_surface_read_tool :: json where
  "mw_surface_read_tool =
     JObj [(''name'', JStr ''mw_surface_read''), (''description'', JStr
      mw_surface_read_description), (''_meta'', marrow_meta [(''status'', JStr ''ready''),
      (''stableProductionApi'', JBool True), (''description'', JStr ''surface read operation''),
      (''basis'', JStr ''Marrow surface operation read-only executor''), (''missingFacts'', JArr
      []), (''dataAccess'', JStr ''gated''), (''operations'', JStr ''read-only'')]),
      (''inputSchema'', mw_surface_read_schema)]"

definition mw_surface_write_description :: string where
  "mw_surface_write_description =
     ''Execute one canonical surface.operation.v1 read, update, or action request against the project''
      @ [CHR 0x27] @
      ''s writable Marrow surface session. This is gated by data access, refuses before project/store opening when disabled, and returns canonical Marrow surface operation response or error envelopes.''"

definition mw_surface_write_schema :: json where
  "mw_surface_write_schema =
     JObj [(''type'', JStr ''object''), (''properties'', JObj [(''file'',
      string_prop ''Absolute path to any .mw file inside the project.''), (''operation'',
      surface_operation_schema)]), (''required'', JArr [JStr ''file'', JStr ''operation''])]"

definition mw_surface_write_tool :: json where
  "mw_surface_write_tool =
     JObj [(''name'', JStr ''mw_surface_write''), (''description'', JStr
      mw_surface_write_description), (''_meta'', marrow_meta [(''status'', JStr ''ready''),
      (''stableProductionApi'', JBool True), (''description'', JStr ''surface write operation''),
      (''basis'', JStr ''Marrow surface operation writable executor''), (''missingFacts'', JArr
      []), (''dataAccess'', JStr ''gated''), (''writeOptIn'', JStr ''gated''), (''operations'',
      JStr ''read/update/action'')]), (''inputSchema'', mw_surface_write_schema)]"

definition mw_saved_roots_description :: string where
  "mw_saved_roots_description =
     ''Production read-only saved-root listing API: list typed saved-root views with Marrow data_view_boundary facts and generation/snapshot metadata from the project''
      @ [CHR 0x27] @
      ''s real store when data access is enabled. It returns no child paths or stored values, accepts no editor-authored saved path, and reads nothing when data access is disabled.''"

definition mw_saved_roots_schema :: json where
  "mw_saved_roots_schema =
     JObj [(''type'', JStr ''object''), (''properties'', JObj [(''file'',
      string_prop ''Absolute path to any .mw file inside the project.'')]), (''required'', JArr
      [JStr ''file''])]"

definition mw_saved_roots_tool :: json where
  "mw_saved_roots_tool =
     JObj [(''name'', JStr ''mw_saved_roots''), (''description'', JStr
      mw_saved_roots_description), (''_meta'', marrow_meta saved_roots_contract),
      (''inputSchema'', mw_saved_roots_schema)]"

definition mw_data_children_description :: string where
  "mw_data_children_description =
     ''Production read-only bounded typed data children API: return one page of typed child segments with Marrow data_view_boundary facts and generation/snapshot metadata for a saved-data path from the project''
      @ [CHR 0x27] @
      ''s real store when data access is enabled. It accepts a catalog-bound typed saved-data path and an optional typed cursor DTO, clamps `limit`, and reads nothing when data access is disabled.''"

definition mw_data_children_schema :: "mcp_schemas \<Rightarrow> json" where
  "mw_data_children_schema H =
     JObj [(''type'', JStr ''object''), (''properties'', JObj [(''file'',
      string_prop ''Absolute path to any .mw file inside the project.''), (''segments'',
      JObj [(''type'', JStr ''array''), (''description'',
      JStr (''Catalog-bound typed saved-data path segments, for example [{'' @ [CHR 0x22] @
      ''kind'' @ [CHR 0x22] @ '':'' @ [CHR 0x22] @ ''root'' @ [CHR 0x22] @ '','' @ [CHR 0x22] @
      ''store_catalog_id'' @ [CHR 0x22] @ '':'' @ [CHR 0x22] @
      ''cat_00000000000000000000000000000001'' @ [CHR 0x22] @ ''},{'' @ [CHR 0x22] @ ''kind'' @
      [CHR 0x22] @ '':'' @ [CHR 0x22] @ ''key'' @ [CHR 0x22] @ '','' @ [CHR 0x22] @ ''value'' @
      [CHR 0x22] @ '':{'' @ [CHR 0x22] @ ''kind'' @ [CHR 0x22] @ '':'' @ [CHR 0x22] @ ''int'' @
      [CHR 0x22] @ '','' @ [CHR 0x22] @ ''value'' @ [CHR 0x22] @ '':1}}].'')), (''minItems'', jnat
      1), (''items'', sm_path_segment_schema H)]), (''limit'', JObj [(''type'', JStr ''integer''),
      (''minimum'', jnat 1), (''description'',
      JStr ''Maximum first identity keys to return; the core clamps oversized requests.'')]),
      (''cursor'', sm_key_schema H ''Optional typed cursor returned by the previous page.'')]),
      (''required'', JArr [JStr ''file'', JStr ''segments'', JStr ''limit''])]"

definition mw_data_children_tool :: "mcp_schemas \<Rightarrow> json" where
  "mw_data_children_tool H =
     JObj [(''name'', JStr ''mw_data_children''), (''description'', JStr
      mw_data_children_description), (''_meta'', marrow_meta data_children_contract),
      (''inputSchema'', mw_data_children_schema H)]"

definition mw_data_read_description :: string where
  "mw_data_read_description =
     ''Production read-only bounded typed data read API: return a Marrow-rendered value preview with Marrow data_view_boundary facts and generation/snapshot metadata for one typed saved-data path from the project''
      @ [CHR 0x27] @
      ''s real store when data access is enabled. It accepts a catalog-bound typed saved-data path, clamps `preview_limit`, uses Marrow-owned bounded read presence, and reads nothing when data access is disabled.''"

definition mw_data_read_schema :: "mcp_schemas \<Rightarrow> json" where
  "mw_data_read_schema H =
     JObj [(''type'', JStr ''object''), (''properties'', JObj [(''file'',
      string_prop ''Absolute path to any .mw file inside the project.''), (''segments'',
      JObj [(''type'', JStr ''array''), (''description'',
      JStr (''Catalog-bound typed saved-data path segments, for example [{'' @ [CHR 0x22] @
      ''kind'' @ [CHR 0x22] @ '':'' @ [CHR 0x22] @ ''root'' @ [CHR 0x22] @ '','' @ [CHR 0x22] @
      ''store_catalog_id'' @ [CHR 0x22] @ '':'' @ [CHR 0x22] @
      ''cat_00000000000000000000000000000001'' @ [CHR 0x22] @ ''},{'' @ [CHR 0x22] @ ''kind'' @
      [CHR 0x22] @ '':'' @ [CHR 0x22] @ ''key'' @ [CHR 0x22] @ '','' @ [CHR 0x22] @ ''value'' @
      [CHR 0x22] @ '':{'' @ [CHR 0x22] @ ''kind'' @ [CHR 0x22] @ '':'' @ [CHR 0x22] @ ''int'' @
      [CHR 0x22] @ '','' @ [CHR 0x22] @ ''value'' @ [CHR 0x22] @ '':1}},{'' @ [CHR 0x22] @
      ''kind'' @ [CHR 0x22] @ '':'' @ [CHR 0x22] @ ''field'' @ [CHR 0x22] @ '','' @ [CHR 0x22] @
      ''member_catalog_id'' @ [CHR 0x22] @ '':'' @ [CHR 0x22] @
      ''cat_00000000000000000000000000000002'' @ [CHR 0x22] @ ''}].'')), (''minItems'', jnat 1),
      (''items'', sm_path_segment_schema H)]), (''preview_limit'', JObj [(''type'',
      JStr ''integer''), (''minimum'', jnat 1), (''description'',
      JStr ''Maximum rendered preview characters; the core clamps oversized requests.'')])]),
      (''required'', JArr [JStr ''file'', JStr ''segments''])]"

definition mw_data_read_tool :: "mcp_schemas \<Rightarrow> json" where
  "mw_data_read_tool H =
     JObj [(''name'', JStr ''mw_data_read''), (''description'', JStr mw_data_read_description),
      (''_meta'', marrow_meta data_read_contract), (''inputSchema'', mw_data_read_schema H)]"

definition mw_run_description :: string where
  "mw_run_description =
     ''Sandboxed execution API: execute Marrow to confirm behavior through Marrow'' @ [CHR 0x27] @
      ''s fresh in-memory project session and execution boundary under a locked-down host (fixed clock + captured log, no filesystem/env/maintenance) ''
      @ [CHR 0xE2, CHR 0x80, CHR 0x94] @ '' the project'' @ [CHR 0x27] @
      ''s real store is never touched. `mode: '' @ [CHR 0x22] @ ''run'' @ [CHR 0x22] @
      ''` resolves `entry` against Marrow'' @ [CHR 0x27] @
      ''s current entry descriptor, accepts typed `args`, and returns Marrow'' @ [CHR 0x27] @
      ''s run result/error DTO plus execution boundary with source analysis generation, entry descriptor, footprint, cost-shape, and store-open-mode facts. `mode: ''
      @ [CHR 0x22] @ ''test'' @ [CHR 0x22] @ ''` runs the project'' @ [CHR 0x27] @
      ''s test session, returns Marrow'' @ [CHR 0x27] @
      ''s test session execution boundary with source analysis generation, runs each test over its own fresh store, and does not accept args.''"

definition mw_run_tool :: "json \<Rightarrow> json" where
  "mw_run_tool run_schema =
     JObj [(''name'', JStr ''mw_run''), (''description'', JStr mw_run_description), (''_meta'',
      marrow_meta [(''status'', JStr ''ready''), (''stableProductionApi'', JBool True),
      (''description'', JStr ''sandboxed execution API''), (''missingFacts'', JArr []),
      (''sandbox'', JStr ''fresh-in-memory-store''), (''host'', JStr ''locked-down''),
      (''realStore'', JStr ''never-touched''), (''catalogState'', JStr ''not-mutated''),
      (''runResult'', JStr ''Marrow run result/error DTOs''), (''runFacts'',
      JStr ''Marrow execution boundary with source analysis generation, entry descriptor, footprint, cost shape, and store open mode''),
      (''testBoundary'', JStr ''Marrow test session execution boundary''), (''typedInputs'',
      JObj [(''args'', JStr ''typed run protocol DTOs''), (''entry'',
      JStr ''current-session entry selector'')])]), (''inputSchema'', run_schema)]"

definition tools :: "mcp_schemas \<Rightarrow> json option" where
  "tools H = map_option (\<lambda>run_schema. JArr [mw_check_tool, mw_type_at_tool, mw_complete_tool,
     mw_namespace_complete_tool, mw_resource_schema_tool, mw_surface_routes_tool,
     mw_surface_read_tool, mw_surface_write_tool, mw_saved_roots_tool, mw_data_children_tool H,
     mw_data_read_tool H, mw_run_tool run_schema]) (run_input_schema H)"

end
