(* ===== verification/Mcp_Server.thy ===== *)
theory Mcp_Server
  imports Mcp_Run Mcp_Catalog
begin

text \<open>
  The dispatcher of \<open>crates/marrow-mcp/src/server.rs\<close>: the protocol version, the policy of the
  session, the decoding of a call's arguments and the routing to the tools. Everything a call
  depends on besides the policy and the state is a \<open>tool_env\<close>.
\<close>

section \<open>Protocol version\<close>

definition protocol_version :: string where
  "protocol_version = ''2025-06-18''"

definition supported_protocol_versions :: "string list" where
  "supported_protocol_versions = [protocol_version, ''2025-03-26'']"

definition negotiate_protocol_version :: "string option \<Rightarrow> string" where
  "negotiate_protocol_version requested =
     (case requested of
        Some r \<Rightarrow> (case find (\<lambda>v. v = r) supported_protocol_versions of
            Some v \<Rightarrow> v | None \<Rightarrow> protocol_version)
      | None \<Rightarrow> protocol_version)"

definition server_info :: json where
  "server_info = JObj [(''name'', JStr ''marrow-mcp''), (''version'', JStr ''0.1.0'')]"

definition initialize_result :: "string \<Rightarrow> json" where
  "initialize_result version = JObj [(''protocolVersion'', JStr version),
     (''capabilities'', JObj [(''tools'', JObj [])]), (''serverInfo'', server_info)]"

section \<open>Policy\<close>

record policy =
  po_allow_read :: bool
  po_allow_write :: bool
  po_run_budget :: nat

definition policy_read_access :: "policy \<Rightarrow> read_access option" where
  "policy_read_access p = (if po_allow_read p then Some ReadAccess else None)"

definition policy_write_access :: "policy \<Rightarrow> write_access option" where
  "policy_write_access p = (if po_allow_write p then Some WriteAccess else None)"

section \<open>Arguments\<close>

definition quoted :: "string \<Rightarrow> string" where
  "quoted key = ''`'' @ key @ ''`''"

definition required_str :: "json \<Rightarrow> string \<Rightarrow> string + string" where
  "required_str arguments key =
     ok_or (Option.bind (jget arguments key) as_str) (''missing or non-string argument '' @ quoted key)"

definition optional_str :: "json \<Rightarrow> string \<Rightarrow> string + string option" where
  "optional_str arguments key =
     (case jget arguments key of
        None \<Rightarrow> Inr None
      | Some JNull \<Rightarrow> Inr None
      | Some (JStr s) \<Rightarrow> Inr (Some s)
      | Some _ \<Rightarrow> Inl (''argument '' @ quoted key @ '' must be a string when present''))"

definition optional_bool :: "json \<Rightarrow> string \<Rightarrow> string + bool" where
  "optional_bool arguments key =
     (case jget arguments key of
        None \<Rightarrow> Inr False
      | Some JNull \<Rightarrow> Inr False
      | Some (JBool b) \<Rightarrow> Inr b
      | Some _ \<Rightarrow> Inl (''argument '' @ quoted key @ '' must be a boolean when present''))"

definition optional_array :: "json \<Rightarrow> string \<Rightarrow> string + json list" where
  "optional_array arguments key =
     (case jget arguments key of
        Some j \<Rightarrow> ok_or (as_array j) (''missing or non-array argument '' @ quoted key)
      | None \<Rightarrow> Inr [])"

text \<open>\<open>contains\<close> of the path separator of Marrow names.\<close>

definition contains_colons :: "string \<Rightarrow> bool" where
  "contains_colons s \<longleftrightarrow>
     list_ex (\<lambda>i. take 2 (drop i s) = ''::'') [0..<length s]"

definition invalid_qualifier :: string where
  "invalid_qualifier = ''invalid mw_namespace_complete arguments: `qualifier` must be a non-empty array of non-empty string segments''"

definition namespace_qualifier :: "json \<Rightarrow> string + string list" where
  "namespace_qualifier arguments =
     (case jget arguments ''qualifier'' of
        Some (JArr values) \<Rightarrow>
          if values = [] then Inl invalid_qualifier
          else map_result (\<lambda>v. case as_str v of
              Some segment \<Rightarrow> if segment \<noteq> [] \<and> \<not> contains_colons segment then Inr segment
                else Inl invalid_qualifier
            | None \<Rightarrow> Inl invalid_qualifier) values
      | _ \<Rightarrow> Inl invalid_qualifier)"

definition required_object :: "json \<Rightarrow> string \<Rightarrow> string + json" where
  "required_object arguments key =
     (case jget arguments key of
        Some (JObj kvs) \<Rightarrow> Inr (JObj kvs)
      | _ \<Rightarrow> Inl (''missing or non-object argument '' @ quoted key))"

definition required_path :: "json \<Rightarrow> string \<Rightarrow> string + path" where
  "required_path arguments key = map_sum id path_from (required_str arguments key)"

definition optional_path :: "json \<Rightarrow> string \<Rightarrow> string + path option" where
  "optional_path arguments key = map_sum id (map_option path_from) (optional_str arguments key)"

definition required_u32 :: "json \<Rightarrow> string \<Rightarrow> string + nat" where
  "required_u32 arguments key =
     ok_or (Option.bind (Option.bind (jget arguments key) as_u64)
         (\<lambda>n. if n \<le> u32_max then Some n else None))
       (''missing or out-of-range integer argument '' @ quoted key)"

definition invalid_data_request :: "string \<Rightarrow> data_validation_error \<Rightarrow> string" where
  "invalid_data_request tool e = ''invalid '' @ tool @ '' arguments: '' @ validation_message e"

section \<open>Routing\<close>

record ('lex, 'parse, 'c, 'cat, 'ix, 'ty, 'route, 'rs, 'ws, 'ds, 'sess, 'arg, 'desc, 'res, 'e) tool_env =
  te_api :: "('lex, 'parse, 'c, 'ix) mcp_api"
  te_marrow :: "('ix, 'ty, 'route) mcp_marrow"
  te_run :: "('sess, 'arg, 'desc, 'res, 'e) run_calls"
  te_schemas :: mcp_schemas
  te_children_request :: "json \<Rightarrow> string + data_children_request"
  te_read_request :: "json \<Rightarrow> string + data_read_request"
  te_world :: "('c, 'cat) mcp_world"
  te_stores :: "('c, 'rs, 'ws, 'ds) store_calls"
  te_in_time :: bool

definition data_children_request_of where
  "data_children_request_of T arguments =
     bind_result (map_err (\<lambda>e. ''invalid mw_data_children arguments: '' @ e)
         (te_children_request T arguments))
       (\<lambda>r. map_err (invalid_data_request ''mw_data_children'') (validate_data_children_request r))"

definition data_read_request_of where
  "data_read_request_of T arguments =
     bind_result (map_err (\<lambda>e. ''invalid mw_data_read arguments: '' @ e) (te_read_request T arguments))
       (\<lambda>r. map_err (invalid_data_request ''mw_data_read'') (validate_data_read_request r))"

text \<open>A decoded call: the tool with its arguments. \<open>Err\<close> is a protocol error.\<close>

datatype decoded_call =
    CallCheck "path option" "string option"
  | CallTypeAt path nat nat
  | CallComplete path nat nat
  | CallNamespace path "string list"
  | CallResourceSchema path string
  | CallSurfaceRoutes path surface_route_scope
  | CallSurfaceRead path json
  | CallSurfaceWrite path json
  | CallSavedRoots path
  | CallDataChildren path data_children_request
  | CallDataRead path data_read_request
  | CallRun path "string option" "json list" run_mode

definition file_arg :: "json \<Rightarrow> (path \<Rightarrow> string + 'a) \<Rightarrow> string + 'a" where
  "file_arg arguments k = bind_result (required_path arguments ''file'') k"

definition cursor_args :: "json \<Rightarrow> (nat \<Rightarrow> nat \<Rightarrow> decoded_call) \<Rightarrow> string + decoded_call" where
  "cursor_args arguments k =
     bind_result (required_u32 arguments ''line'') (\<lambda>line.
       map_sum id (k line) (required_u32 arguments ''character''))"

definition run_mode_arg :: "json \<Rightarrow> string + run_mode" where
  "run_mode_arg arguments =
     bind_result (optional_str arguments ''mode'') (\<lambda>m.
       case m of None \<Rightarrow> Inr RunEntry
       | Some s \<Rightarrow> if s = ''test'' then Inr RunTests else if s = ''run'' then Inr RunEntry
           else Inl (''unknown run mode '' @ quoted s @ ''; use `run` or `test`''))"

definition decode_call where
  "decode_call T name arguments =
     (if name = ''mw_check'' then
        bind_result (optional_path arguments ''file'') (\<lambda>file.
        bind_result (optional_str arguments ''source'') (\<lambda>source.
          if file = None \<and> source = None then Inl ''mw_check needs a `file` or a `source`''
          else Inr (CallCheck file source)))
      else if name = ''mw_type_at'' then file_arg arguments (\<lambda>f. cursor_args arguments (CallTypeAt f))
      else if name = ''mw_complete'' then file_arg arguments (\<lambda>f. cursor_args arguments (CallComplete f))
      else if name = ''mw_namespace_complete'' then
        file_arg arguments (\<lambda>f. map_sum id (CallNamespace f) (namespace_qualifier arguments))
      else if name = ''mw_resource_schema'' then
        file_arg arguments (\<lambda>f. map_sum id (CallResourceSchema f) (required_str arguments ''name''))
      else if name = ''mw_surface_routes'' then
        file_arg arguments (\<lambda>f. map_sum id (\<lambda>all. CallSurfaceRoutes f (if all then AllRoutes else ReadOnly))
          (optional_bool arguments ''includeWrites''))
      else if name = ''mw_surface_read'' then
        file_arg arguments (\<lambda>f. map_sum id (CallSurfaceRead f) (required_object arguments ''operation''))
      else if name = ''mw_surface_write'' then
        file_arg arguments (\<lambda>f. map_sum id (CallSurfaceWrite f) (required_object arguments ''operation''))
      else if name = ''mw_saved_roots'' then file_arg arguments (\<lambda>f. Inr (CallSavedRoots f))
      else if name = ''mw_data_children'' then
        file_arg arguments (\<lambda>f. map_sum id (CallDataChildren f) (data_children_request_of T arguments))
      else if name = ''mw_data_read'' then
        file_arg arguments (\<lambda>f. map_sum id (CallDataRead f) (data_read_request_of T arguments))
      else if name = ''mw_run'' then
        file_arg arguments (\<lambda>f.
        bind_result (optional_str arguments ''entry'') (\<lambda>entry.
        bind_result (optional_array arguments ''args'') (\<lambda>args.
          map_sum id (CallRun f entry args) (run_mode_arg arguments))))
      else Inl (''unknown tool '' @ quoted name))"

definition succeeds :: "json option \<times> 's \<Rightarrow> (string + json) option \<times> 's" where
  "succeeds r = (case r of (x, core) \<Rightarrow> (map_option Inr x, core))"

text \<open>The call itself; \<open>None\<close> is a panic of the tool.\<close>

fun perform_call where
  "perform_call T policy allowed (CallCheck file source) core =
     succeeds (check (te_api T) (te_marrow T) (te_world T) allowed file source core)"
| "perform_call T policy allowed (CallTypeAt f line character) core =
     succeeds (type_at_position (te_api T) (te_marrow T) (te_world T) allowed f line character core)"
| "perform_call T policy allowed (CallComplete f line character) core =
     succeeds (complete (te_api T) (te_marrow T) (te_world T) allowed f line character core)"
| "perform_call T policy allowed (CallNamespace f qualifier) core =
     succeeds (namespace_complete (te_api T) (te_marrow T) (te_world T) allowed f qualifier core)"
| "perform_call T policy allowed (CallResourceSchema f name) core =
     succeeds (resource_schema (te_api T) (te_marrow T) (te_world T) allowed f name core)"
| "perform_call T policy allowed (CallSurfaceRoutes f scope) core =
     succeeds (surface_routes (te_api T) (te_marrow T) (te_world T) allowed f scope core)"
| "perform_call T policy allowed (CallSurfaceRead f operation) core =
     surface_read (te_api T) (te_marrow T) (te_world T) (te_stores T) allowed f operation
       (policy_read_access policy) core"
| "perform_call T policy allowed (CallSurfaceWrite f operation) core =
     surface_write (te_api T) (te_marrow T) (te_world T) (te_stores T) allowed f operation
       (policy_write_access policy) core"
| "perform_call T policy allowed (CallSavedRoots f) core =
     succeeds (mcp_saved_roots (te_api T) (te_world T) (te_stores T) allowed f
       (policy_read_access policy) core)"
| "perform_call T policy allowed (CallDataChildren f request) core =
     succeeds (mcp_data_children (te_api T) (te_marrow T) (te_world T) (te_stores T) allowed f request
       (policy_read_access policy) core)"
| "perform_call T policy allowed (CallDataRead f request) core =
     succeeds (mcp_data_read (te_api T) (te_marrow T) (te_world T) (te_stores T) allowed f request
       (policy_read_access policy) core)"
| "perform_call T policy allowed (CallRun f entry args mode) core =
     succeeds (mcp_run (te_api T) (te_run T) (te_world T) (te_in_time T) allowed f entry args mode
       (po_run_budget policy) core)"

definition call where
  "call T policy allowed name arguments core =
     (case decode_call T name arguments of
        Inl message \<Rightarrow> (Some (Inl message), core)
      | Inr c \<Rightarrow> perform_call T policy allowed c core)"

end
