(* ===== verification/Mcp_Summary.thy ===== *)
theory Mcp_Summary
  imports Mcp_Tools
begin

text \<open>
  The one-line summaries of \<open>crates/marrow-mcp/src/main.rs\<close>: what an agent reads of a tool's
  result besides the result itself.
\<close>

section \<open>Lines\<close>

definition first_line :: "string \<Rightarrow> string" where
  "first_line t = (case cut_line t of (line, None) \<Rightarrow> line | (line, Some rest) \<Rightarrow> chomp line)"

section \<open>Fragments\<close>

definition clip_max :: nat where
  "clip_max = 120"

definition ellipsis :: string where
  "ellipsis = [CHR 0xE2, CHR 0x80, CHR 0xA6]"

definition clip :: "string \<Rightarrow> string" where
  "clip t =
     (let line = first_line t
      in if length (chars line) \<le> clip_max then line
         else concat (take clip_max (chars line)) @ ellipsis)"

definition plural :: "nat \<Rightarrow> string" where
  "plural count = (if count = 1 then [] else ''s'')"

definition get_str :: "json \<Rightarrow> string \<Rightarrow> string option" where
  "get_str j k = Option.bind (jget j k) as_str"

definition get_bool :: "json \<Rightarrow> string \<Rightarrow> bool option" where
  "get_bool j k = Option.bind (jget j k) as_bool"

definition get_array :: "json \<Rightarrow> string \<Rightarrow> json list option" where
  "get_array j k = Option.bind (jget j k) as_array"

definition array_len :: "json \<Rightarrow> string \<Rightarrow> nat" where
  "array_len result field = (case get_array result field of Some xs \<Rightarrow> length xs | None \<Rightarrow> 0)"

definition counted :: "nat \<Rightarrow> string \<Rightarrow> string" where
  "counted n noun = show_nat n @ '' '' @ noun @ plural n"

definition count_summary :: "json \<Rightarrow> string \<Rightarrow> string \<Rightarrow> string \<Rightarrow> string" where
  "count_summary result field empty_phrase noun =
     (let count = array_len result field in if count = 0 then empty_phrase else counted count noun)"

definition is_tool_error :: "json \<Rightarrow> bool" where
  "is_tool_error result \<longleftrightarrow> get_bool result ''tool_error'' = Some True"

section \<open>Per tool\<close>

definition namespace_complete_summary :: "json \<Rightarrow> string" where
  "namespace_complete_summary result =
     (let kind = get_str result ''kind'' in
      if kind = Some ''module'' then
        let count = array_len result ''resources'' + array_len result ''enums''
              + array_len result ''functions'';
            module = (case get_str result ''module'' of Some m \<Rightarrow> m | None \<Rightarrow> ''module'')
        in if count = 0 then module @ '': no namespace items''
           else module @ '': '' @ counted count ''namespace item''
      else if kind = Some ''enum'' then
        let enum_name = (case get_str result ''enum_name'' of Some m \<Rightarrow> m | None \<Rightarrow> ''enum'');
            count = array_len result ''members''
        in if count = 0 then enum_name @ '': no enum members''
           else enum_name @ '': '' @ counted count ''enum member''
      else ''no namespace fact'')"

definition available :: "json \<Rightarrow> bool" where
  "available result \<longleftrightarrow> get_bool result ''available'' = Some True"

definition surface_read_summary :: "json \<Rightarrow> string" where
  "surface_read_summary result =
     (if \<not> available result then ''data unavailable''
      else case Option.bind (Option.bind (jget result ''response'') (\<lambda>r. jget r ''result''))
             (\<lambda>r. get_str r ''kind'') of Some kind \<Rightarrow> clip kind | None \<Rightarrow> ''ok'')"

definition truncated_if :: "bool \<Rightarrow> string \<Rightarrow> string" where
  "truncated_if b base = (if b then base @ '' (truncated)'' else base)"

definition saved_roots_summary :: "json \<Rightarrow> string" where
  "saved_roots_summary result =
     (if \<not> available result then ''data unavailable''
      else count_summary result ''roots'' ''no saved roots'' ''saved root'')"

definition data_children_summary :: "json \<Rightarrow> string" where
  "data_children_summary result =
     (if \<not> available result then ''data unavailable''
      else let count = array_len result ''children'';
               base = (if count = 0 then ''no children'' else if count = 1 then ''1 child''
                 else show_nat count @ '' children'')
           in truncated_if (get_bool result ''truncated'' = Some True) base)"

definition data_read_summary :: "json \<Rightarrow> string" where
  "data_read_summary result =
     (if \<not> available result then ''data unavailable''
      else case get_str result ''value'' of
          Some v \<Rightarrow> truncated_if (get_bool result ''value_truncated'' = Some True) (clip v)
        | None \<Rightarrow> (case get_str result ''presence'' of Some p \<Rightarrow> clip p | None \<Rightarrow> ''absent''))"

text \<open>\<open>compact\<close> is the argument \<open>to_text\<close>.\<close>

definition run_return_summary :: "(json \<Rightarrow> string) \<Rightarrow> json \<Rightarrow> string" where
  "run_return_summary to_text v =
     (case get_str v ''kind'' of None \<Rightarrow> to_text v
      | Some kind \<Rightarrow>
          if kind \<in> set [''int'', ''bool'', ''string'', ''decimal'', ''date'', ''duration'', ''instant'']
          then (case jget v ''value'' of Some x \<Rightarrow> to_text x | None \<Rightarrow> to_text v)
          else if kind = ''bytes''
          then (case Option.bind (jget v ''originalBytes'') as_u64 of
                  Some n \<Rightarrow> show_nat n @ '' bytes'' | None \<Rightarrow> to_text v)
          else if kind = ''sequence'' then show_nat (array_len v ''values'') @ '' values''
          else to_text v)"

definition has_output :: "json \<Rightarrow> bool" where
  "has_output result \<longleftrightarrow>
     (case get_str result ''output'' of Some out \<Rightarrow> out \<noteq> [] | None \<Rightarrow> False)"

definition no_value_summary :: "json \<Rightarrow> string" where
  "no_value_summary result =
     (if has_output result then ''ran, no value (output captured)'' else ''ran, no value'')"

definition run_summary :: "(json \<Rightarrow> string) \<Rightarrow> json \<Rightarrow> string" where
  "run_summary to_text result =
     (let count = array_len result ''diagnostics'' in
      if count > 0 then
        let first = (case get_array result ''diagnostics'' of
              Some (d # ds) \<Rightarrow> (case get_str d ''message'' of Some m \<Rightarrow> m | None \<Rightarrow> ''see diagnostics'')
            | _ \<Rightarrow> ''see diagnostics'')
        in counted count ''diagnostic'' @ '': '' @ clip first
      else case get_array result ''tests'' of
        Some tests \<Rightarrow>
          show_nat (length (filter (\<lambda>t. get_str t ''outcome'' = Some ''passed'') tests)) @ ''/''
          @ show_nat (length tests) @ '' tests passed''
      | None \<Rightarrow>
          (case Option.bind (jget result ''result'') as_object of
             Some kvs \<Rightarrow>
               if Option.bind (map_of kvs ''kind'') as_str = Some ''value''
               then ''value '' @ clip (run_return_summary to_text
                   (case map_of kvs ''value'' of Some v \<Rightarrow> v | None \<Rightarrow> JNull))
               else no_value_summary result
           | None \<Rightarrow> no_value_summary result))"

section \<open>Summaries\<close>

definition error_summary :: "(json \<Rightarrow> string) \<Rightarrow> json \<Rightarrow> string option" where
  "error_summary to_text result =
     map_option (\<lambda>e. ''error: '' @ clip (case as_str e of Some s \<Rightarrow> s | None \<Rightarrow> to_text e))
       (jget result ''error'')"

definition missing_fact_summary :: "json list \<Rightarrow> string option" where
  "missing_fact_summary facts =
     (case facts of [] \<Rightarrow> None
      | f # rest \<Rightarrow> map_option (\<lambda>s. if rest = [] then clip s
          else clip s @ '' +'' @ show_nat (length rest)) (as_str f))"

definition prefix_contract :: "json \<Rightarrow> string \<Rightarrow> string" where
  "prefix_contract result base =
     (case jget result ''contract'' of None \<Rightarrow> base
      | Some contract \<Rightarrow>
     (case get_str contract ''description'' of None \<Rightarrow> base
      | Some description \<Rightarrow>
     (case get_str contract ''status'' of None \<Rightarrow> clip description @ '': '' @ base
      | Some status \<Rightarrow>
          (case Option.bind (get_array contract ''missingFacts'') missing_fact_summary of
             Some missing \<Rightarrow> clip description @ '' ('' @ clip status @ '': '' @ missing @ ''): '' @ base
           | None \<Rightarrow> clip description @ '' ('' @ clip status @ ''): '' @ base))))"

definition tool_summary :: "(json \<Rightarrow> string) \<Rightarrow> string \<Rightarrow> json \<Rightarrow> string" where
  "tool_summary to_text name result =
     (if name = ''mw_check'' then count_summary result ''diagnostics'' ''no diagnostics'' ''diagnostic''
      else if name = ''mw_type_at'' then
        (case get_str result ''type'' of Some ty \<Rightarrow> clip ty | None \<Rightarrow> ''no type'')
      else if name = ''mw_complete'' then count_summary result ''items'' ''no completions'' ''completion''
      else if name = ''mw_namespace_complete'' then namespace_complete_summary result
      else if name = ''mw_resource_schema'' then count_summary result ''resources'' ''no resources'' ''resource''
      else if name = ''mw_surface_routes'' then count_summary result ''routes'' ''no routes'' ''route''
      else if name = ''mw_surface_read'' \<or> name = ''mw_surface_write'' then surface_read_summary result
      else if name = ''mw_saved_roots'' then saved_roots_summary result
      else if name = ''mw_data_children'' then data_children_summary result
      else if name = ''mw_data_read'' then data_read_summary result
      else if name = ''mw_run'' then run_summary to_text result
      else ''ok'')"

definition summarize :: "(json \<Rightarrow> string) \<Rightarrow> string \<Rightarrow> json \<Rightarrow> string" where
  "summarize to_text name result =
     prefix_contract result
       (if get_str result ''dataAccess'' = Some ''disabled'' then ''data access disabled''
        else case get_str result ''refusal'' of
            Some refusal \<Rightarrow> ''refused: '' @ clip refusal
          | None \<Rightarrow> (case error_summary to_text result of
              Some e \<Rightarrow> e | None \<Rightarrow> tool_summary to_text name result))"

end
