(* ===== verification/Mcp_Main.thy ===== *)
theory Mcp_Main
  imports Mcp_Server Mcp_Summary
begin

text \<open>
  The stdio transport of \<open>crates/marrow-mcp/src/main.rs\<close>: start-up from the command line and the
  environment, the handling of one message and the server loop. Text to JSON and back is
  \<open>serde_json\<close>'s: the arguments \<open>parse\<close> and \<open>to_text\<close>.
\<close>

section \<open>Start-up\<close>

record process =
  ps_args :: "string list"
  ps_env :: "string \<Rightarrow> string option"
  ps_current_dir :: "path option"

definition run_budget :: "process \<Rightarrow> nat" where
  "run_budget ps =
     (case Option.bind (ps_env ps ''MARROW_MCP_RUN_BUDGET_SECS'')
         (\<lambda>v. parse_unsigned u64_max (trim v)) of
        Some seconds \<Rightarrow> if seconds > 0 then seconds else default_run_budget
      | None \<Rightarrow> default_run_budget)"

fun arg_value :: "string \<Rightarrow> string list \<Rightarrow> string option" where
  "arg_value flag [] = None"
| "arg_value flag (a # args) =
     (if a = flag then (case args of [] \<Rightarrow> None | v # rest \<Rightarrow> Some v)
      else (case strip_prefix (flag @ ''='') a of Some v \<Rightarrow> Some v | None \<Rightarrow> arg_value flag args))"

definition configured_root :: "process \<Rightarrow> path" where
  "configured_root ps =
     (case arg_value ''--root'' (ps_args ps) of
        Some v \<Rightarrow> path_from v
      | None \<Rightarrow>
          (case ps_env ps ''MARROW_MCP_ROOT'' of
             Some v \<Rightarrow> if trim v \<noteq> [] then path_from v
               else (case ps_current_dir ps of Some d \<Rightarrow> d | None \<Rightarrow> path_from ''.'')
           | None \<Rightarrow> (case ps_current_dir ps of Some d \<Rightarrow> d | None \<Rightarrow> path_from ''.'')))"

definition flag_enabled :: "process \<Rightarrow> string \<Rightarrow> string \<Rightarrow> bool" where
  "flag_enabled ps flag env_var \<longleftrightarrow>
     flag \<in> set (ps_args ps) \<or> ps_env ps env_var \<in> Some ` set [''1'', ''true'', ''yes'']"

definition read_access_enabled :: "process \<Rightarrow> bool" where
  "read_access_enabled ps = flag_enabled ps ''--allow-data'' ''MARROW_MCP_ALLOW_DATA''"

definition write_access_enabled :: "process \<Rightarrow> bool" where
  "write_access_enabled ps = flag_enabled ps ''--allow-write'' ''MARROW_MCP_ALLOW_WRITE''"

text \<open>\<open>main\<close> up to the loop: the policy and the allowed root.\<close>

definition start_up :: "process \<Rightarrow> policy \<times> path" where
  "start_up ps =
     (let allow_write = write_access_enabled ps;
          allow_read = read_access_enabled ps \<or> allow_write
      in (\<lparr>po_allow_read = allow_read, po_allow_write = allow_write, po_run_budget = run_budget ps\<rparr>,
          configured_root ps))"

section \<open>Replies\<close>

definition invalid_params :: int where
  "invalid_params = - 32602"

definition method_not_found :: int where
  "method_not_found = - 32601"

definition rpc_ok :: "json \<Rightarrow> json \<Rightarrow> json" where
  "rpc_ok ident result = JObj [(''jsonrpc'', JStr ''2.0''), (''id'', ident), (''result'', result)]"

definition rpc_error :: "json \<Rightarrow> int \<Rightarrow> string \<Rightarrow> json" where
  "rpc_error ident code message = JObj [(''jsonrpc'', JStr ''2.0''), (''id'', ident),
     (''error'', JObj [(''code'', jint code), (''message'', JStr message)])]"

definition request_params :: "json \<Rightarrow> json option" where
  "request_params message =
     (case jget message ''params'' of
        None \<Rightarrow> Some (JObj [])
      | Some JNull \<Rightarrow> Some (JObj [])
      | Some (JObj kvs) \<Rightarrow> Some (JObj kvs)
      | Some _ \<Rightarrow> None)"

definition strip_tool_error :: "json \<Rightarrow> json" where
  "strip_tool_error j = (case as_object j of Some kvs \<Rightarrow> JObj (AList.delete ''tool_error'' kvs) | None \<Rightarrow> j)"

definition tool_result :: "(json \<Rightarrow> string) \<Rightarrow> string \<Rightarrow> json \<Rightarrow> json" where
  "tool_result to_text name result = JObj
     [(''content'', JArr [JObj [(''type'', JStr ''text''), (''text'', JStr (summarize to_text name result))]]),
      (''structuredContent'', strip_tool_error result), (''isError'', JBool (is_tool_error result))]"

section \<open>One message\<close>

text \<open>Replies are options: \<open>None\<close> is a panic.\<close>

definition with_params ::
  "json \<Rightarrow> json \<Rightarrow> string \<Rightarrow> (json \<Rightarrow> 's \<Rightarrow> json option \<times> 's) \<Rightarrow> 's \<Rightarrow> json option \<times> 's" where
  "with_params ident message meth k core =
     (case request_params message of
        Some params \<Rightarrow> k params core
      | None \<Rightarrow> (Some (rpc_error ident invalid_params (meth @ '' `params` must be an object'')), core))"

definition call_arguments :: "json \<Rightarrow> json option" where
  "call_arguments params =
     (case jget params ''arguments'' of
        None \<Rightarrow> Some (JObj [])
      | Some JNull \<Rightarrow> Some (JObj [])
      | Some (JObj kvs) \<Rightarrow> Some (JObj kvs)
      | Some _ \<Rightarrow> None)"

definition handle_tools_call where
  "handle_tools_call T policy allowed ident params core =
     (case get_str params ''name'' of
        None \<Rightarrow> (Some (rpc_error ident invalid_params ''tools/call needs a tool `name`''), core)
      | Some name \<Rightarrow>
          (case call_arguments params of
             None \<Rightarrow> (Some (rpc_error ident invalid_params
               ''tools/call `arguments` must be an object when present''), core)
           | Some arguments \<Rightarrow>
               (case call T policy allowed name arguments core of (r, core') \<Rightarrow>
                  (map_option (\<lambda>x. case x of
                     Inr result \<Rightarrow> rpc_ok ident (tool_result (mm_to_text (te_marrow T)) name result)
                   | Inl message \<Rightarrow> rpc_error ident invalid_params message) r, core'))))"

definition handle_request where
  "handle_request T policy allowed message ident meth core =
     (if meth = ''initialize'' then with_params ident message meth
        (\<lambda>params core. (Some (rpc_ok ident (initialize_result
           (negotiate_protocol_version (get_str params ''protocolVersion'')))), core)) core
      else if meth = ''ping'' then with_params ident message meth
        (\<lambda>params core. (Some (rpc_ok ident (JObj [])), core)) core
      else if meth = ''tools/list'' then with_params ident message meth
        (\<lambda>params core. (map_option (\<lambda>ts. rpc_ok ident (JObj [(''tools'', ts)]))
           (tools (te_schemas T)), core)) core
      else if meth = ''tools/call'' then with_params ident message meth
        (\<lambda>params core. handle_tools_call T policy allowed ident params core) core
      else if meth = ''shutdown'' then with_params ident message meth
        (\<lambda>params core. (Some (rpc_ok ident JNull), core)) core
      else (Some (rpc_error ident method_not_found (''unknown method `'' @ meth @ ''`'')), core))"

text \<open>A message without an identifier is a notification and gets no reply.\<close>

definition handle where
  "handle T policy allowed message core =
     (let meth = (case get_str message ''method'' of Some m \<Rightarrow> m | None \<Rightarrow> [])
      in case jget message ''id'' of
           None \<Rightarrow> (Some None, core)
         | Some ident \<Rightarrow> (case handle_request T policy allowed message ident meth core of
             (r, core') \<Rightarrow> (map_option Some r, core')))"

section \<open>The loop\<close>

definition write_message :: "(json \<Rightarrow> string) \<Rightarrow> json \<Rightarrow> string" where
  "write_message to_text message = to_text message @ [CHR 0x0A]"

text \<open>
  The loop over the lines, each with the environment it is handled in: what is written, the
  state it ends in, and whether the loop came to its end rather than panicked.
\<close>

fun serve where
  "serve parse policy allowed [] core = ([], core, True)"
| "serve parse policy allowed ((line, T) # rest) core =
     (if \<not> utf8_valid line then ([], core, True)
      else if trim line = [] then serve parse policy allowed rest core
      else (case parse line of
          None \<Rightarrow> serve parse policy allowed rest core
        | Some message \<Rightarrow>
            (case handle T policy allowed message core of
               (None, core') \<Rightarrow> ([], core', False)
             | (Some reply, core') \<Rightarrow>
                 (case serve parse policy allowed rest core' of (out, core'', alive) \<Rightarrow>
                    ((case reply of None \<Rightarrow> out
                      | Some r \<Rightarrow> write_message (mm_to_text (te_marrow T)) r # out), core'', alive)))))"

end
