(* ===== verification/Mcp_Output_Laws.thy ===== *)
theory Mcp_Output_Laws
  imports Mcp_Main
begin

text \<open>
  What an agent receives is bounded: the captured output of a run is the longest prefix of what
  the program wrote that fits, in whole characters, and the summary of any result is one short
  line.
\<close>

section \<open>Captured output\<close>

lemma back_to_boundary_le: "back_to_boundary t n \<le> n"
  by (induction n) (auto simp: le_SucI)

lemma back_to_boundary_is: "is_char_boundary t (back_to_boundary t n)"
  by (induction n) (auto simp: is_char_boundary_def)

lemma back_to_boundary_greatest: "is_char_boundary t b \<Longrightarrow> b \<le> n \<Longrightarrow> b \<le> back_to_boundary t n"
proof (induction n)
  case (Suc n)
  then show ?case by (cases "b = Suc n") auto
qed simp

text \<open>The characters that fit into \<open>n\<close> bytes, when not all of them do.\<close>

lemma whole_characters_that_fit:
  assumes "list_all good_char cs" "n < length (concat cs)"
  obtains kept c dropped where "cs = kept @ c # dropped" "back_to_boundary (concat cs) n = length (concat kept)"
    "length (concat kept) \<le> n" "n < length (concat kept) + length c"
proof -
  let ?b = "back_to_boundary (concat cs) n"
  obtain kept post where post: "cs = kept @ post" "?b = length (concat kept)"
    using boundary_prefix [OF assms(1) _ back_to_boundary_is] back_to_boundary_le [of "concat cs" n] assms(2)
    by (metis le_trans less_or_eq_imp_le)
  have le: "length (concat kept) \<le> n" using post(2) back_to_boundary_le by metis
  with assms(2) post(1) obtain c dropped where c: "post = c # dropped" by (cases post) auto
  have "is_char_boundary (concat cs) (length (concat (kept @ [c])))"
    using prefix_boundary [of "kept @ [c]" dropped] assms(1) post(1) c by simp
  then have "length (concat (kept @ [c])) \<le> n \<Longrightarrow> length (concat (kept @ [c])) \<le> ?b"
    by (rule back_to_boundary_greatest)
  moreover have "c \<noteq> []" using assms(1) post(1) c by (cases c) auto
  ultimately have "n < length (concat kept) + length c" using post(2) by (cases "length (concat (kept @ [c])) \<le> n") auto
  with that [of kept c dropped] post c le show thesis by simp
qed

text \<open>What the sink holds of the characters written so far.\<close>

definition holds_prefix :: "string list \<Rightarrow> capped_output \<Rightarrow> bool" where
  "holds_prefix cs out \<longleftrightarrow>
     (\<exists>kept dropped. cs = kept @ dropped \<and> co_text out = concat kept
        \<and> length (co_text out) \<le> output_cap
        \<and> (if co_truncated out
           then dropped \<noteq> [] \<and> output_cap < length (co_text out) + length (hd dropped)
           else dropped = []))"

lemma holds_prefix_write:
  assumes "holds_prefix cs out" "list_all good_char new"
  shows "holds_prefix (cs @ new) (capped_write (concat new) out)"
proof (cases "co_truncated out \<or> length (concat new) \<le> output_cap - length (co_text out)")
  case True
  from assms(1) obtain kept dropped where h: "cs = kept @ dropped" "co_text out = concat kept"
    "length (co_text out) \<le> output_cap"
    "if co_truncated out then dropped \<noteq> [] \<and> output_cap < length (co_text out) + length (hd dropped)
     else dropped = []" by (auto simp: holds_prefix_def)
  show ?thesis
  proof (cases "co_truncated out")
    case True
    with h show ?thesis unfolding holds_prefix_def
      by (intro exI [of _ kept] exI [of _ "dropped @ new"]) (simp add: capped_write_def hd_append)
  next
    case False
    with h True show ?thesis unfolding holds_prefix_def
      by (intro exI [of _ "kept @ new"] exI [of _ "[]"]) (auto simp: capped_write_def Let_def)
  qed
next
  case False
  from assms(1) False obtain kept where h: "cs = kept" "co_text out = concat kept"
    "length (co_text out) \<le> output_cap" by (auto simp: holds_prefix_def)
  have "output_cap - length (co_text out) < length (concat new)" using False by simp
  from whole_characters_that_fit [OF assms(2) this] obtain k c rest where
    cut: "new = k @ c # rest" "back_to_boundary (concat new) (output_cap - length (co_text out)) = length (concat k)"
      "length (concat k) \<le> output_cap - length (co_text out)"
      "output_cap - length (co_text out) < length (concat k) + length c" .
  have "take (length (concat k)) (concat new) = concat k" by (simp add: cut(1))
  with False cut have "capped_write (concat new) out = \<lparr>co_text = co_text out @ concat k, co_truncated = True\<rparr>"
    by (simp add: capped_write_def Let_def)
  with h cut show ?thesis unfolding holds_prefix_def
    by (intro exI [of _ "kept @ k"] exI [of _ "c # rest"]) auto
qed

lemma holds_prefix_all:
  assumes "holds_prefix cs out" "list_all (list_all good_char) news"
  shows "holds_prefix (cs @ concat news) (fold capped_write (map concat news) out)"
  using assms
proof (induction news arbitrary: cs out)
  case (Cons new news)
  then show ?case using holds_prefix_write [of cs out new] Cons.IH [of "cs @ new"] by simp
qed simp

lemma concat_map_concat: "concat (map concat xss) = concat (concat xss)"
  by (induction xss) simp_all

text \<open>
  C31. Captured output is bounded and whole: whatever texts a run prints, the sink holds at most
  64 KiB, and exactly the longest prefix of all that was printed, in whole characters, that fits;
  it reports truncation exactly if something was left out.
\<close>

theorem captured_output_is_longest_prefix:
  assumes "\<forall>w \<in> set writes. utf8_valid w"
  shows "\<exists>kept dropped. concat writes = concat kept @ concat dropped
    \<and> list_all good_char (kept @ dropped)
    \<and> (let out = fold capped_write writes new_capped_output in
        co_text out = concat kept \<and> length (co_text out) \<le> 65536
        \<and> (co_truncated out \<longleftrightarrow> dropped \<noteq> [])
        \<and> (dropped \<noteq> [] \<longrightarrow> 65536 < length (co_text out) + length (hd dropped)))"
proof -
  have "\<exists>news. writes = map concat news \<and> list_all (list_all good_char) news"
    using assms
  proof (induction writes)
    case (Cons w writes)
    then obtain news where "writes = map concat news" "list_all (list_all good_char) news" by auto
    moreover obtain cs where "w = concat cs" "list_all good_char cs"
      using utf8_valid_chars Cons.prems by (metis list.set_intros(1))
    ultimately show ?case by (intro exI [of _ "cs # news"]) simp
  qed simp
  then obtain news where news: "writes = map concat news" "list_all (list_all good_char) news" by blast
  have "holds_prefix [] new_capped_output"
    by (simp add: holds_prefix_def new_capped_output_def)
  from holds_prefix_all [OF this news(2)] news(1)
  have "holds_prefix (concat news) (fold capped_write writes new_capped_output)" by simp
  then obtain kept dropped where h: "concat news = kept @ dropped"
    "co_text (fold capped_write writes new_capped_output) = concat kept"
    "length (co_text (fold capped_write writes new_capped_output)) \<le> output_cap"
    "if co_truncated (fold capped_write writes new_capped_output)
     then dropped \<noteq> [] \<and> output_cap < length (co_text (fold capped_write writes new_capped_output)) + length (hd dropped)
     else dropped = []" by (auto simp: holds_prefix_def)
  have "list_all good_char (concat news)" using news(2) by (auto simp: list_all_iff)
  moreover have "concat writes = concat (concat news)" by (simp add: news(1) concat_map_concat)
  ultimately show ?thesis
    using h by (intro exI [of _ kept] exI [of _ dropped])
      (auto simp: Let_def output_cap_def split: if_splits)
qed

theorem captured_output_is_longest_prefix_witness:
  "\<exists>kept. concat kept = ''ab'' \<and> fold capped_write [''a'', ''b''] new_capped_output
     = \<lparr>co_text = concat kept, co_truncated = False\<rparr>"
proof -
  have out: "fold capped_write [''a'', ''b''] new_capped_output = \<lparr>co_text = ''ab'', co_truncated = False\<rparr>"
    by (simp add: capped_write_def new_capped_output_def output_cap_def Let_def)
  obtain kept dropped where "concat [''a'', ''b''] = concat kept @ concat dropped"
    "co_text (fold capped_write [''a'', ''b''] new_capped_output) = concat kept"
    using captured_output_is_longest_prefix [of "[''a'', ''b'']"] by (auto simp: Let_def)
  with out show ?thesis by (intro exI [of _ kept]) simp
qed

section \<open>Summaries\<close>

lemma cut_line_set: "cut_line t = (line, rest) \<Longrightarrow> set line \<subseteq> set t \<and> CHR 0x0A \<notin> set line"
  by (induction t arbitrary: line rest) (auto split: if_splits prod.splits)

lemma chomp_set: "set (chomp line) \<subseteq> set line"
  by (auto simp: chomp_def dest: in_set_butlastD)

lemma first_line_one: "CHR 0x0A \<notin> set (first_line t)"
proof -
  obtain line rest where cut: "cut_line t = (line, rest)" by fastforce
  with cut_line_set [OF this] chomp_set [of line] show ?thesis
    by (cases rest) (auto simp: first_line_def)
qed

lemma chars_pieces: "c \<in> set (chars s) \<Longrightarrow> set c \<subseteq> set s \<and> length c \<le> 4"
proof (induction s rule: chars.induct)
  case (1 s)
  show ?case
  proof (cases s)
    case (Cons a as)
    have "c = take (char_len a) s \<or> c \<in> set (chars (drop (char_len a) s))"
      using "1.prems" Cons by (subst (asm) chars.simps) simp
    then show ?thesis
      using "1.IH" [OF Cons] set_drop_subset [of "char_len a" s] set_take_subset [of "char_len a" s]
      by (auto simp: char_len_def)
  qed (use "1.prems" in simp)
qed

lemma chars_length: "length s \<le> 4 * length (chars s)"
proof (induction s rule: chars.induct)
  case (1 s)
  show ?case
  proof (cases s)
    case (Cons a as)
    have "length (drop (char_len a) s) \<le> 4 * length (chars (drop (char_len a) s))"
      using "1.IH" [OF Cons] .
    moreover have "char_len a \<le> 4" by (simp add: char_len_def)
    ultimately show ?thesis using Cons by (subst chars.simps) simp
  qed simp
qed

lemma clip_one_line: "CHR 0x0A \<notin> set (clip t)"
proof -
  have "CHR 0x0A \<notin> set c" if "c \<in> set (chars (first_line t))" for c
    using chars_pieces [OF that] first_line_one [of t] by blast
  then show ?thesis
    using first_line_one [of t]
    by (auto simp: clip_def Let_def ellipsis_def dest: in_set_takeD)
qed

lemma clip_short: "length (clip t) \<le> 483"
proof -
  have "length (concat cs) \<le> 4 * length cs" if "\<forall>c \<in> set cs. length c \<le> 4" for cs :: "string list"
    using that by (induction cs) auto
  from this [of "take clip_max (chars (first_line t))"]
  have "length (concat (take clip_max (chars (first_line t)))) \<le> 480"
    using chars_pieces by (fastforce simp: clip_max_def dest: in_set_takeD)
  moreover have "length (chars (first_line t)) \<le> clip_max \<Longrightarrow> length (first_line t) \<le> 480"
    using chars_length [of "first_line t"] by (simp add: clip_max_def)
  ultimately show ?thesis by (auto simp: clip_def Let_def ellipsis_def)
qed

lemma show_nat_one_line [simp]: "CHR 0x0A \<notin> set (show_nat n)"
  using show_nat_digits [of n] by (auto simp: list_all_iff is_digit_def)

lemma show_nat_short: "n < 10 ^ Suc k \<Longrightarrow> length (show_nat n) \<le> Suc k"
proof (induction k arbitrary: n)
  case 0
  then show ?case by (subst show_nat.simps) simp
next
  case (Suc k)
  have "n div 10 < 10 ^ Suc k" using Suc.prems by (simp add: less_mult_imp_div_less mult.commute)
  with Suc.IH [OF this] show ?case by (subst show_nat.simps) simp
qed

lemma counted_one_line [simp]: "CHR 0x0A \<notin> set noun \<Longrightarrow> CHR 0x0A \<notin> set (counted n noun)"
  by (simp add: counted_def plural_def)

lemmas one_line_simps = clip_one_line counted_one_line show_nat_one_line

definition names_one_line :: "json \<Rightarrow> bool" where
  "names_one_line result \<longleftrightarrow>
     (\<forall>s. get_str result ''module'' = Some s \<or> get_str result ''enum_name'' = Some s
        \<longrightarrow> CHR 0x0A \<notin> set s)"

lemma count_summary_one_line [simp]:
  "CHR 0x0A \<notin> set e \<Longrightarrow> CHR 0x0A \<notin> set noun \<Longrightarrow> CHR 0x0A \<notin> set (count_summary j f e noun)"
  by (simp add: count_summary_def Let_def)

lemma namespace_summary_one_line:
  "names_one_line j \<Longrightarrow> CHR 0x0A \<notin> set (namespace_complete_summary j)"
  by (auto simp: namespace_complete_summary_def names_one_line_def Let_def one_line_simps
      split: option.splits)

lemma run_summary_one_line: "CHR 0x0A \<notin> set (run_summary to_text j)"
  by (auto simp: run_summary_def no_value_summary_def Let_def one_line_simps
      split: option.splits list.splits)

lemma data_summaries_one_line:
  "CHR 0x0A \<notin> set (surface_read_summary j)" "CHR 0x0A \<notin> set (saved_roots_summary j)"
  "CHR 0x0A \<notin> set (data_children_summary j)" "CHR 0x0A \<notin> set (data_read_summary j)"
  by (auto simp: surface_read_summary_def saved_roots_summary_def data_children_summary_def
      data_read_summary_def truncated_if_def Let_def one_line_simps split: option.splits)

lemma tool_summary_one_line: "names_one_line j \<Longrightarrow> CHR 0x0A \<notin> set (tool_summary to_text name j)"
  by (simp add: tool_summary_def namespace_summary_one_line run_summary_one_line
      data_summaries_one_line clip_one_line split: option.split)

lemma other_summary_one_line:
  "name \<noteq> ''mw_namespace_complete'' \<Longrightarrow> CHR 0x0A \<notin> set (tool_summary to_text name j)"
  by (simp add: tool_summary_def run_summary_one_line data_summaries_one_line clip_one_line
      split: option.split)

lemma prefix_contract_one_line:
  assumes "CHR 0x0A \<notin> set base"
  shows "CHR 0x0A \<notin> set (prefix_contract j base)"
proof -
  have "CHR 0x0A \<notin> set m" if "missing_fact_summary facts = Some m" for facts m
    using that by (auto simp: missing_fact_summary_def one_line_simps split: list.splits if_splits)
  with assms show ?thesis
    by (auto simp: prefix_contract_def one_line_simps bind_eq_Some_conv split: option.splits)
qed

section \<open>Their length\<close>

definition counts_fit :: "json \<Rightarrow> bool" where
  "counts_fit j \<longleftrightarrow> (\<forall>k. array_len j k < 10 ^ 20)
     \<and> (\<forall>c facts. jget j ''contract'' = Some c \<longrightarrow> get_array c ''missingFacts'' = Some facts
          \<longrightarrow> length facts < 10 ^ 20)"

lemma count_short: "n < 10 ^ 20 \<Longrightarrow> length (show_nat n) \<le> 20"
  using show_nat_short [of n 19] by simp

lemma counted_short: "n < 10 ^ 20 \<Longrightarrow> length (counted n noun) \<le> 22 + length noun"
  using count_short [of n] by (auto simp: counted_def plural_def)

lemma count_summary_short:
  "counts_fit j \<Longrightarrow> length e \<le> 40 \<Longrightarrow> length noun \<le> 18 \<Longrightarrow> length (count_summary j f e noun) \<le> 40"
  using counted_short [of "array_len j f" noun]
  by (simp add: count_summary_def counts_fit_def Let_def)

lemma run_summary_short:
  assumes "counts_fit j"
  shows "length (run_summary to_text j) \<le> 520"
proof -
  have d: "length (counted (array_len j ''diagnostics'') ''diagnostic'') \<le> 32"
    using counted_short [of "array_len j ''diagnostics''" "''diagnostic''"] assms
    by (simp add: counts_fit_def)
  have t: "length (show_nat (length (filter P tests))) \<le> 20" "length (show_nat (length tests)) \<le> 20"
    if "get_array j ''tests'' = Some tests" for tests P
  proof -
    have "array_len j ''tests'' < 10 ^ 20" using assms unfolding counts_fit_def by blast
    then have "length tests < 10 ^ 20" using that by (simp add: array_len_def)
    then show "length (show_nat (length (filter P tests))) \<le> 20" "length (show_nat (length tests)) \<le> 20"
      using le_less_trans [OF length_filter_le [of P tests]] by (auto intro!: count_short)
  qed
  have c: "length (clip x) \<le> 483" for x by (rule clip_short)
  show ?thesis
  proof (cases "array_len j ''diagnostics'' > 0")
    case True
    then show ?thesis
      using d c by (simp add: run_summary_def Let_def le_trans [OF add_mono [OF d c]])
  next
    case False
    show ?thesis
    proof (cases "get_array j ''tests''")
      case (Some tests)
      with False t(1) [OF Some, where P = "\<lambda>t. get_str t ''outcome'' = Some ''passed''"] t(2) [OF Some] show ?thesis
        by (simp add: run_summary_def Let_def)
    next
      case None
      with False c show ?thesis
        by (auto simp: run_summary_def no_value_summary_def Let_def intro: le_trans [OF c]
            split: option.split)
    qed
  qed
qed

lemma data_summaries_short:
  assumes "counts_fit j"
  shows "length (surface_read_summary j) \<le> 520" "length (saved_roots_summary j) \<le> 520"
    "length (data_children_summary j) \<le> 520" "length (data_read_summary j) \<le> 520"
proof -
  have c: "length (clip x) \<le> 483" for x by (rule clip_short)
  have n: "length (show_nat (array_len j ''children'')) \<le> 20"
    using assms by (simp add: counts_fit_def count_short)
  show "length (surface_read_summary j) \<le> 520"
    by (auto simp: surface_read_summary_def intro: le_trans [OF c] split: option.split)
  show "length (saved_roots_summary j) \<le> 520"
    using count_summary_short [OF assms, of "''no saved roots''" "''saved root''" "''roots''"]
    by (simp add: saved_roots_summary_def)
  show "length (data_children_summary j) \<le> 520"
    using n by (simp add: data_children_summary_def truncated_if_def Let_def)
  have "length (truncated_if b (clip x)) \<le> 520" for b x
    using c [of x] by (simp add: truncated_if_def)
  then show "length (data_read_summary j) \<le> 520"
    by (auto simp: data_read_summary_def intro: le_trans [OF c] split: option.split)
qed

lemma tool_summary_short:
  assumes "counts_fit j" "name \<noteq> ''mw_namespace_complete''"
  shows "length (tool_summary to_text name j) \<le> 520"
proof -
  have c: "length (clip x) \<le> 520" for x using clip_short [of x] by simp
  have n: "length (count_summary j f e noun) \<le> 520" if "length e \<le> 40" "length noun \<le> 18" for f e noun
    using count_summary_short [OF assms(1) that, of f] by simp
  show ?thesis
    using assms(2) c n data_summaries_short [OF assms(1)] run_summary_short [OF assms(1), of to_text]
    by (simp add: tool_summary_def split: option.split)
qed

text \<open>The name a namespace summary starts with, as long as the result has it.\<close>

definition namespace_name :: "json \<Rightarrow> string" where
  "namespace_name result =
     (if get_str result ''kind'' = Some ''module''
      then case get_str result ''module'' of Some m \<Rightarrow> m | None \<Rightarrow> ''module''
      else if get_str result ''kind'' = Some ''enum''
      then case get_str result ''enum_name'' of Some m \<Rightarrow> m | None \<Rightarrow> ''enum'' else [])"

lemma namespace_summary_short:
  assumes "counts_fit j"
  shows "length (namespace_complete_summary j) \<le> 60 + length (namespace_name j)"
proof -
  have k: "array_len j k < 10 ^ 20" for k using assms by (simp add: counts_fit_def)
  have sum: "array_len j ''resources'' + array_len j ''enums'' + array_len j ''functions'' < 10 ^ 21"
    using k [of "''resources''"] k [of "''enums''"] k [of "''functions''"] by simp
  have c: "length (counted n noun) \<le> 23 + length noun" if "n < 10 ^ 21" for n noun
    using show_nat_short [of n 20] that by (auto simp: counted_def plural_def)
  have m: "array_len j ''members'' < 10 ^ 21" using k [of "''members''"] by simp
  show ?thesis
    using c [OF sum, of "''namespace item''"] c [OF m, of "''enum member''"]
    by (simp add: namespace_complete_summary_def namespace_name_def Let_def split: option.split)
qed

lemma prefix_contract_short:
  assumes "counts_fit j"
  shows "length (prefix_contract j base) \<le> 1480 + length base"
proof -
  have c: "length (clip x) \<le> 483" for x by (rule clip_short)
  have m: "length m \<le> 505" if h: "jget j ''contract'' = Some con" "get_array con ''missingFacts'' = Some facts"
    "missing_fact_summary facts = Some m" for con facts m
  proof -
    have "length facts < 10 ^ 20" using assms h(1,2) unfolding counts_fit_def by blast
    then have "length (show_nat (length facts - 1)) \<le> 20" by (simp add: count_short)
    moreover obtain x where "m = clip x \<or> m = clip x @ '' +'' @ show_nat (length facts - 1)"
      using h(3) by (auto simp: missing_fact_summary_def split: list.splits if_splits)
    ultimately show ?thesis using c [of x] by auto
  qed
  show ?thesis
  proof (cases "jget j ''contract''")
    case (Some con)
    show ?thesis
    proof (cases "get_str con ''description''")
      case (Some description)
      note d = c [of description]
      show ?thesis
      proof (cases "get_str con ''status''")
        case None
        with Some d \<open>jget j ''contract'' = Some con\<close> show ?thesis by (simp add: prefix_contract_def)
      next
        case status: (Some status)
        note st = c [of status]
        show ?thesis
        proof (cases "Option.bind (get_array con ''missingFacts'') missing_fact_summary")
          case None
          with Some status d st \<open>jget j ''contract'' = Some con\<close> show ?thesis
            by (simp add: prefix_contract_def)
        next
          case missing: (Some x)
          then have "length x \<le> 505"
            using m \<open>jget j ''contract'' = Some con\<close> by (auto simp: bind_eq_Some_conv)
          with missing Some status d st \<open>jget j ''contract'' = Some con\<close> show ?thesis
            by (simp add: prefix_contract_def)
        qed
      qed
    qed (simp add: prefix_contract_def \<open>jget j ''contract'' = Some con\<close>)
  qed (simp add: prefix_contract_def)
qed

text \<open>
  C32. Summaries are one short line: whatever result a tool gives, however long or many-lined its
  values, messages and contract, the summary of every tool but \<open>mw_namespace_complete\<close> has no
  newline and at most 2 KiB. That tool writes the name of its module or enum as it is: its
  summary has a newline only if a name has one, and is at most 2 KiB longer than the name.
\<close>

theorem summary_is_one_short_line:
  assumes "counts_fit result"
  shows "(name \<noteq> ''mw_namespace_complete'' \<longrightarrow> CHR 0x0A \<notin> set (summarize to_text name result)
        \<and> length (summarize to_text name result) \<le> 2048)
    \<and> (name = ''mw_namespace_complete'' \<longrightarrow>
        (names_one_line result \<longrightarrow> CHR 0x0A \<notin> set (summarize to_text name result))
        \<and> length (summarize to_text name result) \<le> 2048 + length (namespace_name result))"
proof -
  have c: "length (clip x) \<le> 483" for x by (rule clip_short)
  let ?base = "if get_str result ''dataAccess'' = Some ''disabled'' then ''data access disabled''
        else case get_str result ''refusal'' of
            Some refusal \<Rightarrow> ''refused: '' @ clip refusal
          | None \<Rightarrow> (case error_summary to_text result of
              Some e \<Rightarrow> e | None \<Rightarrow> tool_summary to_text name result)"
  have e: "error_summary to_text result = Some e \<Longrightarrow> \<exists>x. e = ''error: '' @ clip x" for e
    by (auto simp: error_summary_def)
  have one_line: "CHR 0x0A \<notin> set (summarize to_text name result)"
    if "CHR 0x0A \<notin> set (tool_summary to_text name result)"
  proof -
    have "CHR 0x0A \<notin> set ?base"
      using that e by (auto simp: one_line_simps split: option.splits)
    then show ?thesis unfolding summarize_def by (rule prefix_contract_one_line)
  qed
  have short: "length (summarize to_text name result) \<le> 2048 + n"
    if "length (tool_summary to_text name result) \<le> 520 + n" for n
  proof -
    have "length (''refused: '' @ clip x) \<le> 520 + n" "length (''error: '' @ clip x) \<le> 520 + n" for x
      using c [of x] by simp_all
    with that e have "length ?base \<le> 520 + n" by (auto split: option.split)
    then show ?thesis
      using prefix_contract_short [OF assms, of ?base] unfolding summarize_def by linarith
  qed
  show ?thesis
  proof (intro conjI impI)
    assume "name \<noteq> ''mw_namespace_complete''"
    then show "CHR 0x0A \<notin> set (summarize to_text name result)"
      "length (summarize to_text name result) \<le> 2048"
      using one_line short [of 0] other_summary_one_line tool_summary_short [OF assms] by simp_all
  next
    assume name: "name = ''mw_namespace_complete''"
    show "length (summarize to_text name result) \<le> 2048 + length (namespace_name result)"
      using namespace_summary_short [OF assms] by (intro short) (simp add: name tool_summary_def)
    assume "names_one_line result"
    then show "CHR 0x0A \<notin> set (summarize to_text name result)"
      using one_line tool_summary_one_line by blast
  qed
qed

theorem summary_is_one_short_line_witness:
  "let j = JObj [(''error'', JStr [CHR ''a'', CHR 0x0A, CHR ''b''])] in
     summarize (\<lambda>_. []) ''mw_check'' j = ''error: a'' \<and> length (summarize (\<lambda>_. []) ''mw_check'' j) \<le> 2048"
proof -
  let ?j = "JObj [(''error'', JStr [CHR ''a'', CHR 0x0A, CHR ''b''])]"
  have "counts_fit ?j" by (simp add: counts_fit_def array_len_def get_array_def)
  from summary_is_one_short_line [OF this, where to_text = "\<lambda>_. []" and name = "''mw_check''"]
  have "length (summarize (\<lambda>_. []) ''mw_check'' ?j) \<le> 2048" by simp
  moreover have "summarize (\<lambda>_. []) ''mw_check'' ?j = ''error: a''"
    by (simp add: summarize_def get_str_def error_summary_def clip_def first_line_def chars.simps
        char_len_def clip_max_def chomp_def prefix_contract_def)
  ultimately show ?thesis by (simp add: Let_def)
qed

end
