(* ===== verification/Mcp_Project_Laws.thy ===== *)
theory Mcp_Project_Laws
  imports Mcp_Project Lsp_Workspace_Laws
begin

text \<open>
  What the project cache of the MCP core guarantees: a session without overlays answers from an
  analysis of the files as they are, and a confined session never leaves its root. And what it
  does not: an overlay outlives its call, and a project that could not be checked counts as
  fresh.
\<close>

section \<open>Cases\<close>

lemma recompute_cases:
  assumes "recompute_from_snapshot M w file docs ws = (r, ws')"
  obtains (unprepared) e where "prepare_recompute M w file docs Full ws = (Inl e, ws')"
      "r = Some (Inl e)"
  | (unanalyzed) p e where "prepare_recompute M w file docs Full ws = (Inr p, ws')"
      "analyze w p = Inl e" "r = Some (Inl (WsDiscover e))"
  | (analyzed) p ws1 s ok where "prepare_recompute M w file docs Full ws = (Inr p, ws1)"
      "analyze w p = Inr s" "commit_recompute M (pp_generation p) (pp_epoch p) s ws1 = (ok, ws')"
      "r = map_option Inr (ws_latest ws')"
  using assms
  by (auto simp: recompute_from_snapshot_def split: prod.splits sum.splits)

lemma load_cases:
  assumes "load_project A w file source core = (r, core')"
  obtains (fresh) "is_fresh_for A w file (map_option (\<lambda>s. (file, s)) source) (mc_cache core)"
      "r = Some (Inr ())" "core' = core"
  | (no_url) "overlay_documents A file source = None" "r = Some (Inl (LoadError ''the file path is not absolute''))" "core' = core"
  | (recomputed) documents docs res ws where
      "\<not> is_fresh_for A w file (map_option (\<lambda>s. (file, s)) source) (mc_cache core)"
      "overlay_documents A file source = Some documents"
      "docs = analysis_snapshot (sv_docs A) documents"
      "recompute_from_snapshot (sv_check A) (mw_fs w) file docs (kc_workspace (mc_cache core))
        = (res, ws)"
      "r = map_option (map_sum (\<lambda>e. LoadError (workspace_error_text e)) (\<lambda>_. ())) res"
      "kc_workspace (mc_cache core') = ws"
      "mc_acts core' = mc_acts core @ check_acts A w file docs (kc_workspace (mc_cache core))"
      "mc_cache core' = (case res of
           Some (Inr s) \<Rightarrow> fingerprints A w (map_option (\<lambda>s. (file, s)) source) ws
         | _ \<Rightarrow> (mc_cache core)\<lparr>kc_workspace := ws\<rparr>)"
proof (cases "is_fresh_for A w file (map_option (\<lambda>s. (file, s)) source) (mc_cache core)")
  case True
  with assms have "r = Some (Inr ()) \<and> core' = core" by (simp add: load_project_def Let_def)
  with True fresh show thesis by blast
next
  case False
  show thesis
  proof (cases "overlay_documents A file source")
    case None
    with assms False have "r = Some (Inl (LoadError ''the file path is not absolute'')) \<and> core' = core"
      by (simp add: load_project_def Let_def)
    with None no_url show thesis by blast
  next
    case (Some documents)
    obtain res ws where rec: "recompute_from_snapshot (sv_check A) (mw_fs w) file
        (analysis_snapshot (sv_docs A) documents) (kc_workspace (mc_cache core)) = (res, ws)"
      by fastforce
    have "kc_workspace (fingerprints A w overlay ws) = ws" for overlay
      by (simp add: fingerprints_def split: option.split)
    note load = assms [unfolded load_project_def Let_def] and kept = this
    show thesis
    proof (cases res)
      case None
      with load False Some rec show thesis
        by (intro recomputed [OF False Some refl rec]) auto
    next
      case (Some x)
      with load False \<open>overlay_documents A file source = Some documents\<close> rec kept show thesis
        by (intro recomputed [OF False \<open>overlay_documents A file source = Some documents\<close> refl rec];
            cases x) auto
    qed
  qed
qed

text \<open>\<open>prepare_recompute\<close> binds the catalog of its project, from scratch when it is a new one.\<close>

lemma prepare_binds:
  assumes "prepare_recompute M w file docs scope ws = (Inr p, ws')"
  obtains pr b cache where "project_for M w file ws = Inr pr"
    "bind_catalog (fw_store w) (pr_root pr) (pr_config pr)
       (if ws_project ws = Some pr \<and> starts_with file (pr_root pr) then ws_catalog ws
        else new_binding_cache) = (Inr b, cache)"
    "ws' = ws\<lparr>ws_project := Some pr, ws_catalog := cache\<rparr>"
    "pp_root p = pr_root pr" "pp_config p = pr_config pr" "pp_accepted p = cb_accepted b"
    "pp_lock p = cb_lock b" "pp_sources p = overlay_snapshot (pr_root pr) docs"
    "pp_generation p = ad_generation docs" "pp_epoch p = ws_epoch ws"
    "pp_source_only p = (scope = Interactive \<and> \<not> any_open_test_module M pr docs)"
proof -
  obtain pr cache0 where pr: "project_for M w file ws = Inr pr"
    using assms by (cases rule: prepare_cases) auto
  define ws1 where "ws1 = (if ws_project ws = Some pr \<and> starts_with file (pr_root pr) then ws
    else ws\<lparr>ws_project := Some pr, ws_catalog := new_binding_cache\<rparr>)"
  obtain b cache where b: "bind_catalog (fw_store w) (pr_root pr) (pr_config pr) (ws_catalog ws1)
      = (b, cache)" by fastforce
  have "(case ws_project ws of
            Some pr \<Rightarrow> if starts_with file (pr_root pr) then Inr (pr, ws) else
              bind_result (resolve_project M w file) (\<lambda>pr. Inr (pr,
                ws\<lparr>ws_project := Some pr, ws_catalog := new_binding_cache\<rparr>))
          | None \<Rightarrow> bind_result (resolve_project M w file) (\<lambda>pr. Inr (pr,
                ws\<lparr>ws_project := Some pr, ws_catalog := new_binding_cache\<rparr>))) = Inr (pr, ws1)"
    using pr resolve_project_root [of M w "file" pr]
    by (auto simp: project_for_def ws1_def split: option.splits if_splits)
  note eval = assms [unfolded prepare_recompute_def this Let_def]
  obtain binding where bi: "b = Inr binding" using eval b by (cases b) auto
  have res: "p = \<lparr>pp_root = pr_root pr, pp_config = pr_config pr,
        pp_sources = overlay_snapshot (pr_root pr) docs, pp_accepted = cb_accepted binding,
        pp_lock = cb_lock binding, pp_generation = ad_generation docs, pp_epoch = ws_epoch ws1,
        pp_source_only = (scope = Interactive \<and> \<not> any_open_test_module M pr docs)\<rparr>"
      "ws' = ws1\<lparr>ws_catalog := cache\<rparr>"
    using eval by (simp_all add: b bi)
  have "ws_catalog ws1 = (if ws_project ws = Some pr \<and> starts_with file (pr_root pr)
      then ws_catalog ws else new_binding_cache)"
    by (simp add: ws1_def)
  then have "bind_catalog (fw_store w) (pr_root pr) (pr_config pr)
       (if ws_project ws = Some pr \<and> starts_with file (pr_root pr) then ws_catalog ws
        else new_binding_cache) = (Inr binding, cache)"
    using b bi by simp
  moreover have "ws' = ws\<lparr>ws_project := Some pr, ws_catalog := cache\<rparr>"
    by (auto simp: res(2) ws1_def)
  ultimately show thesis by (rule that [OF pr]) (simp_all add: res(1) ws1_def)
qed

section \<open>The boundary\<close>

text \<open>
  Everything done, and the project in the cache, was in bounds under the links of some call:
  \<open>Cs\<close> is how the calls resolve them.
\<close>

definition confined_in ::
  "(path \<Rightarrow> path option) set \<Rightarrow> path option \<Rightarrow> path \<Rightarrow> bool" where
  "confined_in Cs allowed p \<longleftrightarrow> (\<exists>canon \<in> Cs. in_bounds canon allowed p)"

definition core_confined ::
  "(path \<Rightarrow> path option) set \<Rightarrow> path option \<Rightarrow> ('c, 'cat, 'ix) core \<Rightarrow> bool" where
  "core_confined Cs allowed core \<longleftrightarrow>
     (\<forall>a \<in> set (mc_acts core). confined_in Cs allowed (act_root a))
     \<and> (\<forall>pr. ws_project (kc_workspace (mc_cache core)) = Some pr \<longrightarrow>
          confined_in Cs allowed (pr_root pr))"

lemma core_confined_new [simp]: "core_confined Cs allowed new_core"
  by (simp add: core_confined_def new_core_def new_cache_def new_workspace_def)

lemma bound_project_for: "map_sum id fst (bound_project M w file ws) = project_for M w file ws"
  by (cases "resolve_project M w file")
    (auto simp: bound_project_def project_for_def split: option.split)

lemma project_for_bounds:
  assumes "project_for M w file ws = Inr pr" "confinement_check canon w allowed file = Inr ()"
    "canon \<in> Cs" "\<forall>pr. ws_project ws = Some pr \<longrightarrow> confined_in Cs allowed (pr_root pr)"
  shows "confined_in Cs allowed (pr_root pr)"
proof -
  have "resolve_project M w file = Inr pr \<Longrightarrow> project_root_of w file = Some (pr_root pr)"
    by (auto simp: resolve_project_def elim: ok_or.elims)
  then have "resolve_project M w file = Inr pr \<Longrightarrow> in_bounds canon allowed (pr_root pr)"
    using assms(2) by (cases allowed) (auto simp: confinement_check_ok in_bounds_def)
  with assms(1,3,4) show ?thesis
    by (auto simp: project_for_def confined_in_def split: option.splits if_splits)
qed

lemma recompute_project:
  assumes "recompute_from_snapshot M w file docs ws = (r, ws')"
  shows "ws_project ws' = ws_project ws \<or> (\<exists>pr. project_for M w file ws = Inr pr \<and> ws_project ws' = Some pr)"
  using assms
proof (cases rule: recompute_cases)
  case (unprepared e)
  then show ?thesis by (cases rule: prepare_cases) auto
next
  case (unanalyzed p e)
  from unanalyzed(1) show ?thesis by (cases rule: prepare_cases) auto
next
  case (analyzed p ws1 s ok)
  have "ws_project ws' = ws_project ws1"
    using analyzed(3) by (auto simp: commit_recompute_def install_def retain_last_good_def Let_def
        split: option.splits if_splits)
  with analyzed(1) show ?thesis by (cases rule: prepare_cases) auto
qed

lemma check_acts_confined:
  assumes "a \<in> set (check_acts A w file docs ws)" "confinement_check canon (mw_fs w) allowed file = Inr ()"
    "canon \<in> Cs" "\<forall>pr. ws_project ws = Some pr \<longrightarrow> confined_in Cs allowed (pr_root pr)"
  shows "confined_in Cs allowed (act_root a)"
proof -
  note bounded = project_for_bounds [OF _ assms(2-4)]
  from assms(1) consider pr c where "bound_project (sv_check A) (mw_fs w) file ws = Inr (pr, c)"
      "a = OpenedCatalog (pr_root pr)"
    | p ws1 where "prepare_recompute (sv_check A) (mw_fs w) file docs Full ws = (Inr p, ws1)"
      "a = Checked (pp_root p)"
    by (cases "prepare_recompute (sv_check A) (mw_fs w) file docs Full ws")
      (auto simp: check_acts_def split: sum.splits prod.splits if_splits dest: sym)
  then show ?thesis
  proof cases
    case 1
    then have "project_for (sv_check A) (mw_fs w) file ws = Inr pr"
      by (simp flip: bound_project_for)
    with 1(2) bounded show ?thesis by simp
  next
    case 2
    from 2(1) show ?thesis by (cases rule: prepare_cases) (auto simp: 2(2) intro: bounded)
  qed
qed

lemma load_confined [keeps]:
  assumes "load_project A w file source core = (r, core')" "core_confined Cs allowed core"
    "confinement_check canon (mw_fs w) allowed file = Inr ()" "canon \<in> Cs"
  shows "core_confined Cs allowed core'"
  using assms(1)
proof (cases rule: load_cases)
  case (recomputed documents docs res ws)
  let ?ws = "kc_workspace (mc_cache core)"
  have old: "\<forall>pr. ws_project ?ws = Some pr \<longrightarrow> confined_in Cs allowed (pr_root pr)"
    using assms(2) by (simp add: core_confined_def)
  have "confined_in Cs allowed (pr_root pr)" if "ws_project ws = Some pr" for pr
    using recompute_project [OF recomputed(4)] that old project_for_bounds [OF _ assms(3,4) old] by auto
  then show ?thesis
    using assms(2) recomputed(6,7) check_acts_confined [OF _ assms(3,4) old]
    by (auto simp: core_confined_def)
qed (use assms in simp_all)

text \<open>
  The log hides no opening: unless it says so, what opening the store would give makes no
  difference to the binding.
\<close>

lemma unopened_probe:
  fixes w :: "('b, 'lock, 'conf, 'e) store_world"
  assumes "\<not> probe_opens w root config c"
  shows "bind_catalog (w\<lparr>sw_open := f\<rparr>) root config c = bind_catalog w root config c"
proof -
  have probe: "probe_store (w\<lparr>sw_open := f\<rparr>) root config (bc_key c) (bc_stat c)
      = probe_store w root config (bc_key c) (bc_stat c)"
    using assms by (auto simp: probe_store_def probe_opens_def Let_def split: sum.split option.split)
  have current: "current_binding (w\<lparr>sw_open := f\<rparr>) root = current_binding w root"
    "(bind_uncached (w\<lparr>sw_open := f\<rparr>) root :: _ + ('b, _) catalog_binding) = bind_uncached w root"
    by (simp_all add: current_binding_def bind_uncached_def lock_for_adoption_def fun_eq_iff)
  show ?thesis unfolding bind_catalog_def probe current by simp
qed

text \<open>So a call of any tool that loads a project may open its store, whatever was granted.\<close>

lemma loading_opens_the_store:
  assumes "load_project A w file None core = (r, core')"
    "\<not> is_fresh_for A w file None (mc_cache core)"
    "bound_project (sv_check A) (mw_fs w) file (kc_workspace (mc_cache core)) = Inr (pr, c)"
    "probe_opens (fw_store (mw_fs w)) (pr_root pr) (pr_config pr) c"
  shows "OpenedCatalog (pr_root pr) \<in> set (mc_acts core')"
  using assms(1)
proof (cases rule: load_cases)
  case (recomputed documents docs res ws)
  then show ?thesis by (simp add: check_acts_def assms(3,4))
qed (use assms(2) in \<open>simp_all add: overlay_documents_def\<close>)

text \<open>A tool body that stays with its project: it acts on that project only and keeps it.\<close>

definition local_body :: "('c, 'cat, 'ix, 'r) tool_body \<Rightarrow> bool" where
  "local_body f \<longleftrightarrow>
     (\<forall>ws file r ws'. f ws file = (r, ws') \<longrightarrow>
        ws_project ws' = ws_project ws
        \<and> (\<forall>x acts. r = Some (x, acts) \<longrightarrow>
             (\<forall>a \<in> set acts. \<exists>pr. ws_project ws = Some pr \<and> act_root a = pr_root pr)))"

lemma with_loaded_confined [keeps]:
  assumes "core_confined Cs allowed core" "mw_canonicalize w \<in> Cs" "local_body f"
  shows "core_confined Cs allowed (snd (with_loaded_project A w allowed file source f core))"
proof (cases "confinement_check (mw_canonicalize w) (mw_fs w) allowed file")
  case (Inr u)
  obtain r core1 where load: "load_project A w file source core = (r, core1)" by fastforce
  have c1: "core_confined Cs allowed core1"
    using load_confined [OF load assms(1) _ assms(2)] Inr by simp
  obtain res ws where f: "f (kc_workspace (mc_cache core1)) file = (res, ws)" by fastforce
  then have "ws_project ws = ws_project (kc_workspace (mc_cache core1))"
    "\<forall>x acts. res = Some (x, acts) \<longrightarrow> (\<forall>a \<in> set acts.
       \<exists>pr. ws_project (kc_workspace (mc_cache core1)) = Some pr \<and> act_root a = pr_root pr)"
    using assms(3) unfolding local_body_def by blast+
  moreover from this(2) c1 have "\<forall>x acts. res = Some (x, acts) \<longrightarrow>
      (\<forall>a \<in> set acts. confined_in Cs allowed (act_root a))"
    unfolding core_confined_def by metis
  ultimately show ?thesis
    using c1 Inr load f
    by (auto simp: with_loaded_project_def core_confined_def split: option.splits sum.splits)
qed (use assms in \<open>simp add: with_loaded_project_def\<close>)

section \<open>Without overlays, answers are current\<close>

text \<open>A check from scratch: the store's catalog read directly, and the files on disk.\<close>

definition checked_now :: "('c, 'cat) mcp_world \<Rightarrow> 'c project \<Rightarrow> workspace_error + analysis" where
  "checked_now w pr =
     (case bind_direct (fw_store (mw_fs w)) (pr_root pr) (pr_config pr) of
        Inl e \<Rightarrow> Inl (WsContext e)
      | Inr b \<Rightarrow> map_err WsDiscover
          (fw_analyze (mw_fs w) (pr_root pr) (pr_config pr) [] (cb_accepted b) (cb_lock b)))"

text \<open>
  What a check reads of the project's sources: the text of every module and test module Marrow
  lists, or nothing when it cannot list them.
\<close>

definition project_files ::
  "('c, 'cat) mcp_world \<Rightarrow> 'c project \<Rightarrow> (path \<Rightarrow> string option) option" where
  "project_files w pr =
     (case (mw_modules w (pr_root pr) (pr_config pr), mw_test_modules w (pr_root pr) (pr_config pr)) of
        (Some modules, Some tests) \<Rightarrow> Some (\<lambda>p. if p \<in> set modules \<or> p \<in> set tests
           then Some (read_to_string (mw_fs w) p) else None)
      | _ \<Rightarrow> None)"

definition lock_bytes :: "('c, 'cat) mcp_world \<Rightarrow> 'c project \<Rightarrow> string option" where
  "lock_bytes w pr = mw_read_bytes w (pr_root pr @ [committed_lock_file])"

text \<open>
  What the session rests on. The standard hasher has no collision among what is hashed in it;
  and the stores can be read, a commit has one catalog, and no commit leaves time and length of
  the store file as they were (see \<open>Lsp_Store\<close>).
\<close>

definition no_collisions ::
  "('lex, 'parse, 'c, 'ix) mcp_api \<Rightarrow> ('c, 'cat) mcp_world set \<Rightarrow> bool" where
  "no_collisions A W \<longleftrightarrow>
     inj_on (ma_hash_sources A) {l. \<exists>w\<in>W. \<exists>pr. source_listing w pr None = Some l}
     \<and> inj_on (ma_hash_bytes A) {b. \<exists>w\<in>W. \<exists>p. mw_read_bytes w p = Some b}"

definition stores_tell :: "('c, 'cat) mcp_world set \<Rightarrow> bool" where
  "stores_tell W \<longleftrightarrow>
     (\<forall>pr :: 'c project. commits_tell ((\<lambda>w. fw_store (mw_fs w)) ` W) (pr_root pr) (pr_config pr)
        \<and> (\<forall>w \<in> W. readable (fw_store (mw_fs w)) (pr_root pr) (pr_config pr)
             \<and> stat_tells ((\<lambda>w. fw_store (mw_fs w)) ` W) (fw_store (mw_fs w)) (pr_root pr) (pr_config pr)))"

lemma listing_files:
  "project_files w pr = map_option map_of (source_listing w pr None)"
proof -
  have "map_of (map (\<lambda>p. (p, f p)) ps) = (\<lambda>p. if p \<in> set ps then Some (f p) else None)"
    for f :: "path \<Rightarrow> string" and ps by (induction ps) auto
  then show ?thesis
    by (auto simp: project_files_def source_listing_def split: option.split)
qed

lemma same_fingerprints:
  assumes "no_collisions A W" "w \<in> W" "w' \<in> W"
    "source_fingerprint A w pr None = source_fingerprint A w' pr None"
    "catalog_fingerprint A w pr = catalog_fingerprint A w' pr"
  shows "project_files w pr = project_files w' pr" "lock_bytes w pr = lock_bytes w' pr"
proof -
  have inj: "\<And>l l' pr pr'. source_listing w pr None = Some l \<Longrightarrow> source_listing w' pr' None = Some l'
      \<Longrightarrow> ma_hash_sources A l = ma_hash_sources A l' \<Longrightarrow> l = l'"
    "\<And>b b' p p'. mw_read_bytes w p = Some b \<Longrightarrow> mw_read_bytes w' p' = Some b'
      \<Longrightarrow> ma_hash_bytes A b = ma_hash_bytes A b' \<Longrightarrow> b = b'"
    using assms(1-3) unfolding no_collisions_def inj_on_def by blast+
  have "source_listing w pr None = source_listing w' pr None"
    using assms(4) inj(1)
    by (cases "source_listing w pr None"; cases "source_listing w' pr None")
      (auto simp: source_fingerprint_def)
  then show "project_files w pr = project_files w' pr" by (simp add: listing_files)
  show "lock_bytes w pr = lock_bytes w' pr"
    using assms(5) inj(2)
    by (cases "mw_read_bytes w (pr_root pr @ [committed_lock_file])";
        cases "mw_read_bytes w' (pr_root pr @ [committed_lock_file])")
      (auto simp: catalog_fingerprint_def lock_bytes_def)
qed

text \<open>The calls of a session that all succeed; between them a tool may build the index.\<close>

definition index_core ::
  "('lex, 'parse, 'c, 'ix) mcp_api \<Rightarrow> ('c, 'cat, 'ix) core \<Rightarrow> ('c, 'cat, 'ix) core" where
  "index_core A core = core\<lparr>mc_cache := (mc_cache core)\<lparr>kc_workspace :=
     binding_index (sv_check A) (kc_workspace (mc_cache core))\<rparr>\<rparr>"

fun load_all ::
  "('lex, 'parse, 'c, 'ix) mcp_api \<Rightarrow> (('c, 'cat) mcp_world \<times> path \<times> bool) list
   \<Rightarrow> ('c, 'cat, 'ix) core \<Rightarrow> ('c, 'cat, 'ix) core option" where
  "load_all A [] core = Some core"
| "load_all A ((w, file, indexed) # calls) core =
     (case load_project A w file None core of
        (Some (Inr _), core1) \<Rightarrow>
          load_all A calls (if indexed then index_core A core1 else core1)
      | _ \<Rightarrow> None)"

definition cache_good ::
  "('lex, 'parse, 'c, 'ix) mcp_api \<Rightarrow> ('c, 'cat) mcp_world set
   \<Rightarrow> ('c, 'cat, 'ix) cached_project \<Rightarrow> bool" where
  "cache_good A W k \<longleftrightarrow>
     (let ws = kc_workspace k in
      case ws_project ws of
        None \<Rightarrow> ws_latest ws = None \<and> ws_latest_generation ws = None
      | Some pr \<Rightarrow> ws_latest_generation ws = Some 0
          \<and> cache_from ((\<lambda>w. fw_store (mw_fs w)) ` W) (pr_root pr) (pr_config pr) (ws_catalog ws)
          \<and> (\<exists>w \<in> W. \<exists>s. ws_latest ws = Some s \<and> checked_now w pr = Inr s
               \<and> kc_source_fingerprint k = source_fingerprint A w pr None
               \<and> kc_catalog_fingerprint k = catalog_fingerprint A w pr))"

lemma cache_good_new [simp]: "cache_good A W (mc_cache new_core)"
  by (simp add: cache_good_def new_core_def new_cache_def new_workspace_def)

lemma binding_index_frame [simp]:
  "ws_project (binding_index M ws) = ws_project ws" "ws_latest (binding_index M ws) = ws_latest ws"
  "ws_latest_generation (binding_index M ws) = ws_latest_generation ws"
  "ws_catalog (binding_index M ws) = ws_catalog ws"
  by (auto simp: binding_index_def split: option.split)

lemma cache_good_index [simp]: "cache_good A W (mc_cache (index_core A core)) = cache_good A W (mc_cache core)"
  by (simp add: cache_good_def index_core_def Let_def split: option.split)

lemma no_overlay_docs:
  assumes "overlay_documents A file None = Some documents"
  shows "ad_generation (analysis_snapshot M documents) = 0"
    "overlay_snapshot root (analysis_snapshot M documents) = []"
  using assms by (auto simp: overlay_documents_def new_documents_def analysis_snapshot_def
      overlay_snapshot_def List.map_filter_def)

lemma install_frame [simp]:
  "ws_project (install M pr g s ws) = ws_project ws" "ws_latest (install M pr g s ws) = Some s"
  "ws_latest_generation (install M pr g s ws) = Some g" "ws_catalog (install M pr g s ws) = ws_catalog ws"
  by (auto simp: install_def retain_last_good_def Let_def split: option.split)

lemma load_keeps_good:
  assumes hash: "no_collisions A W" and tell: "stores_tell W" and w: "w \<in> W"
    and load: "load_project A w file None core = (Some (Inr ()), core')"
    and good: "cache_good A W (mc_cache core)"
  shows "cache_good A W (mc_cache core')
    \<and> (\<exists>pr s. ws_project (kc_workspace (mc_cache core')) = Some pr \<and> starts_with file (pr_root pr)
        \<and> ws_latest (kc_workspace (mc_cache core')) = Some s
        \<and> (\<exists>w0 \<in> W. checked_now w0 pr = Inr s \<and> project_files w0 pr = project_files w pr
             \<and> lock_bytes w0 pr = lock_bytes w pr))"
  using load
proof (cases rule: load_cases)
  case fresh
  then obtain pr where pr: "ws_project (kc_workspace (mc_cache core)) = Some pr"
    "starts_with file (pr_root pr)"
    "source_fingerprint A w pr None = kc_source_fingerprint (mc_cache core)"
    "catalog_fingerprint A w pr = kc_catalog_fingerprint (mc_cache core)"
    by (auto simp: is_fresh_for_def split: option.splits)
  with good obtain w0 s where s: "w0 \<in> W" "ws_latest (kc_workspace (mc_cache core)) = Some s"
    "checked_now w0 pr = Inr s"
    "kc_source_fingerprint (mc_cache core) = source_fingerprint A w0 pr None"
    "kc_catalog_fingerprint (mc_cache core) = catalog_fingerprint A w0 pr"
    by (auto simp: cache_good_def Let_def)
  have "project_files w0 pr = project_files w pr" "lock_bytes w0 pr = lock_bytes w pr"
    using same_fingerprints [OF hash w s(1), of pr] s(4,5) pr(3,4) by simp_all
  with pr(1,2) s fresh(3) good show ?thesis by auto
next
  case (recomputed documents docs res ws')
  let ?ws = "kc_workspace (mc_cache core)"
  note docs = no_overlay_docs [OF recomputed(2), where M = "sv_docs A", folded recomputed(3)]
  obtain s0 where res: "res = Some (Inr s0)" using recomputed(5) by (cases res) (auto simp: map_sum_def split: sum.splits)
  show ?thesis
    using recomputed(4)
  proof (cases rule: recompute_cases)
    case (analyzed p ws1 s ok)
    obtain pr b cache where p: "project_for (sv_check A) (mw_fs w) file ?ws = Inr pr"
      "bind_catalog (fw_store (mw_fs w)) (pr_root pr) (pr_config pr)
         (if ws_project ?ws = Some pr \<and> starts_with file (pr_root pr) then ws_catalog ?ws
          else new_binding_cache) = (Inr b, cache)"
      "ws1 = ?ws\<lparr>ws_project := Some pr, ws_catalog := cache\<rparr>"
      "pp_root p = pr_root pr" "pp_config p = pr_config pr" "pp_accepted p = cb_accepted b"
      "pp_lock p = cb_lock b" "pp_sources p = overlay_snapshot (pr_root pr) docs"
      "pp_generation p = ad_generation docs" "pp_epoch p = ws_epoch ?ws"
      "pp_source_only p = (Full = Interactive \<and> \<not> any_open_test_module (sv_check A) pr docs)"
      by (rule prepare_binds [OF analyzed(1)])
    let ?W = "(\<lambda>w. fw_store (mw_fs w)) ` W"
    have agree: "commits_tell (insert (fw_store (mw_fs w)) ?W) (pr_root pr) (pr_config pr)"
      "readable (fw_store (mw_fs w)) (pr_root pr) (pr_config pr)"
      "stat_tells ?W (fw_store (mw_fs w)) (pr_root pr) (pr_config pr)"
      using tell w unfolding stores_tell_def by (simp_all add: insert_absorb)
    have from_past: "cache_from ?W (pr_root pr) (pr_config pr)
        (if ws_project ?ws = Some pr \<and> starts_with file (pr_root pr) then ws_catalog ?ws
         else new_binding_cache)"
      using good by (auto simp: cache_good_def Let_def)
    have bind: "bind_direct (fw_store (mw_fs w)) (pr_root pr) (pr_config pr) = Inr b"
      "cache_from ?W (pr_root pr) (pr_config pr) cache"
      using bind_is_direct [OF agree(1) from_past agree(2,3)] bind_keeps_cache [OF from_past, of "fw_store (mw_fs w)"] w p(2)
      by auto
    have now: "checked_now w pr = Inr s"
      using analyzed(2) p bind(1) docs(2) by (simp add: checked_now_def analyze_def)
    have gen: "ws_latest_generation ?ws = None \<or> ws_latest_generation ?ws = Some 0"
      using good by (auto simp: cache_good_def Let_def split: option.splits)
    have "ws' = install (sv_check A) pr 0 s ws1"
      using analyzed(3) p gen docs(1) by (auto simp: commit_recompute_def split: option.splits)
    then have fields: "ws_project ws' = Some pr" "ws_latest ws' = Some s"
      "ws_latest_generation ws' = Some 0" "ws_catalog ws' = cache"
      by (simp_all add: p(3))
    have "mc_cache core' = \<lparr>kc_workspace = ws', kc_source_fingerprint = source_fingerprint A w pr None,
        kc_catalog_fingerprint = catalog_fingerprint A w pr\<rparr>"
      using recomputed(8) res fields(1) by (simp add: fingerprints_def)
    moreover have "starts_with file (pr_root pr)"
      using p(1) resolve_project_root [of "sv_check A" "mw_fs w" "file" pr]
      by (auto simp: project_for_def split: option.splits if_splits)
    ultimately show ?thesis
      using fields now bind(2) w by (auto simp: cache_good_def)
  qed (use res in auto)
qed simp

lemma load_all_good:
  assumes "no_collisions A W" "stores_tell W" "load_all A calls core = Some core'"
    "(\<lambda>(w, file, indexed). w) ` set calls \<subseteq> W" "cache_good A W (mc_cache core)"
  shows "cache_good A W (mc_cache core')"
  using assms(3-5)
proof (induction calls arbitrary: core)
  case (Cons call calls)
  obtain w f indexed where call: "call = (w, f, indexed)" by (cases call)
  with Cons.prems(1) obtain core1 where core1: "load_project A w f None core = (Some (Inr ()), core1)"
    "load_all A calls (if indexed then index_core A core1 else core1) = Some core'"
    by (auto split: prod.splits option.splits sum.splits)
  have "w \<in> W" using Cons.prems(2) call by simp
  then have "cache_good A W (mc_cache core1)"
    using load_keeps_good [OF assms(1,2) _ core1(1) Cons.prems(3)] by simp
  then have "cache_good A W (mc_cache (if indexed then index_core A core1 else core1))" by simp
  with core1(2) Cons.prems(2) show ?case by (intro Cons.IH) auto
qed simp

text \<open>Marrow's check reads of the sources no more than their files.\<close>

definition check_reads_files :: "('c, 'cat) mcp_world set \<Rightarrow> 'c project \<Rightarrow> bool" where
  "check_reads_files W pr \<longleftrightarrow>
     (\<forall>w \<in> W. \<forall>w' \<in> W. project_files w pr = project_files w' pr \<longrightarrow>
        (\<forall>accepted lock. fw_analyze (mw_fs w) (pr_root pr) (pr_config pr) [] accepted lock
           = fw_analyze (mw_fs w') (pr_root pr) (pr_config pr) [] accepted lock))"


text \<open>A project of one file; \<open>s\<close> is its text on disk, and an analysis shows what it was of.\<close>

definition demo_file :: path where
  "demo_file = [''/'', ''p'', ''a.mw'']"

definition demo_of :: "string \<Rightarrow> analysis" where
  "demo_of s = \<lparr>an_generation = 1, an_program = demo_program,
     an_files = [\<lparr>af_path = demo_file, af_source = s, af_has_errors = False\<rparr>], an_report = []\<rparr>"

definition demo_mcp :: "(unit, unit, unit, nat) mcp_api" where
  "demo_mcp = \<lparr>sv_docs = \<lparr>lex_source = (\<lambda>_. ()), parse_source = (\<lambda>_. ()),
       to_file_path = (\<lambda>u. Some demo_file)\<rparr>, sv_check = demo_api, sv_path_to_url = (\<lambda>p. Some ''u''),
     ma_hash_sources = (\<lambda>l. length (concat (map snd l))), ma_hash_bytes = length\<rparr>"

definition demo_disk :: "string \<Rightarrow> (unit, nat) mcp_world" where
  "demo_disk s = \<lparr>mw_fs = demo_fs\<lparr>fw_read := \<lambda>p. Inr s,
       fw_analyze := \<lambda>r c srcs a l. Inr (demo_of (case srcs of [] \<Rightarrow> s | (p, t) # rest \<Rightarrow> t))\<rparr>,
     mw_canonicalize = Some, mw_modules = (\<lambda>r c. Some [demo_file]),
     mw_test_modules = (\<lambda>r c. Some []), mw_read_bytes = (\<lambda>p. None)\<rparr>"

lemmas demo_mcp_eval = demo_mcp_def demo_disk_def demo_workspace_eval load_project_def Let_def
  is_fresh_for_def new_core_def new_cache_def overlay_documents_def new_documents_def
  analysis_snapshot_def List.map_filter_def recompute_from_snapshot_def demo_file_def
  open_with_version_def new_document_def analyze_def commit_recompute_def fingerprints_def

definition demo_core :: "string \<Rightarrow> string option \<Rightarrow> (unit, nat, nat) core" where
  "demo_core s source = snd (load_project demo_mcp (demo_disk s) demo_file source new_core)"

lemma demo_loads:
  "load_project demo_mcp (demo_disk s) demo_file source new_core = (Some (Inr ()), demo_core s source)"
  "ws_latest (kc_workspace (mc_cache (demo_core s source))) = Some (demo_of (case source of None \<Rightarrow> s | Some t \<Rightarrow> t))"
  by (auto simp: demo_core_def demo_mcp_eval split: option.split)

definition demo_pr :: "unit project" where
  "demo_pr = \<lparr>pr_root = [''/'', ''p''],
     pr_config = \<lparr>pc_source_roots = [[]], pc_tests = [], pc_other = ()\<rparr>\<rparr>"

lemma demo_core_workspace:
  "ws_project (kc_workspace (mc_cache (demo_core s None))) = Some demo_pr
    \<and> ws_epoch (kc_workspace (mc_cache (demo_core s None))) = 0
    \<and> ws_latest_generation (kc_workspace (mc_cache (demo_core s None))) = Some 0
    \<and> kc_source_fingerprint (mc_cache (demo_core s None)) = Some (length s)"
  by (simp add: demo_core_def demo_mcp_eval demo_pr_def source_fingerprint_def source_listing_def
      read_to_string_def install_def retain_last_good_def)

lemma demo_core_overlaid:
  "ws_project (kc_workspace (mc_cache (demo_core s (Some t)))) = Some demo_pr
    \<and> ws_epoch (kc_workspace (mc_cache (demo_core s (Some t)))) = 0
    \<and> ws_latest_generation (kc_workspace (mc_cache (demo_core s (Some t)))) = Some 1
    \<and> kc_source_fingerprint (mc_cache (demo_core s (Some t))) = Some (length t)"
  by (simp add: demo_core_def demo_mcp_eval demo_pr_def source_fingerprint_def source_listing_def
      read_to_string_def install_def retain_last_good_def)

lemma demo_core_fields:
  "ws_project (kc_workspace (mc_cache (demo_core s source))) = Some demo_pr"
  "ws_epoch (kc_workspace (mc_cache (demo_core s source))) = 0"
  "ws_latest_generation (kc_workspace (mc_cache (demo_core s source)))
     = Some (case source of None \<Rightarrow> 0 | Some t \<Rightarrow> 1)"
  "kc_source_fingerprint (mc_cache (demo_core s source))
     = Some (length (case source of None \<Rightarrow> s | Some t \<Rightarrow> t))"
  using demo_core_workspace demo_core_overlaid by (cases source; simp)+

lemma demo_reloads:
  assumes "length s' \<noteq> length (case source of None \<Rightarrow> s | Some t \<Rightarrow> t)"
  obtains core where "load_project demo_mcp (demo_disk s') demo_file None (demo_core s source)
      = (Some (Inr ()), core)" "ws_project (kc_workspace (mc_cache core)) = Some demo_pr"
proof -
  have latest: "ws_latest (kc_workspace (mc_cache (demo_core s source))) \<noteq> None"
    by (simp add: demo_loads)
  have stale: "\<not> is_fresh_for demo_mcp (demo_disk s') demo_file None (mc_cache (demo_core s source))"
    using assms by (simp add: is_fresh_for_def demo_core_fields source_fingerprint_def
        source_listing_def demo_mcp_def demo_disk_def read_to_string_def)
  obtain r core where load: "load_project demo_mcp (demo_disk s') demo_file None (demo_core s source)
      = (r, core)" by fastforce
  from load have "r = Some (Inr ()) \<and> ws_project (kc_workspace (mc_cache core)) = Some demo_pr"
  proof (cases rule: load_cases)
    case no_url
    then show ?thesis by (simp add: overlay_documents_def)
  next
    case (recomputed documents docs res ws)
    from recomputed(4) show ?thesis
    proof (cases rule: recompute_cases)
      case (unprepared e)
      then show ?thesis
        by (auto simp: prepare_recompute_def demo_core_fields demo_pr_def demo_file_def demo_disk_def
            demo_fs_def bind_catalog_def probe_store_def adopt_def current_binding_def
            lock_for_adoption_def Let_def split: if_splits)
    next
      case (unanalyzed p e)
      then show ?thesis by (simp add: analyze_def demo_disk_def)
    next
      case (analyzed p ws1 s1 ok)
      from analyzed(1) have ws1: "ws_project ws1 = Some demo_pr"
        "ws_latest ws1 = ws_latest (kc_workspace (mc_cache (demo_core s source)))"
        by (cases rule: prepare_cases; simp add: project_for_def demo_core_fields demo_pr_def demo_file_def)+
      have "ws_project ws = Some demo_pr \<and> ws_latest ws \<noteq> None"
        using analyzed(3) ws1 latest by (auto simp: commit_recompute_def split: option.splits if_splits)
      with analyzed(4) recomputed(5,6) show ?thesis by auto
    qed
  qed (use stale in simp)
  with load that show thesis by simp
qed


section \<open>An overlay outlives its call\<close>

text \<open>
  The documents of every call are new, so a call with an overlay is of generation one and a call
  without one of generation zero, which the workspace takes for an older run and does not install.
\<close>

lemma commit_older:
  assumes "ws_latest_generation ws = Some g" "n < g"
  shows "commit_recompute M n e s ws = (False, ws)"
  using assms by (auto simp: commit_recompute_def split: option.split)

lemma fresh_after_check:
  assumes "kc_workspace k = ws" "k = fingerprints A w overlay ws" "ws_project ws = Some pr"
    "starts_with file (pr_root pr)"
  shows "is_fresh_for A w file overlay k"
  using assms by (simp add: is_fresh_for_def fingerprints_def)

lemma overlay_generation:
  assumes "load_project A w file (Some source) new_core = (Some (Inr ()), core)"
  shows "ws_latest_generation (kc_workspace (mc_cache core)) = Some 1
    \<and> ws_latest (kc_workspace (mc_cache core)) \<noteq> None"
  using assms
proof (cases rule: load_cases)
  case fresh
  then show ?thesis by (simp add: is_fresh_for_def new_core_def new_cache_def new_workspace_def)
next
  case (recomputed documents docs res ws)
  have gen: "ad_generation docs = 1"
    using recomputed(2,3) by (auto simp: overlay_documents_def analysis_snapshot_def
        open_with_version_def new_documents_def)
  show ?thesis
    using recomputed(4)
  proof (cases rule: recompute_cases)
    case (analyzed p ws1 s ok)
    obtain pr cache where p: "ws1 = new_workspace\<lparr>ws_project := Some pr, ws_catalog := cache\<rparr>"
      "pp_generation p = ad_generation docs" "pp_epoch p = 0"
      using analyzed(1)
      by (cases rule: prepare_cases) (auto simp: new_core_def new_cache_def new_workspace_def)
    have "ws = install (sv_check A) pr 1 s ws1"
      using analyzed(3) p gen by (simp add: commit_recompute_def new_workspace_def)
    with recomputed(6) show ?thesis by simp
  qed (use recomputed(5) in auto)
qed simp



section \<open>A project is resolved once\<close>

text \<open>
  While the files asked about lie under the project at hand, neither a change of its
  configuration nor a project nested in it is seen.
\<close>

theorem project_resolved_once:
  assumes "ws_project (kc_workspace (mc_cache core)) = Some pr" "starts_with file (pr_root pr)"
    "load_project A w file source core = (r, core')"
  shows "ws_project (kc_workspace (mc_cache core')) = Some pr"
  using assms(3)
proof (cases rule: load_cases)
  case (recomputed documents docs res ws)
  have "project_for (sv_check A) (mw_fs w) file (kc_workspace (mc_cache core)) = Inr pr"
    using assms(1,2) by (simp add: project_for_def)
  with recompute_project [OF recomputed(4)] recomputed(6) assms(1) show ?thesis by auto
qed (use assms in simp_all)

text \<open>A project that could not be listed is taken for fresh, though nothing was analyzed.\<close>

lemma failed_check_counts_as_fresh:
  assumes "load_project A w file None new_core = (Some (Inl e), core)"
    "ws_project (kc_workspace (mc_cache core)) = Some pr"
    "mw_modules w (pr_root pr) (pr_config pr) = None"
    "mw_read_bytes w (pr_root pr @ [committed_lock_file]) = None"
  shows "load_project A w file None core = (Some (Inr ()), core)
    \<and> ws_latest (kc_workspace (mc_cache core)) = None"
  using assms(1)
proof (cases rule: load_cases)
  case no_url
  with assms(2) show ?thesis by (simp add: new_core_def new_cache_def new_workspace_def)
next
  case (recomputed documents docs res ws)
  have bare: "ws_latest ws = None \<and> ws_project ws = Some pr \<and> starts_with file (pr_root pr)"
    using recomputed(4)
  proof (cases rule: recompute_cases)
    case (unprepared e)
    from unprepared(1) show ?thesis
      using assms(2) recomputed(6) resolve_project_root [of "sv_check A" "mw_fs w" "file" pr]
      by (cases rule: prepare_cases)
        (auto simp: new_core_def new_cache_def new_workspace_def project_for_def)
  next
    case (unanalyzed p e)
    from unanalyzed(1) show ?thesis
      using assms(2) recomputed(6) resolve_project_root [of "sv_check A" "mw_fs w" "file" pr]
      by (cases rule: prepare_cases)
        (auto simp: new_core_def new_cache_def new_workspace_def project_for_def)
  next
    case (analyzed p ws1 s ok)
    with recomputed(5) show ?thesis by (cases "ws_latest ws") auto
  qed
  moreover have "kc_source_fingerprint (mc_cache core) = None" "kc_catalog_fingerprint (mc_cache core) = None"
    using recomputed(5,8) by (auto simp: new_core_def new_cache_def split: option.splits sum.splits)
  ultimately have "is_fresh_for A w file None (mc_cache core)"
    using recomputed(6) assms(3,4)
    by (simp add: is_fresh_for_def source_fingerprint_def source_listing_def catalog_fingerprint_def)
  then show ?thesis
    using bare recomputed(6) by (simp add: load_project_def)
qed simp

end
