(* ===== verification/Mcp_Session.thy ===== *)
theory Mcp_Session
  imports Mcp_Main Mcp_Project_Laws
begin

text \<open>
  A whole session of the MCP server: what every call keeps, the server loop keeps. Both
  boundaries of the server are such invariants: no act without its grant, and no act outside the
  allowed root.
\<close>

section \<open>What the loop keeps\<close>

locale kept_by_calls =
  fixes inv and env_ok and policy :: policy and allowed :: "path option"
  assumes perform_keeps: "inv core \<Longrightarrow> env_ok T \<Longrightarrow> inv (snd (perform_call T policy allowed c core))"
begin

lemma call_keeps: "inv core \<Longrightarrow> env_ok T \<Longrightarrow> inv (snd (call T policy allowed name arguments core))"
  by (simp add: call_def perform_keeps split: sum.split)

lemma handle_keeps:
  assumes "inv core" "env_ok T"
  shows "inv (snd (handle T policy allowed message core))"
proof -
  have tools_call: "inv (snd (handle_tools_call T policy allowed ident params core))" for ident params
  proof (cases "get_str params ''name''")
    case (Some name)
    show ?thesis
    proof (cases "call_arguments params")
      case arguments: (Some arguments)
      obtain r core1 where "call T policy allowed name arguments core = (r, core1)" by fastforce
      with call_keeps [OF assms, of name arguments] Some arguments show ?thesis
        by (simp add: handle_tools_call_def)
    qed (simp add: handle_tools_call_def Some assms(1))
  qed (simp add: handle_tools_call_def assms(1))
  have request: "inv (snd (handle_request T policy allowed message ident meth core))" for ident meth
    using assms(1) tools_call by (simp add: handle_request_def with_params_def split: option.split)
  show ?thesis
  proof (cases "jget message ''id''")
    case (Some ident)
    define meth where "meth = (case get_str message ''method'' of Some m \<Rightarrow> m | None \<Rightarrow> [])"
    obtain r core1 where "handle_request T policy allowed message ident meth core = (r, core1)"
      by fastforce
    with request [of ident meth] Some show ?thesis by (simp add: handle_def Let_def meth_def)
  qed (simp add: handle_def Let_def assms(1))
qed

lemma serve_keeps:
  assumes "serve parse policy allowed lines core = (out, core', alive)" "inv core"
    "\<forall>(line, T) \<in> set lines. env_ok T"
  shows "inv core'"
  using assms
proof (induction lines arbitrary: core out)
  case (Cons entry rest)
  obtain line T where entry: "entry = (line, T)" by fastforce
  have T: "env_ok T" using Cons.prems(3) entry by simp
  have rest: "\<forall>(line, T) \<in> set rest. env_ok T" using Cons.prems(3) by simp
  note loop = Cons.prems(1) [unfolded entry serve.simps]
  show ?case
  proof (cases "utf8_valid line \<and> trim line \<noteq> [] \<and> parse line \<noteq> None")
    case False
    with loop Cons.prems(2) Cons.IH [OF _ _ rest] show ?thesis by (auto split: if_splits)
  next
    case True
    then obtain message where message: "parse line = Some message" by blast
    obtain reply core1 where h: "handle T policy allowed message core = (reply, core1)" by fastforce
    with handle_keeps [OF Cons.prems(2) T, of message] have "inv core1" by simp
    with loop True message h Cons.IH [OF _ _ rest] show ?thesis
      by (auto split: option.splits prod.splits)
  qed
qed simp

end

section \<open>Acts\<close>

text \<open>
  What one call may add to the log: binding the catalog and checking, and then one thing its grant
  covers.
\<close>

definition is_check :: "act \<Rightarrow> bool" where
  "is_check a \<longleftrightarrow> a = OpenedCatalog (act_root a) \<or> a = Checked (act_root a)"

definition audits :: "path \<Rightarrow> string \<Rightarrow> act \<Rightarrow> bool" where
  "audits r l a \<longleftrightarrow> a = Audited r l \<or> a = AuditFailed r l"

lemma is_check_simps [simp]:
  "is_check (OpenedCatalog r)" "is_check (Checked r)" "\<not> is_check (OpenedRead r)"
  "\<not> is_check (OpenedWrite r)" "\<not> is_check (Executed r)" "\<not> is_check (Audited r l)"
  "\<not> is_check (AuditFailed r l)" "\<not> is_check (RanProject r)"
  by (simp_all add: is_check_def)

definition act_shape :: "bool \<Rightarrow> bool \<Rightarrow> act list \<Rightarrow> bool" where
  "act_shape rd wr acts \<longleftrightarrow>
     (\<exists>checks body. acts = checks @ body \<and> (\<forall>a \<in> set checks. is_check a)
        \<and> (body = [] \<or> (\<exists>r. rd \<and> body = [OpenedRead r]) \<or> (\<exists>r. wr \<and> body = [OpenedWrite r])
           \<or> (\<exists>r l a. wr \<and> audits r l a \<and> body = [OpenedWrite r, Executed r, a])
           \<or> (\<exists>r. body = [RanProject r])))"

lemma check_acts_checked: "a \<in> set (check_acts A w file docs ws) \<Longrightarrow> is_check a"
  by (auto simp: check_acts_def split: sum.splits prod.splits if_splits)

lemma load_acts:
  assumes "load_project A w file source core = (r, core')"
  obtains checks where "mc_acts core' = mc_acts core @ checks" "\<forall>a \<in> set checks. is_check a"
  using assms
proof (cases rule: load_cases)
  case (recomputed documents docs res ws)
  then show thesis using that check_acts_checked by blast
qed (auto intro: that)

lemma with_loaded_acts:
  assumes "with_loaded_project A w allowed file source f core = (r, core')"
  obtains checks body where "mc_acts core' = mc_acts core @ checks @ body"
    "\<forall>a \<in> set checks. is_check a"
    "body = [] \<or> (\<exists>ws x. fst (f ws file) = Some (x, body))"
proof (cases "confinement_check (mw_canonicalize w) (mw_fs w) allowed file")
  case (Inl e)
  with assms that [of "[]" "[]"] show thesis by (simp add: with_loaded_project_def)
next
  case (Inr u)
  obtain r1 core1 where load: "load_project A w file source core = (r1, core1)" by fastforce
  obtain checks where checks: "mc_acts core1 = mc_acts core @ checks" "\<forall>a \<in> set checks. is_check a"
    using load_acts [OF load] .
  show thesis
  proof (cases "r1 = Some (Inr ())")
    case False
    then have "core' = core1"
      using assms Inr load by (auto simp: with_loaded_project_def split: option.splits sum.splits)
    with checks that [of checks "[]"] show thesis by simp
  next
    case True
    obtain res ws where f: "f (kc_workspace (mc_cache core1)) file = (res, ws)" by fastforce
    with assms Inr load True have acts: "mc_acts core' = mc_acts core1
        @ (case res of None \<Rightarrow> [] | Some (x, acts) \<Rightarrow> acts)"
      by (auto simp: with_loaded_project_def)
    show thesis
    proof (cases res)
      case None
      with acts checks that [of checks "[]"] show thesis by simp
    next
      case (Some xa)
      obtain x body where "xa = (x, body)" by fastforce
      with acts checks f Some that [of checks body] show thesis by (metis append.assoc case_prod_conv fst_conv option.simps(5))
    qed
  qed
qed

lemma shape_of_body:
  assumes "with_loaded_project A w allowed file source f core = (r, core')"
    and "\<And>ws x acts. fst (f ws file) = Some (x, acts) \<Longrightarrow> act_shape rd wr acts"
  shows "\<exists>acts. mc_acts core' = mc_acts core @ acts \<and> act_shape rd wr acts"
proof -
  obtain checks body where h: "mc_acts core' = mc_acts core @ checks @ body"
    "\<forall>a \<in> set checks. is_check a" "body = [] \<or> (\<exists>ws x. fst (f ws file) = Some (x, body))"
    using with_loaded_acts [OF assms(1)] .
  have "act_shape rd wr body" using h(3) assms(2) by (auto simp: act_shape_def)
  then obtain checks' body' where b: "body = checks' @ body'" "\<forall>a \<in> set checks'. is_check a"
    "body' = [] \<or> (\<exists>r. rd \<and> body' = [OpenedRead r]) \<or> (\<exists>r. wr \<and> body' = [OpenedWrite r])
     \<or> (\<exists>r l a. wr \<and> audits r l a \<and> body' = [OpenedWrite r, Executed r, a]) \<or> (\<exists>r. body' = [RanProject r])"
    unfolding act_shape_def by blast
  have "act_shape rd wr (checks @ body)"
    unfolding act_shape_def
    by (rule exI [of _ "checks @ checks'"], rule exI [of _ body']) (use h(2) b in auto)
  with h(1) show ?thesis by blast
qed

section \<open>The bodies of the tools\<close>

lemmas plain_bodies = check_body_def type_at_body_def complete_body_def namespace_body_def
  resource_body_def routes_body_def

lemma act_shape_Nil [simp]: "act_shape rd wr []"
  by (auto simp: act_shape_def)

lemma act_shape_read [simp]: "act_shape True wr [OpenedRead r]"
  by (auto simp: act_shape_def intro: exI [of _ "[]"])

lemma act_shape_write [simp]:
  "act_shape rd True [OpenedWrite r]" "act_shape rd True [OpenedWrite r, Executed r, Audited r l]"
  "act_shape rd True [OpenedWrite r, Executed r, AuditFailed r l]"
  by (auto simp: act_shape_def audits_def intro: exI [of _ "[]"])

lemma plain_body_acts:
  "fst (check_body w source ws file) = Some (x, acts) \<Longrightarrow> acts = []"
  "fst (type_at_body A K w cursor ws file) = Some (x, acts) \<Longrightarrow> acts = []"
  "fst (complete_body K w cursor ws file) = Some (x, acts) \<Longrightarrow> acts = []"
  "fst (namespace_body K qualifier ws file) = Some (x, acts) \<Longrightarrow> acts = []"
  "fst (resource_body K name ws file) = Some (x, acts) \<Longrightarrow> acts = []"
  "fst (routes_body K scope ws file) = Some (x, acts) \<Longrightarrow> acts = []"
  by (auto simp: plain_bodies Let_def split: option.splits if_splits prod.splits)

lemma read_body_acts:
  "fst (surface_read_body X request ws file) = Some (x, acts) \<Longrightarrow> act_shape True wr acts"
  "fst (saved_roots_body X ws file) = Some (x, acts) \<Longrightarrow> act_shape True wr acts"
  "fst (data_children_body K X children ws file) = Some (x, acts) \<Longrightarrow> act_shape True wr acts"
  "fst (data_read_body K X reads ws file) = Some (x, acts) \<Longrightarrow> act_shape True wr acts"
  by (auto simp: surface_read_body_def saved_roots_body_def data_children_body_def
      data_read_body_def data_session_def split: option.splits prod.splits if_splits)

lemma write_body_acts:
  "fst (surface_write_body K X request ws file) = Some (x, acts) \<Longrightarrow> act_shape rd True acts"
  by (auto simp: surface_write_body_def Let_def split: option.splits sum.splits prod.splits)

lemma local_bodies [intro]:
  "local_body (check_body w source)" "local_body (type_at_body A K w cursor)"
  "local_body (complete_body K w cursor)" "local_body (namespace_body K qualifier)"
  "local_body (resource_body K name)" "local_body (routes_body K scope)"
  "local_body (surface_read_body X request)" "local_body (surface_write_body K X request)"
  "local_body (saved_roots_body X)" "local_body (data_children_body K X children)"
  "local_body (data_read_body K X reads)"
  unfolding local_body_def
  by (auto simp: plain_bodies surface_read_body_def surface_write_body_def saved_roots_body_def
      data_children_body_def data_read_body_def data_session_def Let_def
      split: option.splits sum.splits prod.splits if_splits)

end
