(* ===== verification/Mcp_Demo.thy ===== *)
theory Mcp_Demo
  imports Mcp_Session
begin

text \<open>
  A session for the witnesses: a project of one file under the allowed root, a store that can be
  written, and an agent that executes a write, sends a notification and pings.
\<close>

definition demo_calls :: "(nat, unit, unit) mcp_marrow" where
  "demo_calls = \<lparr>mm_parse_diagnostics = (\<lambda>s. []), mm_type_hover = (\<lambda>s ix p n. None),
     mm_render_type = (\<lambda>p t. ''int''), mm_completion_version = ''v1'', mm_completion = (\<lambda>s p t n. (''v1'', [])),
     mm_namespace = (\<lambda>s p q. None), mm_resource_version = ''v1'', mm_resource_schema = (\<lambda>p n. JNull),
     mm_route_version = ''v1'', mm_operation_version = ''v1'', mm_routes = (\<lambda>p. []),
     mm_route_is_read = (\<lambda>r. True), mm_manifest_json = (\<lambda>p rs. JNull),
     mm_surface_request = (\<lambda>j. Inr \<lparr>sq_tag = ''books'', sq_body = SingletonUpdate\<rparr>),
     mm_page_json = (\<lambda>p. JNull), mm_value_json = (\<lambda>v. JNull),
     mm_to_text = (\<lambda>j. case j of JNull \<Rightarrow> ''null'' | _ \<Rightarrow> ''{}'')\<rparr>"

definition demo_stores :: "(unit, unit, unit, unit) store_calls" where
  "demo_stores = \<lparr>sx_open_read = (\<lambda>r. Inr ()),
     sx_read_stamp = (\<lambda>s. Inr \<lparr>st_uid = ''s'', st_epoch = 0, st_commit = 1\<rparr>),
     sx_execute_read = (\<lambda>s q. Inr JNull), sx_open_write = (\<lambda>r. Inr ()), sx_stamp_before = (\<lambda>s. None),
     sx_execute = (\<lambda>s q. Inr JNull), sx_stamp_after = (\<lambda>s. None), sx_append_line = (\<lambda>p l. None),
     sx_now_millis = 7, sx_unavailable = (\<lambda>pr. Inr None), sx_open_data = (\<lambda>r. Inr ()),
     sx_data = \<lparr>da_roots = (\<lambda>s. None), da_children = (\<lambda>s p n c. Inl (StoreFault JNull)),
       da_preview = (\<lambda>s p n. Inr None), da_boundary = (\<lambda>s. JNull), da_preview_limit = (\<lambda>l. 1)\<rparr>\<rparr>"

definition demo_runs :: "(unit, unit, unit, unit, unit) run_calls" where
  "demo_runs = \<lparr>rc_arguments = (\<lambda>a. Inr []), rc_open_run = (\<lambda>r e. Inr ()), rc_open_test = (\<lambda>r. Inr ()),
     rc_session_error_json = (\<lambda>e o'. JObj []), rc_no_entry = (), rc_run_entry = (\<lambda>s. None),
     rc_resolve = (\<lambda>s e. None), rc_text_args = (\<lambda>s e. None), rc_run_facts = (\<lambda>s. None),
     rc_invoke = (\<lambda>s d a. ([], Inr ())), rc_output_json = (\<lambda>v o'. Inr (JObj [])),
     rc_error_json = (\<lambda>s e o'. JObj []), rc_boundary = (\<lambda>s. JNull), rc_cases = (\<lambda>s. []),
     rc_assert_code = ''assert'', rc_invoke_test = (\<lambda>s n. TestPassed)\<rparr>"

definition demo_schemas :: mcp_schemas where
  "demo_schemas = \<lparr>sm_entry_argument = JObj [(''$defs'', JObj [])],
     sm_path_segment_schema = JObj [], sm_key_schema = (\<lambda>k. JObj [])\<rparr>"

definition demo_tools where
  "demo_tools w = \<lparr>te_api = demo_mcp, te_marrow = demo_calls, te_run = demo_runs,
     te_schemas = demo_schemas, te_children_request = (\<lambda>j. Inl ''no''), te_read_request = (\<lambda>j. Inl ''no''),
     te_world = w, te_stores = demo_stores, te_in_time = True\<rparr>"

definition demo_process :: process where
  "demo_process = \<lparr>ps_args = [''marrow-mcp'', ''--root'', ''/p'', ''--allow-write''],
     ps_env = (\<lambda>v. None), ps_current_dir = None\<rparr>"

definition demo_policy :: policy where
  "demo_policy = \<lparr>po_allow_read = True, po_allow_write = True, po_run_budget = 30\<rparr>"

lemma demo_started: "start_up demo_process = (demo_policy, [''/'', ''p''])"
  by (simp add: start_up_def demo_process_def demo_policy_def write_access_enabled_def
      read_access_enabled_def flag_enabled_def run_budget_def default_run_budget_def
      configured_root_def path_from_def Let_def)

definition demo_call :: "string \<Rightarrow> jobj \<Rightarrow> json" where
  "demo_call name arguments = JObj [(''id'', JStr ''a''), (''method'', JStr ''tools/call''),
     (''params'', JObj [(''name'', JStr name), (''arguments'', JObj arguments)])]"

definition demo_parse :: "string \<Rightarrow> json option" where
  "demo_parse line =
     (if line = ''w'' then Some (demo_call ''mw_surface_write'' [(''file'', JStr ''/p/a.mw''), (''operation'', JObj [])])
      else if line = ''c'' then Some (demo_call ''mw_check'' [(''file'', JStr ''/p/a.mw'')])
      else if line = ''n'' then Some (JObj [(''method'', JStr ''notifications/initialized'')])
      else if line = ''p'' then Some (JObj [(''id'', JStr ''b''), (''method'', JStr ''ping'')])
      else None)"

lemma demo_lines: "trim ''w'' = ''w''" "trim ''n'' = ''n''" "trim ''p'' = ''p''" "trim ''c'' = ''c''" "trim ''?'' = ''?''"
  by (simp_all add: trim_def white_space_def strip_units.simps)

lemma demo_paths: "path_from ''/p/a.mw'' = demo_file"
  by (simp add: path_from_def demo_file_def Let_def)

lemma demo_confined:
  "confinement_check (mw_canonicalize (demo_disk s)) (mw_fs (demo_disk s)) (Some [''/'', ''p'']) demo_file = Inr ()"
  by (simp add: confinement_check_def demo_disk_def demo_fs_def demo_file_def path_within_def
      canonical_of_existing project_root_of_def ancestors.simps path_parent_def ws_config_file_def
      split: option.split)

lemma demo_core_acts: "mc_acts (demo_core s None) = [Checked [''/'', ''p'']]"
  by (auto simp: demo_core_def demo_mcp_eval check_acts_def bound_project_def probe_opens_def)

lemma demo_write:
  "\<exists>j core line. call (demo_tools (demo_disk ''x'')) demo_policy (Some [''/'', ''p'']) ''mw_surface_write''
       (JObj [(''file'', JStr ''/p/a.mw''), (''operation'', JObj [])]) new_core = (Some (Inr j), core)
     \<and> mc_acts core = [Checked [''/'', ''p''], OpenedWrite [''/'', ''p''], Executed [''/'', ''p''],
         Audited [''/'', ''p''] line]"
proof -
  have request: "decode_call (demo_tools (demo_disk ''x'')) ''mw_surface_write''
      (JObj [(''file'', JStr ''/p/a.mw''), (''operation'', JObj [])])
      = Inr (CallSurfaceWrite demo_file (JObj []))"
    by (simp add: decode_call_def file_arg_def required_path_def required_str_def required_object_def
        demo_paths)
  obtain r core where body: "with_loaded_project demo_mcp (demo_disk ''x'') (Some [''/'', ''p'']) demo_file None
      (surface_write_body demo_calls demo_stores \<lparr>sq_tag = ''books'', sq_body = SingletonUpdate\<rparr>) new_core
      = (r, core)" by fastforce
  have "r \<noteq> None \<and> (\<exists>line. mc_acts core = [Checked [''/'', ''p''], OpenedWrite [''/'', ''p''],
      Executed [''/'', ''p''], Audited [''/'', ''p''] line])"
    using body
    by (auto simp: with_loaded_project_def demo_confined demo_loads surface_write_body_def
        demo_core_fields demo_core_acts demo_pr_def demo_stores_def append_write_audit_def Let_def
        split: prod.splits)
  with body request show ?thesis
    by (auto simp: call_def surface_write_def demo_policy_def policy_write_access_def demo_tools_def
        demo_calls_def contracted_def tool_result_or_def)
qed

lemma demo_session:
  "\<exists>out core line. serve demo_parse demo_policy (Some [''/'', ''p''])
       (map (\<lambda>l. (l, demo_tools (demo_disk ''x''))) [''w'', ''n'', ''?'', ''p'']) new_core = (out, core, True)
     \<and> mc_acts core = [Checked [''/'', ''p''], OpenedWrite [''/'', ''p''], Executed [''/'', ''p''],
         Audited [''/'', ''p''] line]"
proof -
  let ?T = "demo_tools (demo_disk ''x'')" and ?call = "JObj [(''file'', JStr ''/p/a.mw''), (''operation'', JObj [])]"
  obtain j core line where written: "call ?T demo_policy (Some [''/'', ''p'']) ''mw_surface_write'' ?call new_core
      = (Some (Inr j), core)" "mc_acts core = [Checked [''/'', ''p''], OpenedWrite [''/'', ''p''],
      Executed [''/'', ''p''], Audited [''/'', ''p''] line]"
    using demo_write by blast
  have first: "\<exists>r. handle ?T demo_policy (Some [''/'', ''p''])
      (demo_call ''mw_surface_write'' [(''file'', JStr ''/p/a.mw''), (''operation'', JObj [])]) new_core
      = (Some (Some r), core)"
    by (simp add: handle_def handle_request_def with_params_def request_params_def handle_tools_call_def
        call_arguments_def demo_call_def get_str_def written Let_def)
  have rest: "serve demo_parse demo_policy (Some [''/'', ''p'']) (map (\<lambda>l. (l, ?T)) [''n'', ''?'', ''p'']) core
      = ([write_message (mm_to_text demo_calls) (rpc_ok (JStr ''b'') (JObj []))], core, True)"
    by (simp add: demo_parse_def handle_def handle_request_def with_params_def request_params_def
        demo_tools_def get_str_def Let_def demo_lines)
  show ?thesis
    using first rest written(2) by (auto simp: demo_parse_def demo_tools_def demo_lines)
qed

end
