(* ===== verification/Mcp_Laws.thy ===== *)
theory Mcp_Laws
  imports Mcp_Demo
begin

text \<open>
  The boundaries of the MCP server over whole sessions: what needs a grant, what stays in the
  allowed root, what is audited; and that the replies answer the requests.
\<close>

section \<open>Every call\<close>

lemma snd_wrappers [simp]:
  "snd (tool_result_or load r) = snd r" "snd (contracted contract r') = snd r'" "snd (succeeds r'') = snd r''"
  by (simp_all add: tool_result_or_def contracted_def succeeds_def split: prod.split)

lemma snd_reports [simp]:
  "snd (case r of (x, core) \<Rightarrow> (map_option g x, core)) = snd r"
  "snd (case r' of (x, core) \<Rightarrow> (h x, core)) = snd r'"
  by (simp_all split: prod.split)

lemma tool_shape:
  assumes "\<And>ws x acts. fst (f ws file) = Some (x, acts) \<Longrightarrow> act_shape rd wr acts"
  shows "\<exists>acts. mc_acts (snd (with_loaded_project A w allowed file source f core)) = mc_acts core @ acts
    \<and> act_shape rd wr acts"
proof -
  obtain r core' where "with_loaded_project A w allowed file source f core = (r, core')" by fastforce
  from shape_of_body [OF this assms] this show ?thesis by simp
qed

lemma plain_tool_shape:
  assumes "\<And>ws x acts. fst (f ws file) = Some (x, acts) \<Longrightarrow> acts = []"
  shows "\<exists>acts. mc_acts (snd (with_loaded_project A w allowed file source f core)) = mc_acts core @ acts
    \<and> act_shape rd wr acts"
proof (rule tool_shape)
  fix ws x acts
  assume "fst (f ws file) = Some (x, acts)"
  from assms [OF this] show "act_shape rd wr acts" by simp
qed

lemma run_load_acts:
  assumes "load_project_for_run A w allowed file = (r, acts)"
  shows "\<forall>a \<in> set acts. is_check a"
proof -
  obtain r1 core where load: "with_loaded_project A w allowed file None
      (\<lambda>ws f. (Some (map_option pr_root (ws_project ws), []), ws)) new_core = (r1, core)" by fastforce
  have "\<forall>a \<in> set (mc_acts core). is_check a"
    by (rule with_loaded_acts [OF load]) (auto simp: new_core_def)
  with assms load show ?thesis by (simp add: load_project_for_run_def)
qed

lemma run_shape: "act_shape rd wr (snd (run_within_budget A R w in_time allowed file entry args mode budget))"
proof -
  obtain r acts where run: "run_result A R w allowed file entry args mode = (r, acts)" by fastforce
  obtain l lacts where load: "load_project_for_run A w allowed file = (l, lacts)" by fastforce
  have "acts = [] \<or> acts = lacts \<or> (\<exists>root. acts = lacts @ [RanProject root])"
    using run load by (auto simp: run_result_def split: sum.splits option.splits if_splits)
  moreover have "act_shape rd wr lacts" "act_shape rd wr (lacts @ [RanProject root])" for root
    unfolding act_shape_def using run_load_acts [OF load] by blast+
  ultimately show ?thesis using run by (auto simp: run_within_budget_def)
qed

lemma perform_shape:
  "\<exists>acts. mc_acts (snd (perform_call T policy allowed c core)) = mc_acts core @ acts
     \<and> act_shape (po_allow_read policy) (po_allow_write policy) acts"
proof (cases c)
  case (CallCheck target source)
  then show ?thesis
    by (cases target) (auto simp: check_def check_result_def intro!: plain_tool_shape plain_body_acts(1))
next
  case (CallTypeAt f line character)
  then show ?thesis by (auto simp: type_at_position_def intro!: plain_tool_shape plain_body_acts(2))
next
  case (CallComplete f line character)
  then show ?thesis by (auto simp: complete_def intro!: plain_tool_shape plain_body_acts(3))
next
  case (CallNamespace f qualifier)
  then show ?thesis by (auto simp: namespace_complete_def intro!: plain_tool_shape plain_body_acts(4))
next
  case (CallResourceSchema f name)
  then show ?thesis by (auto simp: resource_schema_def intro!: plain_tool_shape plain_body_acts(5))
next
  case (CallSurfaceRoutes f scope)
  then show ?thesis by (auto simp: surface_routes_def intro!: plain_tool_shape plain_body_acts(6))
next
  case (CallSurfaceRead f operation)
  then show ?thesis
    by (auto simp: surface_read_def policy_read_access_def intro!: tool_shape read_body_acts(1)
        split: sum.split)
next
  case (CallSurfaceWrite f operation)
  then show ?thesis
    by (auto simp: surface_write_def policy_write_access_def intro!: tool_shape write_body_acts
        split: sum.split)
next
  case (CallSavedRoots f)
  then show ?thesis
    by (auto simp: mcp_saved_roots_def policy_read_access_def intro!: tool_shape read_body_acts(2))
next
  case (CallDataChildren f request)
  then show ?thesis
    by (auto simp: mcp_data_children_def policy_read_access_def intro!: tool_shape read_body_acts(3))
next
  case (CallDataRead f request)
  then show ?thesis
    by (auto simp: mcp_data_read_def policy_read_access_def intro!: tool_shape read_body_acts(4))
next
  case (CallRun f entry args mode)
  obtain result acts where run: "run_within_budget (te_api T) (te_run T) (te_world T) (te_in_time T)
      allowed f entry args mode (po_run_budget policy) = (result, acts)" by fastforce
  with run_shape [of "po_allow_read policy" "po_allow_write policy" "te_api T" "te_run T" "te_world T"
      "te_in_time T" allowed f entry args mode "po_run_budget policy"] CallRun
  show ?thesis by (auto simp: mcp_run_def)
qed

section \<open>Grants\<close>

fun audited :: "act list \<Rightarrow> bool" where
  "audited [] = True"
| "audited (Executed r # acts) =
     (case acts of [] \<Rightarrow> False | a # rest \<Rightarrow> (\<exists>l. audits r l a) \<and> audited acts)"
| "audited (a # acts) = audited acts"

lemma audited_append: "audited xs \<Longrightarrow> audited ys \<Longrightarrow> audited (xs @ ys)"
  by (induction xs rule: audited.induct) (auto split: list.splits)

lemma audited_tl: "audited (a # acts) \<Longrightarrow> audited acts"
  by (cases a) (auto split: list.splits)

lemma audited_next: "audited (xs @ Executed r # ys) \<Longrightarrow> \<exists>l a zs. ys = a # zs \<and> audits r l a"
proof (induction xs)
  case Nil
  then show ?case by (auto split: list.splits)
next
  case (Cons a xs)
  then show ?case using audited_tl by simp
qed

text \<open>What the grants allow of one act: binding the catalog, checking and running need none.\<close>

fun needs_grant :: "bool \<Rightarrow> bool \<Rightarrow> act \<Rightarrow> bool" where
  "needs_grant rd wr (OpenedRead r) = rd"
| "needs_grant rd wr (OpenedWrite r) = wr"
| "needs_grant rd wr (Executed r) = wr"
| "needs_grant rd wr (Audited r l) = wr"
| "needs_grant rd wr (AuditFailed r l) = wr"
| "needs_grant rd wr (OpenedCatalog r) = True"
| "needs_grant rd wr (Checked r) = True"
| "needs_grant rd wr (RanProject r) = True"

definition granted :: "policy \<Rightarrow> ('c, 'cat, 'ix) core \<Rightarrow> bool" where
  "granted policy core \<longleftrightarrow>
     list_all (needs_grant (po_allow_read policy) (po_allow_write policy)) (mc_acts core)
     \<and> audited (mc_acts core)"

lemma shape_granted:
  assumes "act_shape rd wr acts"
  shows "list_all (needs_grant rd wr) acts \<and> audited acts"
proof -
  obtain checks body where h: "acts = checks @ body" "\<forall>a \<in> set checks. is_check a"
    "body = [] \<or> (\<exists>r. rd \<and> body = [OpenedRead r]) \<or> (\<exists>r. wr \<and> body = [OpenedWrite r])
     \<or> (\<exists>r l a. wr \<and> audits r l a \<and> body = [OpenedWrite r, Executed r, a])
     \<or> (\<exists>r. body = [RanProject r])"
    using assms unfolding act_shape_def by blast
  have "audited checks \<and> list_all (needs_grant rd wr) checks" using h(2)
  proof (induction checks)
    case (Cons a checks)
    then show ?case by (cases a) auto
  qed simp
  moreover have "audited body \<and> list_all (needs_grant rd wr) body"
    using h(3) by (auto simp: audits_def)
  ultimately show ?thesis using h(1) audited_append by auto
qed

lemma granted_perform: "granted policy core \<Longrightarrow> granted policy (snd (perform_call T policy allowed c core))"
proof -
  assume g: "granted policy core"
  obtain acts where acts: "mc_acts (snd (perform_call T policy allowed c core)) = mc_acts core @ acts"
    "act_shape (po_allow_read policy) (po_allow_write policy) acts" using perform_shape by blast
  from shape_granted [OF acts(2)] g acts(1) audited_append show ?thesis
    unfolding granted_def by auto
qed

interpretation grants: kept_by_calls "granted policy" "\<lambda>T. True" policy allowed for policy allowed
  by unfold_locales (rule granted_perform)

lemma granted_new: "granted policy new_core"
  by (simp add: granted_def new_core_def)

text \<open>
  C2. Stored data needs its grant: over a whole session, whatever an agent sends, no store is
  opened to serve its data unless the operator enabled reads or writes at launch, and none is
  opened for writing, no operation executed and no audit line appended, unless writes were
  enabled. Without a grant the server only opens a store read-only to bind the accepted catalog
  for a check, which every tool that loads a project may do, checks projects, and runs them over
  a fresh store. And every executed operation is followed at once by its record in the audit
  trail of the same project, or by the failure to append it.
\<close>

theorem stored_data_needs_its_grant:
  assumes "start_up ps = (policy, root)"
    and "serve parse policy (Some root) lines new_core = (out, core, alive)"
  shows "(OpenedRead r \<in> set (mc_acts core) \<longrightarrow> read_access_enabled ps \<or> write_access_enabled ps)
    \<and> (OpenedWrite r \<in> set (mc_acts core) \<or> Executed r \<in> set (mc_acts core)
        \<or> Audited r line \<in> set (mc_acts core) \<or> AuditFailed r line \<in> set (mc_acts core)
        \<longrightarrow> write_access_enabled ps)
    \<and> (\<not> read_access_enabled ps \<and> \<not> write_access_enabled ps \<longrightarrow>
        (\<forall>a \<in> set (mc_acts core). \<exists>p. a = OpenedCatalog p \<or> a = Checked p \<or> a = RanProject p))
    \<and> (\<forall>xs ys. mc_acts core = xs @ Executed r # ys \<longrightarrow>
        (\<exists>line zs. ys = Audited r line # zs \<or> ys = AuditFailed r line # zs))"
proof -
  have g: "granted policy core"
    by (rule grants.serve_keeps [OF assms(2) granted_new]) simp
  have p: "po_allow_write policy = write_access_enabled ps"
    "po_allow_read policy \<longleftrightarrow> read_access_enabled ps \<or> write_access_enabled ps"
    using assms(1) by (auto simp: start_up_def Let_def)
  have acts: "needs_grant (po_allow_read policy) (po_allow_write policy) a" if "a \<in> set (mc_acts core)" for a
    using g that by (simp add: granted_def list_all_iff)
  have none: "\<exists>p. a = OpenedCatalog p \<or> a = Checked p \<or> a = RanProject p"
    if "needs_grant False False a" for a using that by (cases a) auto
  show ?thesis
    using acts p none g audited_next [of _ r]
    by (intro conjI) (fastforce simp: granted_def audits_def)+
qed

theorem stored_data_needs_its_grant_witness:
  "\<exists>out core line. serve demo_parse demo_policy (Some [''/'', ''p''])
       (map (\<lambda>l. (l, demo_tools (demo_disk ''x''))) [''w'', ''n'', ''?'', ''p'']) new_core = (out, core, True)
     \<and> Executed [''/'', ''p''] \<in> set (mc_acts core) \<and> write_access_enabled demo_process
     \<and> mc_acts core = [Checked [''/'', ''p''], OpenedWrite [''/'', ''p''], Executed [''/'', ''p''],
         Audited [''/'', ''p''] line]"
proof -
  obtain out core line where run: "serve demo_parse demo_policy (Some [''/'', ''p''])
       (map (\<lambda>l. (l, demo_tools (demo_disk ''x''))) [''w'', ''n'', ''?'', ''p'']) new_core = (out, core, True)"
    "mc_acts core = [Checked [''/'', ''p''], OpenedWrite [''/'', ''p''], Executed [''/'', ''p''],
       Audited [''/'', ''p''] line]"
    using demo_session by blast
  from stored_data_needs_its_grant [OF demo_started run(1), of "[''/'', ''p'']"] run show ?thesis by auto
qed

section \<open>The allowed root\<close>

lemma run_confined:
  assumes "mw_canonicalize w \<in> Cs"
  shows "\<forall>a \<in> set (snd (run_within_budget A R w in_time allowed file entry args mode budget)).
    confined_in Cs allowed (act_root a)"
proof -
  let ?f = "\<lambda>ws f. (Some (map_option pr_root (ws_project ws), []), ws)"
  obtain r1 core where load: "with_loaded_project A w allowed file None ?f new_core = (r1, core)" by fastforce
  have "local_body ?f" by (simp add: local_body_def)
  then have "core_confined Cs allowed (snd (with_loaded_project A w allowed file None ?f new_core))"
    by (intro with_loaded_confined core_confined_new assms)
  then have core: "core_confined Cs allowed core" by (simp only: load snd_conv)
  have root: "confined_in Cs allowed root" if r1: "r1 = Some (Inr (Some root))" for root
  proof -
    obtain pr where "ws_project (kc_workspace (mc_cache core)) = Some pr" "pr_root pr = root"
      using load r1 by (auto simp: with_loaded_project_def split: sum.splits prod.splits option.splits)
    with core show ?thesis by (auto simp: core_confined_def)
  qed
  obtain r acts where run: "run_result A R w allowed file entry args mode = (r, acts)" by fastforce
  have "acts = [] \<or> acts = mc_acts core
      \<or> (\<exists>root. r1 = Some (Inr (Some root)) \<and> acts = mc_acts core @ [RanProject root])"
    using run load
    by (auto simp: run_result_def load_project_for_run_def ok_or.simps bind_result_Inr
        split: sum.splits option.splits if_splits elim: ok_or.elims)
  then have "\<forall>a \<in> set acts. confined_in Cs allowed (act_root a)"
    using core root by (auto simp: core_confined_def)
  with run show ?thesis by (simp add: run_within_budget_def)
qed


lemma confined_perform:
  assumes "core_confined Cs allowed core" "mw_canonicalize (te_world T) \<in> Cs"
  shows "core_confined Cs allowed (snd (perform_call T policy allowed c core))"
proof (cases c)
  case (CallCheck target source)
  with assms show ?thesis
    by (cases target) (auto simp: check_def check_result_def intro!: with_loaded_confined)
next
  case (CallRun f entry args mode)
  obtain result acts where run: "run_within_budget (te_api T) (te_run T) (te_world T) (te_in_time T)
      allowed f entry args mode (po_run_budget policy) = (result, acts)" by fastforce
  then have "\<forall>a \<in> set acts. confined_in Cs allowed (act_root a)"
    using run_confined [OF assms(2), of "te_api T" "te_run T" "te_in_time T" allowed f entry args mode
        "po_run_budget policy"] by simp
  with assms(1) run CallRun show ?thesis by (auto simp: mcp_run_def core_confined_def)
qed (auto simp: assms type_at_position_def complete_def namespace_complete_def resource_schema_def
    surface_routes_def surface_read_def surface_write_def mcp_saved_roots_def mcp_data_children_def
    mcp_data_read_def intro!: with_loaded_confined split: sum.split)

interpretation confined: kept_by_calls "core_confined Cs allowed"
  "\<lambda>T. mw_canonicalize (te_world T) \<in> Cs" policy allowed for Cs policy allowed
  by unfold_locales (rule confined_perform)

text \<open>
  C6. The tools stay in the root: over a whole session, whatever files an agent names and however
  files and links change between its calls, every project that is bound, checked, opened,
  written, audited or run lay in the allowed root when a call of the session resolved it: under
  the links of that call its existing part, symbolic links and parent steps resolved, and the
  names below it extend the real location of the root. A project that stays in the cache is not
  resolved again, so a link retargeted later is not noticed; when no link changes, each lies in
  the root when it is acted on.
\<close>

theorem tools_stay_in_the_root:
  assumes "serve parse policy (Some root) lines new_core = (out, core, alive)"
    and "a \<in> set (mc_acts core)"
  shows "\<exists>(line, T) \<in> set lines. \<exists>real_root.
    canonical_existing_prefix (mw_canonicalize (te_world T)) root = Some real_root
    \<and> lies_within (mw_canonicalize (te_world T)) real_root (act_root a)"
proof -
  let ?Cs = "(\<lambda>(line, T). mw_canonicalize (te_world T)) ` set lines"
  have "core_confined ?Cs (Some root) core"
    by (rule confined.serve_keeps [OF assms(1) core_confined_new]) force
  with assms(2) have "confined_in ?Cs (Some root) (act_root a)" by (simp add: core_confined_def)
  then obtain line T where T: "(line, T) \<in> set lines"
    "in_bounds (mw_canonicalize (te_world T)) (Some root) (act_root a)"
    by (auto simp: confined_in_def)
  from T(2) path_within_lies have "\<exists>real_root.
      canonical_existing_prefix (mw_canonicalize (te_world T)) root = Some real_root
      \<and> lies_within (mw_canonicalize (te_world T)) real_root (act_root a)"
    by (auto simp: in_bounds_def split: option.splits)
  with T(1) show ?thesis by blast
qed

theorem tools_stay_in_the_root_witness:
  "\<exists>out core. serve demo_parse demo_policy (Some [''/'', ''p''])
       (map (\<lambda>l. (l, demo_tools (demo_disk ''x''))) [''w'', ''n'', ''?'', ''p'']) new_core = (out, core, True)
     \<and> OpenedWrite [''/'', ''p''] \<in> set (mc_acts core) \<and> lies_within Some [''/'', ''p''] [''/'', ''p'']"
proof -
  obtain out core line where run: "serve demo_parse demo_policy (Some [''/'', ''p''])
       (map (\<lambda>l. (l, demo_tools (demo_disk ''x''))) [''w'', ''n'', ''?'', ''p'']) new_core = (out, core, True)"
    "mc_acts core = [Checked [''/'', ''p''], OpenedWrite [''/'', ''p''], Executed [''/'', ''p''],
       Audited [''/'', ''p''] line]"
    using demo_session by blast
  then have "OpenedWrite [''/'', ''p''] \<in> set (mc_acts core)" by simp
  from tools_stay_in_the_root [OF run(1) this] run this show ?thesis
    by (auto simp: demo_tools_def demo_disk_def canonical_of_existing)
qed

section \<open>Replies\<close>

text \<open>The identifiers of the requests among the lines, up to a line that is not UTF-8.\<close>

fun request_ids :: "(string \<Rightarrow> json option) \<Rightarrow> string list \<Rightarrow> json list" where
  "request_ids parse [] = []"
| "request_ids parse (line # rest) =
     (if \<not> utf8_valid line then []
      else (case (if trim line = [] then None else Option.bind (parse line) (\<lambda>m. jget m ''id'')) of
          None \<Rightarrow> request_ids parse rest
        | Some ident \<Rightarrow> ident # request_ids parse rest))"

definition answers :: "json \<Rightarrow> json \<Rightarrow> bool" where
  "answers ident r \<longleftrightarrow> jget r ''jsonrpc'' = Some (JStr ''2.0'') \<and> jget r ''id'' = Some ident
     \<and> (jget r ''result'' = None \<longleftrightarrow> jget r ''error'' \<noteq> None)"

lemma answers_rpc [simp]: "answers ident (rpc_ok ident j)" "answers ident (rpc_error ident n m)"
  by (simp_all add: answers_def rpc_ok_def rpc_error_def)

lemma request_answered:
  assumes "handle_request T policy allowed message ident meth core = (Some r, core')"
  shows "answers ident r"
proof -
  have "\<And>params. handle_tools_call T policy allowed ident params core = (Some r, core') \<Longrightarrow> answers ident r"
    by (auto simp: handle_tools_call_def split: option.splits prod.splits)
      (metis answers_rpc sum.case sum.exhaust)
  with assms show ?thesis
    by (auto simp: handle_request_def with_params_def split: if_splits option.splits)
qed

lemma handle_answers:
  assumes "handle T policy allowed message core = (Some reply, core')"
  shows "rel_option answers (jget message ''id'') reply"
proof (cases "jget message ''id''")
  case (Some ident)
  obtain r core1 where h: "handle_request T policy allowed message ident
      (case get_str message ''method'' of Some m \<Rightarrow> m | None \<Rightarrow> []) core = (r, core1)" by fastforce
  with assms Some obtain x where "r = Some x" "reply = Some x" by (auto simp: handle_def)
  with request_answered h Some show ?thesis by auto
qed (use assms in \<open>simp add: handle_def\<close>)

lemma serve_answers:
  assumes "serve parse policy allowed lines core = (out, core', alive)"
    and "\<forall>(line, T) \<in> set lines. mm_to_text (te_marrow T) = enc"
  shows "\<exists>rs. out = map (write_message enc) rs
    \<and> list_all2 answers (take (length rs) (request_ids parse (map fst lines))) rs
    \<and> (alive \<longrightarrow> length rs = length (request_ids parse (map fst lines)))"
  using assms
proof (induction lines arbitrary: core out)
  case (Cons entry rest)
  obtain line T where entry: "entry = (line, T)" by fastforce
  have T: "mm_to_text (te_marrow T) = enc" using Cons.prems(2) entry by simp
  have rest: "\<forall>(line, T) \<in> set rest. mm_to_text (te_marrow T) = enc" using Cons.prems(2) by simp
  note loop = Cons.prems(1) [unfolded entry serve.simps]
  consider "\<not> utf8_valid line" | "utf8_valid line" "trim line = [] \<or> parse line = None"
    | message where "utf8_valid line" "trim line \<noteq> []" "parse line = Some message" by fastforce
  then show ?case
  proof cases
    case 1
    with loop entry show ?thesis by auto
  next
    case 2
    then have "serve parse policy allowed rest core = (out, core', alive)"
      using loop by (auto split: if_splits)
    from Cons.IH [OF this rest] 2 entry show ?thesis by auto
  next
    case 3
    obtain reply core1 where h: "handle T policy allowed message core = (reply, core1)" by fastforce
    show ?thesis
    proof (cases reply)
      case None
      with loop 3 h show ?thesis by auto
    next
      case (Some reply1)
      obtain out1 core2 alive1 where run: "serve parse policy allowed rest core1 = (out1, core2, alive1)"
        by (metis prod_cases3)
      from Cons.IH [of core1 out1] run rest loop 3 h Some obtain rs where
        rs: "out1 = map (write_message enc) rs"
          "list_all2 answers (take (length rs) (request_ids parse (map fst rest))) rs"
          "alive \<longrightarrow> length rs = length (request_ids parse (map fst rest))"
        by auto
      have reply: "rel_option answers (jget message ''id'') reply1"
        using handle_answers h Some by blast
      show ?thesis
      proof (cases reply1)
        case None
        then have "jget message ''id'' = None" using reply by simp
        with rs loop 3 h Some None run entry show ?thesis by (intro exI [of _ rs]) auto
      next
        case (Some r)
        then obtain ident where "jget message ''id'' = Some ident" "answers ident r"
          using reply by (auto simp: option_rel_Some2)
        with rs loop 3 h \<open>reply = Some reply1\<close> Some run entry T show ?thesis
          by (intro exI [of _ "r # rs"]) auto
      qed
    qed
  qed
qed auto

definition one_line :: "string \<Rightarrow> bool" where
  "one_line s \<longleftrightarrow> CHR 0x0A \<notin> set s \<and> CHR 0x0D \<notin> set s"

lemma input_lines_written:
  assumes "\<forall>j. one_line (enc j)"
  shows "input_lines (concat (map (write_message enc) rs)) = map enc rs"
proof (induction rs)
  case (Cons r rs)
  have "chomp (enc r) = enc r"
    using assms last_in_set [of "enc r"] by (fastforce simp: chomp_def one_line_def)
  moreover have "write_message enc r = enc r @ [CHR 0x0A]" by (simp add: write_message_def)
  ultimately show ?case
    using Cons assms by (simp add: input_lines_Cons one_line_def)
qed simp

text \<open>
  C11. Replies answer the requests: what the server writes is lines, and the lines are replies to
  the requests in their order, each with the identifier of its request and either a result or an
  error, never both; notifications and lines that are not JSON get none. When no call panicked,
  every request has its reply.
\<close>

theorem replies_answer_requests:
  assumes "serve parse policy allowed lines core = (out, core', alive)"
    and "\<forall>(line, T) \<in> set lines. mm_to_text (te_marrow T) = enc"
    and "\<forall>j. one_line (enc j)"
  shows "\<exists>rs. input_lines (concat out) = map enc rs
    \<and> list_all2 answers (take (length rs) (request_ids parse (map fst lines))) rs
    \<and> (alive \<longrightarrow> length rs = length (request_ids parse (map fst lines)))"
  using serve_answers [OF assms(1,2)] input_lines_written [OF assms(3)] by auto

theorem replies_answer_requests_witness:
  "\<exists>out core rs. serve demo_parse demo_policy (Some [''/'', ''p''])
       (map (\<lambda>l. (l, demo_tools (demo_disk ''x''))) [''w'', ''n'', ''?'', ''p'']) new_core = (out, core, True)
     \<and> input_lines (concat out) = map (mm_to_text demo_calls) rs
     \<and> list_all2 answers [JStr ''a'', JStr ''b''] rs"
proof -
  let ?lines = "map (\<lambda>l. (l, demo_tools (demo_disk ''x''))) [''w'', ''n'', ''?'', ''p'']"
  obtain out core where run: "serve demo_parse demo_policy (Some [''/'', ''p'']) ?lines new_core
      = (out, core, True)" using demo_session by blast
  have ids: "request_ids demo_parse (map fst ?lines) = [JStr ''a'', JStr ''b'']"
    by (simp add: demo_lines demo_parse_def demo_call_def)
  have enc: "one_line (mm_to_text demo_calls j)" for j
    by (cases j) (simp_all add: demo_calls_def one_line_def)
  from replies_answer_requests [OF run, of "mm_to_text demo_calls"] enc ids run show ?thesis
    by (auto simp: demo_tools_def)
qed

section \<open>A check that stops the server\<close>


definition demo_unlisted :: "(unit, nat) mcp_world" where
  "demo_unlisted = (demo_disk ''x'')\<lparr>mw_modules := \<lambda>r c. None,
     mw_fs := (mw_fs (demo_disk ''x''))\<lparr>fw_analyze := \<lambda>r c s a l. Inl ''unreadable''\<rparr>\<rparr>"


end
