(* ===== verification/Mcp_Catalog_Laws.thy ===== *)
theory Mcp_Catalog_Laws
  imports Mcp_Server
begin

text \<open>
  The catalog against the dispatcher: what \<open>tools/list\<close> advertises is what \<open>tools/call\<close> decodes.
\<close>

definition tool_name :: "json \<Rightarrow> string option" where
  "tool_name tool = Option.bind (jget tool ''name'') as_str"

definition required_fields :: "json \<Rightarrow> string list" where
  "required_fields tool =
     (case Option.bind (jget tool ''inputSchema'') (\<lambda>s. jget s ''required'') of
        Some (JArr ks) \<Rightarrow> List.map_filter as_str ks
      | _ \<Rightarrow> [])"

text \<open>The fields of a saved-data request below \<open>file\<close> are decoded by Marrow.\<close>

definition decoded_here :: "string \<Rightarrow> bool" where
  "decoded_here field \<longleftrightarrow> field \<notin> {''segments'', ''limit''}"

lemmas tool_defs = mw_check_tool_def mw_type_at_tool_def mw_complete_tool_def
  mw_namespace_complete_tool_def mw_resource_schema_tool_def mw_surface_routes_tool_def
  mw_surface_read_tool_def mw_surface_write_tool_def mw_saved_roots_tool_def
  mw_data_children_tool_def mw_data_read_tool_def mw_run_tool_def

lemmas schema_defs = mw_check_schema_def mw_type_at_schema_def mw_complete_schema_def
  mw_namespace_complete_schema_def mw_resource_schema_schema_def mw_surface_routes_schema_def
  mw_surface_read_schema_def mw_surface_write_schema_def mw_saved_roots_schema_def
  mw_data_children_schema_def mw_data_read_schema_def

definition catalog_names :: "string list" where
  "catalog_names = [''mw_check'', ''mw_type_at'', ''mw_complete'', ''mw_namespace_complete'',
     ''mw_resource_schema'', ''mw_surface_routes'', ''mw_surface_read'', ''mw_surface_write'',
     ''mw_saved_roots'', ''mw_data_children'', ''mw_data_read'', ''mw_run'']"

lemma tools_Some:
  assumes "tools H = Some (JArr ts)"
  obtains run_schema where "run_input_schema H = Some run_schema"
    "ts = [mw_check_tool, mw_type_at_tool, mw_complete_tool, mw_namespace_complete_tool,
       mw_resource_schema_tool, mw_surface_routes_tool, mw_surface_read_tool, mw_surface_write_tool,
       mw_saved_roots_tool, mw_data_children_tool H, mw_data_read_tool H, mw_run_tool run_schema]"
  using assms by (auto simp: tools_def)

lemma tool_names: "tools H = Some (JArr ts) \<Longrightarrow> map tool_name ts = map Some catalog_names"
  by (erule tools_Some) (simp add: tool_name_def tool_defs catalog_names_def)

lemma unknown_tool: "name \<notin> set catalog_names \<Longrightarrow> decode_call T name arguments = Inl (''unknown tool '' @ quoted name)"
  by (simp add: decode_call_def catalog_names_def)

lemma missing_fields [simp]:
  assumes "jget arguments key = None"
  shows "required_str arguments key = Inl (''missing or non-string argument '' @ quoted key)"
    "required_u32 arguments key = Inl (''missing or out-of-range integer argument '' @ quoted key)"
    "required_object arguments key = Inl (''missing or non-object argument '' @ quoted key)"
    "required_path arguments key = Inl (''missing or non-string argument '' @ quoted key)"
  using assms by (simp_all add: required_str_def required_u32_def required_object_def required_path_def)

lemma missing_qualifier [simp]:
  "jget arguments ''qualifier'' = None \<Longrightarrow> namespace_qualifier arguments = Inl invalid_qualifier"
  by (simp add: namespace_qualifier_def)

lemma missing_file:
  "jget arguments ''file'' = None \<Longrightarrow> \<exists>m. file_arg arguments k = Inl m"
  by (simp add: file_arg_def)

lemma refused_inside:
  assumes "\<And>f. \<exists>m. k f = Inl m"
  shows "\<exists>m. file_arg arguments k = Inl m"
  using assms by (cases "required_path arguments ''file''") (simp_all add: file_arg_def)

lemma refused_cursor:
  assumes "jget arguments ''line'' = None \<or> jget arguments ''character'' = None"
  shows "\<exists>m. cursor_args arguments k = Inl m"
  using assms by (cases "required_u32 arguments ''line''") (auto simp: cursor_args_def)

text \<open>No other refusal reads like that of an unknown tool.\<close>

lemma ok_or_Inl: "ok_or x e = Inl m \<longleftrightarrow> x = None \<and> m = e"
  by (cases x) auto

lemma map_sum_Inl: "map_sum id g r = Inl m \<longleftrightarrow> r = Inl m"
  by (cases r) auto

lemma map_err_Inl: "map_err g r = Inl m \<longleftrightarrow> (\<exists>e. r = Inl e \<and> m = g e)"
  by (cases r) auto

lemmas refusals = ok_or_Inl map_sum_Inl map_err_Inl bind_result_Inl

text \<open>The refusals of the parts, none of which names an unknown tool.\<close>

definition other_refusal :: "string \<Rightarrow> bool" where
  "other_refusal m \<longleftrightarrow> take 9 m \<noteq> ''unknown t''"

definition refuses_otherwise :: "(string + 'a) \<Rightarrow> bool" where
  "refuses_otherwise r \<longleftrightarrow> (case r of Inl m \<Rightarrow> other_refusal m | Inr x \<Rightarrow> True)"

lemma refuses_ok [simp]: "refuses_otherwise (Inr x)"
  by (simp add: refuses_otherwise_def)

lemma refuses_err [simp]: "refuses_otherwise (Inl m) = other_refusal m"
  by (simp add: refuses_otherwise_def)

lemma refuses_map [simp]: "refuses_otherwise (map_sum id g r) = refuses_otherwise r"
  by (cases r) (simp_all add: refuses_otherwise_def)

lemma refuses_ok_or: "refuses_otherwise (ok_or x e) \<longleftrightarrow> x \<noteq> None \<or> other_refusal e"
  by (cases x) (simp_all add: refuses_otherwise_def)

lemma refuses_bind [intro]:
  "refuses_otherwise r \<Longrightarrow> (\<And>x. refuses_otherwise (k x)) \<Longrightarrow> refuses_otherwise (bind_result r k)"
  by (cases r) (simp_all add: refuses_otherwise_def)

lemma required_refusals [simp, intro]:
  "refuses_otherwise (required_str arguments key)" "refuses_otherwise (required_u32 arguments key)"
  "refuses_otherwise (required_path arguments key)" "refuses_otherwise (required_object arguments key)"
  unfolding required_path_def refuses_map
  by (auto simp: required_str_def required_u32_def required_object_def refuses_ok_or
      other_refusal_def split: option.split json.split)

lemma optional_refusals [simp, intro]:
  "refuses_otherwise (optional_str arguments key)" "refuses_otherwise (optional_bool arguments key)"
  "refuses_otherwise (optional_array arguments key)" "refuses_otherwise (optional_path arguments key)"
  unfolding optional_path_def refuses_map
  by (auto simp: optional_str_def optional_bool_def optional_array_def refuses_ok_or
      other_refusal_def split: option.split json.split)

lemma run_mode_refusal [simp, intro]: "refuses_otherwise (run_mode_arg arguments)"
  unfolding run_mode_arg_def
  by (rule refuses_bind) (auto simp: other_refusal_def split: option.split)

lemma refuses_map_err [intro]: "(\<And>e. other_refusal (g e)) \<Longrightarrow> refuses_otherwise (map_err g r)"
  by (cases r) simp_all

lemma data_refusals [simp, intro]:
  "refuses_otherwise (data_children_request_of T arguments)"
  "refuses_otherwise (data_read_request_of T arguments)"
  unfolding data_children_request_of_def data_read_request_of_def
  by (intro refuses_bind refuses_map_err; simp add: invalid_data_request_def other_refusal_def)+

lemma refuses_each:
  assumes "\<And>x. refuses_otherwise (g x)"
  shows "refuses_otherwise (map_result g xs)"
proof (induction xs)
  case (Cons x xs)
  with assms [of x] show ?case by (cases "g x"; cases "map_result g xs") simp_all
qed simp

lemma qualifier_refusal [simp, intro]: "refuses_otherwise (namespace_qualifier arguments)"
  by (auto simp: namespace_qualifier_def other_refusal_def
      invalid_qualifier_def intro!: refuses_each split: option.split json.split)

lemma decodes:
  "decode_call T ''mw_check'' arguments = bind_result (optional_path arguments ''file'') (\<lambda>file.
     bind_result (optional_str arguments ''source'') (\<lambda>source.
       if file = None \<and> source = None then Inl ''mw_check needs a `file` or a `source`''
       else Inr (CallCheck file source)))"
  "decode_call T ''mw_type_at'' arguments = file_arg arguments (\<lambda>f. cursor_args arguments (CallTypeAt f))"
  "decode_call T ''mw_complete'' arguments = file_arg arguments (\<lambda>f. cursor_args arguments (CallComplete f))"
  "decode_call T ''mw_namespace_complete'' arguments =
     file_arg arguments (\<lambda>f. map_sum id (CallNamespace f) (namespace_qualifier arguments))"
  "decode_call T ''mw_resource_schema'' arguments =
     file_arg arguments (\<lambda>f. map_sum id (CallResourceSchema f) (required_str arguments ''name''))"
  "decode_call T ''mw_surface_routes'' arguments =
     file_arg arguments (\<lambda>f. map_sum id (\<lambda>all. CallSurfaceRoutes f (if all then AllRoutes else ReadOnly))
       (optional_bool arguments ''includeWrites''))"
  "decode_call T ''mw_surface_read'' arguments =
     file_arg arguments (\<lambda>f. map_sum id (CallSurfaceRead f) (required_object arguments ''operation''))"
  "decode_call T ''mw_surface_write'' arguments =
     file_arg arguments (\<lambda>f. map_sum id (CallSurfaceWrite f) (required_object arguments ''operation''))"
  "decode_call T ''mw_saved_roots'' arguments = file_arg arguments (\<lambda>f. Inr (CallSavedRoots f))"
  "decode_call T ''mw_data_children'' arguments =
     file_arg arguments (\<lambda>f. map_sum id (CallDataChildren f) (data_children_request_of T arguments))"
  "decode_call T ''mw_data_read'' arguments =
     file_arg arguments (\<lambda>f. map_sum id (CallDataRead f) (data_read_request_of T arguments))"
  "decode_call T ''mw_run'' arguments =
     file_arg arguments (\<lambda>f. bind_result (optional_str arguments ''entry'') (\<lambda>entry.
       bind_result (optional_array arguments ''args'') (\<lambda>args.
         map_sum id (CallRun f entry args) (run_mode_arg arguments))))"
  by (simp_all add: decode_call_def)

lemma refuses_file [intro]:
  "(\<And>f. refuses_otherwise (k f)) \<Longrightarrow> refuses_otherwise (file_arg arguments k)"
  unfolding file_arg_def by (rule refuses_bind) simp_all

lemma refuses_cursor [intro]: "refuses_otherwise (cursor_args arguments k)"
  unfolding cursor_args_def by (rule refuses_bind) simp_all

lemma known_tool: "name \<in> set catalog_names \<Longrightarrow> refuses_otherwise (decode_call T name arguments)"
proof -
  have "list_all (\<lambda>name. refuses_otherwise (decode_call T name arguments)) catalog_names"
    unfolding catalog_names_def list.pred_inject decodes
    by (intro conjI refuses_file refuses_bind refuses_cursor; simp add: other_refusal_def)
  then show "name \<in> set catalog_names \<Longrightarrow> ?thesis" by (simp add: list_all_iff)
qed

lemma listed_tool:
  assumes "tools H = Some (JArr ts)" "tool \<in> set ts" "tool_name tool = Some name"
    and "field \<in> set (required_fields tool)" "decoded_here field" "jget arguments field = None"
  shows "\<exists>m. decode_call T name arguments = Inl m"
proof (rule tools_Some [OF assms(1)])
  fix run_schema
  assume run: "run_input_schema H = Some run_schema"
    and ts: "ts = [mw_check_tool, mw_type_at_tool, mw_complete_tool, mw_namespace_complete_tool,
       mw_resource_schema_tool, mw_surface_routes_tool, mw_surface_read_tool, mw_surface_write_tool,
       mw_saved_roots_tool, mw_data_children_tool H, mw_data_read_tool H, mw_run_tool run_schema]"
  have [simp]: "jget run_schema ''required'' = Some (JArr [JStr ''file''])"
    using run by (auto simp: run_input_schema_def split: option.splits)
  define listed where "listed = zip catalog_names
    [[], [''file'', ''line'', ''character''], [''file'', ''line'', ''character''], [''file'', ''qualifier''],
     [''file'', ''name''], [''file''], [''file'', ''operation''], [''file'', ''operation''], [''file''],
     [''file'', ''segments'', ''limit''], [''file'', ''segments''], [''file'']]"
  have "map (\<lambda>t. (tool_name t, required_fields t)) ts = map (\<lambda>(n, fs). (Some n, fs)) listed"
    unfolding ts listed_def catalog_names_def
    by (auto simp: tool_name_def tool_defs schema_defs required_fields_def List.map_filter_def
        split: option.split)
  then have "(tool_name tool, required_fields tool) \<in> set (map (\<lambda>(n, fs). (Some n, fs)) listed)"
    using assms(2) by (metis (mono_tags, lifting) image_eqI list.set_map)
  then have "(name, required_fields tool) \<in> set listed" using assms(3) by auto
  moreover have "list_all (\<lambda>(n, fs). \<forall>field \<in> set fs. decoded_here field \<longrightarrow> jget arguments field = None
      \<longrightarrow> (\<exists>m. decode_call T n arguments = Inl m)) listed"
    unfolding listed_def catalog_names_def
    by (simp add: decodes missing_file decoded_here_def refused_inside refused_cursor)
  ultimately show ?thesis using assms(4-6) by (auto simp: list_all_iff)
qed

text \<open>
  C30. The catalog is the dispatch: the tools listed to an agent have distinct names; a call of
  any other name is refused as unknown, a call of a listed one never is; and a call that lacks a
  field the schema of its tool requires, of those the server decodes itself, is refused with a
  protocol error before any project is looked at.
\<close>

theorem catalog_is_the_dispatch:
  assumes "tools H = Some (JArr ts)"
  shows "distinct (map tool_name ts)
    \<and> (\<forall>name T arguments. decode_call T name arguments = Inl (''unknown tool '' @ quoted name)
         \<longleftrightarrow> Some name \<notin> tool_name ` set ts)
    \<and> (\<forall>tool \<in> set ts. \<forall>name T arguments field. tool_name tool = Some name
         \<longrightarrow> field \<in> set (required_fields tool) \<longrightarrow> decoded_here field
         \<longrightarrow> jget arguments field = None \<longrightarrow> (\<exists>m. decode_call T name arguments = Inl m))"
proof (intro conjI)
  have names: "Some name \<in> tool_name ` set ts \<longleftrightarrow> name \<in> set catalog_names" for name
    using arg_cong [OF tool_names [OF assms], of set] by auto
  have "distinct (map Some catalog_names)" by (simp add: catalog_names_def)
  then show "distinct (map tool_name ts)" by (simp only: tool_names [OF assms])
  show "\<forall>name T arguments. decode_call T name arguments = Inl (''unknown tool '' @ quoted name)
      \<longleftrightarrow> Some name \<notin> tool_name ` set ts"
  proof (intro allI)
    fix name T arguments
    have "decode_call T name arguments \<noteq> Inl (''unknown tool '' @ quoted name)" if "name \<in> set catalog_names"
      using known_tool [OF that, of T arguments] by (auto simp: refuses_otherwise_def other_refusal_def)
    with unknown_tool show "decode_call T name arguments = Inl (''unknown tool '' @ quoted name)
        \<longleftrightarrow> Some name \<notin> tool_name ` set ts"
      unfolding names by blast
  qed
  show "\<forall>tool \<in> set ts. \<forall>name T arguments field. tool_name tool = Some name
      \<longrightarrow> field \<in> set (required_fields tool) \<longrightarrow> decoded_here field
      \<longrightarrow> jget arguments field = None \<longrightarrow> (\<exists>m. decode_call T name arguments = Inl m)"
    using listed_tool [OF assms] by blast
qed

definition bare_schemas :: mcp_schemas where
  "bare_schemas = \<lparr>sm_entry_argument = JObj [(''$defs'', JObj [])],
     sm_path_segment_schema = JObj [], sm_key_schema = (\<lambda>k. JObj [])\<rparr>"

theorem catalog_is_the_dispatch_witness:
  "\<exists>ts. tools bare_schemas = Some (JArr ts) \<and> length ts = 12 \<and> distinct (map tool_name ts)
     \<and> (\<forall>T. \<exists>m. decode_call T ''mw_type_at'' (JObj [(''file'', JStr ''/p/a.mw''), (''line'', jnat 0)]) = Inl m)"
proof -
  obtain ts where ts: "tools bare_schemas = Some (JArr ts)" "length ts = 12" "mw_type_at_tool \<in> set ts"
    by (simp add: tools_def bare_schemas_def run_input_schema_def)
  moreover have "tool_name mw_type_at_tool = Some ''mw_type_at''"
    "''character'' \<in> set (required_fields mw_type_at_tool)"
    by (simp_all add: tool_name_def tool_defs required_fields_def schema_defs List.map_filter_def)
  moreover have "decoded_here ''character''"
    "jget (JObj [(''file'', JStr ''/p/a.mw''), (''line'', jnat 0)]) ''character'' = None"
    by (simp_all add: decoded_here_def)
  ultimately show ?thesis using catalog_is_the_dispatch [OF ts(1)] by blast
qed

end
