(* ===== verification/Terminal.thy ===== *)
theory Terminal
  imports Prelude
begin

text \<open>
  \<open>crates/marrow-terminal/src/lib.rs\<close>: the colours of the labels the three servers write to
  standard error. Whether standard error is a terminal is an argument.
\<close>

datatype style = Notice | Failure

definition escape :: string where
  "escape = [CHR 0x1B]"

definition ansi :: "style \<Rightarrow> string" where
  "ansi s = (case s of Notice \<Rightarrow> escape @ ''[36m'' | Failure \<Rightarrow> escape @ ''[31m'')"

definition paint_if :: "bool \<Rightarrow> style \<Rightarrow> string \<Rightarrow> string" where
  "paint_if enabled s label = (if enabled then ansi s @ label @ escape @ ''[0m'' else label)"

definition stderr_color_enabled :: "(string \<Rightarrow> string option) \<Rightarrow> bool \<Rightarrow> bool" where
  "stderr_color_enabled env is_terminal \<longleftrightarrow>
     (if env ''NO_COLOR'' \<noteq> None then False
      else if env ''TERM'' = Some ''dumb'' then False else is_terminal)"

definition paint_stderr :: "(string \<Rightarrow> string option) \<Rightarrow> bool \<Rightarrow> style \<Rightarrow> string \<Rightarrow> string" where
  "paint_stderr env is_terminal s label = paint_if (stderr_color_enabled env is_terminal) s label"

section \<open>Facts\<close>

text \<open>
  \<open>NO_COLOR\<close>, a dumb terminal and a pipe all leave the label as it is; otherwise it stands
  unchanged between the colour and the reset.
\<close>

theorem paint_stderr_label:
  "paint_stderr env is_terminal s label =
     (if env ''NO_COLOR'' = None \<and> env ''TERM'' \<noteq> Some ''dumb'' \<and> is_terminal
      then ansi s @ label @ escape @ ''[0m'' else label)"
  by (auto simp: paint_stderr_def paint_if_def stderr_color_enabled_def)

end
