(* ===== verification/Xtask_Surface.thy ===== *)
theory Xtask_Surface
  imports Mcp_Confine Json "HOL-Library.Product_Lexorder"
begin

text \<open>
  \<open>xtask/src/main.rs\<close>: the snapshot of the upstream crates the workspace links, and its check.
  The answer of \<open>cargo metadata\<close>, the two files and \<open>canonicalize\<close> are arguments; \<open>None\<close> is a
  panic.
\<close>

section \<open>The pinned revision\<close>

definition trim_start :: "string \<Rightarrow> string" where
  "trim_start s = strip_units white_space s"

definition trim_quotes :: "string \<Rightarrow> string" where
  "trim_quotes s = trim_end_matches [CHR 0x22] (dropWhile (\<lambda>c. c = CHR 0x22) s)"

fun pinned_rev_in :: "string list \<Rightarrow> string option" where
  "pinned_rev_in [] = None"
| "pinned_rev_in (line # rest) =
     (case strip_prefix ''rev'' (trim line) of
        None \<Rightarrow> pinned_rev_in rest
      | Some v \<Rightarrow> map_option (\<lambda>w. trim_quotes (trim w)) (strip_prefix ''='' (trim_start v)))"

definition pinned_rev :: "string \<Rightarrow> string option" where
  "pinned_rev pin = pinned_rev_in (input_lines pin)"

section \<open>The crates\<close>

definition upstream_crate ::
  "(path \<Rightarrow> path option) \<Rightarrow> path \<Rightarrow> json \<Rightarrow> (string \<times> string) option" where
  "upstream_crate canon root pkg =
     (case Option.bind (jget pkg ''name'') as_str of None \<Rightarrow> None
      | Some name \<Rightarrow>
     (case Option.bind (jget pkg ''manifest_path'') as_str of None \<Rightarrow> None
      | Some manifest \<Rightarrow>
          let manifest_path = (case canon (path_from manifest) of Some p \<Rightarrow> p | None \<Rightarrow> path_from manifest)
          in if strip_prefix ''marrow-'' name \<noteq> None \<and> \<not> starts_with manifest_path root
             then Some (name, case Option.bind (jget pkg ''version'') as_str of Some v \<Rightarrow> v | None \<Rightarrow> [])
             else None))"

definition surface_body :: "(string \<times> string) list \<Rightarrow> string" where
  "surface_body crates = concat (map (\<lambda>(name, version). name @ '' '' @ version @ [CHR 0x0A]) crates)"

definition consumed_surface :: "(path \<Rightarrow> path option) \<Rightarrow> path \<Rightarrow> json \<Rightarrow> string option" where
  "consumed_surface canon root metadata =
     (let canonical_root = (case canon root of Some p \<Rightarrow> p | None \<Rightarrow> root)
      in map_option (\<lambda>pkgs. surface_body (remdups_adj (sort
             (List.map_filter (upstream_crate canon canonical_root) pkgs))))
           (Option.bind (jget metadata ''packages'') as_array))"

definition snapshot_head :: string where
  "snapshot_head = ''# Consumed marrow surface '' @ [CHR 0xE2, CHR 0x80, CHR 0x94]
     @ '' the upstream marrow crate closure this workspace links.'' @ [CHR 0x0A]
     @ ''# Generated by `cargo run -p xtask -- gen-surface`; do not edit by hand.'' @ [CHR 0x0A]
     @ ''# A diff here means an upstream crate was added or dropped: review it, do not paper over it.''
     @ [CHR 0x0A]"

definition render_snapshot ::
  "(path \<Rightarrow> path option) \<Rightarrow> path \<Rightarrow> string \<Rightarrow> json \<Rightarrow> string option" where
  "render_snapshot canon root pin metadata =
     (case pinned_rev pin of None \<Rightarrow> None
      | Some pinned \<Rightarrow> map_option (\<lambda>crates. snapshot_head @ ''# Pinned marrow rev: '' @ pinned @ [CHR 0x0A] @ crates)
          (consumed_surface canon root metadata))"

section \<open>The task\<close>

text \<open>Whether the task succeeds, and the snapshot it leaves; the write is taken to succeed.\<close>

definition gen_surface ::
  "bool \<Rightarrow> (path \<Rightarrow> path option) \<Rightarrow> path \<Rightarrow> string \<Rightarrow> json \<Rightarrow> string option
   \<Rightarrow> (bool \<times> string option) option" where
  "gen_surface check canon root pin metadata existing =
     map_option (\<lambda>generated.
       if check then ((case existing of Some t \<Rightarrow> t | None \<Rightarrow> []) = generated, existing)
       else (True, Some generated)) (render_snapshot canon root pin metadata)"

definition xtask ::
  "string list \<Rightarrow> (path \<Rightarrow> path option) \<Rightarrow> path \<Rightarrow> string \<Rightarrow> json \<Rightarrow> string option
   \<Rightarrow> (bool \<times> string option) option" where
  "xtask args canon root pin metadata existing =
     (case args of
        a # rest \<Rightarrow>
          if a = ''gen-surface''
          then gen_surface (case rest of b # _ \<Rightarrow> b = ''--check'' | [] \<Rightarrow> False) canon root pin metadata existing
          else Some (False, existing)
      | [] \<Rightarrow> Some (False, existing))"

section \<open>Facts\<close>

lemma distinct_remdups_adj_sorted:
  fixes xs :: "('a :: linorder) list"
  shows "sorted xs \<Longrightarrow> distinct (remdups_adj xs)"
  by (induction xs rule: remdups_adj.induct) (auto intro: order_antisym)

lemma remdups_adj_sort_set:
  fixes xs :: "('a :: linorder) list"
  assumes "set xs = set ys"
  shows "remdups_adj (sort xs) = remdups_adj (sort ys)"
proof (rule sorted_distinct_set_unique)
  show "set (remdups_adj (sort xs)) = set (remdups_adj (sort ys))" using assms by simp
qed (simp_all add: distinct_remdups_adj_sorted sorted_remdups_adj)

text \<open>
  The check fails exactly when the linked crates changed: over the snapshot an earlier run wrote
  it succeeds if \<open>cargo\<close> names the same packages, in whatever order and however often, and the
  pin is the same.
\<close>

theorem snapshot_checks:
  assumes "gen_surface False canon root pin (JObj [(''packages'', JArr pkgs)]) old = Some (ok, snapshot)"
    and "set pkgs' = set pkgs"
  shows "gen_surface True canon root pin (JObj [(''packages'', JArr pkgs')]) snapshot = Some (True, snapshot)"
proof -
  have "set (List.map_filter f pkgs') = set (List.map_filter f pkgs)" for f :: "json \<Rightarrow> (string \<times> string) option"
    using assms(2) by (auto simp: List.map_filter_def)
  from remdups_adj_sort_set [OF this] assms(1) show ?thesis
    by (auto simp: gen_surface_def render_snapshot_def consumed_surface_def Let_def split: option.splits)
qed

end
