(* ===== verification/Spec2Isabelle.thy ===== *)
theory Spec2Isabelle
  imports Dap_Protocol Dap_Hook_Laws Dap_Project Dap_System_Laws Dap_Breakpoint_Laws
    Lsp_Position_Laws Lsp_SemTokens Lsp_Editing Lsp_Server_Laws Lsp_Request_Laws
    Lsp_Data_Requests Lsp_Exit_Watcher Mcp_Output_Laws Mcp_Laws Mcp_Catalog_Laws
    Terminal Xtask_Surface
begin

text \<open>
  A model of the Marrow editor servers: the debug adapter \<open>crates/marrow-dap\<close>, the language
  server \<open>crates/marrow-lsp\<close> and the tool server for agents \<open>crates/marrow-mcp\<close>, the last two
  over the library \<open>crates/marrow-lsp-core\<close>. Strings are byte lists (\<open>Prelude\<close>), JSON is the
  datatype of \<open>Json\<close>, and a transition system with its reachable states and the interface of an
  invariant stands in \<open>Transitions\<close>.

  \<^bold>\<open>The debug adapter.\<close> Two threads talk over two channels and two atomic flags: the protocol
  thread serves requests (\<open>session.rs\<close>), the run thread interprets the program and parks in the
  statement hook (\<open>debugger.rs\<close>).
  \<^item> \<open>Dap_Protocol\<close>: framing and the reader thread (\<open>protocol.rs\<close>, \<open>main.rs\<close>); frames are read back
    whole, and the reader delivers exactly the requests.
  \<^item> \<open>Dap_Step\<close>, \<open>Dap_Variables\<close>, \<open>Dap_Debugger\<close>, \<open>Dap_Hook\<close>: stepping, variables, breakpoints,
    paging and the hook (\<open>step.rs\<close>, \<open>variables.rs\<close>, \<open>debugger.rs\<close>); \<open>Dap_Hook_Laws\<close> says what stops a
    run. The paging loop is a function with a measure, no fuel.
  \<^item> \<open>Dap_Project\<close>, \<open>Dap_Run\<close>: launching and the outcome of a run (\<open>project.rs\<close>, \<open>run.rs\<close>).
  \<^item> \<open>Dap_Parse\<close>, \<open>Dap_Session\<close>, \<open>Dap_Handlers\<close>: arguments and errors, the session's state, one
    definition per handler and the dispatch (\<open>session.rs\<close>).
  \<^item> \<open>Dap_System\<close> interleaves protocol thread, run thread and reader step by step;
    \<open>Dap_Session_Laws\<close>, \<open>Dap_Rendezvous\<close>, \<open>Dap_System_Laws\<close> and \<open>Dap_Breakpoint_Laws\<close> hold the
    invariants (who waits for whom, what a stop means, numbering, references, teardown), and
    \<open>Dap_Demo\<close> a run used by the witnesses.

  \<^bold>\<open>The language server.\<close> Buffers come in, a debounced recompute checks the project off the
  request path, its diagnostics are published, and requests read retained facts.
  \<^item> \<open>Lsp_Positions\<close>, \<open>Lsp_Position_Laws\<close> (\<open>positions.rs\<close>): byte offsets and UTF-16 positions, in
    both directions, their round trip and order.
  \<^item> \<open>Lsp_SemTokens\<close> (\<open>semantic_tokens.rs\<close>, \<open>semantic_tokens/encoding.rs\<close>): the token stream decodes
    to the facts, position, type, modifiers and length; a client that applies the delta edits holds the server's stream.
  \<^item> \<open>Lsp_Editing\<close> (\<open>indentation.rs\<close>, \<open>formatting.rs\<close>): the requests that edit.
  \<^item> \<open>Lsp_Paths\<close>, \<open>Lsp_Documents\<close> (\<open>documents.rs\<close>): the buffers refine the editor's map, and the
    generation is a sound freshness check.
  \<^item> \<open>Lsp_Store\<close> (\<open>catalog_binding.rs\<close>, \<open>store_view.rs\<close>) and \<open>Lsp_Session_Cache\<close>
    (\<open>session_cache.rs\<close>): the caches answer what an uncached read would, or did at an earlier read
    over a store file of the same time and length. \<open>commits_tell\<close> is what is assumed of Marrow: a
    store UID and a commit fix the catalog.
  \<^item> \<open>Lsp_Workspace\<close>, \<open>Lsp_Workspace_Laws\<close> (\<open>workspace.rs\<close>): recomputes and retained facts.
  \<^item> \<open>Lsp_Diagnostics\<close>, \<open>Lsp_Watch\<close>, \<open>Lsp_Watch_Laws\<close> (\<open>diagnostics.rs\<close> and the tracker and
    watcher of \<open>backend.rs\<close>).
  \<^item> \<open>Lsp_Hover\<close>, \<open>Lsp_Signature\<close>, \<open>Lsp_Navigation\<close> (\<open>hover/\<close>, \<open>signature_help/\<close>,
    \<open>navigation/\<close>, \<open>symbols.rs\<close>, \<open>completion.rs\<close>): what the server makes of Marrow's facts.
  \<^item> \<open>Lsp_Token_Cache\<close>, \<open>Lsp_Requests\<close>, \<open>Lsp_Request_Laws\<close> (\<open>backend.rs\<close>): every read request,
    cut where it gives up a lock; a cursor request is dropped when the buffers moved on, and a
    client that applies the token answers holds the server's tokens. \<open>Lsp_Data_Requests\<close> adds the
    saved-data requests with the start and end of a session, \<open>Data_Explorer\<close>
    (\<open>data_explorer.rs\<close>) what both transports read of a store: data is shown behind a gate only.
  \<^item> \<open>Lsp_Exit_Watcher\<close> (\<open>main.rs\<close>): the watcher on standard input finds the exit notification
    however reads cut the stream; what blinds it and what makes it panic is stated too.
  \<^item> \<open>Lsp_Backend\<close> (\<open>backend.rs\<close>) is the server as a step relation: the notification handlers hold
    the publish lock throughout and are one step each, a recompute task is cut where the code
    waits for a lock. Files, stores and checker are as in some world of a set \<open>Ws\<close> whenever a step
    looks at them, so what is said of an analysis is said of what the checker answers there. A
    handler schedules its recompute after releasing the lock, with nothing awaited between: that
    is part of its step, and the debounce it takes is only recorded. \<open>Lsp_Backend_Laws\<close> proves the invariant of documents, workspace and tasks,
    \<open>Lsp_Tracker_Laws\<close> that of the diagnostics tracker, and \<open>Lsp_Server_Laws\<close> what follows for
    the client.

  \<open>Lsp_Publish_Laws\<close> and \<open>Lsp_Liveness\<close> follow a task to its publish, and \<open>Lsp_Server_Demo\<close> is the
  run the witnesses use.

  \<^bold>\<open>The tool server.\<close> A line is a request, a request is a tool call, and a call loads the project
  of its file through a cache after the confinement check.
  \<^item> \<open>Mcp_Confine\<close>, \<open>Mcp_Project\<close> (\<open>mcp.rs\<close>): the allowed root and the project cache; what a call
    does to a project is logged as acts, which the code does not have: also that binding the
    catalog opened the native store read-only, which needs no grant, and that an audit line could
    not be appended. \<open>Mcp_Project_Laws\<close>: without overlays an answer is a check from scratch of the
    files as they are (assumed: no collision of the hashes, no commit behind an unchanged time and
    length of a store, \<open>no_collisions\<close> and \<open>stores_tell\<close>); an overlay outlives its call; a project is
    confined when it is resolved, and not again while it stays in the cache.
  \<^item> \<open>Mcp_Tools\<close>, \<open>Mcp_Data\<close>, \<open>Mcp_Run\<close> (\<open>mcp.rs\<close>): the tools, one definition per function, a panic
    being \<open>None\<close>.
  \<^item> \<open>Mcp_Catalog\<close>, \<open>Mcp_Server\<close> (\<open>server.rs\<close>): the catalog, argument decoding and dispatch;
    \<open>Mcp_Catalog_Laws\<close> says that they agree.
  \<^item> \<open>Mcp_Summary\<close>, \<open>Mcp_Main\<close> (\<open>main.rs\<close>): summaries, JSON-RPC and the loop. \<open>Mcp_Output_Laws\<close> bounds
    the output; \<open>Mcp_Session\<close> states as a locale what a call must keep for the loop to keep it, and
    \<open>Mcp_Laws\<close> interprets it for the grants and for the root. \<open>Mcp_Demo\<close> is a session.

  \<open>Terminal\<close> (\<open>marrow-terminal\<close>) colours the labels of all three servers; \<open>Xtask_Surface\<close>
  (\<open>xtask/src/main.rs\<close>) is the snapshot of the linked crates and its check.

  \<^bold>\<open>Bounds.\<close> Offsets and counts are natural numbers; where the code casts or wraps (UTF-16
  columns and token deltas at 32 bits, modifier bits, page sizes) the model does too, and the
  laws assume texts below 4 GiB. Generations, epochs and sequence numbers of 64 bits are
  counted without wrapping. All loops are total functions; no definition uses fuel.

  \<^bold>\<open>Parameters.\<close> Marrow's own crates (lexer, parser, checker, interpreter, tooling queries, the
  native store), the JSON text codec, URL conversion and the file system are not in the
  repository: they are records of functions passed to the definitions, one value per moment
  where they can change.

  \<^bold>\<open>Not modelled.\<close> The wiring of \<open>tower-lsp\<close> and the tokio runtime, the re-exports of the core
  library and the texts of messages to standard error are left out. What a detached run thread goes
  on to do, and interleavings inside one call of the tool server, which serves one request at a time,
  have no state to model. The file system may change between any two steps of the language server
  and between calls of the tool server, links included, not within one call. The deadline loop of
  a teardown is the argument \<open>w_teardown\<close>: what the run thread does in time; and the check of a
  cursor request for newer buffers and its attempt on the analysis lock, with nothing awaited
  between, are one step.
\<close>

end
